(* ===== verification/Prelude.thy ===== *)
theory Prelude
  imports Main "HOL-Library.Word" "HOL-Library.Sublist"
begin

text \<open>
  Shared vocabulary of the development: Go strings and their library functions,
  decimal printing, 64-bit integers, the result type of fallible functions, SQL
  tables as lists of rows with \<open>UPDATE\<close>, \<open>SELECT\<close> and \<open>ORDER BY\<close>, and the
  generic transition systems whose invariants the components prove.
\<close>

named_theorems sql_simps \<open>tables, updates and selections\<close>
named_theorems op_defs \<open>definitions of the modelled store operations\<close>
named_theorems keeps \<open>frame and preservation facts of the operations\<close>

section \<open>Results\<close>

text \<open>A Go function returning \<open>(T, error)\<close> returns \<open>Inl err\<close> or \<open>Inr value\<close>.\<close>

definition bindE :: "'e + 'a \<Rightarrow> ('a \<Rightarrow> 'e + 'b) \<Rightarrow> 'e + 'b" where
  "bindE m f = (case m of Inl e \<Rightarrow> Inl e | Inr x \<Rightarrow> f x)"

lemma bindE_Inl [simp]: "bindE (Inl e) f = Inl e"
  and bindE_Inr [simp]: "bindE (Inr x) f = f x"
  by (simp_all add: bindE_def)

lemma bindE_eq_Inr: "bindE m f = Inr y \<longleftrightarrow> (\<exists>x. m = Inr x \<and> f x = Inr y)"
  by (cases m) auto

lemma bindE_eq_Inl: "bindE m f = Inl e \<longleftrightarrow> m = Inl e \<or> (\<exists>x. m = Inr x \<and> f x = Inl e)"
  by (cases m) auto

lemma bindE_InrE:
  assumes "bindE m f = Inr y"
  obtains x where "m = Inr x" and "f x = Inr y"
  using assms by (auto simp: bindE_eq_Inr)

text \<open>
  A transaction maps a database to an error or to a result with the new database.
  An error rolls the transaction back: nothing of it is visible afterwards.
\<close>

definition run_tx :: "('s \<Rightarrow> 'e + 'a \<times> 's) \<Rightarrow> 's \<Rightarrow> ('e + 'a) \<times> 's" where
  "run_tx f s = (case f s of Inl e \<Rightarrow> (Inl e, s) | Inr (x, s') \<Rightarrow> (Inr x, s'))"

lemma run_tx_rollback: "fst (run_tx f s) = Inl e \<Longrightarrow> snd (run_tx f s) = s"
  by (auto simp: run_tx_def split: sum.splits)

lemma run_tx_Inr [simp]: "f s = Inr (x, s') \<Longrightarrow> run_tx f s = (Inr x, s')"
  and run_tx_Inl [simp]: "f s = Inl e \<Longrightarrow> run_tx f s = (Inl e, s)"
  by (simp_all add: run_tx_def)

lemma run_tx_eq_Inr: "run_tx f s = (Inr x, s') \<longleftrightarrow> f s = Inr (x, s')"
  by (auto simp: run_tx_def split: sum.splits)

lemma run_tx_eq_Inl: "run_tx f s = (Inl e, s') \<longleftrightarrow> f s = Inl e \<and> s' = s"
  by (auto simp: run_tx_def split: sum.splits)

text \<open>A transaction preserves whatever its successful runs preserve.\<close>

lemma run_tx_preserves:
  assumes "P s" and "\<And>x s'. f s = Inr (x, s') \<Longrightarrow> P s'"
  shows "P (snd (run_tx f s))"
  using assms by (auto simp: run_tx_def split: sum.splits)

section \<open>SQL tables\<close>

text \<open>
  A table is the list of its rows in primary key order of insertion.
  \<open>sql_update P f t\<close> is \<open>UPDATE t SET f WHERE P\<close> with the number of affected rows.
\<close>

definition sql_update :: "('r \<Rightarrow> bool) \<Rightarrow> ('r \<Rightarrow> 'r) \<Rightarrow> 'r list \<Rightarrow> 'r list \<times> nat" where
  "sql_update P f t = (map (\<lambda>r. if P r then f r else r) t, length (filter P t))"

definition sql_set :: "('r \<Rightarrow> bool) \<Rightarrow> ('r \<Rightarrow> 'r) \<Rightarrow> 'r list \<Rightarrow> 'r list" where
  "sql_set P f t = map (\<lambda>r. if P r then f r else r) t"

definition sql_count :: "('r \<Rightarrow> bool) \<Rightarrow> 'r list \<Rightarrow> nat" where
  "sql_count P t = length (filter P t)"

lemma sql_update_eq [sql_simps]: "sql_update P f t = (sql_set P f t, sql_count P t)"
  by (simp add: sql_update_def sql_set_def sql_count_def)

lemma length_sql_set [simp]: "length (sql_set P f t) = length t"
  by (simp add: sql_set_def)

lemma set_sql_set: "set (sql_set P f t) = (\<lambda>r. if P r then f r else r) ` set t"
  by (simp add: sql_set_def)

lemma ball_sql_set: "(\<forall>x \<in> set (sql_set P f t). Q x) \<longleftrightarrow> (\<forall>r \<in> set t. if P r then Q (f r) else Q r)"
  by (auto simp: set_sql_set)

lemma sql_set_none: "sql_count P t = 0 \<Longrightarrow> sql_set P f t = t"
  by (induction t) (auto simp: sql_set_def sql_count_def split: if_splits)

lemma sql_count_0_iff: "sql_count P t = 0 \<longleftrightarrow> (\<forall>r \<in> set t. \<not> P r)"
  by (auto simp: sql_count_def filter_empty_conv)

lemma sql_count_pos: "r \<in> set t \<Longrightarrow> P r \<Longrightarrow> 0 < sql_count P t"
  by (metis gr0I sql_count_0_iff)

lemma map_key_sql_set: "(\<And>r. P r \<Longrightarrow> k (f r) = k r) \<Longrightarrow> map k (sql_set P f t) = map k t"
  by (induction t) (auto simp: sql_set_def)

text \<open>Looking a row up by its key, in a table whose keys are distinct.\<close>

definition by_key :: "('r \<Rightarrow> 'k) \<Rightarrow> 'k \<Rightarrow> 'r list \<Rightarrow> 'r option" where
  "by_key k x t = find (\<lambda>r. k r = x) t"

lemma find_SomeD: "find P t = Some r \<Longrightarrow> r \<in> set t \<and> P r"
  by (auto simp: find_Some_iff)

lemma by_key_Some_in: "by_key k x t = Some r \<Longrightarrow> r \<in> set t \<and> k r = x"
  by (auto simp: by_key_def find_Some_iff)

lemma by_key_None: "by_key k x t = None \<longleftrightarrow> x \<notin> k ` set t"
  by (auto simp: by_key_def find_None_iff)

lemma by_key_unique:
  "distinct (map k t) \<Longrightarrow> r \<in> set t \<Longrightarrow> by_key k (k r) t = Some r"
  by (induction t) (auto simp: by_key_def)

lemma by_key_sql_set:
  assumes "\<And>r. P r \<Longrightarrow> k (f r) = k r"
  shows "by_key k x (sql_set P f t) =
    map_option (\<lambda>r. if P r then f r else r) (by_key k x t)"
  using assms by (induction t) (auto simp: by_key_def sql_set_def)

lemma sql_count_key_le_1:
  assumes "distinct (map k t)"
  shows "sql_count (\<lambda>r. k r = x \<and> Q r) t \<le> 1"
  using assms
proof (induction t)
  case (Cons a t)
  have "x \<notin> k ` set t" if "k a = x"
    using Cons.prems that by auto
  then have "sql_count (\<lambda>r. k r = x \<and> Q r) t = 0" if "k a = x"
    using that unfolding sql_count_0_iff by blast
  with Cons show ?case by (auto simp: sql_count_def)
qed (simp add: sql_count_def)

lemma sql_count_key:
  assumes "distinct (map k t)"
  shows "sql_count (\<lambda>r. k r = x \<and> Q r) t =
    (case by_key k x t of Some r \<Rightarrow> if Q r then 1 else 0 | None \<Rightarrow> 0)"
  using assms
proof (induction t)
  case Nil
  then show ?case by (simp add: sql_count_def by_key_def)
next
  case (Cons a t)
  have "x \<notin> k ` set t" if "k a = x"
    using Cons.prems that by auto
  then have "sql_count (\<lambda>r. k r = x \<and> Q r) t = 0" if "k a = x"
    using that unfolding sql_count_0_iff by blast
  with Cons show ?case
    by (cases "k a = x") (simp_all add: by_key_def sql_count_def)
qed

lemma find_key:
  assumes "distinct (map k t)"
  shows "find (\<lambda>r. k r = x \<and> Q r) t =
    (case by_key k x t of Some r \<Rightarrow> if Q r then Some r else None | None \<Rightarrow> None)"
  using assms
proof (induction t)
  case Nil
  then show ?case by (simp add: by_key_def)
next
  case (Cons a t)
  show ?case
  proof (cases "k a = x")
    case True
    with Cons.prems have "x \<notin> k ` set t" by auto
    then have "find (\<lambda>r. k r = x \<and> Q r) t = None" by (auto simp: find_None_iff)
    with True show ?thesis by (simp add: by_key_def)
  next
    case False
    with Cons show ?thesis by (simp add: by_key_def)
  qed
qed

text \<open>An update of one key is the replacement of its row.\<close>

lemma sql_set_key:
  assumes "distinct (map k t)" and "by_key k x t = Some e" and "Q e"
  shows "sql_set (\<lambda>r. k r = x \<and> Q r) f t = sql_set (\<lambda>r. k r = x) (\<lambda>_. f e) t"
proof -
  have "r = e" if "r \<in> set t" "k r = x" for r
    using by_key_unique[OF assms(1) that(1)] assms(2) that(2) by simp
  with assms(3) show ?thesis
    unfolding sql_set_def by (intro map_cong) auto
qed

lemma sql_set_key_miss:
  assumes "by_key k x t = None \<or> (\<exists>e. by_key k x t = Some e \<and> \<not> Q e)" and "distinct (map k t)"
  shows "sql_set (\<lambda>r. k r = x \<and> Q r) f t = t"
proof (rule sql_set_none)
  show "sql_count (\<lambda>r. k r = x \<and> Q r) t = 0"
    using assms by (auto simp: sql_count_key)
qed

lemma list_all2_sql_set:
  "(\<And>r. r \<in> set t \<Longrightarrow> P r \<Longrightarrow> R r (f r)) \<Longrightarrow> (\<And>r. R r r) \<Longrightarrow> list_all2 R t (sql_set P f t)"
  by (induction t) (auto simp: sql_set_def)

lemma list_all2_comp:
  assumes "list_all2 R xs ys" and "list_all2 R ys zs" and "\<And>x y z. R x y \<Longrightarrow> R y z \<Longrightarrow> R x z"
  shows "list_all2 R xs zs"
  using assms(1,2)
proof (induction xs ys arbitrary: zs rule: list_all2_induct)
  case (Cons x xs y ys)
  then show ?case by (cases zs) (auto intro: assms(3))
qed simp

text \<open>\<open>ORDER BY key\<close> is a stable sort; \<open>LIMIT n\<close> with a non-negative \<open>n\<close> takes a prefix.\<close>

definition sql_limit :: "int \<Rightarrow> 'r list \<Rightarrow> 'r list" where
  "sql_limit n t = take (nat n) t"

lemma set_sql_limit: "set (sql_limit n t) \<subseteq> set t"
  by (simp add: sql_limit_def set_take_subset)

lemma length_sql_limit: "0 \<le> n \<Longrightarrow> int (length (sql_limit n t)) \<le> n"
  by (simp add: sql_limit_def)

section \<open>Strings of the Go standard library\<close>

text \<open>A Go string is a sequence of bytes; so is \<^typ>\<open>string\<close>.\<close>

text \<open>\<open>strings.Contains\<close>.\<close>

fun str_contains :: "string \<Rightarrow> string \<Rightarrow> bool" where
  "str_contains [] sub \<longleftrightarrow> sub = []"
| "str_contains (c # s) sub \<longleftrightarrow> prefix sub (c # s) \<or> str_contains s sub"

lemma str_contains_iff: "str_contains s sub \<longleftrightarrow> (\<exists>a b. s = a @ sub @ b)"
proof (induction s)
  case (Cons c s)
  show ?case
  proof
    assume "str_contains (c # s) sub"
    then consider "prefix sub (c # s)" | "str_contains s sub" by auto
    then show "\<exists>a b. c # s = a @ sub @ b"
    proof cases
      case 1
      then obtain b where "c # s = sub @ b" by (auto simp: prefix_def)
      then have "c # s = [] @ sub @ b" by simp
      then show ?thesis by blast
    next
      case 2
      with Cons.IH obtain a b where "s = a @ sub @ b" by blast
      then have "c # s = (c # a) @ sub @ b" by simp
      then show ?thesis by blast
    qed
  next
    assume "\<exists>a b. c # s = a @ sub @ b"
    then obtain a b where ab: "c # s = a @ sub @ b" by blast
    show "str_contains (c # s) sub"
    proof (cases a)
      case Nil
      with ab have "prefix sub (c # s)" by (simp add: prefix_def)
      then show ?thesis by simp
    next
      case (Cons d a')
      with ab have "s = a' @ sub @ b" by simp
      with Cons.IH show ?thesis by auto
    qed
  qed
qed simp

text \<open>\<open>strings.ToLower\<close> and \<open>strings.ToUpper\<close> on the ASCII letters.\<close>

definition lower_char :: "char \<Rightarrow> char" where
  "lower_char c = (let n = of_char c :: nat in if 65 \<le> n \<and> n \<le> 90 then char_of (n + 32) else c)"

definition upper_char :: "char \<Rightarrow> char" where
  "upper_char c = (let n = of_char c :: nat in if 97 \<le> n \<and> n \<le> 122 then char_of (n - 32) else c)"

definition to_lower :: "string \<Rightarrow> string" where
  "to_lower s = map lower_char s"

definition to_upper :: "string \<Rightarrow> string" where
  "to_upper s = map upper_char s"

text \<open>\<open>strings.TrimSpace\<close> on the ASCII white space bytes.\<close>

definition is_space :: "char \<Rightarrow> bool" where
  "is_space c = (let n = of_char c :: nat in n = 32 \<or> (9 \<le> n \<and> n \<le> 13))"

definition trim_space :: "string \<Rightarrow> string" where
  "trim_space s = rev (dropWhile is_space (rev (dropWhile is_space s)))"

text \<open>\<open>%d\<close> and \<open>strconv.Itoa\<close>.\<close>

definition digit_char :: "nat \<Rightarrow> char" where
  "digit_char d = char_of (48 + d)"

fun nat_digits :: "nat \<Rightarrow> string" where
  "nat_digits n = (if n < 10 then [digit_char n] else nat_digits (n div 10) @ [digit_char (n mod 10)])"

declare nat_digits.simps [simp del]

definition itoa :: "int \<Rightarrow> string" where
  "itoa i = (if i < 0 then CHR ''-'' # nat_digits (nat (- i)) else nat_digits (nat i))"

lemma digit_char_inj: "a < 10 \<Longrightarrow> b < 10 \<Longrightarrow> digit_char a = digit_char b \<longleftrightarrow> a = b"
proof
  assume "a < 10" "b < 10" "digit_char a = digit_char b"
  then have "(of_char (char_of (48 + a) :: char) :: nat) = of_char (char_of (48 + b) :: char)"
    by (simp add: digit_char_def)
  with \<open>a < 10\<close> \<open>b < 10\<close> show "a = b" by (simp add: of_char_of)
qed simp

lemma digit_char_not_minus: "d < 10 \<Longrightarrow> digit_char d \<noteq> CHR ''-''"
proof
  assume "d < 10" "digit_char d = CHR ''-''"
  then have "(of_char (char_of (48 + d) :: char) :: nat) = of_char (CHR ''-'')"
    by (simp add: digit_char_def)
  with \<open>d < 10\<close> show False by (simp add: of_char_of)
qed

lemma nat_digits_nonempty [simp]: "nat_digits n \<noteq> []"
  by (subst nat_digits.simps) simp

lemma nat_digits_inj: "nat_digits m = nat_digits n \<Longrightarrow> m = n"
proof (induction m arbitrary: n rule: nat_digits.induct)
  case (1 m)
  have one: "length (nat_digits k) = 1 \<longleftrightarrow> k < 10" for k
    by (subst nat_digits.simps) auto
  show ?case
  proof (cases "m < 10")
    case True
    with "1.prems" one[of m] one[of n] have "n < 10" by simp
    with True "1.prems" show ?thesis
      by (simp add: nat_digits.simps[of m] nat_digits.simps[of n] digit_char_inj)
  next
    case False
    with "1.prems" one[of m] one[of n] have n: "\<not> n < 10" by simp
    with False "1.prems" have eq: "nat_digits (m div 10) = nat_digits (n div 10)"
      and d: "digit_char (m mod 10) = digit_char (n mod 10)"
      by (simp_all add: nat_digits.simps[of m] nat_digits.simps[of n])
    from eq False have "m div 10 = n div 10" by (rule "1.IH"[rotated])
    moreover from d have "m mod 10 = n mod 10" by (simp add: digit_char_inj)
    ultimately show ?thesis by (metis div_mult_mod_eq)
  qed
qed

lemma nat_digits_hd: "hd (nat_digits n) \<noteq> CHR ''-''"
proof (induction n rule: nat_digits.induct)
  case (1 n)
  then show ?case
    by (subst nat_digits.simps) (simp add: digit_char_not_minus)
qed

lemma itoa_inj [simp]: "itoa i = itoa j \<longleftrightarrow> i = j"
proof
  assume eq: "itoa i = itoa j"
  have "i < 0 \<longleftrightarrow> j < 0"
    using eq nat_digits_hd[of "nat i"] nat_digits_hd[of "nat j"]
    by (auto simp: itoa_def split: if_splits) (metis list.sel(1))+
  with eq show "i = j"
    by (auto simp: itoa_def split: if_splits dest!: nat_digits_inj)
qed simp

section \<open>64-bit integers\<close>

text \<open>The value a Go \<open>int64\<close> (or \<open>int\<close>) holds after an arithmetic result is stored in it.\<close>

definition wrap64 :: "int \<Rightarrow> int" where
  "wrap64 x = sint (word_of_int x :: 64 word)"

lemma wrap64_id: "- (2 ^ 63) \<le> x \<Longrightarrow> x < 2 ^ 63 \<Longrightarrow> wrap64 x = x"
  by (simp add: wrap64_def int_word_sint)

lemma wrap64_nonneg: "0 \<le> x \<Longrightarrow> x < 9223372036854775808 \<Longrightarrow> wrap64 x = x"
  by (rule wrap64_id) simp_all

text \<open>Go's integer division truncates towards zero.\<close>

definition go_div :: "int \<Rightarrow> int \<Rightarrow> int" where
  "go_div a b = sgn a * sgn b * (\<bar>a\<bar> div \<bar>b\<bar>)"

lemma go_div_nonneg: "0 \<le> a \<Longrightarrow> 0 < b \<Longrightarrow> go_div a b = a div b"
  by (cases "a = 0") (simp_all add: go_div_def)

section \<open>UTF-8\<close>

text \<open>
  The width of the rune a byte string starts with, as \<open>unicode/utf8\<close> accepts it (shortest
  form, no surrogates, at most U+10FFFF); \<open>None\<close> for an invalid first byte or sequence.
\<close>

definition byte_in :: "char \<Rightarrow> nat \<Rightarrow> nat \<Rightarrow> bool" where
  "byte_in c lo hi \<longleftrightarrow> lo \<le> of_char c \<and> of_char c \<le> hi"

definition rune_width :: "string \<Rightarrow> nat option" where
  "rune_width s =
    (case s of
       [] \<Rightarrow> None
     | b0 # r0 \<Rightarrow>
       if byte_in b0 0x00 0x7F then Some 1
       else case r0 of
         [] \<Rightarrow> None
       | b1 # r1 \<Rightarrow>
         if byte_in b0 0xC2 0xDF \<and> byte_in b1 0x80 0xBF then Some 2
         else case r1 of
           [] \<Rightarrow> None
         | b2 # r2 \<Rightarrow>
           if byte_in b2 0x80 0xBF \<and>
              ((byte_in b0 0xE0 0xE0 \<and> byte_in b1 0xA0 0xBF)
               \<or> (byte_in b0 0xE1 0xEC \<and> byte_in b1 0x80 0xBF)
               \<or> (byte_in b0 0xED 0xED \<and> byte_in b1 0x80 0x9F)
               \<or> (byte_in b0 0xEE 0xEF \<and> byte_in b1 0x80 0xBF)) then Some 3
           else case r2 of
             [] \<Rightarrow> None
           | b3 # r3 \<Rightarrow>
             if byte_in b2 0x80 0xBF \<and> byte_in b3 0x80 0xBF \<and>
                ((byte_in b0 0xF0 0xF0 \<and> byte_in b1 0x90 0xBF)
                 \<or> (byte_in b0 0xF1 0xF3 \<and> byte_in b1 0x80 0xBF)
                 \<or> (byte_in b0 0xF4 0xF4 \<and> byte_in b1 0x80 0x8F)) then Some 4
             else None)"

definition rune_error :: string where
  "rune_error = [CHR 0xEF, CHR 0xBF, CHR 0xBD]"

text \<open>\<open>[]rune(s)\<close>, each rune by its encoding; an invalid byte is U+FFFD.\<close>

function runes :: "string \<Rightarrow> string list" where
  "runes [] = []"
| "runes (c # s) =
    (case rune_width (c # s) of
       Some w \<Rightarrow> take w (c # s) # runes (drop (w - 1) s)
     | None \<Rightarrow> rune_error # runes s)"
  by pat_completeness auto
termination by (relation "measure length") auto

lemma runes_ascii: "\<forall>c \<in> set s. of_char c < (128 :: nat) \<Longrightarrow> runes s = map (\<lambda>c. [c]) s"
  by (induction s) (auto simp: rune_width_def byte_in_def)

lemma length_runes: "length (runes s) \<le> length s"
proof (induction s rule: runes.induct)
  case (2 c s)
  show ?case
  proof (cases "rune_width (c # s)")
    case None
    with 2 show ?thesis by simp
  next
    case (Some w)
    with 2 have "length (runes (drop (w - 1) s)) \<le> length s - (w - 1)" by simp
    then have "length (runes (drop (w - 1) s)) \<le> length s" by (rule le_trans) simp
    with Some show ?thesis by simp
  qed
qed simp

section \<open>Transition systems\<close>

text \<open>
  What a component promises when it is a state machine: an initial predicate, a step
  relation, and an invariant that holds initially and that every step keeps.
\<close>

inductive reachable :: "('s \<Rightarrow> bool) \<Rightarrow> ('s \<Rightarrow> 's \<Rightarrow> bool) \<Rightarrow> 's \<Rightarrow> bool"
  for init :: "'s \<Rightarrow> bool" and step :: "'s \<Rightarrow> 's \<Rightarrow> bool" where
  reach_init: "init s \<Longrightarrow> reachable init step s"
| reach_step: "reachable init step s \<Longrightarrow> step s t \<Longrightarrow> reachable init step t"

locale invariant_system =
  fixes init :: "'s \<Rightarrow> bool" and step :: "'s \<Rightarrow> 's \<Rightarrow> bool" and inv :: "'s \<Rightarrow> bool"
  assumes inv_init: "init s \<Longrightarrow> inv s"
    and inv_step: "inv s \<Longrightarrow> step s t \<Longrightarrow> inv t"
begin

lemma reachable_inv: "reachable init step s \<Longrightarrow> inv s"
  by (induction rule: reachable.induct) (auto intro: inv_init inv_step)

lemma steps_inv: "step\<^sup>*\<^sup>* s t \<Longrightarrow> inv s \<Longrightarrow> inv t"
  by (induction rule: rtranclp_induct) (auto intro: inv_step)

lemma reachable_steps: "step\<^sup>*\<^sup>* s t \<Longrightarrow> reachable init step s \<Longrightarrow> reachable init step t"
  by (induction rule: rtranclp_induct) (auto intro: reach_step)

end

text \<open>A measure or history that only grows along the steps.\<close>

locale monotone_system =
  fixes step :: "'s \<Rightarrow> 's \<Rightarrow> bool" and m :: "'s \<Rightarrow> 'b::order" and inv :: "'s \<Rightarrow> bool"
  assumes keep: "inv s \<Longrightarrow> step s t \<Longrightarrow> inv t"
    and mono_step: "inv s \<Longrightarrow> step s t \<Longrightarrow> m s \<le> m t"
begin

lemma steps_mono: "step\<^sup>*\<^sup>* s t \<Longrightarrow> inv s \<Longrightarrow> inv t \<and> m s \<le> m t"
  by (induction rule: rtranclp_induct) (auto intro: keep order_trans mono_step)

end

section \<open>Tables whose rows step\<close>

text \<open>
  A table with a primary and a secondary unique key evolves when each of its rows takes
  steps of its state machine and rows are added at the end only, as states the machine
  can reach and without repeating a key.
\<close>

definition unique_keys :: "('a \<times> 'b) list \<Rightarrow> bool" where
  "unique_keys ks \<longleftrightarrow> distinct (map fst ks) \<and> distinct (map snd ks)"

definition table_evolve ::
  "('r \<Rightarrow> bool) \<Rightarrow> ('r \<Rightarrow> 'r \<Rightarrow> bool) \<Rightarrow> ('r \<Rightarrow> 'a \<times> 'b) \<Rightarrow> 'r list \<Rightarrow> 'r list \<Rightarrow> bool" where
  "table_evolve new step ident xs ys \<longleftrightarrow>
    (unique_keys (map ident xs) \<longrightarrow> unique_keys (map ident ys))
    \<and> (\<exists>ts us. ys = ts @ us \<and> list_all2 step\<^sup>*\<^sup>* xs ts \<and> list_all (reachable new step) us)"

lemma table_evolve_refl: "table_evolve new step ident xs xs"
  unfolding table_evolve_def
  by (intro conjI exI[where x = xs] exI[where x = "[]"]) (simp_all add: list_all2_refl)

lemma reachable_steps_table:
  "step\<^sup>*\<^sup>* s t \<Longrightarrow> reachable new step s \<Longrightarrow> reachable new step t"
  by (induction rule: rtranclp_induct) (auto intro: reach_step)

lemma table_evolve_trans:
  assumes "table_evolve new step ident xs ys" and "table_evolve new step ident ys zs"
  shows "table_evolve new step ident xs zs"
proof -
  from assms(1) obtain ts us where b: "ys = ts @ us"
    and ts: "list_all2 step\<^sup>*\<^sup>* xs ts" and us: "list_all (reachable new step) us"
    by (auto simp: table_evolve_def)
  from assms(2) obtain ts' us' where c: "zs = ts' @ us'"
    and ts': "list_all2 step\<^sup>*\<^sup>* (ts @ us) ts'" and us': "list_all (reachable new step) us'"
    by (auto simp: table_evolve_def b)
  from ts' obtain t1 t2 where t12: "ts' = t1 @ t2" and t1: "list_all2 step\<^sup>*\<^sup>* ts t1"
    and t2: "list_all2 step\<^sup>*\<^sup>* us t2"
    by (auto simp: list_all2_append1)
  have "list_all2 step\<^sup>*\<^sup>* xs t1" using ts t1 by (rule list_all2_comp) auto
  moreover have "list_all (reachable new step) (t2 @ us')"
    using t2 us us' by (induction us t2 rule: list_all2_induct) (auto intro: reachable_steps_table)
  moreover have "zs = t1 @ (t2 @ us')" using c t12 by simp
  ultimately show ?thesis using assms unfolding table_evolve_def by blast
qed

text \<open>The contract of such a table: no step changes the keys of a row.\<close>

locale row_table =
  fixes new :: "'r \<Rightarrow> bool" and step :: "'r \<Rightarrow> 'r \<Rightarrow> bool" and ident :: "'r \<Rightarrow> 'a \<times> 'b"
  assumes step_ident: "step r r' \<Longrightarrow> ident r' = ident r"
begin

lemma steps_ident: "step\<^sup>*\<^sup>* r r' \<Longrightarrow> ident r' = ident r"
  by (induction rule: rtranclp_induct) (auto dest: step_ident)

lemma evolve_set:
  assumes "\<And>r. r \<in> set xs \<Longrightarrow> P r \<Longrightarrow> step r (f r)"
  shows "table_evolve new step ident xs (sql_set P f xs)"
proof -
  have "list_all2 step\<^sup>*\<^sup>* xs (sql_set P f xs)"
    using assms by (intro list_all2_sql_set) auto
  moreover have "map ident (sql_set P f xs) = map ident xs"
    using assms by (auto simp: sql_set_def step_ident)
  ultimately show ?thesis
    unfolding table_evolve_def
    by (intro conjI exI[where x = "sql_set P f xs"] exI[where x = "[]"]) simp_all
qed

lemma evolve_add:
  assumes "new x" and "fst (ident x) \<notin> fst ` ident ` set xs" and "snd (ident x) \<notin> snd ` ident ` set xs"
  shows "table_evolve new step ident xs (xs @ [x])"
  unfolding table_evolve_def
  by (intro conjI exI[where x = xs] exI[where x = "[x]"])
    (use assms in \<open>auto simp: list_all2_refl reach_init unique_keys_def image_image\<close>)

lemma evolve_row:
  assumes ev: "table_evolve new step ident xs ys" and keys: "unique_keys (map ident xs)"
    and x: "by_key (fst \<circ> ident) i xs = Some x"
  obtains y where "by_key (fst \<circ> ident) i ys = Some y" and "step\<^sup>*\<^sup>* x y"
proof -
  from ev obtain ts us where ys: "ys = ts @ us" and ts: "list_all2 step\<^sup>*\<^sup>* xs ts"
    by (auto simp: table_evolve_def)
  have inj: "distinct (map (fst \<circ> ident) ys)"
    using ev keys by (simp add: table_evolve_def unique_keys_def)
  from by_key_Some_in[OF x] obtain n where n: "n < length xs" "xs ! n = x"
    by (auto simp: in_set_conv_nth)
  with ts have steps: "step\<^sup>*\<^sup>* x (ts ! n)" and "n < length ts" by (auto simp: list_all2_conv_all_nth)
  then have "ts ! n \<in> set ys" by (simp add: ys)
  moreover have "(fst \<circ> ident) (ts ! n) = i" using steps_ident[OF steps] by_key_Some_in[OF x] by simp
  ultimately show thesis using inj steps that by (metis by_key_unique)
qed

end

end
