(* ===== verification/Job_Model.thy ===== *)
theory Job_Model
  imports Prelude
begin

text \<open>
  The vocabulary of \<open>internal/jobs\<close>: job types and states, error classes, the
  persistent \<open>AnalysisJob\<close> (\<open>model.go\<close>), the causes for which a handler stops
  (\<open>cause.go\<close>), Go error values with their wrapping, \<open>ClassifyError\<close> and the
  exponential backoff (\<open>retry.go\<close>).
\<close>

section \<open>Enumerations\<close>

text \<open>
  The Go types are strings with named constants; a value outside the constants is
  kept by the last constructor.
\<close>

datatype job_type =
    JobTypeMaterializeSnapshot
  | JobTypeBuildCodeIndex
  | JobTypeBuildRetrieval
  | JobTypeRunDiagnosis
  | JobTypeOther string

fun job_type_text :: "job_type \<Rightarrow> string" where
  "job_type_text JobTypeMaterializeSnapshot = ''MATERIALIZE_SNAPSHOT''"
| "job_type_text JobTypeBuildCodeIndex = ''BUILD_CODE_INDEX''"
| "job_type_text JobTypeBuildRetrieval = ''BUILD_RETRIEVAL''"
| "job_type_text JobTypeRunDiagnosis = ''RUN_DIAGNOSIS''"
| "job_type_text (JobTypeOther s) = s"

datatype job_status =
    StatusPending | StatusRunning | StatusRetryWait
  | StatusSucceeded | StatusFailed | StatusCancelled
  | StatusOther string

fun job_status_text :: "job_status \<Rightarrow> string" where
  "job_status_text StatusPending = ''PENDING''"
| "job_status_text StatusRunning = ''RUNNING''"
| "job_status_text StatusRetryWait = ''RETRY_WAIT''"
| "job_status_text StatusSucceeded = ''SUCCEEDED''"
| "job_status_text StatusFailed = ''FAILED''"
| "job_status_text StatusCancelled = ''CANCELLED''"
| "job_status_text (StatusOther s) = s"

datatype terminal_reason =
    TerminalReasonRetryableExhausted | TerminalReasonPermanent | TerminalReasonCancelled

datatype error_class =
    ErrorClassRetryable | ErrorClassPermanent | ErrorClassCancelled | ErrorClassOwnershipLost
  | ErrorClassOther string

fun error_class_text :: "error_class \<Rightarrow> string" where
  "error_class_text ErrorClassRetryable = ''RETRYABLE''"
| "error_class_text ErrorClassPermanent = ''PERMANENT''"
| "error_class_text ErrorClassCancelled = ''CANCELLED''"
| "error_class_text ErrorClassOwnershipLost = ''OWNERSHIP_LOST''"
| "error_class_text (ErrorClassOther s) = s"

text \<open>\<open>ErrorClass(s)\<close>, the conversion from the stored column.\<close>

definition ErrorClass :: "string \<Rightarrow> error_class" where
  "ErrorClass s =
    (if s = ''RETRYABLE'' then ErrorClassRetryable
     else if s = ''PERMANENT'' then ErrorClassPermanent
     else if s = ''CANCELLED'' then ErrorClassCancelled
     else if s = ''OWNERSHIP_LOST'' then ErrorClassOwnershipLost
     else ErrorClassOther s)"

lemma ErrorClass_text: "ErrorClass (error_class_text c) = c
    \<or> (\<exists>s. c = ErrorClassOther s \<and> ErrorClass s \<noteq> ErrorClassOther s)"
  by (cases c) (auto simp: ErrorClass_def)

text \<open>Instants, in nanoseconds from Go's zero \<open>time.Time\<close>; durations in nanoseconds.\<close>

type_synonym time = int
type_synonym duration = int

abbreviation Millisecond :: duration where "Millisecond \<equiv> 1000000"
abbreviation Second :: duration where "Second \<equiv> 1000000000"
abbreviation Minute :: duration where "Minute \<equiv> 60000000000"

section \<open>Stop causes and error values\<close>

datatype stop_cause =
  StopUserCancel | StopOwnershipLost | StopLeaseFailure | StopCancelPollError | StopShutdown

fun stop_cause_text :: "stop_cause \<Rightarrow> string" where
  "stop_cause_text StopUserCancel = ''user cancellation requested''"
| "stop_cause_text StopOwnershipLost = ''job ownership lost: claim token or lease is no longer valid''"
| "stop_cause_text StopLeaseFailure = ''lease renewal failed''"
| "stop_cause_text StopCancelPollError = ''cancel poll failed''"
| "stop_cause_text StopShutdown = ''worker shutdown''"

record failure_policy =
  fp_error_class :: error_class
  fp_error_code :: string
  fp_error_message :: string
  fp_terminal_reason :: "terminal_reason option"
  fp_terminal :: bool
  fp_next_run_at :: time

text \<open>
  Go errors. A sentinel made by \<open>errors.New\<close> is identified by its variable and carries
  its text; \<open>Errorf\<close> is an error made by \<open>fmt.Errorf\<close> or \<open>errors.Join\<close> with its
  formatted text and the errors it wraps; \<open>HTTPStatusErr\<close> is an error with an
  \<open>HTTPStatusCode\<close> method. Then come the errors of the provider client
  (\<open>internal/llm\<close>), the agent's execution error with the answer of its \<open>Progressed\<close>
  method, and the two network errors of the standard library the client looks for.
\<close>

datatype go_error =
    Stop stop_cause
  | Sentinel string string
  | CategorizedError error_class string string "go_error option"
  | HTTPStatusErr int string
  | AtomicHandlerFinalizationError job_status "go_error option" "failure_policy option"
  | Errorf string "go_error list"
  | OutcomeUnknownError "go_error option"
  | CallError go_error int
  | ProviderResponseTooLargeError int
  | ExecutionError go_error bool
  | NetOpError string go_error
  | DNSError string

abbreviation ErrOwnershipLost :: go_error where "ErrOwnershipLost \<equiv> Stop StopOwnershipLost"
abbreviation ErrUserCancellation :: go_error where "ErrUserCancellation \<equiv> Stop StopUserCancel"
abbreviation ErrCancellationRequested :: go_error where "ErrCancellationRequested \<equiv> ErrUserCancellation"
abbreviation ErrLeaseRenewFailed :: go_error where "ErrLeaseRenewFailed \<equiv> Stop StopLeaseFailure"
abbreviation ErrCancelPollFailed :: go_error where "ErrCancelPollFailed \<equiv> Stop StopCancelPollError"
abbreviation ErrWorkerShutdown :: go_error where "ErrWorkerShutdown \<equiv> Stop StopShutdown"

definition ErrAlreadyFinalized :: go_error where
  "ErrAlreadyFinalized = Sentinel ''jobs.ErrAlreadyFinalized'' ''job already finalized''"

definition ErrCancellationNotRequested :: go_error where
  "ErrCancellationNotRequested =
    Sentinel ''jobs.ErrCancellationNotRequested'' ''durable job cancellation was not requested''"

definition ErrCancellationUnsupported :: go_error where
  "ErrCancellationUnsupported =
    Sentinel ''jobs.ErrCancellationUnsupported'' ''cancellation is supported only for diagnosis jobs''"

definition ContextCanceled :: go_error where
  "ContextCanceled = Sentinel ''context.Canceled'' ''context canceled''"

definition ContextDeadlineExceeded :: go_error where
  "ContextDeadlineExceeded = Sentinel ''context.DeadlineExceeded'' ''context deadline exceeded''"

definition SqlErrNoRows :: go_error where
  "SqlErrNoRows = Sentinel ''sql.ErrNoRows'' ''sql: no rows in result set''"

lemmas sentinel_defs = ErrAlreadyFinalized_def ErrCancellationNotRequested_def
  ErrCancellationUnsupported_def ContextCanceled_def ContextDeadlineExceeded_def SqlErrNoRows_def

text \<open>\<open>errors.Unwrap\<close>, in both its single and its list form.\<close>

fun unwrap :: "go_error \<Rightarrow> go_error list" where
  "unwrap (CategorizedError c code m (Some e)) = [e]"
| "unwrap (AtomicHandlerFinalizationError s (Some e) p) = [e]"
| "unwrap (Errorf m es) = es"
| "unwrap (OutcomeUnknownError (Some e)) = [e]"
| "unwrap (CallError e n) = [e]"
| "unwrap (ExecutionError e b) = [e]"
| "unwrap (NetOpError op e) = [e]"
| "unwrap e = []"

lemma unwrap_smaller: "x \<in> set (unwrap e) \<Longrightarrow> size x < size e"
proof (cases e rule: unwrap.cases)
  case (3 m es)
  assume "x \<in> set (unwrap e)"
  with 3 have "x \<in> set es" by simp
  then have "size x \<le> size_list size es" by (induction es) auto
  with 3 show ?thesis by simp
qed auto

text \<open>\<open>errors.Is\<close>: the error itself or, depth first, one of those it wraps.\<close>

function errors_is :: "go_error \<Rightarrow> go_error \<Rightarrow> bool" where
  "errors_is e target = (e = target \<or> list_ex (\<lambda>x. errors_is x target) (unwrap e))"
  by pat_completeness auto
termination
  by (relation "measure (\<lambda>(e, t). size e)") (auto simp: unwrap_smaller)

declare errors_is.simps [simp del]

lemma errors_is_refl [simp]: "errors_is e e"
  by (subst errors_is.simps) simp

lemma errors_is_Stop [simp]: "errors_is (Stop c) t \<longleftrightarrow> t = Stop c"
  by (subst errors_is.simps) auto

lemma errors_is_Sentinel [simp]: "errors_is (Sentinel n m) t \<longleftrightarrow> t = Sentinel n m"
  by (subst errors_is.simps) auto

lemma errors_is_HTTP [simp]: "errors_is (HTTPStatusErr i m) t \<longleftrightarrow> t = HTTPStatusErr i m"
  by (subst errors_is.simps) auto

lemma errors_is_Errorf [simp]:
  "errors_is (Errorf m es) t \<longleftrightarrow> t = Errorf m es \<or> (\<exists>e \<in> set es. errors_is e t)"
  by (subst errors_is.simps) (auto simp: list_ex_iff)

lemma errors_is_Categorized [simp]: "errors_is (CategorizedError c k m w) t \<longleftrightarrow>
    t = CategorizedError c k m w \<or> (\<exists>e. w = Some e \<and> errors_is e t)"
  by (subst errors_is.simps, cases w) auto

lemma errors_is_Atomic [simp]: "errors_is (AtomicHandlerFinalizationError s w p) t \<longleftrightarrow>
    t = AtomicHandlerFinalizationError s w p \<or> (\<exists>e. w = Some e \<and> errors_is e t)"
  by (subst errors_is.simps, cases w) auto

lemma errors_is_provider [simp]:
  "errors_is (OutcomeUnknownError w) t \<longleftrightarrow> t = OutcomeUnknownError w \<or> (\<exists>e. w = Some e \<and> errors_is e t)"
  "errors_is (CallError e n) t \<longleftrightarrow> t = CallError e n \<or> errors_is e t"
  "errors_is (ProviderResponseTooLargeError n) t \<longleftrightarrow> t = ProviderResponseTooLargeError n"
  "errors_is (ExecutionError e b) t \<longleftrightarrow> t = ExecutionError e b \<or> errors_is e t"
  "errors_is (NetOpError op e) t \<longleftrightarrow> t = NetOpError op e \<or> errors_is e t"
  "errors_is (DNSError m) t \<longleftrightarrow> t = DNSError m"
  by (subst errors_is.simps, cases w; auto)+

text \<open>\<open>errors.As\<close> for one kind of error: the first match in depth-first order.\<close>

fun first_Some :: "'a option list \<Rightarrow> 'a option" where
  "first_Some [] = None"
| "first_Some (None # xs) = first_Some xs"
| "first_Some (Some x # xs) = Some x"

function errors_as :: "(go_error \<Rightarrow> 'a option) \<Rightarrow> go_error \<Rightarrow> 'a option" where
  "errors_as sel e =
    (case sel e of Some x \<Rightarrow> Some x | None \<Rightarrow> first_Some (map (errors_as sel) (unwrap e)))"
  by pat_completeness auto
termination
  by (relation "measure (\<lambda>(s, e). size e)") (auto simp: unwrap_smaller)

declare errors_as.simps [simp del]

fun as_categorized :: "go_error \<Rightarrow> (error_class \<times> string) option" where
  "as_categorized (CategorizedError c code m w) = Some (c, code)"
| "as_categorized _ = None"

fun as_http :: "go_error \<Rightarrow> int option" where
  "as_http (HTTPStatusErr code m) = Some code"
| "as_http _ = None"

fun as_atomic :: "go_error \<Rightarrow> (job_status \<times> go_error option \<times> failure_policy option) option" where
  "as_atomic (AtomicHandlerFinalizationError s c p) = Some (s, c, p)"
| "as_atomic _ = None"

text \<open>The \<open>Error()\<close> text of an error.\<close>

function error_text :: "go_error \<Rightarrow> string" where
  "error_text (Stop c) = stop_cause_text c"
| "error_text (Sentinel n m) = m"
| "error_text (CategorizedError c code m None) = m"
| "error_text (CategorizedError c code m (Some e)) = m @ '': '' @ error_text e"
| "error_text (HTTPStatusErr code m) = m"
| "error_text (AtomicHandlerFinalizationError s None p) =
     ''atomic handler finalization expected '' @ job_status_text s"
| "error_text (AtomicHandlerFinalizationError s (Some e) p) =
     ''atomic handler finalization expected '' @ job_status_text s @ '': '' @ error_text e"
| "error_text (Errorf m es) = m"
| "error_text (OutcomeUnknownError None) = ''provider outcome is unknown''"
| "error_text (OutcomeUnknownError (Some e)) = ''provider outcome is unknown: '' @ error_text e"
| "error_text (CallError e n) = error_text e"
| "error_text (ProviderResponseTooLargeError n) = ''PROVIDER_RESPONSE_TOO_LARGE''"
| "error_text (ExecutionError e b) = error_text e"
| "error_text (NetOpError op e) = op @ '': '' @ error_text e"
| "error_text (DNSError m) = m"
  by pat_completeness auto
termination
  by (relation "measure size") auto

text \<open>\<open>fmt.Errorf(m + ": %w", e)\<close>.\<close>

definition errorf_w :: "string \<Rightarrow> go_error \<Rightarrow> go_error" where
  "errorf_w m e = Errorf (m @ '': '' @ error_text e) [e]"

definition NewPermanentError :: "string \<Rightarrow> string \<Rightarrow> go_error option \<Rightarrow> go_error" where
  "NewPermanentError code message cause = CategorizedError ErrorClassPermanent code message cause"

definition NewRetryableError :: "string \<Rightarrow> string \<Rightarrow> go_error option \<Rightarrow> go_error" where
  "NewRetryableError code message cause = CategorizedError ErrorClassRetryable code message cause"

text \<open>
  The two wrappers a handler applies to the error of its own terminal transaction;
  \<^const>\<open>None\<close> is Go's \<open>nil\<close>.
\<close>

definition is_claim_sentinel :: "go_error \<Rightarrow> bool" where
  "is_claim_sentinel e \<longleftrightarrow> errors_is e ErrOwnershipLost \<or> errors_is e ErrAlreadyFinalized
    \<or> errors_is e ErrCancellationRequested"

definition WrapAtomicHandlerFinalization :: "job_status \<Rightarrow> go_error option \<Rightarrow> go_error option" where
  "WrapAtomicHandlerFinalization expected cause =
    (case cause of
       None \<Rightarrow> None
     | Some e \<Rightarrow> if is_claim_sentinel e then Some e
         else Some (AtomicHandlerFinalizationError expected (Some e) None))"

definition WrapAtomicHandlerFailureFinalization ::
  "failure_policy \<Rightarrow> go_error option \<Rightarrow> go_error option" where
  "WrapAtomicHandlerFailureFinalization policy cause =
    (case cause of
       None \<Rightarrow> None
     | Some e \<Rightarrow> if is_claim_sentinel e then Some e
         else Some (AtomicHandlerFinalizationError StatusFailed (Some e) (Some policy)))"

section \<open>Error classification\<close>

definition HTTPStatusToErrorClass :: "int \<Rightarrow> error_class \<times> string" where
  "HTTPStatusToErrorClass statusCode =
    (if statusCode = 429 then (ErrorClassRetryable, ''HTTP_429_RATE_LIMITED'')
     else if 500 \<le> statusCode \<and> statusCode \<le> 599 then (ErrorClassRetryable, ''HTTP_5XX_SERVER_ERROR'')
     else if statusCode = 400 then (ErrorClassPermanent, ''HTTP_400_BAD_REQUEST'')
     else if statusCode = 401 \<or> statusCode = 403 then (ErrorClassPermanent, ''HTTP_AUTH_FAILURE'')
     else if statusCode = 404 then (ErrorClassPermanent, ''HTTP_404_NOT_FOUND'')
     else (ErrorClassPermanent, ''HTTP_CLIENT_ERROR''))"

definition permanent_markers :: "string list" where
  "permanent_markers = [''invalid'', ''not found'', ''unsupported'', ''malformed'', ''ssrf'', ''forbidden'']"

definition transient_markers :: "string list" where
  "transient_markers = [''timeout'', ''deadline exceeded'', ''connection refused'', ''reset by peer'',
     ''429'', ''500'', ''502'', ''503'', ''504'', ''rate limit'', ''temporarily unavailable'']"

definition ClassifyError :: "go_error option \<Rightarrow> error_class \<times> string" where
  "ClassifyError err =
    (case err of
       None \<Rightarrow> (ErrorClassOther '''', '''')
     | Some e \<Rightarrow>
       (case errors_as as_categorized e of
          Some cc \<Rightarrow> cc
        | None \<Rightarrow>
          if errors_is e ErrUserCancellation then (ErrorClassCancelled, ''CANCELLATION_REQUESTED'')
          else if errors_is e ErrOwnershipLost then (ErrorClassOwnershipLost, ''OWNERSHIP_LOST'')
          else if errors_is e ErrWorkerShutdown then (ErrorClassOwnershipLost, ''WORKER_SHUTDOWN'')
          else if errors_is e ErrLeaseRenewFailed then (ErrorClassRetryable, ''LEASE_RENEW_FAILED'')
          else if errors_is e ErrCancelPollFailed then (ErrorClassRetryable, ''CANCEL_POLL_FAILED'')
          else if errors_is e ContextCanceled then (ErrorClassRetryable, ''CONTEXT_CANCELED'')
          else if errors_is e ContextDeadlineExceeded then (ErrorClassRetryable, ''CONTEXT_DEADLINE_EXCEEDED'')
          else
            (case errors_as as_http e of
               Some code \<Rightarrow> HTTPStatusToErrorClass code
             | None \<Rightarrow>
               let errStr = to_lower (error_text e) in
               if list_ex (str_contains errStr) permanent_markers
               then (ErrorClassPermanent, ''PERMANENT_VALIDATION_ERROR'')
               else if list_ex (str_contains errStr) transient_markers
               then (ErrorClassRetryable, ''TRANSIENT_NETWORK_ERROR'')
               else (ErrorClassRetryable, ''UNKNOWN_RETRYABLE_ERROR''))))"

section \<open>Backoff\<close>

text \<open>
  \<open>CalculateBackoff\<close> on 64-bit integers. \<open>rand.Int63n n\<close> panics unless \<open>0 < n\<close>, and
  otherwise draws from \<open>[0, n)\<close>: the generator is the argument \<open>rnd\<close>, the panic is
  \<^const>\<open>None\<close>.
\<close>

definition backoff_factor :: "int \<Rightarrow> int" where
  "backoff_factor attempt =
    (let factor = (if attempt - 1 \<ge> 64 then 0 else wrap64 (2 ^ nat (attempt - 1)))
     in if factor \<le> 0 \<or> factor > 64 then 64 else factor)"

definition CalculateBackoff :: "(int \<Rightarrow> int) \<Rightarrow> int \<Rightarrow> duration \<Rightarrow> duration \<Rightarrow> duration option" where
  "CalculateBackoff rnd attempt0 base0 max0 =
    (let attempt = (if attempt0 \<le> 0 then 1 else attempt0);
         baseDuration = (if base0 \<le> 0 then Second else base0);
         maxDuration = (if max0 \<le> 0 then Minute else max0);
         backoff0 = wrap64 (baseDuration * backoff_factor attempt);
         backoff = (if backoff0 > maxDuration then maxDuration else backoff0);
         n = wrap64 (go_div (go_div backoff Millisecond) 4 + 1)
     in if n \<le> 0 then None
        else
          let total = wrap64 (backoff + wrap64 (rnd n * Millisecond))
          in Some (if total > maxDuration then maxDuration else total))"

section \<open>The persistent job\<close>

record analysis_job =
  job_id :: int
  job_type :: job_type
  job_resource_id :: string
  job_status :: job_status
  job_execution_generation :: int
  job_terminal_reason :: "terminal_reason option"
  job_attempt_count :: int
  job_execution_started :: bool
  job_max_attempts :: int
  job_next_run_at :: time
  job_worker_id :: "string option"
  job_claim_token :: "string option"
  job_lease_until :: "time option"
  job_cancel_requested :: bool
  job_last_error_class :: "string option"
  job_last_error_code :: "string option"
  job_last_error_message :: "string option"
  job_created_at :: time
  job_updated_at :: time
  job_finished_at :: "time option"

definition isTerminalJobStatus :: "job_status \<Rightarrow> bool" where
  "isTerminalJobStatus s \<longleftrightarrow> s = StatusSucceeded \<or> s = StatusFailed \<or> s = StatusCancelled"

section \<open>Facts\<close>

lemma first_Some_eq: "first_Some xs = Some y \<Longrightarrow> Some y \<in> set xs"
  by (induction xs rule: first_Some.induct) auto

lemma first_Some_None: "first_Some xs = None \<longleftrightarrow> (\<forall>x \<in> set xs. x = None)"
  by (induction xs rule: first_Some.induct) auto

text \<open>What \<open>errors.As\<close> finds lies on the chain of wrapped errors.\<close>

inductive on_chain :: "go_error \<Rightarrow> go_error \<Rightarrow> bool" where
  chain_here: "on_chain e e"
| chain_wrap: "x \<in> set (unwrap e) \<Longrightarrow> on_chain x t \<Longrightarrow> on_chain e t"

lemma errors_is_on_chain: "errors_is e t \<longleftrightarrow> on_chain e t"
proof
  show "errors_is e t \<Longrightarrow> on_chain e t"
  proof (induction e t rule: errors_is.induct)
    case (1 e t)
    then show ?case
      by (subst (asm) (2) errors_is.simps) (auto simp: list_ex_iff intro: on_chain.intros)
  qed
  show "on_chain e t \<Longrightarrow> errors_is e t"
    by (induction rule: on_chain.induct)
      (auto intro: errors_is.simps [THEN iffD2] simp: list_ex_iff)
qed

lemma errors_as_None: "errors_as sel e = None \<longleftrightarrow> (\<forall>x. on_chain e x \<longrightarrow> sel x = None)"
proof
  show "errors_as sel e = None \<Longrightarrow> \<forall>x. on_chain e x \<longrightarrow> sel x = None"
  proof (induction sel e rule: errors_as.induct)
    case (1 sel e)
    have here: "sel e = None"
      and below: "\<forall>x \<in> set (unwrap e). errors_as sel x = None"
      using "1.prems" by (auto simp: errors_as.simps[of sel e] first_Some_None split: option.splits)
    show ?case
    proof (intro allI impI)
      fix x assume "on_chain e x"
      then show "sel x = None"
        using here below "1.IH" by (cases rule: on_chain.cases) auto
    qed
  qed
  show "\<forall>x. on_chain e x \<longrightarrow> sel x = None \<Longrightarrow> errors_as sel e = None"
  proof (induction sel e rule: errors_as.induct)
    case (1 sel e)
    then have here: "sel e = None" by (blast intro: on_chain.intros)
    moreover have "\<forall>x \<in> set (unwrap e). errors_as sel x = None"
      using here "1.IH" "1.prems" by (blast intro: on_chain.intros)
    ultimately show ?case by (simp add: errors_as.simps[of sel e] first_Some_None)
  qed
qed

lemma backoff_factor_bounds: "1 \<le> backoff_factor a \<and> backoff_factor a \<le> 64"
  by (auto simp: backoff_factor_def Let_def)

lemma backoff_factor_small:
  assumes "1 \<le> a" and "a \<le> 7"
  shows "backoff_factor a = 2 ^ nat (a - 1)"
proof -
  have "nat (a - 1) \<le> 6" using assms by simp
  then have le: "(2::int) ^ nat (a - 1) \<le> 2 ^ 6" by (intro power_increasing) auto
  moreover have "(0::int) \<le> 2 ^ nat (a - 1)" by simp
  ultimately have "wrap64 (2 ^ nat (a - 1)) = 2 ^ nat (a - 1)" by (intro wrap64_nonneg) simp_all
  with le assms show ?thesis by (simp add: backoff_factor_def Let_def not_less)
qed

lemma backoff_factor_saturates:
  assumes "7 < a"
  shows "backoff_factor a = 64"
proof (cases "a < 64")
  case True
  then have "(2::int) ^ nat (a - 1) \<le> 2 ^ 62" by (intro power_increasing) auto
  moreover have "(2::int) ^ 7 \<le> 2 ^ nat (a - 1)" using assms by (intro power_increasing) auto
  ultimately have "wrap64 (2 ^ nat (a - 1)) = 2 ^ nat (a - 1)" "(2::int) ^ nat (a - 1) > 64"
    by (auto intro!: wrap64_id)
  with True show ?thesis by (simp add: backoff_factor_def Let_def)
next
  case False
  show ?thesis
  proof (cases "a = 64")
    case True
    then show ?thesis by (simp add: backoff_factor_def Let_def wrap64_def int_word_sint)
  next
    case False
    with \<open>\<not> a < 64\<close> show ?thesis by (simp add: backoff_factor_def Let_def)
  qed
qed

text \<open>
  The delay without jitter, when the multiplication cannot overflow: exponential in
  the attempt, capped by the maximum.
\<close>

definition plain_backoff :: "int \<Rightarrow> duration \<Rightarrow> duration \<Rightarrow> duration" where
  "plain_backoff attempt base mx = min mx (base * backoff_factor attempt)"

lemma CalculateBackoff_eq:
  assumes "1 \<le> attempt" and "0 < base" and "base \<le> 2 ^ 56" and "0 < mx" and "mx < 2 ^ 62"
    and rnd: "\<And>n. 0 < n \<Longrightarrow> 0 \<le> rnd n \<and> rnd n < n"
  defines "b \<equiv> plain_backoff attempt base mx"
  defines "n \<equiv> b div Millisecond div 4 + 1"
  shows "CalculateBackoff rnd attempt base mx = Some (min mx (b + rnd n * Millisecond))"
proof -
  have f: "1 \<le> backoff_factor attempt" "backoff_factor attempt \<le> 64"
    using backoff_factor_bounds by auto
  have prod: "0 < base * backoff_factor attempt" using assms(2) f by (simp add: mult_pos_pos)
  have "base * backoff_factor attempt \<le> 2 ^ 56 * 64"
    using assms(2,3) f by (intro mult_mono) auto
  then have wb: "wrap64 (base * backoff_factor attempt) = base * backoff_factor attempt"
    using prod by (intro wrap64_id) auto
  have b: "0 < b" "b \<le> mx" using prod assms(4) by (auto simp: b_def plain_backoff_def)
  have n0: "0 < n" using b by (simp add: n_def pos_imp_zdiv_nonneg_iff)
  have n4: "n * (4 * Millisecond) \<le> b + 4 * Millisecond"
    using b by (simp add: n_def zdiv_zmult2_eq[symmetric] algebra_simps)
  have wn: "wrap64 n = n"
    using n0 n4 b assms(5) by (intro wrap64_id) auto
  have r: "0 \<le> rnd n" "rnd n < n" using rnd n0 by auto
  have rm: "rnd n * Millisecond \<le> b" using r n4 by linarith
  have w1: "wrap64 (rnd n * Millisecond) = rnd n * Millisecond"
    using r rm b assms(5) by (intro wrap64_id) auto
  have w2: "wrap64 (b + rnd n * Millisecond) = b + rnd n * Millisecond"
    using r rm b assms(5) by (intro wrap64_id) auto
  have bif: "(if base * backoff_factor attempt > mx then mx else base * backoff_factor attempt) = b"
    by (simp add: b_def plain_backoff_def min_def)
  have gd: "go_div (go_div b Millisecond) 4 = b div Millisecond div 4"
    using b by (simp add: go_div_nonneg pos_imp_zdiv_nonneg_iff)
  have ifs: "(if attempt \<le> 0 then 1 else attempt) = attempt"
    "(if base \<le> 0 then Second else base) = base" "(if mx \<le> 0 then Minute else mx) = mx"
    using assms(1,2,4) by auto
  have "CalculateBackoff rnd attempt base mx =
      (let n' = wrap64 (go_div (go_div b Millisecond) 4 + 1) in
       if n' \<le> 0 then None
       else let total = wrap64 (b + wrap64 (rnd n' * Millisecond)) in
         Some (if total > mx then mx else total))"
    unfolding CalculateBackoff_def Let_def ifs wb bif by (rule refl)
  also have "\<dots> = Some (min mx (b + rnd n * Millisecond))"
    using n0 wn w1 w2 by (simp add: gd n_def[symmetric] Let_def min_def)
  finally show ?thesis .
qed

end
