(* ===== verification/Evidence_Report.thy ===== *)
theory Evidence_Report
  imports Job_Model Complex_Main
begin

text \<open>
  Reports and citations (\<open>internal/evidence/report.go\<close> and \<open>citation.go\<close>): the structural
  contract of a diagnosis report, its classification from the citations that support it,
  the size contract at the write boundary, and the validation of one citation against the
  snapshot it cites. Lengths are byte lengths, as Go's \<open>len\<close>; a \<open>float64\<close> confidence is a
  rational. \<open>json.Marshal\<close> and \<open>sha256\<close> are arguments of the functions that call them.
\<close>

section \<open>Data\<close>

datatype citation_status = CitationValid | CitationInvalid | CitationUnchecked

record citation =
  cit_id :: string
  cit_report_id :: string
  cit_evidence_id :: string
  cit_snapshot_id :: string
  cit_code_index_build_id :: int
  cit_file_path :: string
  cit_start_line :: int
  cit_end_line :: int
  cit_excerpt :: string
  cit_reason :: string
  cit_content_hash :: string
  cit_validation_status :: citation_status
  cit_validation_error :: string

record finding =
  fin_title :: string
  fin_reasoning :: string
  fin_citations :: "citation list"

datatype conclusion_kind =
  ConclusionRootCause | ConclusionInsufficientEvidence | ConclusionOther string

datatype report_status =
  ReportValid | ReportDegraded | ReportInsufficientEvidence | ReportInvalid

record diagnosis_report_data =
  dr_conclusion_kind :: conclusion_kind
  dr_summary :: string
  dr_root_cause :: string
  dr_findings :: "finding list"
  dr_recommended_checks :: "string list"
  dr_confidence :: rat
  dr_model_claimed_confidence :: "rat option"
  dr_confirmed_facts :: "string list"
  dr_limitations :: "string list"

record report =
  rep_id :: string
  rep_diagnosis_run_id :: string
  rep_attempt_id :: string
  rep_root_cause :: string
  rep_conclusion_kind :: string
  rep_report_status :: report_status
  rep_summary :: string
  rep_findings_json :: string
  rep_recommended_checks_json :: string
  rep_structured_payload_json :: string
  rep_raw_output :: string
  rep_parse_error :: string
  rep_limitations_json :: string
  rep_created_at :: time

record report_quality =
  rq_status :: report_status
  rq_finding_count :: int
  rq_supported_finding_count :: int
  rq_unsupported_finding_count :: int
  rq_valid_citation_count :: int
  rq_invalid_citation_count :: int
  rq_citation_coverage :: "rat option"

section \<open>Size contracts\<close>

definition MaxReportBytes :: int where
  "MaxReportBytes = 4 * 1024 * 1024"

definition ErrReportTooLarge :: go_error where
  "ErrReportTooLarge = Sentinel ''evidence.ErrReportTooLarge'' ''REPORT_TOO_LARGE''"

definition str_len :: "string \<Rightarrow> int" where
  "str_len s = int (length s)"

definition ValidateReportBytes :: "string \<Rightarrow> string \<Rightarrow> int \<Rightarrow> go_error + unit" where
  "ValidateReportBytes field val limit =
    (if str_len val > limit
     then Inl (Errorf (error_text ErrReportTooLarge @ '': '' @ field @ '' exceeds '' @ itoa limit @
            '' serialized bytes'') [ErrReportTooLarge])
     else Inr ())"

fun validate_fields :: "(string \<times> string) list \<Rightarrow> int \<Rightarrow> go_error + unit" where
  "validate_fields [] limit = Inr ()"
| "validate_fields ((field, val) # rest) limit =
    bindE (ValidateReportBytes field val limit) (\<lambda>_. validate_fields rest limit)"

text \<open>
  The fields are ranged over in the order of a Go map, which is unspecified: \<open>order\<close>
  permutes them, and only the field an error names depends on it.
\<close>

definition ValidateReportPersistence ::
  "((string \<times> string) list \<Rightarrow> (string \<times> string) list) \<Rightarrow> report option \<Rightarrow> go_error + unit" where
  "ValidateReportPersistence order report =
    (case report of
       None \<Rightarrow> Inl (Errorf ''report is required'' [])
     | Some r \<Rightarrow>
         bindE (validate_fields (order [(''findings_json'', rep_findings_json r),
             (''recommended_checks_json'', rep_recommended_checks_json r),
             (''limitations_json'', rep_limitations_json r),
             (''structured_payload_json'', rep_structured_payload_json r),
             (''raw_output'', rep_raw_output r)]) MaxReportBytes) (\<lambda>_.
           validate_fields (order [(''summary'', rep_summary r), (''root_cause'', rep_root_cause r),
             (''parse_error'', rep_parse_error r)]) 65535))"

section \<open>The structural contract\<close>

definition citation_oversized :: "citation \<Rightarrow> bool" where
  "citation_oversized c \<longleftrightarrow> str_len (cit_file_path c) > 512 \<or> str_len (cit_excerpt c) > 32 * 1024
    \<or> str_len (cit_reason c) > 2 * 1024"

fun validate_findings :: "finding list \<Rightarrow> go_error + unit" where
  "validate_findings [] = Inr ()"
| "validate_findings (f # fs) =
    (if trim_space (fin_title f) = '''' \<or> trim_space (fin_reasoning f) = ''''
     then Inl (Errorf ''finding title and reasoning are required'' [])
     else if str_len (fin_title f) > 2 * 1024 \<or> str_len (fin_reasoning f) > 8 * 1024
          \<or> length (fin_citations f) > 16
     then Inl (Errorf ''finding exceeds the configured limit'' [])
     else if list_ex citation_oversized (fin_citations f)
     then Inl (Errorf ''citation exceeds the configured limit'' [])
     else validate_findings fs)"

definition ValidateReportStructure ::
  "(diagnosis_report_data \<Rightarrow> go_error + string) \<Rightarrow> diagnosis_report_data option \<Rightarrow> go_error + unit" where
  "ValidateReportStructure marshal data =
    (case data of
       None \<Rightarrow> Inl (Errorf ''structured report is invalid'' [])
     | Some r \<Rightarrow>
       if dr_conclusion_kind r \<noteq> ConclusionRootCause
          \<and> dr_conclusion_kind r \<noteq> ConclusionInsufficientEvidence
       then Inl (Errorf ''conclusion_kind is invalid'' [])
       else if dr_conclusion_kind r = ConclusionInsufficientEvidence
          \<and> (dr_confirmed_facts r = [] \<or> dr_limitations r = [] \<or> dr_recommended_checks r = [])
       then Inl (Errorf ''insufficient evidence report needs confirmed facts, limitations, and next checks'' [])
       else if dr_conclusion_kind r \<noteq> ConclusionInsufficientEvidence
          \<and> (trim_space (dr_summary r) = '''' \<or> trim_space (dr_root_cause r) = '''' \<or> dr_findings r = [])
       then Inl (Errorf ''root cause report is missing required fields'' [])
       else if (case dr_model_claimed_confidence r of None \<Rightarrow> False | Some c \<Rightarrow> c < 0 \<or> c > 1)
       then Inl (Errorf ''model_claimed_confidence must be between 0 and 1'' [])
       else if str_len (dr_summary r) > 16 * 1024 \<or> str_len (dr_root_cause r) > 16 * 1024
       then Inl (Errorf ''report summary or root cause exceeds the configured limit'' [])
       else if length (dr_findings r) > 64 \<or> length (dr_recommended_checks r) > 32
          \<or> length (dr_confirmed_facts r) > 32 \<or> length (dr_limitations r) > 32
       then Inl (Errorf ''report contains too many items'' [])
       else if list_ex (\<lambda>v. str_len v > 8 * 1024)
          (dr_recommended_checks r @ dr_confirmed_facts r @ dr_limitations r @
            [dr_summary r, dr_root_cause r])
       then Inl (Errorf ''report field exceeds the configured limit'' [])
       else bindE (validate_findings (dr_findings r)) (\<lambda>_.
         case marshal r of
           Inl e \<Rightarrow> Inl (errorf_w ''serialize report'' e)
         | Inr serialized \<Rightarrow> ValidateReportBytes ''structured_report'' serialized MaxReportBytes))"

section \<open>Classification\<close>

definition empty_quality :: "report_status \<Rightarrow> report_quality" where
  "empty_quality st = \<lparr>rq_status = st, rq_finding_count = 0, rq_supported_finding_count = 0,
     rq_unsupported_finding_count = 0, rq_valid_citation_count = 0, rq_invalid_citation_count = 0,
     rq_citation_coverage = None\<rparr>"

text \<open>The inner loop over the citations of one finding.\<close>

fun count_citations :: "citation list \<Rightarrow> bool \<times> report_quality \<Rightarrow> bool \<times> report_quality" where
  "count_citations [] acc = acc"
| "count_citations (c # cs) (hasValid, q) =
    count_citations cs
      (case cit_validation_status c of
         CitationValid \<Rightarrow> (True, q\<lparr>rq_valid_citation_count := rq_valid_citation_count q + 1\<rparr>)
       | CitationInvalid \<Rightarrow> (hasValid, q\<lparr>rq_invalid_citation_count := rq_invalid_citation_count q + 1\<rparr>)
       | CitationUnchecked \<Rightarrow> (hasValid, q))"

fun count_findings :: "finding list \<Rightarrow> report_quality \<Rightarrow> report_quality" where
  "count_findings [] q = q"
| "count_findings (f # fs) q =
    count_findings fs
      (if fin_citations f = []
       then q\<lparr>rq_unsupported_finding_count := rq_unsupported_finding_count q + 1\<rparr>
       else case count_citations (fin_citations f) (False, q) of
         (hasValid, q') \<Rightarrow>
           if hasValid then q'\<lparr>rq_supported_finding_count := rq_supported_finding_count q' + 1\<rparr>
           else q'\<lparr>rq_unsupported_finding_count := rq_unsupported_finding_count q' + 1\<rparr>)"

definition ClassifyReport ::
  "(diagnosis_report_data \<Rightarrow> go_error + string) \<Rightarrow> diagnosis_report_data option \<Rightarrow> bool \<Rightarrow>
    report_quality \<times> go_error option" where
  "ClassifyReport marshal data structured =
    (case data of
       None \<Rightarrow> (empty_quality ReportInvalid, Some (Errorf ''structured report is invalid'' []))
     | Some r \<Rightarrow>
       if \<not> structured
       then (empty_quality ReportInvalid, Some (Errorf ''structured report is invalid'' []))
       else case ValidateReportStructure marshal data of
         Inl e \<Rightarrow> (empty_quality ReportInvalid, Some e)
       | Inr _ \<Rightarrow>
         if dr_conclusion_kind r = ConclusionInsufficientEvidence
         then (empty_quality ReportInsufficientEvidence, None)
         else
           let q0 = (empty_quality ReportValid)\<lparr>rq_finding_count := int (length (dr_findings r))\<rparr>;
               q1 = count_findings (dr_findings r) q0;
               q2 = (if rq_finding_count q1 > 0
                 then q1\<lparr>rq_citation_coverage :=
                   Some (of_int (rq_supported_finding_count q1) / of_int (rq_finding_count q1))\<rparr> else q1);
               q3 = (if rq_unsupported_finding_count q2 > 0 \<or> rq_invalid_citation_count q2 > 0
                 then q2\<lparr>rq_status := ReportDegraded\<rparr> else q2)
           in (q3, None))"

section \<open>Validation of a citation\<close>

text \<open>
  What the validator asks of the snapshot: the policy's verdict on a path, whether the
  file exists, and the lines of a range.
\<close>

record snapshot_view =
  sv_can_issue_evidence :: "string \<Rightarrow> bool"
  sv_file_exists :: "string \<Rightarrow> bool"
  sv_read_range :: "string \<Rightarrow> int \<Rightarrow> int \<Rightarrow> go_error + string"

text \<open>\<open>strings.ReplaceAll(s, "\r\n", "\n")\<close>.\<close>

fun crlf_to_lf :: "string \<Rightarrow> string" where
  "crlf_to_lf (a # b # s) =
    (if a = CHR 0x0D \<and> b = CHR 0x0A then CHR 0x0A # crlf_to_lf s else a # crlf_to_lf (b # s))"
| "crlf_to_lf s = s"

text \<open>\<open>strings.EqualFold\<close> against a hexadecimal string.\<close>

definition equal_fold :: "string \<Rightarrow> string \<Rightarrow> bool" where
  "equal_fold a b \<longleftrightarrow> to_lower a = to_lower b"

definition reject :: "citation \<Rightarrow> string \<Rightarrow> citation" where
  "reject c msg = c\<lparr>cit_validation_status := CitationInvalid, cit_validation_error := msg\<rparr>"

definition Validate :: "(string \<Rightarrow> string) \<Rightarrow> snapshot_view \<Rightarrow> string \<Rightarrow> citation \<Rightarrow> citation" where
  "Validate sha256_hex v snapshotID c =
    (if cit_snapshot_id c \<noteq> '''' \<and> cit_snapshot_id c \<noteq> snapshotID
     then reject c ''citation snapshot does not match diagnosis snapshot''
     else if cit_file_path c = '''' then reject c ''file_path is empty''
     else if cit_start_line c \<le> 0 \<or> cit_end_line c < cit_start_line c
     then reject c (''invalid line range: '' @ itoa (cit_start_line c) @ '' to '' @ itoa (cit_end_line c))
     else if \<not> sv_can_issue_evidence v (cit_file_path c)
     then reject c (''file '' @ cit_file_path c @ '' is excluded by snapshot policy'')
     else if \<not> sv_file_exists v (cit_file_path c)
     then reject c (''file '' @ cit_file_path c @ '' does not exist in snapshot'')
     else case sv_read_range v (cit_file_path c) (cit_start_line c) (cit_end_line c) of
       Inl e \<Rightarrow> reject c (''failed to read file lines: '' @ error_text e)
     | Inr actualContent \<Rightarrow>
         let hasContentHash = (cit_content_hash c \<noteq> '''');
             actualHash = sha256_hex actualContent
         in if cit_content_hash c \<noteq> '''' \<and> \<not> equal_fold (cit_content_hash c) actualHash
            then reject c ''content hash does not match actual file lines in snapshot''
            else
              let c' = c\<lparr>cit_content_hash := actualHash\<rparr>
              in if cit_excerpt c \<noteq> ''''
                 then if crlf_to_lf actualContent \<noteq> crlf_to_lf (cit_excerpt c)
                      then reject c' ''excerpt does not match actual file lines in snapshot''
                      else c'\<lparr>cit_validation_status := CitationValid, cit_validation_error := ''''\<rparr>
                 else if \<not> hasContentHash
                 then reject c' ''citation requires an exact excerpt or content hash''
                 else c'\<lparr>cit_validation_status := CitationValid, cit_validation_error := ''''\<rparr>)"

section \<open>Lemmas\<close>

lemma validate_fields_ok:
  "validate_fields fs limit = Inr () \<longleftrightarrow> (\<forall>(f, v) \<in> set fs. str_len v \<le> limit)"
  by (induction fs limit rule: validate_fields.induct) (auto simp: ValidateReportBytes_def)

lemma validate_fields_err:
  "validate_fields fs limit = Inl e \<Longrightarrow> errors_is e ErrReportTooLarge"
  by (induction fs limit rule: validate_fields.induct)
    (auto simp: ValidateReportBytes_def split: if_splits)

text \<open>What the counters count.\<close>

definition valid_in :: "citation list \<Rightarrow> nat" where
  "valid_in cs = length (filter (\<lambda>c. cit_validation_status c = CitationValid) cs)"

definition invalid_in :: "citation list \<Rightarrow> nat" where
  "invalid_in cs = length (filter (\<lambda>c. cit_validation_status c = CitationInvalid) cs)"

definition supported :: "finding \<Rightarrow> bool" where
  "supported f \<longleftrightarrow> 0 < valid_in (fin_citations f)"

lemma count_citations_eq:
  "count_citations cs (h, q) = (h \<or> 0 < valid_in cs,
    q\<lparr>rq_valid_citation_count := rq_valid_citation_count q + int (valid_in cs),
      rq_invalid_citation_count := rq_invalid_citation_count q + int (invalid_in cs)\<rparr>)"
  by (induction cs arbitrary: h q) (auto simp: valid_in_def invalid_in_def split: citation_status.split)

definition all_citations :: "finding list \<Rightarrow> citation list" where
  "all_citations fs = concat (map fin_citations fs)"

lemma all_citations_simps [simp]:
  "all_citations [] = []" "all_citations (f # fs) = fin_citations f @ all_citations fs"
  by (simp_all add: all_citations_def)

lemma in_append [simp]:
  "valid_in (xs @ ys) = valid_in xs + valid_in ys" "valid_in [] = 0"
  "invalid_in (xs @ ys) = invalid_in xs + invalid_in ys" "invalid_in [] = 0"
  by (simp_all add: valid_in_def invalid_in_def)

lemma count_findings_eq:
  "count_findings fs q = q\<lparr>
     rq_supported_finding_count := rq_supported_finding_count q + int (length (filter supported fs)),
     rq_unsupported_finding_count := rq_unsupported_finding_count q + int (length (filter (\<lambda>f. \<not> supported f) fs)),
     rq_valid_citation_count := rq_valid_citation_count q + int (valid_in (all_citations fs)),
     rq_invalid_citation_count := rq_invalid_citation_count q + int (invalid_in (all_citations fs))\<rparr>"
  by (induction fs arbitrary: q) (auto simp: count_citations_eq supported_def)

end
