(* ===== verification/Schema.thy ===== *)
theory Schema
  imports Complex_Main Job_Model Evidence_Report
begin

text \<open>
  The tables the stores share, as the Go models declare them
  (\<open>internal/jobs/model.go\<close>, \<open>internal/snapshot/model.go\<close>,
  \<open>internal/codeintel/model/build.go\<close> and \<open>model.go\<close>, \<open>internal/revision/model.go\<close>,
  \<open>internal/diagnosis/model.go\<close> and \<open>attempt.go\<close>), and the database that holds them.
  A nullable text column that the Go model reads into a plain string is a string, with
  the empty string for \<open>NULL\<close>. The columns no modelled operation reads or writes
  (timings, the sizes of columns) are left out.
\<close>

section \<open>States of the business objects\<close>

datatype snapshot_status = SnapCreated | SnapMaterializing | SnapReady | SnapFailed

fun snapshot_status_text :: "snapshot_status \<Rightarrow> string" where
  "snapshot_status_text SnapCreated = ''CREATED''"
| "snapshot_status_text SnapMaterializing = ''MATERIALIZING''"
| "snapshot_status_text SnapReady = ''READY''"
| "snapshot_status_text SnapFailed = ''FAILED''"

datatype build_status =
  BuildStatusCreated | BuildStatusBuilding | BuildStatusReady | BuildStatusFailed

fun build_status_text :: "build_status \<Rightarrow> string" where
  "build_status_text BuildStatusCreated = ''CREATED''"
| "build_status_text BuildStatusBuilding = ''BUILDING''"
| "build_status_text BuildStatusReady = ''READY''"
| "build_status_text BuildStatusFailed = ''FAILED''"

datatype revision_status = RevPreparing | RevReady | RevFailed

fun revision_status_text :: "revision_status \<Rightarrow> string" where
  "revision_status_text RevPreparing = ''PREPARING''"
| "revision_status_text RevReady = ''READY''"
| "revision_status_text RevFailed = ''FAILED''"

datatype revision_stage =
  StageMaterializing | StageBuildingCode | StageBuildingSearch | StageReady | StageFailed

fun revision_stage_text :: "revision_stage \<Rightarrow> string" where
  "revision_stage_text StageMaterializing = ''MATERIALIZING''"
| "revision_stage_text StageBuildingCode = ''BUILDING_CODE_INDEX''"
| "revision_stage_text StageBuildingSearch = ''BUILDING_RETRIEVAL''"
| "revision_stage_text StageReady = ''READY''"
| "revision_stage_text StageFailed = ''FAILED''"

datatype run_status = RunQueued | RunRunning | RunSucceeded | RunFailed | RunCancelled

fun run_status_text :: "run_status \<Rightarrow> string" where
  "run_status_text RunQueued = ''QUEUED''"
| "run_status_text RunRunning = ''RUNNING''"
| "run_status_text RunSucceeded = ''SUCCEEDED''"
| "run_status_text RunFailed = ''FAILED''"
| "run_status_text RunCancelled = ''CANCELLED''"

datatype attempt_status =
    AttemptStatusRunning | AttemptStatusSucceeded | AttemptStatusFailedRetryable
  | AttemptStatusFailedTerminal | AttemptStatusCancelled | AttemptStatusAbandoned
  | AttemptStatusOther string

fun attempt_status_text :: "attempt_status \<Rightarrow> string" where
  "attempt_status_text AttemptStatusRunning = ''RUNNING''"
| "attempt_status_text AttemptStatusSucceeded = ''SUCCEEDED''"
| "attempt_status_text AttemptStatusFailedRetryable = ''FAILED_RETRYABLE''"
| "attempt_status_text AttemptStatusFailedTerminal = ''FAILED_TERMINAL''"
| "attempt_status_text AttemptStatusCancelled = ''CANCELLED''"
| "attempt_status_text AttemptStatusAbandoned = ''ABANDONED''"
| "attempt_status_text (AttemptStatusOther s) = s"

datatype checkpoint_kind =
    CheckpointKindNone | CheckpointKindFinalValid | CheckpointKindFinalInvalid
  | CheckpointKindPartialProviderFailure | CheckpointKindLegacyUntyped | CheckpointKindOther string

section \<open>Rows\<close>

record repository_snapshot =
  snap_id :: string
  snap_repository_id :: string
  snap_analysis_revision_id :: string
  snap_commit_sha :: string
  snap_ref :: string
  snap_requested_ref :: string
  snap_materialized_path :: string
  snap_content_hash :: string
  snap_status :: snapshot_status
  snap_file_count :: int
  snap_total_bytes :: int
  snap_error_code :: string
  snap_created_at :: time
  snap_ready_at :: "time option"

record code_index_build =
  cib_id :: int
  cib_snapshot_id :: string
  cib_analysis_revision_id :: string
  cib_parser_version :: string
  cib_analyzer_version :: string
  cib_symbol_schema_version :: string
  cib_build_context_hash :: string
  cib_module_path :: string
  cib_goos :: string
  cib_goarch :: string
  cib_build_tags_hash :: string
  cib_build_tags_json :: string
  cib_status :: build_status
  cib_files_total :: int
  cib_files_parsed :: int
  cib_files_failed :: int
  cib_packages_total :: int
  cib_packages_typechecked :: int
  cib_packages_failed :: int
  cib_symbol_count :: int
  cib_semantic_relation_count :: int
  cib_syntactic_relation_count :: int
  cib_heuristic_relation_count :: int
  cib_unresolved_relation_count :: int
  cib_symlinks_skipped :: int
  cib_quality_warnings_json :: string
  cib_error_code :: string
  cib_created_at :: time
  cib_ready_at :: "time option"

record retrieval_build =
  rb_id :: int
  rb_code_index_build_id :: int
  rb_analysis_revision_id :: string
  rb_strategy :: string
  rb_retrieval_version :: string
  rb_tokenizer_version :: string
  rb_config_hash :: string
  rb_artifact_path :: string
  rb_artifact_hash :: string
  rb_document_count :: int
  rb_status :: build_status
  rb_error_code :: string
  rb_created_at :: time
  rb_ready_at :: "time option"

record analysis_revision =
  rev_id :: string
  rev_repository_id :: string
  rev_source_ref :: string
  rev_commit_sha :: string
  rev_pipeline_version :: string
  rev_pipeline_fingerprint :: string
  rev_snapshot_id :: string
  rev_code_index_build_id :: int
  rev_retrieval_build_id :: int
  rev_status :: revision_status
  rev_stage :: revision_stage
  rev_error_code :: string
  rev_error_message :: string
  rev_execution_generation :: int
  rev_version :: int
  rev_created_at :: time
  rev_updated_at :: time
  rev_ready_at :: "time option"

record diagnosis_run =
  run_id :: string
  run_user_id :: string
  run_repository_id :: string
  run_analysis_revision_id :: string
  run_snapshot_id :: string
  run_code_index_build_id :: int
  run_retrieval_build_id :: int
  run_issue_title :: string
  run_issue_description :: string
  run_error_log :: string
  run_status :: run_status
  run_cancel_requested :: bool
  run_provider_endpoint_fingerprint :: string
  run_provider_config_fingerprint :: string
  run_normalized_base_url :: string
  run_model_name :: string
  run_prompt_version :: string
  run_agent_version :: string
  run_agent_config_hash :: string
  run_max_agent_rounds :: int
  run_max_tool_calls :: int
  run_max_search_calls :: int
  run_max_repeat_calls :: int
  run_max_evidence_packet_bytes :: int
  run_max_tool_result_bytes :: int
  run_finalization_turns :: int
  run_max_output_tokens :: int
  run_reasoning_effort :: string
  run_provider_timeout_seconds :: int
  run_provider_retry_attempts :: int
  run_pipeline_fingerprint :: string
  run_temperature :: rat
  run_idempotency_key :: string
  run_idempotency_request_hash :: string
  run_final_attempt_id :: string
  run_version :: int
  run_created_at :: time

record diagnosis_attempt =
  att_id :: string
  att_diagnosis_run_id :: string
  att_execution_generation :: int
  att_attempt_no :: int
  att_worker_id :: string
  att_status :: attempt_status
  att_started_at :: time
  att_heartbeat_at :: time
  att_deadline_at :: time
  att_finished_at :: "time option"
  att_error_code :: string
  att_error_message :: string
  att_retryable :: bool
  att_prompt_tokens :: int
  att_completion_tokens :: int
  att_tool_calls :: int
  att_cached_prompt_tokens :: int
  att_reasoning_tokens :: int
  att_agent_rounds :: int
  att_search_calls :: int
  att_provider_calls :: int
  att_finish_reason :: string
  att_raw_output :: string
  att_parsed_report_json :: string
  att_parsed_report_draft_json :: string
  att_checkpoint_kind :: checkpoint_kind
  att_checkpoint_error_code :: string
  att_checkpoint_error_message :: string
  att_checkpoint_prompt_version :: string
  att_checkpoint_agent_version :: string
  att_structured_output_valid :: bool
  att_provider_completed_at :: "time option"
  att_provider_dispatch_unresolved :: bool
  att_provider_dispatch_success_seen :: bool
  att_finalization_reason :: string
  att_created_at :: time

text \<open>A registered repository (\<open>internal/repo/model.go\<close>), as far as the pipeline reads it.\<close>

record repository =
  repo_id :: string
  repo_user_id :: string
  repo_name :: string
  repo_git_url :: string
  repo_default_ref :: string

text \<open>
  The rows of a code index. A confidence is a finite \<open>float64\<close>, which is a rational number.
\<close>

datatype symbol_kind =
  SymbolKindFunction | SymbolKindMethod | SymbolKindType | SymbolKindInterface

datatype relation_type =
  RelationTypeReference | RelationTypeCallCandidate | RelationTypeTestRelation

datatype resolution_kind =
    ResolutionKindSemantic | ResolutionKindSyntactic | ResolutionKindHeuristic
  | ResolutionKindUnresolved

datatype test_relation_reason =
    TestReasonDirectSemantic | TestReasonDirectSyntactic | TestReasonNameMatch
  | TestReasonSamePackage

fun test_relation_reason_text :: "test_relation_reason \<Rightarrow> string" where
  "test_relation_reason_text TestReasonDirectSemantic = ''DIRECT_SEMANTIC_USAGE''"
| "test_relation_reason_text TestReasonDirectSyntactic = ''DIRECT_SYNTACTIC_USAGE''"
| "test_relation_reason_text TestReasonNameMatch = ''NAME_MATCH''"
| "test_relation_reason_text TestReasonSamePackage = ''SAME_PACKAGE''"

record code_file =
  cf_id :: int
  cf_code_index_build_id :: int
  cf_path :: string
  cf_package_path :: string
  cf_package_name :: string
  cf_content_hash :: string
  cf_line_count :: int
  cf_size_bytes :: int
  cf_is_test :: bool
  cf_included_by_build_context :: bool
  cf_parse_status :: string
  cf_parse_error :: string
  cf_created_at :: time

record symbol =
  sym_id :: int
  sym_code_index_build_id :: int
  sym_file_id :: int
  sym_file_path :: string
  sym_key_raw :: string
  sym_key_hash :: string
  sym_module_path :: string
  sym_package_path :: string
  sym_package_name :: string
  sym_kind :: symbol_kind
  sym_name :: string
  sym_qualified_name :: string
  sym_receiver_raw :: string
  sym_receiver_canonical :: string
  sym_signature :: string
  sym_doc :: string
  sym_start_line :: int
  sym_start_col :: int
  sym_end_line :: int
  sym_end_col :: int
  sym_exported :: bool
  sym_content_hash :: string

record symbol_relation =
  rel_id :: int
  rel_code_index_build_id :: int
  rel_from_symbol_id :: "int option"
  rel_from_symbol_key_hash :: string
  rel_to_symbol_id :: "int option"
  rel_to_symbol_key_hash :: string
  rel_type :: relation_type
  rel_resolution_kind :: resolution_kind
  rel_confidence :: rat
  rel_reason_code :: string
  rel_reason_detail :: string
  rel_target_name :: string
  rel_target_package_path :: string
  rel_target_qualified_name :: string
  rel_file_path :: string
  rel_file_id :: int
  rel_line :: int
  rel_column :: int

text \<open>A source range shown to one attempt (\<open>internal/evidence/item.go\<close>).\<close>

record attempt_evidence_item =
  ev_id :: string
  ev_attempt_id :: string
  ev_diagnosis_run_id :: string
  ev_snapshot_id :: string
  ev_code_index_build_id :: int
  ev_source_kind :: string
  ev_source_step_seq :: "int option"
  ev_retrieval_chunk_id :: string
  ev_file_path :: string
  ev_start_line :: int
  ev_end_line :: int
  ev_total_lines :: int
  ev_raw_content_hash :: string
  ev_display_excerpt :: string
  ev_redaction_applied :: bool
  ev_truncated :: bool
  ev_created_at :: time

section \<open>The database\<close>

text \<open>
  The \<open>next_\<close> fields are the \<open>AUTO_INCREMENT\<close> counters of the tables with integer keys.
\<close>

record db =
  analysis_jobs :: "analysis_job list"
  repository_snapshots :: "repository_snapshot list"
  code_index_builds :: "code_index_build list"
  retrieval_builds :: "retrieval_build list"
  analysis_revisions :: "analysis_revision list"
  diagnosis_runs :: "diagnosis_run list"
  diagnosis_attempts :: "diagnosis_attempt list"
  repositories :: "repository list"
  reports :: "report list"
  citations :: "citation list"
  attempt_evidence_items :: "attempt_evidence_item list"
  code_files :: "code_file list"
  symbols :: "symbol list"
  symbol_relations :: "symbol_relation list"
  next_job_id :: int
  next_code_index_build_id :: int
  next_retrieval_build_id :: int
  next_code_file_id :: int
  next_symbol_id :: int
  next_symbol_relation_id :: int

text \<open>\<open>UPDATE table SET f WHERE P\<close>, one per table.\<close>

definition set_jobs :: "(analysis_job \<Rightarrow> bool) \<Rightarrow> (analysis_job \<Rightarrow> analysis_job) \<Rightarrow> db \<Rightarrow> db" where
  "set_jobs P f d = d\<lparr>analysis_jobs := sql_set P f (analysis_jobs d)\<rparr>"

definition set_snapshots :: "(repository_snapshot \<Rightarrow> bool) \<Rightarrow> (repository_snapshot \<Rightarrow> repository_snapshot) \<Rightarrow> db \<Rightarrow> db" where
  "set_snapshots P f d = d\<lparr>repository_snapshots := sql_set P f (repository_snapshots d)\<rparr>"

definition set_code_builds :: "(code_index_build \<Rightarrow> bool) \<Rightarrow> (code_index_build \<Rightarrow> code_index_build) \<Rightarrow> db \<Rightarrow> db" where
  "set_code_builds P f d = d\<lparr>code_index_builds := sql_set P f (code_index_builds d)\<rparr>"

definition set_retrieval_builds :: "(retrieval_build \<Rightarrow> bool) \<Rightarrow> (retrieval_build \<Rightarrow> retrieval_build) \<Rightarrow> db \<Rightarrow> db" where
  "set_retrieval_builds P f d = d\<lparr>retrieval_builds := sql_set P f (retrieval_builds d)\<rparr>"

definition set_revisions :: "(analysis_revision \<Rightarrow> bool) \<Rightarrow> (analysis_revision \<Rightarrow> analysis_revision) \<Rightarrow> db \<Rightarrow> db" where
  "set_revisions P f d = d\<lparr>analysis_revisions := sql_set P f (analysis_revisions d)\<rparr>"

definition set_runs :: "(diagnosis_run \<Rightarrow> bool) \<Rightarrow> (diagnosis_run \<Rightarrow> diagnosis_run) \<Rightarrow> db \<Rightarrow> db" where
  "set_runs P f d = d\<lparr>diagnosis_runs := sql_set P f (diagnosis_runs d)\<rparr>"

definition set_attempts :: "(diagnosis_attempt \<Rightarrow> bool) \<Rightarrow> (diagnosis_attempt \<Rightarrow> diagnosis_attempt) \<Rightarrow> db \<Rightarrow> db" where
  "set_attempts P f d = d\<lparr>diagnosis_attempts := sql_set P f (diagnosis_attempts d)\<rparr>"

lemmas set_table_defs = set_jobs_def set_snapshots_def set_code_builds_def
  set_retrieval_builds_def set_revisions_def set_runs_def set_attempts_def

text \<open>Writing one table leaves the others alone.\<close>

lemma tables_set_jobs [simp]:
  "analysis_jobs (set_jobs P f d) = sql_set P f (analysis_jobs d)"
  "repository_snapshots (set_jobs P f d) = repository_snapshots d"
  "code_index_builds (set_jobs P f d) = code_index_builds d"
  "retrieval_builds (set_jobs P f d) = retrieval_builds d"
  "analysis_revisions (set_jobs P f d) = analysis_revisions d"
  "diagnosis_runs (set_jobs P f d) = diagnosis_runs d"
  "diagnosis_attempts (set_jobs P f d) = diagnosis_attempts d"
  "next_job_id (set_jobs P f d) = next_job_id d"
  by (simp_all add: set_jobs_def)

lemma jobs_other_tables [simp]:
  "analysis_jobs (set_snapshots P1 f1 d) = analysis_jobs d"
  "analysis_jobs (set_code_builds P2 f2 d) = analysis_jobs d"
  "analysis_jobs (set_retrieval_builds P3 f3 d) = analysis_jobs d"
  "analysis_jobs (set_revisions P4 f4 d) = analysis_jobs d"
  "analysis_jobs (set_runs P5 f5 d) = analysis_jobs d"
  "analysis_jobs (set_attempts P6 f6 d) = analysis_jobs d"
  "next_job_id (set_snapshots P1 f1 d) = next_job_id d"
  "next_job_id (set_code_builds P2 f2 d) = next_job_id d"
  "next_job_id (set_retrieval_builds P3 f3 d) = next_job_id d"
  "next_job_id (set_revisions P4 f4 d) = next_job_id d"
  "next_job_id (set_runs P5 f5 d) = next_job_id d"
  "next_job_id (set_attempts P6 f6 d) = next_job_id d"
  by (simp_all add: set_table_defs)

lemma runs_tables [simp]:
  "diagnosis_runs (set_runs P f d) = sql_set P f (diagnosis_runs d)"
  "diagnosis_runs (set_attempts P1 f1 d) = diagnosis_runs d"
  "diagnosis_attempts (set_attempts P1 f1 d) = sql_set P1 f1 (diagnosis_attempts d)"
  "diagnosis_attempts (set_runs P f d) = diagnosis_attempts d"
  "diagnosis_runs (set_revisions P4 f4 d) = diagnosis_runs d"
  "diagnosis_attempts (set_revisions P4 f4 d) = diagnosis_attempts d"
  "diagnosis_runs (set_snapshots P5 f5 d) = diagnosis_runs d"
  "diagnosis_attempts (set_snapshots P5 f5 d) = diagnosis_attempts d"
  "diagnosis_runs (set_code_builds P6 f6 d) = diagnosis_runs d"
  "diagnosis_attempts (set_code_builds P6 f6 d) = diagnosis_attempts d"
  "diagnosis_runs (set_retrieval_builds P7 f7 d) = diagnosis_runs d"
  "diagnosis_attempts (set_retrieval_builds P7 f7 d) = diagnosis_attempts d"
  by (simp_all add: set_table_defs)

lemma pipeline_tables [simp]:
  "repository_snapshots (set_snapshots P f d) = sql_set P f (repository_snapshots d)"
  "code_index_builds (set_code_builds P1 f1 d) = sql_set P1 f1 (code_index_builds d)"
  "retrieval_builds (set_retrieval_builds P2 f2 d) = sql_set P2 f2 (retrieval_builds d)"
  "analysis_revisions (set_revisions P3 f3 d) = sql_set P3 f3 (analysis_revisions d)"
  "repository_snapshots (set_code_builds P1 f1 d) = repository_snapshots d"
  "repository_snapshots (set_retrieval_builds P2 f2 d) = repository_snapshots d"
  "repository_snapshots (set_revisions P3 f3 d) = repository_snapshots d"
  "repository_snapshots (set_runs P4 f4 d) = repository_snapshots d"
  "repository_snapshots (set_attempts P5 f5 d) = repository_snapshots d"
  "code_index_builds (set_snapshots P f d) = code_index_builds d"
  "code_index_builds (set_retrieval_builds P2 f2 d) = code_index_builds d"
  "code_index_builds (set_revisions P3 f3 d) = code_index_builds d"
  "code_index_builds (set_runs P4 f4 d) = code_index_builds d"
  "code_index_builds (set_attempts P5 f5 d) = code_index_builds d"
  "retrieval_builds (set_snapshots P f d) = retrieval_builds d"
  "retrieval_builds (set_code_builds P1 f1 d) = retrieval_builds d"
  "retrieval_builds (set_revisions P3 f3 d) = retrieval_builds d"
  "retrieval_builds (set_runs P4 f4 d) = retrieval_builds d"
  "retrieval_builds (set_attempts P5 f5 d) = retrieval_builds d"
  "analysis_revisions (set_snapshots P f d) = analysis_revisions d"
  "analysis_revisions (set_code_builds P1 f1 d) = analysis_revisions d"
  "analysis_revisions (set_retrieval_builds P2 f2 d) = analysis_revisions d"
  "analysis_revisions (set_runs P4 f4 d) = analysis_revisions d"
  "analysis_revisions (set_attempts P5 f5 d) = analysis_revisions d"
  by (simp_all add: set_table_defs)

lemma report_tables [simp]:
  "reports (set_jobs P f d) = reports d" "citations (set_jobs P f d) = citations d"
  "reports (set_runs P1 f1 d) = reports d" "citations (set_runs P1 f1 d) = citations d"
  "reports (set_attempts P2 f2 d) = reports d" "citations (set_attempts P2 f2 d) = citations d"
  by (simp_all add: set_table_defs)

text \<open>The row of a job.\<close>

definition job_of :: "db \<Rightarrow> int \<Rightarrow> analysis_job option" where
  "job_of d i = by_key job_id i (analysis_jobs d)"

lemma job_of_set_jobs:
  assumes "\<And>r. P r \<Longrightarrow> job_id (f r) = job_id r"
  shows "job_of (set_jobs P f d) i = map_option (\<lambda>r. if P r then f r else r) (job_of d i)"
  unfolding job_of_def tables_set_jobs by (rule by_key_sql_set) (rule assms)

lemma job_of_other_tables [simp]:
  "job_of (set_snapshots P1 f1 d) i = job_of d i"
  "job_of (set_code_builds P2 f2 d) i = job_of d i"
  "job_of (set_retrieval_builds P3 f3 d) i = job_of d i"
  "job_of (set_revisions P4 f4 d) i = job_of d i"
  "job_of (set_runs P5 f5 d) i = job_of d i"
  "job_of (set_attempts P6 f6 d) i = job_of d i"
  by (simp_all add: job_of_def)

end
