(* ===== verification/Job_Store.thy ===== *)
theory Job_Store
  imports Schema
begin

text \<open>
  The operations of \<open>internal/jobs/store.go\<close> on the database of \<open>Schema\<close>, each with the
  instant \<open>now\<close> it reads from the clock. SQL that the driver cannot execute (a lost
  connection, a missing table of an isolated fixture) is not part of a run of an operation:
  such a transaction is rolled back and the caller sees an error, which the worker model
  accounts for. An operation that returns an error leaves the database unchanged.

  A statement's number of affected rows is the number of rows its \<open>WHERE\<close> selects: every
  statement here that inspects the number changes a column of each row it selects.
\<close>

section \<open>Creation and lookup\<close>

definition DuplicateKey :: go_error where
  "DuplicateKey = Sentinel ''sql.DuplicateKey'' ''duplicate entry for a unique key''"

definition GormErrRecordNotFound :: go_error where
  "GormErrRecordNotFound = Sentinel ''gorm.ErrRecordNotFound'' ''record not found''"

definition job_defaults :: "time \<Rightarrow> analysis_job \<Rightarrow> analysis_job" where
  "job_defaults now job = job\<lparr>
     job_status := (if job_status job = StatusOther '''' then StatusPending else job_status job),
     job_execution_generation :=
       (if job_execution_generation job \<le> 0 then 1 else job_execution_generation job),
     job_max_attempts := (if job_max_attempts job \<le> 0 then 3 else job_max_attempts job),
     job_next_run_at := (if job_next_run_at job = 0 then now else job_next_run_at job),
     job_created_at := now, job_updated_at := now\<rparr>"

text \<open>The row the \<open>INSERT\<close> writes: the named columns, every other column at its default.\<close>

definition insert_job_row :: "int \<Rightarrow> analysis_job \<Rightarrow> analysis_job" where
  "insert_job_row i job = \<lparr>
     job_id = i, job_type = job_type job, job_resource_id = job_resource_id job,
     job_status = job_status job, job_execution_generation = job_execution_generation job,
     job_terminal_reason = None, job_attempt_count = job_attempt_count job,
     job_execution_started = False, job_max_attempts = job_max_attempts job,
     job_next_run_at = job_next_run_at job, job_worker_id = None, job_claim_token = None,
     job_lease_until = None, job_cancel_requested = job_cancel_requested job,
     job_last_error_class = None, job_last_error_code = None, job_last_error_message = None,
     job_created_at = job_created_at job, job_updated_at = job_updated_at job,
     job_finished_at = None\<rparr>"

definition CreateJobTx :: "time \<Rightarrow> analysis_job \<Rightarrow> db \<Rightarrow> go_error + analysis_job \<times> db" where
  "CreateJobTx now job0 d =
    (let job = job_defaults now job0 in
     if list_ex (\<lambda>r. job_type r = job_type job \<and> job_resource_id r = job_resource_id job)
          (analysis_jobs d)
     then Inl (errorf_w ''failed inserting analysis_job'' DuplicateKey)
     else let i = next_job_id d in
       Inr (job\<lparr>job_id := i\<rparr>,
            d\<lparr>analysis_jobs := analysis_jobs d @ [insert_job_row i job], next_job_id := i + 1\<rparr>))"

definition CreateJob :: "time \<Rightarrow> analysis_job \<Rightarrow> db \<Rightarrow> (go_error + analysis_job) \<times> db" where
  "CreateJob now job = run_tx (CreateJobTx now job)"

definition GetJobByID :: "int \<Rightarrow> db \<Rightarrow> go_error + analysis_job" where
  "GetJobByID i d = (case job_of d i of None \<Rightarrow> Inl SqlErrNoRows | Some r \<Rightarrow> Inr r)"

definition GetJobByResource :: "job_type \<Rightarrow> string \<Rightarrow> db \<Rightarrow> go_error + analysis_job" where
  "GetJobByResource jobType resourceID d =
    (case find (\<lambda>r. job_type r = jobType \<and> job_resource_id r = resourceID) (analysis_jobs d) of
       None \<Rightarrow> Inl SqlErrNoRows | Some r \<Rightarrow> Inr r)"

section \<open>Claiming\<close>

text \<open>
  \<open>locked\<close> are the rows another transaction holds, which \<open>FOR UPDATE SKIP LOCKED\<close> passes
  over (none under SQLite). The claim tokens come from \<open>uuid.New\<close>, an argument of the
  operation: \<open>tok k\<close> is the token drawn for the \<open>k\<close>-th candidate.
\<close>

definition claimable :: "(int \<Rightarrow> bool) \<Rightarrow> time \<Rightarrow> analysis_job \<Rightarrow> bool" where
  "claimable locked now r \<longleftrightarrow>
    (job_status r = StatusPending \<or> job_status r = StatusRetryWait)
    \<and> job_next_run_at r \<le> now \<and> \<not> locked (job_id r)"

definition claim_candidates :: "(int \<Rightarrow> bool) \<Rightarrow> time \<Rightarrow> int \<Rightarrow> db \<Rightarrow> analysis_job list" where
  "claim_candidates locked now batchSize d =
    sql_limit batchSize (sort_key job_id (filter (claimable locked now) (analysis_jobs d)))"

definition claim_row :: "string \<Rightarrow> string \<Rightarrow> time \<Rightarrow> time \<Rightarrow> analysis_job \<Rightarrow> analysis_job" where
  "claim_row workerID claimToken leaseUntil now r = r\<lparr>
     job_status := StatusRunning, job_worker_id := Some workerID,
     job_claim_token := Some claimToken, job_lease_until := Some leaseUntil,
     job_execution_started := False, job_updated_at := now\<rparr>"

fun claim_updates :: "(nat \<Rightarrow> string) \<Rightarrow> nat \<Rightarrow> string \<Rightarrow> time \<Rightarrow> time \<Rightarrow> analysis_job list \<Rightarrow> db \<Rightarrow> db" where
  "claim_updates tok k workerID leaseUntil now [] d = d"
| "claim_updates tok k workerID leaseUntil now (c # cs) d =
     claim_updates tok (Suc k) workerID leaseUntil now cs
       (set_jobs (\<lambda>r. job_id r = job_id c) (claim_row workerID (tok k) leaseUntil now) d)"

definition claimed_job :: "string \<Rightarrow> string \<Rightarrow> time \<Rightarrow> time \<Rightarrow> analysis_job \<Rightarrow> analysis_job" where
  "claimed_job workerID claimToken leaseUntil now c = \<lparr>
     job_id = job_id c, job_type = job_type c, job_resource_id = job_resource_id c,
     job_status = StatusRunning, job_execution_generation = job_execution_generation c,
     job_terminal_reason = None, job_attempt_count = job_attempt_count c,
     job_execution_started = False, job_max_attempts = job_max_attempts c,
     job_next_run_at = now, job_worker_id = Some workerID, job_claim_token = Some claimToken,
     job_lease_until = Some leaseUntil, job_cancel_requested = job_cancel_requested c,
     job_last_error_class = None, job_last_error_code = None, job_last_error_message = None,
     job_created_at = 0, job_updated_at = now, job_finished_at = None\<rparr>"

fun claimed_jobs :: "(nat \<Rightarrow> string) \<Rightarrow> nat \<Rightarrow> string \<Rightarrow> time \<Rightarrow> time \<Rightarrow> analysis_job list \<Rightarrow> analysis_job list" where
  "claimed_jobs tok k workerID leaseUntil now [] = []"
| "claimed_jobs tok k workerID leaseUntil now (c # cs) =
     claimed_job workerID (tok k) leaseUntil now c # claimed_jobs tok (Suc k) workerID leaseUntil now cs"

definition ClaimJobs ::
  "(int \<Rightarrow> bool) \<Rightarrow> (nat \<Rightarrow> string) \<Rightarrow> time \<Rightarrow> string \<Rightarrow> int \<Rightarrow> duration \<Rightarrow> db \<Rightarrow> analysis_job list \<times> db" where
  "ClaimJobs locked tok now workerID batchSize leaseDuration d =
    (let cs = claim_candidates locked now batchSize d; leaseUntil = now + leaseDuration
     in (claimed_jobs tok 0 workerID leaseUntil now cs,
         claim_updates tok 0 workerID leaseUntil now cs d))"

section \<open>Starting, returning and renewing a claim\<close>

text \<open>\<open>liveLeasePredicate\<close>: \<open>lease_until\<close> is set and later than the database clock.\<close>

definition liveLeasePredicate :: "time \<Rightarrow> analysis_job \<Rightarrow> bool" where
  "liveLeasePredicate now r \<longleftrightarrow> (case job_lease_until r of None \<Rightarrow> False | Some t \<Rightarrow> t > now)"

definition claimed_by :: "int \<Rightarrow> string \<Rightarrow> string \<Rightarrow> analysis_job \<Rightarrow> bool" where
  "claimed_by jobID workerID claimToken r \<longleftrightarrow>
    job_id r = jobID \<and> job_status r = StatusRunning
    \<and> job_worker_id r = Some workerID \<and> job_claim_token r = Some claimToken"

definition MarkExecutionStartedTx ::
  "time \<Rightarrow> int \<Rightarrow> string \<Rightarrow> string \<Rightarrow> int \<Rightarrow> db \<Rightarrow> go_error + int \<times> db" where
  "MarkExecutionStartedTx now jobID workerID claimToken executionGeneration d =
    (let P = (\<lambda>r. claimed_by jobID workerID claimToken r
                \<and> job_execution_generation r = executionGeneration
                \<and> \<not> job_execution_started r \<and> liveLeasePredicate now r);
         rowsAffected = sql_count P (analysis_jobs d);
         d' = set_jobs P (\<lambda>r. r\<lparr>job_execution_started := True,
                job_attempt_count := job_attempt_count r + 1, job_updated_at := now\<rparr>) d
     in if rowsAffected > 1
        then Inl (Errorf (''execution-start transition for job '' @ itoa jobID @ '' affected '' @
               itoa (int rowsAffected) @ '' rows'') [])
        else
          (case find (\<lambda>r. claimed_by jobID workerID claimToken r
                  \<and> job_execution_generation r = executionGeneration
                  \<and> job_execution_started r \<and> liveLeasePredicate now r) (analysis_jobs d') of
             None \<Rightarrow> Inl ErrOwnershipLost
           | Some r \<Rightarrow> Inr (job_attempt_count r, d')))"

definition MarkExecutionStarted ::
  "time \<Rightarrow> int \<Rightarrow> string \<Rightarrow> string \<Rightarrow> int \<Rightarrow> db \<Rightarrow> (go_error + int) \<times> db" where
  "MarkExecutionStarted now jobID workerID claimToken gen =
    run_tx (MarkExecutionStartedTx now jobID workerID claimToken gen)"

definition ReturnUndispatchedClaim ::
  "time \<Rightarrow> int \<Rightarrow> string \<Rightarrow> string \<Rightarrow> int \<Rightarrow> db \<Rightarrow> (go_error + unit) \<times> db" where
  "ReturnUndispatchedClaim now jobID workerID claimToken executionGeneration d =
    (let P = (\<lambda>r. claimed_by jobID workerID claimToken r
                \<and> job_execution_generation r = executionGeneration \<and> \<not> job_execution_started r);
         d' = set_jobs P (\<lambda>r. r\<lparr>job_status := StatusPending, job_worker_id := None,
                job_claim_token := None, job_lease_until := None, job_finished_at := None,
                job_updated_at := now\<rparr>) d
     in if sql_count P (analysis_jobs d) \<noteq> 1 then (Inl ErrOwnershipLost, d') else (Inr (), d'))"

definition RenewLease ::
  "time \<Rightarrow> int \<Rightarrow> string \<Rightarrow> string \<Rightarrow> time \<Rightarrow> db \<Rightarrow> (go_error + unit) \<times> db" where
  "RenewLease now jobID workerID claimToken newLeaseUntil d =
    (let P = (\<lambda>r. claimed_by jobID workerID claimToken r \<and> liveLeasePredicate now r);
         d' = set_jobs P (\<lambda>r. r\<lparr>job_lease_until := Some newLeaseUntil, job_updated_at := now\<rparr>) d
     in if sql_count P (analysis_jobs d) = 0 then (Inl ErrOwnershipLost, d') else (Inr (), d'))"

section \<open>Terminal transitions of a claimed job\<close>

record owned_running_job =
  orj_job_type :: job_type
  orj_resource_id :: string
  orj_execution_generation :: int
  orj_cancel_requested :: bool

definition loadOwnedRunningJobTx :: "int \<Rightarrow> string \<Rightarrow> string \<Rightarrow> db \<Rightarrow> go_error + owned_running_job" where
  "loadOwnedRunningJobTx jobID workerID claimToken d =
    (case find (\<lambda>r. claimed_by jobID workerID claimToken r \<and> job_execution_started r)
            (analysis_jobs d) of
       None \<Rightarrow> Inl ErrOwnershipLost
     | Some r \<Rightarrow> Inr \<lparr>orj_job_type = job_type r, orj_resource_id = job_resource_id r,
         orj_execution_generation = job_execution_generation r,
         orj_cancel_requested = job_cancel_requested r\<rparr>)"

text \<open>\<open>ORDER BY attempt_no DESC, created_at DESC LIMIT 1\<close>.\<close>

fun latest_attempt :: "diagnosis_attempt list \<Rightarrow> diagnosis_attempt option" where
  "latest_attempt [] = None"
| "latest_attempt (a # as) =
    (case latest_attempt as of
       None \<Rightarrow> Some a
     | Some b \<Rightarrow>
         if att_attempt_no a > att_attempt_no b
            \<or> (att_attempt_no a = att_attempt_no b \<and> att_created_at a \<ge> att_created_at b)
         then Some a else Some b)"

definition generation_attempts :: "string \<Rightarrow> int \<Rightarrow> db \<Rightarrow> diagnosis_attempt list" where
  "generation_attempts runID generation d =
    filter (\<lambda>a. att_diagnosis_run_id a = runID \<and> att_execution_generation a = generation)
      (diagnosis_attempts d)"

definition cancelDiagnosisRunTx :: "time \<Rightarrow> string \<Rightarrow> int \<Rightarrow> db \<Rightarrow> go_error + db" where
  "cancelDiagnosisRunTx now runID generation d =
    (let d1 = set_attempts (\<lambda>a. att_diagnosis_run_id a = runID
                 \<and> att_execution_generation a = generation \<and> att_status a = AttemptStatusRunning)
               (\<lambda>a. a\<lparr>att_status := AttemptStatusAbandoned, att_finished_at := Some now\<rparr>) d;
         P = (\<lambda>r. run_id r = runID \<and> (run_status r = RunQueued \<or> run_status r = RunRunning));
         d2 = set_runs P (\<lambda>r. r\<lparr>run_status := RunCancelled, run_cancel_requested := True,
                run_final_attempt_id :=
                  (case latest_attempt (generation_attempts runID generation d1) of
                     Some a \<Rightarrow> att_id a | None \<Rightarrow> run_final_attempt_id r),
                run_version := run_version r + 1\<rparr>) d1
     in if sql_count P (diagnosis_runs d1) = 0
        then (case by_key run_id runID (diagnosis_runs d2) of
                None \<Rightarrow> Inr d2
              | Some r \<Rightarrow> if run_status r \<noteq> RunCancelled
                  then Inl (Errorf (''diagnosis '' @ runID @ '' cannot be cancelled from status '' @
                         run_status_text (run_status r)) [])
                  else Inr d2)
        else Inr d2)"

definition ConditionalFinalizeCancelTx :: "time \<Rightarrow> int \<Rightarrow> string \<Rightarrow> string \<Rightarrow> db \<Rightarrow> go_error + db" where
  "ConditionalFinalizeCancelTx now jobID workerID claimToken d =
    bindE (loadOwnedRunningJobTx jobID workerID claimToken d) (\<lambda>owned.
      if orj_job_type owned \<noteq> JobTypeRunDiagnosis then Inl ErrCancellationUnsupported
      else if \<not> orj_cancel_requested owned then Inl ErrCancellationNotRequested
      else
        let P = (\<lambda>r. claimed_by jobID workerID claimToken r \<and> job_execution_started r
                   \<and> job_cancel_requested r);
            d' = set_jobs P (\<lambda>r. r\<lparr>job_status := StatusCancelled,
                   job_terminal_reason := Some TerminalReasonCancelled,
                   job_finished_at := Some now, job_updated_at := now\<rparr>) d
        in if sql_count P (analysis_jobs d) = 0 then Inl ErrOwnershipLost
           else cancelDiagnosisRunTx now (orj_resource_id owned) (orj_execution_generation owned) d')"

definition ConditionalFinalizeSuccessTx :: "time \<Rightarrow> int \<Rightarrow> string \<Rightarrow> string \<Rightarrow> db \<Rightarrow> go_error + db" where
  "ConditionalFinalizeSuccessTx now jobID workerID claimToken d =
    bindE (loadOwnedRunningJobTx jobID workerID claimToken d) (\<lambda>owned.
      if orj_cancel_requested owned
      then (if orj_job_type owned \<noteq> JobTypeRunDiagnosis then Inl ErrCancellationUnsupported
            else ConditionalFinalizeCancelTx now jobID workerID claimToken d)
      else
        let P = (\<lambda>r. claimed_by jobID workerID claimToken r \<and> job_execution_started r
                   \<and> \<not> job_cancel_requested r);
            d' = set_jobs P (\<lambda>r. r\<lparr>job_status := StatusSucceeded, job_finished_at := Some now,
                   job_updated_at := now\<rparr>) d
        in if sql_count P (analysis_jobs d) = 0
           then (case loadOwnedRunningJobTx jobID workerID claimToken d' of
                   Inr current \<Rightarrow>
                     if orj_cancel_requested current
                     then (if orj_job_type current \<noteq> JobTypeRunDiagnosis
                           then Inl ErrCancellationUnsupported
                           else ConditionalFinalizeCancelTx now jobID workerID claimToken d')
                     else if (case job_of d' jobID of None \<Rightarrow> False
                              | Some r \<Rightarrow> isTerminalJobStatus (job_status r))
                     then Inl ErrAlreadyFinalized else Inl ErrOwnershipLost
                 | Inl _ \<Rightarrow>
                     if (case job_of d' jobID of None \<Rightarrow> False
                         | Some r \<Rightarrow> isTerminalJobStatus (job_status r))
                     then Inl ErrAlreadyFinalized else Inl ErrOwnershipLost)
           else Inr d')"

subsection \<open>Failing the business object with its job\<close>

definition ErrorCodeAtomicFinalizationStateConflict :: string where
  "ErrorCodeAtomicFinalizationStateConflict = ''ATOMIC_FINALIZATION_STATE_CONFLICT''"

text \<open>
  Build keys are integers; the job's \<open>resource_id\<close> is their decimal text and the database
  compares the two as numbers.
\<close>

definition fail_business_update :: "job_type \<Rightarrow> string \<Rightarrow> string \<Rightarrow> db \<Rightarrow> nat \<times> db" where
  "fail_business_update jobType code resourceID d =
    (case jobType of
       JobTypeMaterializeSnapshot \<Rightarrow>
         (let P = (\<lambda>r. snap_id r = resourceID
                     \<and> (snap_status r = SnapCreated \<or> snap_status r = SnapMaterializing))
          in (sql_count P (repository_snapshots d),
              set_snapshots P (\<lambda>r. r\<lparr>snap_status := SnapFailed, snap_error_code := code\<rparr>) d))
     | JobTypeBuildCodeIndex \<Rightarrow>
         (let P = (\<lambda>r. itoa (cib_id r) = resourceID
                     \<and> (cib_status r = BuildStatusCreated \<or> cib_status r = BuildStatusBuilding))
          in (sql_count P (code_index_builds d),
              set_code_builds P (\<lambda>r. r\<lparr>cib_status := BuildStatusFailed, cib_error_code := code\<rparr>) d))
     | JobTypeBuildRetrieval \<Rightarrow>
         (let P = (\<lambda>r. itoa (rb_id r) = resourceID
                     \<and> (rb_status r = BuildStatusCreated \<or> rb_status r = BuildStatusBuilding))
          in (sql_count P (retrieval_builds d),
              set_retrieval_builds P (\<lambda>r. r\<lparr>rb_status := BuildStatusFailed, rb_error_code := code\<rparr>) d))
     | _ \<Rightarrow>
         (let P = (\<lambda>r. run_id r = resourceID
                     \<and> (run_status r = RunQueued \<or> run_status r = RunRunning))
          in (sql_count P (diagnosis_runs d),
              set_runs P (\<lambda>r. r\<lparr>run_status := RunFailed, run_version := run_version r + 1\<rparr>) d)))"

text \<open>\<open>SELECT status FROM business table WHERE id = resourceID\<close>.\<close>

definition business_status :: "job_type \<Rightarrow> string \<Rightarrow> db \<Rightarrow> string option" where
  "business_status jobType resourceID d =
    (case jobType of
       JobTypeMaterializeSnapshot \<Rightarrow>
         map_option (snapshot_status_text \<circ> snap_status) (by_key snap_id resourceID (repository_snapshots d))
     | JobTypeBuildCodeIndex \<Rightarrow>
         map_option (build_status_text \<circ> cib_status) (by_key (itoa \<circ> cib_id) resourceID (code_index_builds d))
     | JobTypeBuildRetrieval \<Rightarrow>
         map_option (build_status_text \<circ> rb_status) (by_key (itoa \<circ> rb_id) resourceID (retrieval_builds d))
     | _ \<Rightarrow>
         map_option (run_status_text \<circ> run_status) (by_key run_id resourceID (diagnosis_runs d)))"

record revision_resource_identity =
  ident_revision_id :: string
  ident_snapshot_id :: string
  ident_code_index_build_id :: string
  ident_retrieval_build_id :: string

record analysis_revision_state =
  ars_snapshot_id :: "string option"
  ars_code_index_build_id :: "string option"
  ars_retrieval_build_id :: "string option"
  ars_status :: revision_status
  ars_stage :: revision_stage

definition revisionStateConflict :: "job_type \<Rightarrow> string \<Rightarrow> string \<Rightarrow> go_error option \<Rightarrow> go_error" where
  "revisionStateConflict jobType resourceID detail cause =
    (let message = ErrorCodeAtomicFinalizationStateConflict @ '': revision-aware resource '' @
           job_type_text jobType @ ''/'' @ resourceID @ '': '' @ detail
     in case cause of None \<Rightarrow> Errorf message [] | Some e \<Rightarrow> errorf_w message e)"

definition readRevisionResourceIdentityTx ::
  "job_type \<Rightarrow> string \<Rightarrow> db \<Rightarrow> go_error + (revision_resource_identity \<times> bool)" where
  "readRevisionResourceIdentityTx jobType resourceID d =
    (let gone = Inl (revisionStateConflict jobType resourceID
                  ''business resource disappeared before revision validation'' (Some SqlErrNoRows))
     in case jobType of
       JobTypeMaterializeSnapshot \<Rightarrow>
         (case by_key snap_id resourceID (repository_snapshots d) of
            None \<Rightarrow> gone
          | Some r \<Rightarrow> Inr (\<lparr>ident_revision_id = snap_analysis_revision_id r,
              ident_snapshot_id = snap_id r, ident_code_index_build_id = '''',
              ident_retrieval_build_id = ''''\<rparr>, snap_analysis_revision_id r \<noteq> ''''))
     | JobTypeBuildCodeIndex \<Rightarrow>
         (case by_key (itoa \<circ> cib_id) resourceID (code_index_builds d) of
            None \<Rightarrow> gone
          | Some r \<Rightarrow> Inr (\<lparr>ident_revision_id = cib_analysis_revision_id r,
              ident_snapshot_id = cib_snapshot_id r, ident_code_index_build_id = resourceID,
              ident_retrieval_build_id = ''''\<rparr>, cib_analysis_revision_id r \<noteq> ''''))
     | JobTypeBuildRetrieval \<Rightarrow>
         (case by_key (itoa \<circ> rb_id) resourceID (retrieval_builds d) of
            None \<Rightarrow> gone
          | Some r \<Rightarrow> Inr (\<lparr>ident_revision_id = rb_analysis_revision_id r,
              ident_snapshot_id = '''', ident_code_index_build_id = itoa (rb_code_index_build_id r),
              ident_retrieval_build_id = resourceID\<rparr>, rb_analysis_revision_id r \<noteq> ''''))
     | _ \<Rightarrow> Inr (\<lparr>ident_revision_id = '''', ident_snapshot_id = '''',
              ident_code_index_build_id = '''', ident_retrieval_build_id = ''''\<rparr>, False))"

definition loadAnalysisRevisionTx :: "string \<Rightarrow> db \<Rightarrow> go_error + analysis_revision_state" where
  "loadAnalysisRevisionTx revisionID d =
    (case by_key rev_id revisionID (analysis_revisions d) of
       None \<Rightarrow> Inl SqlErrNoRows
     | Some r \<Rightarrow> Inr \<lparr>ars_snapshot_id = Some (rev_snapshot_id r),
         ars_code_index_build_id = Some (itoa (rev_code_index_build_id r)),
         ars_retrieval_build_id = Some (itoa (rev_retrieval_build_id r)),
         ars_status = rev_status r, ars_stage = rev_stage r\<rparr>)"

definition validateRevisionResourceLink ::
  "job_type \<Rightarrow> string \<Rightarrow> revision_resource_identity \<Rightarrow> analysis_revision_state \<Rightarrow> go_error + unit" where
  "validateRevisionResourceLink jobType resourceID identity revision =
    (let valid =
       (case jobType of
          JobTypeMaterializeSnapshot \<Rightarrow>
            ars_snapshot_id revision = Some (ident_snapshot_id identity)
        | JobTypeBuildCodeIndex \<Rightarrow>
            ars_snapshot_id revision = Some (ident_snapshot_id identity)
            \<and> ars_code_index_build_id revision = Some (ident_code_index_build_id identity)
        | JobTypeBuildRetrieval \<Rightarrow>
            ars_code_index_build_id revision = Some (ident_code_index_build_id identity)
            \<and> ars_retrieval_build_id revision = Some (ident_retrieval_build_id identity)
        | _ \<Rightarrow> False)
     in if valid then Inr ()
        else Inl (revisionStateConflict jobType resourceID
               ''linked revision does not point back to the business resource lineage'' None))"

definition failure_stage :: "job_type \<Rightarrow> revision_stage option" where
  "failure_stage jobType =
    (case jobType of
       JobTypeMaterializeSnapshot \<Rightarrow> Some StageMaterializing
     | JobTypeBuildCodeIndex \<Rightarrow> Some StageBuildingCode
     | JobTypeBuildRetrieval \<Rightarrow> Some StageBuildingSearch
     | _ \<Rightarrow> None)"

definition failAnalysisRevisionTx ::
  "time \<Rightarrow> job_type \<Rightarrow> string \<Rightarrow> string \<Rightarrow> string \<Rightarrow> db \<Rightarrow> go_error + db" where
  "failAnalysisRevisionTx now jobType resourceID errorCode errorMessage d =
    (case failure_stage jobType of
       None \<Rightarrow> Inr d
     | Some stage \<Rightarrow>
       bindE (readRevisionResourceIdentityTx jobType resourceID d) (\<lambda>(identity, revisionAware).
         if \<not> revisionAware then Inr d
         else
           case loadAnalysisRevisionTx (ident_revision_id identity) d of
             Inl e \<Rightarrow> Inl (revisionStateConflict jobType resourceID
                       ''linked revision is missing or unreadable'' (Some e))
           | Inr revision \<Rightarrow>
             bindE (validateRevisionResourceLink jobType resourceID identity revision) (\<lambda>_.
               let P = (\<lambda>r. rev_id r = ident_revision_id identity
                          \<and> rev_status r = RevPreparing \<and> rev_stage r = stage);
                   d' = set_revisions P (\<lambda>r. r\<lparr>rev_status := RevFailed, rev_stage := stage,
                          rev_error_code := errorCode, rev_error_message := errorMessage,
                          rev_version := rev_version r + 1, rev_updated_at := now\<rparr>) d
               in if sql_count P (analysis_revisions d) = 1 then Inr d'
                  else
                    case loadAnalysisRevisionTx (ident_revision_id identity) d' of
                      Inl e \<Rightarrow> Inl (revisionStateConflict jobType resourceID
                                ''linked revision disappeared during failure transition'' (Some e))
                    | Inr current \<Rightarrow>
                      bindE (validateRevisionResourceLink jobType resourceID identity current) (\<lambda>_.
                        if ars_status current = RevFailed \<and> ars_stage current = stage then Inr d'
                        else Inl (revisionStateConflict jobType resourceID
                               (''linked revision is '' @ revision_status_text (ars_status current)
                                @ ''/'' @ revision_stage_text (ars_stage current)
                                @ '', want PREPARING/'' @ revision_stage_text stage
                                @ '' or FAILED/'' @ revision_stage_text stage) None)))))"

text \<open>The attempt and the run of a diagnosis whose job has failed for good.\<close>

definition fail_diagnosis_attempts :: "time \<Rightarrow> bool \<Rightarrow> string \<Rightarrow> int \<Rightarrow> db \<Rightarrow> db" where
  "fail_diagnosis_attempts now reaped resourceID generation d =
    (let d1 = set_attempts (\<lambda>a. att_diagnosis_run_id a = resourceID
                 \<and> att_execution_generation a = generation \<and> att_status a = AttemptStatusRunning)
               (\<lambda>a. a\<lparr>att_status := (if reaped then AttemptStatusAbandoned else AttemptStatusFailedTerminal),
                      att_finished_at := Some now\<rparr>) d
     in set_runs (\<lambda>r. run_id r = resourceID \<and> run_status r = RunFailed)
          (\<lambda>r. r\<lparr>run_final_attempt_id :=
             (case latest_attempt (generation_attempts resourceID generation d1) of
                Some a \<Rightarrow> att_id a | None \<Rightarrow> '''')\<rparr>) d1)"

text \<open>\<open>%q\<close> on a status, which needs no escaping.\<close>

definition quoted :: "string \<Rightarrow> string" where
  "quoted s = [char_of (34::nat)] @ s @ [char_of (34::nat)]"

definition failBusinessTx :: "time \<Rightarrow> int \<Rightarrow> bool \<Rightarrow> string \<Rightarrow> string \<Rightarrow> db \<Rightarrow> go_error + db" where
  "failBusinessTx now jobID reaped errorCode errorMessage d =
    (case job_of d jobID of
       None \<Rightarrow> Inl SqlErrNoRows
     | Some job \<Rightarrow>
       let jobType = job_type job; resourceID = job_resource_id job;
           code = (if reaped then ''LEASE_EXPIRED_EXHAUSTED''
                   else if errorCode \<noteq> '''' then errorCode else ''JOB_FAILED'');
           message = (if reaped then ''Job lease expired and max attempts exceeded'' else errorMessage)
       in case jobType of
            JobTypeOther t \<Rightarrow>
              Inl (Errorf (''unsupported job type '' @ t @ '' during terminal failure'') [])
          | _ \<Rightarrow>
            let (rowsAffected, d1) = fail_business_update jobType code resourceID d
            in if rowsAffected = 0 \<and> business_status jobType resourceID d1 \<noteq> Some ''FAILED''
               then Inl (Errorf (ErrorCodeAtomicFinalizationStateConflict @
                      '': terminal business transition for '' @ job_type_text jobType @ ''/'' @
                      resourceID @ '' found state '' @
                      (case business_status jobType resourceID d1 of
                         None \<Rightarrow> quoted '''' @ '': '' @ error_text SqlErrNoRows
                       | Some s \<Rightarrow> quoted s @ '': <nil>'')) [])
               else
                 let d2 = (if jobType = JobTypeRunDiagnosis
                           then fail_diagnosis_attempts now reaped resourceID (job_execution_generation job) d1
                           else d1)
                 in failAnalysisRevisionTx now jobType resourceID code message d2)"

definition ConditionalFinalizeFailureTx ::
  "time \<Rightarrow> int \<Rightarrow> string \<Rightarrow> string \<Rightarrow> error_class \<Rightarrow> string \<Rightarrow> string \<Rightarrow> terminal_reason option \<Rightarrow>
    bool \<Rightarrow> time \<Rightarrow> db \<Rightarrow> go_error + db" where
  "ConditionalFinalizeFailureTx now jobID workerID claimToken errClass errCode errMsg
      terminalReason isTerminal nextRunAt d =
    bindE (loadOwnedRunningJobTx jobID workerID claimToken d) (\<lambda>owned.
      if orj_job_type owned = JobTypeRunDiagnosis \<and> orj_cancel_requested owned
      then ConditionalFinalizeCancelTx now jobID workerID claimToken d
      else
        let P = (\<lambda>r. claimed_by jobID workerID claimToken r \<and> job_execution_started r
                   \<and> (orj_job_type owned = JobTypeRunDiagnosis \<longrightarrow> \<not> job_cancel_requested r));
            f = (if isTerminal
                 then (\<lambda>r. r\<lparr>job_status := StatusFailed, job_terminal_reason := terminalReason,
                        job_last_error_class := Some (error_class_text errClass),
                        job_last_error_code := Some errCode, job_last_error_message := Some errMsg,
                        job_finished_at := Some now, job_updated_at := now\<rparr>)
                 else (\<lambda>r. r\<lparr>job_status := StatusRetryWait, job_next_run_at := nextRunAt,
                        job_last_error_class := Some (error_class_text errClass),
                        job_last_error_code := Some errCode, job_last_error_message := Some errMsg,
                        job_updated_at := now\<rparr>));
            d' = set_jobs P f d
        in if sql_count P (analysis_jobs d) = 0
           then (case loadOwnedRunningJobTx jobID workerID claimToken d' of
                   Inr current \<Rightarrow>
                     if orj_job_type owned = JobTypeRunDiagnosis \<and> orj_cancel_requested current
                     then ConditionalFinalizeCancelTx now jobID workerID claimToken d'
                     else Inl ErrOwnershipLost
                 | Inl _ \<Rightarrow> Inl ErrOwnershipLost)
           else if isTerminal then failBusinessTx now jobID False errCode errMsg d'
           else Inr d')"

text \<open>The public forms, each in its own transaction.\<close>

definition unit_tx :: "(db \<Rightarrow> go_error + db) \<Rightarrow> db \<Rightarrow> (go_error + unit) \<times> db" where
  "unit_tx f = run_tx (\<lambda>d. bindE (f d) (\<lambda>d'. Inr ((), d')))"

definition ConditionalFinalizeSuccess :: "time \<Rightarrow> int \<Rightarrow> string \<Rightarrow> string \<Rightarrow> db \<Rightarrow> (go_error + unit) \<times> db" where
  "ConditionalFinalizeSuccess now jobID workerID claimToken =
    unit_tx (ConditionalFinalizeSuccessTx now jobID workerID claimToken)"

definition ConditionalFinalizeFailure ::
  "time \<Rightarrow> int \<Rightarrow> string \<Rightarrow> string \<Rightarrow> error_class \<Rightarrow> string \<Rightarrow> string \<Rightarrow> terminal_reason option \<Rightarrow>
    bool \<Rightarrow> time \<Rightarrow> db \<Rightarrow> (go_error + unit) \<times> db" where
  "ConditionalFinalizeFailure now jobID workerID claimToken errClass errCode errMsg
      terminalReason isTerminal nextRunAt =
    unit_tx (ConditionalFinalizeFailureTx now jobID workerID claimToken errClass errCode errMsg
      terminalReason isTerminal nextRunAt)"

definition ConditionalFinalizeCancel :: "time \<Rightarrow> int \<Rightarrow> string \<Rightarrow> string \<Rightarrow> db \<Rightarrow> (go_error + unit) \<times> db" where
  "ConditionalFinalizeCancel now jobID workerID claimToken =
    unit_tx (ConditionalFinalizeCancelTx now jobID workerID claimToken)"

section \<open>Cancellation requests\<close>

definition RequestCancel :: "time \<Rightarrow> job_type \<Rightarrow> string \<Rightarrow> db \<Rightarrow> (go_error + unit) \<times> db" where
  "RequestCancel now jobType resourceID d =
    (if jobType \<noteq> JobTypeRunDiagnosis then (Inl ErrCancellationUnsupported, d)
     else
       let P = (\<lambda>r. job_type r = jobType \<and> job_resource_id r = resourceID
                  \<and> (job_status r = StatusPending \<or> job_status r = StatusRunning
                      \<or> job_status r = StatusRetryWait));
           d' = set_jobs P (\<lambda>r. r\<lparr>job_cancel_requested := True, job_updated_at := now\<rparr>) d
       in if sql_count P (analysis_jobs d) = 0 then (Inl ErrCancellationNotRequested, d')
          else (Inr (), d'))"

definition IsCancelRequested :: "int \<Rightarrow> string \<Rightarrow> string \<Rightarrow> db \<Rightarrow> go_error + bool" where
  "IsCancelRequested jobID workerID claimToken d =
    (case find (claimed_by jobID workerID claimToken) (analysis_jobs d) of
       None \<Rightarrow> Inl ErrOwnershipLost | Some r \<Rightarrow> Inr (job_cancel_requested r))"

section \<open>The reaper\<close>

text \<open>
  The order in which a \<open>SELECT\<close> without \<open>ORDER BY\<close> delivers its rows is the engine's: it is
  the argument \<open>scan\<close>, a permutation of the selected rows. \<open>rnd\<close> is the generator behind
  the backoff's jitter.
\<close>

definition lease_expired :: "(int \<Rightarrow> bool) \<Rightarrow> time \<Rightarrow> analysis_job \<Rightarrow> bool" where
  "lease_expired locked now r \<longleftrightarrow> job_status r = StatusRunning
    \<and> (case job_lease_until r of None \<Rightarrow> False | Some t \<Rightarrow> t < now) \<and> \<not> locked (job_id r)"

definition expired_jobs ::
  "(analysis_job list \<Rightarrow> analysis_job list) \<Rightarrow> (int \<Rightarrow> bool) \<Rightarrow> time \<Rightarrow> int \<Rightarrow> db \<Rightarrow> analysis_job list" where
  "expired_jobs scan locked now batchSize d =
    sql_limit batchSize (scan (filter (lease_expired locked now) (analysis_jobs d)))"

definition outcome_unknown :: "analysis_job \<Rightarrow> diagnosis_attempt \<Rightarrow> bool" where
  "outcome_unknown ej a \<longleftrightarrow>
    att_diagnosis_run_id a = job_resource_id ej
    \<and> att_execution_generation a = job_execution_generation ej
    \<and> att_attempt_no a = job_attempt_count ej
    \<and> (att_status a = AttemptStatusRunning \<or> att_status a = AttemptStatusAbandoned)
    \<and> (att_checkpoint_error_code a = ''PROVIDER_OUTCOME_UNKNOWN'' \<or> att_provider_dispatch_unresolved a)"

definition diagnosisOutcomeUnknownMarker :: "analysis_job \<Rightarrow> db \<Rightarrow> (string \<times> string) option" where
  "diagnosisOutcomeUnknownMarker ej d =
    map_option (\<lambda>a. (att_id a, att_checkpoint_error_message a))
      (find (outcome_unknown ej) (diagnosis_attempts d))"

definition failExpiredDiagnosisOutcomeUnknownTx ::
  "analysis_job \<Rightarrow> string \<Rightarrow> string \<Rightarrow> time \<Rightarrow> db \<Rightarrow> go_error + db" where
  "failExpiredDiagnosisOutcomeUnknownTx ej attemptID message0 now d =
    (let message = (if message0 = ''''
           then ''provider request outcome could not be confirmed; automatic replay is disabled''
           else message0);
         A = (\<lambda>a. att_id a = attemptID \<and> outcome_unknown ej a);
         d1 = set_attempts A (\<lambda>a. a\<lparr>att_status := AttemptStatusFailedTerminal,
                att_finished_at := Some now, att_error_code := ''PROVIDER_OUTCOME_UNKNOWN'',
                att_error_message := message, att_retryable := False\<rparr>) d;
         R = (\<lambda>r. run_id r = job_resource_id ej \<and> run_status r = RunRunning
                \<and> \<not> run_cancel_requested r);
         d2 = set_runs R (\<lambda>r. r\<lparr>run_status := RunFailed, run_final_attempt_id := attemptID,
                run_version := run_version r + 1\<rparr>) d1;
         J = (\<lambda>r. job_id r = job_id ej \<and> job_status r = StatusRunning \<and> job_execution_started r);
         d3 = set_jobs J (\<lambda>r. r\<lparr>job_status := StatusFailed,
                job_terminal_reason := Some TerminalReasonPermanent,
                job_last_error_class := Some ''PERMANENT'',
                job_last_error_code := Some ''PROVIDER_OUTCOME_UNKNOWN'',
                job_last_error_message := Some message, job_finished_at := Some now,
                job_updated_at := now\<rparr>) d2
     in if sql_count A (diagnosis_attempts d) \<noteq> 1
        then Inl (Errorf (''ambiguous diagnosis attempt for '' @ job_resource_id ej @
               '' changed before reaper terminalization'') [])
        else if sql_count R (diagnosis_runs d1) \<noteq> 1
        then Inl (Errorf (''ambiguous diagnosis run '' @ job_resource_id ej @
               '' changed before reaper terminalization'') [])
        else if sql_count J (analysis_jobs d2) \<noteq> 1
        then Inl (Errorf (''ambiguous diagnosis job '' @ itoa (job_id ej) @
               '' changed before reaper terminalization'') [])
        else Inr d3)"

definition cancelExpiredDiagnosisTx :: "analysis_job \<Rightarrow> time \<Rightarrow> db \<Rightarrow> go_error + db" where
  "cancelExpiredDiagnosisTx ej now d =
    (let J = (\<lambda>r. job_id r = job_id ej \<and> job_status r = StatusRunning \<and> job_cancel_requested r
                \<and> (case job_lease_until r of None \<Rightarrow> False | Some t \<Rightarrow> t < now));
         d1 = set_jobs J (\<lambda>r. r\<lparr>job_status := StatusCancelled,
                job_terminal_reason := Some TerminalReasonCancelled,
                job_finished_at := Some now, job_updated_at := now\<rparr>) d;
         d2 = set_attempts (\<lambda>a. att_diagnosis_run_id a = job_resource_id ej
                 \<and> att_execution_generation a = job_execution_generation ej
                 \<and> att_attempt_no a = job_attempt_count ej \<and> att_status a = AttemptStatusRunning)
               (\<lambda>a. a\<lparr>att_status := AttemptStatusAbandoned, att_finished_at := Some now\<rparr>) d1;
         R = (\<lambda>r. run_id r = job_resource_id ej
                \<and> (run_status r = RunQueued \<or> run_status r = RunRunning));
         d3 = set_runs R (\<lambda>r. r\<lparr>run_status := RunCancelled, run_cancel_requested := True,
                run_final_attempt_id :=
                  (case latest_attempt (filter (\<lambda>a. att_attempt_no a = job_attempt_count ej)
                          (generation_attempts (job_resource_id ej) (job_execution_generation ej) d2)) of
                     Some a \<Rightarrow> att_id a | None \<Rightarrow> ''''),
                run_version := run_version r + 1\<rparr>) d2
     in if sql_count J (analysis_jobs d) \<noteq> 1
        then Inl (Errorf (''expired diagnosis job '' @ itoa (job_id ej) @
               '' changed before cancellation recovery'') [])
        else if sql_count R (diagnosis_runs d2) = 0
        then (case by_key run_id (job_resource_id ej) (diagnosis_runs d3) of
                None \<Rightarrow> Inl (errorf_w (''failed verifying expired diagnosis run '' @
                          job_resource_id ej @ '' cancellation'') SqlErrNoRows)
              | Some r \<Rightarrow> if run_status r \<noteq> RunCancelled
                  then Inl (Errorf (''expired diagnosis run '' @ job_resource_id ej @
                         '' cannot be cancelled from status '' @ run_status_text (run_status r)) [])
                  else Inr d3)
        else Inr d3)"

definition requeue_never_started :: "analysis_job \<Rightarrow> time \<Rightarrow> db \<Rightarrow> go_error + db" where
  "requeue_never_started ej now d =
    (let J = (\<lambda>r. job_id r = job_id ej \<and> job_status r = StatusRunning \<and> \<not> job_execution_started r)
     in if sql_count J (analysis_jobs d) \<noteq> 1
        then Inl (Errorf (''never-started job '' @ itoa (job_id ej) @ '' changed before requeue'') [])
        else Inr (set_jobs J (\<lambda>r. r\<lparr>job_status := StatusPending, job_next_run_at := now,
               job_worker_id := None, job_claim_token := None, job_lease_until := None,
               job_execution_started := False, job_finished_at := None, job_updated_at := now\<rparr>) d))"

definition GoPanic :: go_error where
  "GoPanic = Sentinel ''runtime.panic'' ''invalid argument to Int63n''"

definition schedule_reaped_retry :: "(int \<Rightarrow> int) \<Rightarrow> analysis_job \<Rightarrow> time \<Rightarrow> db \<Rightarrow> go_error + db" where
  "schedule_reaped_retry rnd ej now d =
    (case CalculateBackoff rnd (job_attempt_count ej) Second Minute of
       None \<Rightarrow> Inl GoPanic
     | Some backoff \<Rightarrow>
       let J = (\<lambda>r. job_id r = job_id ej);
           d1 = set_jobs J (\<lambda>r. r\<lparr>job_status := StatusRetryWait, job_next_run_at := now + backoff,
                  job_last_error_class := Some ''OWNERSHIP_LOST'',
                  job_last_error_code := Some ''LEASE_EXPIRED'',
                  job_last_error_message := Some ''Job lease expired and worker did not renew'',
                  job_updated_at := now\<rparr>) d
       in if sql_count J (analysis_jobs d) \<noteq> 1
          then Inl (Errorf (''expired job '' @ itoa (job_id ej) @ '' changed before retry scheduling'') [])
          else if job_type ej = JobTypeRunDiagnosis
          then Inr (set_attempts (\<lambda>a. att_diagnosis_run_id a = job_resource_id ej
                     \<and> att_execution_generation a = job_execution_generation ej
                     \<and> att_attempt_no a = job_attempt_count ej \<and> att_status a = AttemptStatusRunning)
                  (\<lambda>a. a\<lparr>att_status := AttemptStatusAbandoned, att_finished_at := Some now,
                         att_error_code := ''LEASE_EXPIRED'',
                         att_error_message := ''Job lease expired; current attempt abandoned''\<rparr>) d1)
          else Inr d1)"

definition fail_reaped :: "analysis_job \<Rightarrow> time \<Rightarrow> db \<Rightarrow> go_error + db" where
  "fail_reaped ej now d =
    bindE (failBusinessTx now (job_id ej) True ''LEASE_EXPIRED_EXHAUSTED''
             ''Job lease expired and max attempts exceeded'' d) (\<lambda>d1.
      Inr (set_jobs (\<lambda>r. job_id r = job_id ej) (\<lambda>r. r\<lparr>job_status := StatusFailed,
             job_terminal_reason := Some TerminalReasonRetryableExhausted,
             job_last_error_class := Some ''OWNERSHIP_LOST'',
             job_last_error_code := Some ''LEASE_EXPIRED_EXHAUSTED'',
             job_last_error_message := Some ''Job lease expired and max attempts exceeded'',
             job_finished_at := Some now, job_updated_at := now\<rparr>) d1))"

text \<open>The body of the reaper's loop for one expired job, in the order of its checks.\<close>

definition reap_one :: "(int \<Rightarrow> int) \<Rightarrow> time \<Rightarrow> analysis_job \<Rightarrow> db \<Rightarrow> go_error + db" where
  "reap_one rnd now ej d =
    (if job_type ej = JobTypeRunDiagnosis \<and> job_cancel_requested ej
     then cancelExpiredDiagnosisTx ej now d
     else if \<not> job_execution_started ej then requeue_never_started ej now d
     else
       case (if job_type ej = JobTypeRunDiagnosis then diagnosisOutcomeUnknownMarker ej d else None) of
         Some (attemptID, message) \<Rightarrow> failExpiredDiagnosisOutcomeUnknownTx ej attemptID message now d
       | None \<Rightarrow>
           if job_attempt_count ej < job_max_attempts ej then schedule_reaped_retry rnd ej now d
           else fail_reaped ej now d)"

fun reap_all :: "(int \<Rightarrow> int) \<Rightarrow> time \<Rightarrow> analysis_job list \<Rightarrow> db \<Rightarrow> go_error + db" where
  "reap_all rnd now [] d = Inr d"
| "reap_all rnd now (ej # ejs) d = bindE (reap_one rnd now ej d) (reap_all rnd now ejs)"

definition ReapExpiredJobsTx ::
  "(int \<Rightarrow> int) \<Rightarrow> (analysis_job list \<Rightarrow> analysis_job list) \<Rightarrow> (int \<Rightarrow> bool) \<Rightarrow> time \<Rightarrow> int \<Rightarrow> db \<Rightarrow>
    go_error + int \<times> db" where
  "ReapExpiredJobsTx rnd scan locked now batchSize d =
    (let expired = expired_jobs scan locked now batchSize d
     in bindE (reap_all rnd now expired d) (\<lambda>d'. Inr (int (length expired), d')))"

definition ReapExpiredJobs ::
  "(int \<Rightarrow> int) \<Rightarrow> (analysis_job list \<Rightarrow> analysis_job list) \<Rightarrow> (int \<Rightarrow> bool) \<Rightarrow> time \<Rightarrow> int \<Rightarrow> db \<Rightarrow>
    (go_error + int) \<times> db" where
  "ReapExpiredJobs rnd scan locked now batchSize = run_tx (ReapExpiredJobsTx rnd scan locked now batchSize)"

section \<open>Explicit retries\<close>

definition reset_job_row :: "time \<Rightarrow> analysis_job \<Rightarrow> analysis_job" where
  "reset_job_row now r = r\<lparr>job_status := StatusPending,
     job_execution_generation := job_execution_generation r + 1, job_attempt_count := 0,
     job_execution_started := False, job_next_run_at := now, job_worker_id := None,
     job_claim_token := None, job_lease_until := None, job_cancel_requested := False,
     job_last_error_class := None, job_last_error_code := None, job_last_error_message := None,
     job_terminal_reason := None, job_finished_at := None, job_updated_at := now\<rparr>"

definition restore_business :: "job_type \<Rightarrow> string \<Rightarrow> db \<Rightarrow> nat \<times> db" where
  "restore_business jobType resourceID d =
    (case jobType of
       JobTypeMaterializeSnapshot \<Rightarrow>
         (let P = (\<lambda>r. snap_id r = resourceID \<and> snap_status r = SnapFailed)
          in (sql_count P (repository_snapshots d),
              set_snapshots P (\<lambda>r. r\<lparr>snap_status := SnapCreated, snap_error_code := '''',
                snap_ready_at := None\<rparr>) d))
     | JobTypeBuildCodeIndex \<Rightarrow>
         (let P = (\<lambda>r. itoa (cib_id r) = resourceID \<and> cib_status r = BuildStatusFailed)
          in (sql_count P (code_index_builds d),
              set_code_builds P (\<lambda>r. r\<lparr>cib_status := BuildStatusCreated, cib_error_code := '''',
                cib_ready_at := None\<rparr>) d))
     | JobTypeBuildRetrieval \<Rightarrow>
         (let P = (\<lambda>r. itoa (rb_id r) = resourceID \<and> rb_status r = BuildStatusFailed)
          in (sql_count P (retrieval_builds d),
              set_retrieval_builds P (\<lambda>r. r\<lparr>rb_status := BuildStatusCreated, rb_error_code := '''',
                rb_ready_at := None, rb_artifact_path := '''', rb_artifact_hash := ''''\<rparr>) d))
     | _ \<Rightarrow>
         (let P = (\<lambda>r. run_id r = resourceID \<and> run_status r = RunFailed)
          in (sql_count P (diagnosis_runs d),
              set_runs P (\<lambda>r. r\<lparr>run_status := RunQueued, run_cancel_requested := False,
                run_final_attempt_id := '''', run_version := run_version r + 1\<rparr>) d)))"

definition ManualRequeueTx :: "time \<Rightarrow> job_type \<Rightarrow> string \<Rightarrow> db \<Rightarrow> go_error + db" where
  "ManualRequeueTx now jobType resourceID d =
    (case jobType of
       JobTypeOther t \<Rightarrow> Inl (Errorf (''unsupported manual requeue job type '' @ t) [])
     | _ \<Rightarrow>
       let (affected, d1) = restore_business jobType resourceID d
       in if affected \<noteq> 1 \<and> business_status jobType resourceID d1 \<noteq> None
          then Inl (Errorf (''cannot requeue business object ('' @ job_type_text jobType @ '', '' @
                 resourceID @ ''): not in FAILED state'') [])
          else
            let P = (\<lambda>r. job_type r = jobType \<and> job_resource_id r = resourceID
                       \<and> job_status r = StatusFailed
                       \<and> job_terminal_reason r = Some TerminalReasonRetryableExhausted)
            in if sql_count P (analysis_jobs d1) = 0
               then Inl (Errorf (''cannot requeue job ('' @ job_type_text jobType @ '', '' @ resourceID @
                      ''): not in FAILED state with RETRYABLE_EXHAUSTED'') [])
               else Inr (set_jobs P (reset_job_row now) d1))"

definition ManualRequeue :: "time \<Rightarrow> job_type \<Rightarrow> string \<Rightarrow> db \<Rightarrow> (go_error + unit) \<times> db" where
  "ManualRequeue now jobType resourceID = unit_tx (ManualRequeueTx now jobType resourceID)"

definition IsRetryableDiagnosisProviderError :: "string \<Rightarrow> bool" where
  "IsRetryableDiagnosisProviderError code \<longleftrightarrow>
    to_upper (trim_space code) \<in> set [''PROVIDER_TIMEOUT'', ''PROVIDER_CONNECTION_FAILED'',
      ''PROVIDER_UPSTREAM_ERROR'', ''PROVIDER_RATE_LIMITED'', ''PROVIDER_5XX'',
      ''PROVIDER_NETWORK_ERROR'', ''HTTP_429_RATE_LIMITED'', ''HTTP_5XX_SERVER_ERROR'',
      ''TRANSIENT_NETWORK_ERROR'']"

definition IsRetryableDiagnosisProviderFailure :: "error_class \<Rightarrow> string \<Rightarrow> bool" where
  "IsRetryableDiagnosisProviderFailure class code0 =
    (let code = to_upper (trim_space code0) in
     if class = ErrorClassPermanent
        \<and> code \<in> set [''PROVIDER_PROGRESS_ABORTED'', ''PROVIDER_OUTCOME_UNKNOWN'',
                       ''CHECKPOINT_SAVE_FAILED'', ''CHECKPOINT_VERSION_MISMATCH'']
     then True
     else class = ErrorClassRetryable \<and> IsRetryableDiagnosisProviderError code)"

definition RetryDiagnosisTx :: "time \<Rightarrow> string \<Rightarrow> db \<Rightarrow> go_error + db" where
  "RetryDiagnosisTx now resourceID d =
    (case find (\<lambda>r. job_type r = JobTypeRunDiagnosis \<and> job_resource_id r = resourceID
              \<and> job_status r = StatusFailed) (analysis_jobs d) of
       None \<Rightarrow> Inl SqlErrNoRows
     | Some job \<Rightarrow>
       let lastClass = (case job_last_error_class job of None \<Rightarrow> '''' | Some c \<Rightarrow> c);
           code = to_upper (case job_last_error_code job of None \<Rightarrow> '''' | Some c \<Rightarrow> c)
       in if \<not> IsRetryableDiagnosisProviderFailure (ErrorClass lastClass) code
          then Inl (Errorf ''diagnosis retry is only allowed after an external provider failure'' [])
          else
            let R = (\<lambda>r. run_id r = resourceID \<and> run_status r = RunFailed);
                d1 = set_runs R (\<lambda>r. r\<lparr>run_status := RunQueued, run_cancel_requested := False,
                       run_final_attempt_id := '''', run_version := run_version r + 1\<rparr>) d;
                J = (\<lambda>r. job_type r = JobTypeRunDiagnosis \<and> job_resource_id r = resourceID
                       \<and> job_status r = StatusFailed)
            in if sql_count R (diagnosis_runs d) \<noteq> 1
               then Inl (Errorf (''diagnosis '' @ resourceID @ '' is not in FAILED state'') [])
               else if sql_count J (analysis_jobs d1) \<noteq> 1
               then Inl (Errorf (''diagnosis job '' @ resourceID @ '' is not retryable'') [])
               else Inr (set_jobs J (reset_job_row now) d1))"

definition RetryDiagnosis :: "time \<Rightarrow> string \<Rightarrow> db \<Rightarrow> (go_error + unit) \<times> db" where
  "RetryDiagnosis now resourceID = unit_tx (RetryDiagnosisTx now resourceID)"

end
