(* ===== verification/Job_Life.thy ===== *)
theory Job_Life
  imports Job_Store "HOL-Library.Product_Lexorder"
begin

text \<open>
  The life cycle of one job row as \<open>docs/state-machines.md\<close> draws it, as a step relation on
  rows: the abstract specification of the job store. The operations of \<open>Job_Store\<close> refine
  it (every row of the table moves only along these steps), so the invariants of the life
  cycle are invariants of the table. The relation is indexed by the set \<open>F\<close> of the claim
  tokens that claims may draw.
\<close>

section \<open>The abstract life cycle\<close>

inductive life_step :: "(string \<Rightarrow> bool) \<Rightarrow> analysis_job \<Rightarrow> analysis_job \<Rightarrow> bool"
  for F :: "string \<Rightarrow> bool" where
  life_claim: "F t \<Longrightarrow> job_status r = StatusPending \<or> job_status r = StatusRetryWait \<Longrightarrow>
    life_step F r (r\<lparr>job_status := StatusRunning, job_worker_id := Some w, job_claim_token := Some t,
      job_lease_until := Some l, job_execution_started := False, job_updated_at := now\<rparr>)"
| life_start: "job_status r = StatusRunning \<Longrightarrow> \<not> job_execution_started r \<Longrightarrow>
    life_step F r (r\<lparr>job_execution_started := True, job_attempt_count := job_attempt_count r + 1,
      job_updated_at := now\<rparr>)"
| life_return: "job_status r = StatusRunning \<Longrightarrow> \<not> job_execution_started r \<Longrightarrow>
    life_step F r (r\<lparr>job_status := StatusPending, job_next_run_at := next, job_worker_id := None,
      job_claim_token := None, job_lease_until := None, job_finished_at := None, job_updated_at := now\<rparr>)"
| life_renew: "job_status r = StatusRunning \<Longrightarrow>
    life_step F r (r\<lparr>job_lease_until := Some l, job_updated_at := now\<rparr>)"
| life_succeed: "job_status r = StatusRunning \<Longrightarrow> job_execution_started r \<Longrightarrow> \<not> job_cancel_requested r \<Longrightarrow>
    life_step F r (r\<lparr>job_status := StatusSucceeded, job_finished_at := Some fin, job_updated_at := now\<rparr>)"
| life_retry: "job_status r = StatusRunning \<Longrightarrow> job_execution_started r \<Longrightarrow>
    (job_type r = JobTypeRunDiagnosis \<Longrightarrow> \<not> job_cancel_requested r) \<Longrightarrow>
    job_attempt_count r < job_max_attempts r \<Longrightarrow>
    life_step F r (r\<lparr>job_status := StatusRetryWait, job_next_run_at := next,
      job_last_error_class := Some cls, job_last_error_code := Some code,
      job_last_error_message := Some msg, job_updated_at := now\<rparr>)"
| life_fail: "job_status r = StatusRunning \<Longrightarrow> job_execution_started r \<Longrightarrow>
    (job_type r = JobTypeRunDiagnosis \<Longrightarrow> \<not> job_cancel_requested r) \<Longrightarrow>
    life_step F r (r\<lparr>job_status := StatusFailed, job_terminal_reason := reason,
      job_last_error_class := Some cls, job_last_error_code := Some code,
      job_last_error_message := Some msg, job_finished_at := Some fin, job_updated_at := now\<rparr>)"
| life_cancel: "job_status r = StatusPending \<or> job_status r = StatusRunning \<or> job_status r = StatusRetryWait \<Longrightarrow>
    job_type r = JobTypeRunDiagnosis \<Longrightarrow> job_cancel_requested r \<Longrightarrow>
    life_step F r (r\<lparr>job_status := StatusCancelled, job_terminal_reason := Some TerminalReasonCancelled,
      job_finished_at := Some fin, job_updated_at := now\<rparr>)"
| life_request_cancel: "job_status r = StatusPending \<or> job_status r = StatusRunning \<or> job_status r = StatusRetryWait \<Longrightarrow>
    job_type r = JobTypeRunDiagnosis \<Longrightarrow>
    life_step F r (r\<lparr>job_cancel_requested := True, job_updated_at := now\<rparr>)"
| life_recancel: "job_status r = StatusCancelled \<Longrightarrow> job_type r = JobTypeRunDiagnosis \<Longrightarrow>
    life_step F r (r\<lparr>job_status := StatusCancelled, job_cancel_requested := True,
      job_terminal_reason := Some TerminalReasonCancelled, job_finished_at := Some fin, job_updated_at := now\<rparr>)"
| life_reset: "job_status r = StatusFailed \<Longrightarrow> life_step F r (reset_job_row now r)"

inductive_cases life_stepE: "life_step F r r'"

abbreviation life_steps :: "(string \<Rightarrow> bool) \<Rightarrow> analysis_job \<Rightarrow> analysis_job \<Rightarrow> bool" where
  "life_steps F \<equiv> (life_step F)\<^sup>*\<^sup>*"

text \<open>The edges of the diagram.\<close>

fun status_edge :: "job_status \<Rightarrow> job_status \<Rightarrow> bool" where
  "status_edge StatusPending b \<longleftrightarrow> b = StatusRunning \<or> b = StatusCancelled"
| "status_edge StatusRetryWait b \<longleftrightarrow> b = StatusRunning \<or> b = StatusCancelled"
| "status_edge StatusRunning b \<longleftrightarrow> b = StatusPending \<or> b = StatusRetryWait
     \<or> b = StatusSucceeded \<or> b = StatusFailed \<or> b = StatusCancelled"
| "status_edge StatusFailed b \<longleftrightarrow> b = StatusPending"
| "status_edge _ b \<longleftrightarrow> False"

lemma life_step_edge:
  "life_step F r r' \<Longrightarrow> job_status r' = job_status r \<or> status_edge (job_status r) (job_status r')"
  by (erule life_stepE; simp add: reset_job_row_def) (elim disjE; simp)+

text \<open>What no step changes.\<close>

lemma life_step_identity:
  "life_step F r r' \<Longrightarrow> job_id r' = job_id r \<and> job_type r' = job_type r
    \<and> job_resource_id r' = job_resource_id r \<and> job_max_attempts r' = job_max_attempts r
    \<and> job_created_at r' = job_created_at r"
  by (erule life_stepE) (auto simp: reset_job_row_def)

lemma life_steps_identity:
  "life_steps F r r' \<Longrightarrow> job_id r' = job_id r \<and> job_type r' = job_type r
    \<and> job_resource_id r' = job_resource_id r \<and> job_max_attempts r' = job_max_attempts r
    \<and> job_created_at r' = job_created_at r"
  by (induction rule: rtranclp_induct) (auto dest: life_step_identity)

section \<open>The row invariant\<close>

definition active_status :: "job_status \<Rightarrow> bool" where
  "active_status s \<longleftrightarrow> s = StatusPending \<or> s = StatusRunning \<or> s = StatusRetryWait"

definition life_inv :: "analysis_job \<Rightarrow> bool" where
  "life_inv r \<longleftrightarrow>
    (active_status (job_status r) \<or> isTerminalJobStatus (job_status r))
    \<and> (job_status r = StatusRunning \<longrightarrow>
         job_worker_id r \<noteq> None \<and> job_claim_token r \<noteq> None \<and> job_lease_until r \<noteq> None)
    \<and> (job_status r = StatusPending \<longrightarrow>
         job_worker_id r = None \<and> job_claim_token r = None \<and> job_lease_until r = None
         \<and> \<not> job_execution_started r)
    \<and> (job_status r = StatusRetryWait \<or> job_status r = StatusSucceeded \<or> job_status r = StatusFailed
         \<longrightarrow> job_execution_started r)
    \<and> (job_execution_started r \<longrightarrow> 1 \<le> job_attempt_count r)
    \<and> 0 \<le> job_attempt_count r \<and> job_attempt_count r \<le> job_max_attempts r
    \<and> (job_status r = StatusPending \<or> job_status r = StatusRetryWait
         \<or> (job_status r = StatusRunning \<and> \<not> job_execution_started r)
         \<longrightarrow> job_attempt_count r < job_max_attempts r)
    \<and> (isTerminalJobStatus (job_status r) \<longleftrightarrow> job_finished_at r \<noteq> None)
    \<and> (job_status r = StatusCancelled \<longrightarrow>
         job_type r = JobTypeRunDiagnosis \<and> job_cancel_requested r
         \<and> job_terminal_reason r = Some TerminalReasonCancelled)
    \<and> (job_status r = StatusSucceeded \<or> active_status (job_status r) \<longrightarrow> job_terminal_reason r = None)
    \<and> 1 \<le> job_execution_generation r \<and> 1 \<le> job_max_attempts r"

lemmas life_inv_defs = life_inv_def active_status_def isTerminalJobStatus_def

lemma life_step_inv: "life_inv r \<Longrightarrow> life_step F r r' \<Longrightarrow> life_inv r'"
  by (erule life_stepE; simp add: life_inv_defs reset_job_row_def) (elim disjE; simp)+

text \<open>A job as \<open>CreateJobTx\<close> inserts it for the callers of the store.\<close>

definition fresh_job :: "analysis_job \<Rightarrow> bool" where
  "fresh_job r \<longleftrightarrow> job_status r = StatusPending \<and> job_attempt_count r = 0
    \<and> 1 \<le> job_max_attempts r \<and> 1 \<le> job_execution_generation r
    \<and> \<not> job_execution_started r \<and> job_worker_id r = None \<and> job_claim_token r = None
    \<and> job_lease_until r = None \<and> job_finished_at r = None \<and> job_terminal_reason r = None"

lemma fresh_job_inv: "fresh_job r \<Longrightarrow> life_inv r"
  by (simp add: fresh_job_def life_inv_defs)

interpretation job_life: invariant_system fresh_job "life_step F" life_inv for F
  by unfold_locales (fact fresh_job_inv life_step_inv)+

section \<open>Progress of executions\<close>

text \<open>
  The executions charged to a job, ordered first by generation: a step never takes one
  back, and only an explicit retry (a new generation) resets the attempt counter.
\<close>

definition executions :: "analysis_job \<Rightarrow> int \<times> int" where
  "executions r = (job_execution_generation r, job_attempt_count r)"

lemma life_step_executions: "life_step F r r' \<Longrightarrow> executions r \<le> executions r'"
  by (erule life_stepE) (auto simp: executions_def reset_job_row_def)

interpretation executions: monotone_system "life_step F" executions life_inv for F
  by unfold_locales (blast intro: life_step_inv life_step_executions)+

text \<open>Success and cancellation are final; a failed job leaves its state only by a new generation.\<close>

lemma life_step_final:
  "life_step F r r' \<Longrightarrow> job_status r = StatusSucceeded \<or> job_status r = StatusCancelled \<Longrightarrow>
    job_status r' = job_status r \<and> executions r' = executions r"
  by (erule life_stepE) (auto simp: executions_def)

lemma life_steps_final:
  "life_steps F r r' \<Longrightarrow> job_status r = StatusSucceeded \<or> job_status r = StatusCancelled \<Longrightarrow>
    job_status r' = job_status r \<and> executions r' = executions r"
  by (induction rule: rtranclp_induct) (auto dest: life_step_final)

lemma life_step_failed:
  "life_step F r r' \<Longrightarrow> job_status r = StatusFailed \<Longrightarrow>
    job_status r' = StatusPending \<and> job_execution_generation r' = job_execution_generation r + 1"
  by (erule life_stepE) (auto simp: reset_job_row_def)

end
