(* ===== verification/Job_Refine.thy ===== *)
theory Job_Refine
  imports Job_Life
begin

text \<open>
  What the operations of the job store do to the row they address, on every branch, and
  that they refine the life cycle of \<open>Job_Life\<close>.
\<close>

section \<open>The table as a keyed store of rows\<close>

definition jobs_keys :: "db \<Rightarrow> bool" where
  "jobs_keys d \<longleftrightarrow> distinct (map job_id (analysis_jobs d))"

definition put_job :: "analysis_job \<Rightarrow> db \<Rightarrow> db" where
  "put_job r d = set_jobs (\<lambda>x. job_id x = job_id r) (\<lambda>_. r) d"

lemma job_of_Some_id: "job_of d i = Some r \<Longrightarrow> job_id r = i"
  by (auto simp: job_of_def dest: by_key_Some_in)

lemma job_of_in: "job_of d i = Some r \<Longrightarrow> r \<in> set (analysis_jobs d)"
  by (auto simp: job_of_def dest: by_key_Some_in)

lemma job_of_unique: "jobs_keys d \<Longrightarrow> r \<in> set (analysis_jobs d) \<Longrightarrow> job_of d (job_id r) = Some r"
  by (simp add: jobs_keys_def job_of_def by_key_unique)

lemma job_of_put_job:
  "job_of (put_job r d) i = (if i = job_id r \<and> job_of d i \<noteq> None then Some r else job_of d i)"
proof -
  have eq: "job_of (put_job r d) i
      = map_option (\<lambda>x. if job_id x = job_id r then r else x) (job_of d i)"
    unfolding put_job_def by (rule job_of_set_jobs) simp
  show ?thesis
    by (cases "job_of d i") (auto simp: eq dest: job_of_Some_id)
qed

lemma put_job_tables [simp]:
  "diagnosis_runs (put_job r d) = diagnosis_runs d"
  "diagnosis_attempts (put_job r d) = diagnosis_attempts d"
  "repository_snapshots (put_job r d) = repository_snapshots d"
  "code_index_builds (put_job r d) = code_index_builds d"
  "retrieval_builds (put_job r d) = retrieval_builds d"
  "analysis_revisions (put_job r d) = analysis_revisions d"
  by (simp_all add: put_job_def)

lemma jobs_keys_put_job [simp]: "jobs_keys (put_job r d) \<longleftrightarrow> jobs_keys d"
proof -
  have "map job_id (analysis_jobs (put_job r d)) = map job_id (analysis_jobs d)"
    unfolding put_job_def tables_set_jobs by (rule map_key_sql_set) simp
  then show ?thesis by (simp add: jobs_keys_def)
qed

text \<open>A guarded update of one row, by what the row is.\<close>

lemma count_job:
  "jobs_keys d \<Longrightarrow> sql_count (\<lambda>r. job_id r = i \<and> Q r) (analysis_jobs d) =
    (case job_of d i of Some r \<Rightarrow> if Q r then 1 else 0 | None \<Rightarrow> 0)"
  by (simp add: jobs_keys_def job_of_def sql_count_key)

lemma count_job_id:
  "jobs_keys d \<Longrightarrow> sql_count (\<lambda>r. job_id r = i) (analysis_jobs d) =
    (case job_of d i of Some r \<Rightarrow> 1 | None \<Rightarrow> 0)"
  using count_job[of d i "\<lambda>_. True"] by simp

lemma find_job:
  "jobs_keys d \<Longrightarrow> find (\<lambda>r. job_id r = i \<and> Q r) (analysis_jobs d) =
    (case job_of d i of Some r \<Rightarrow> if Q r then Some r else None | None \<Rightarrow> None)"
  by (simp add: jobs_keys_def job_of_def find_key)

lemma set_job_hit:
  assumes "jobs_keys d" and "job_of d i = Some r" and "Q r" and "job_id (f r) = job_id r"
  shows "set_jobs (\<lambda>r. job_id r = i \<and> Q r) f d = put_job (f r) d"
proof -
  have "sql_set (\<lambda>r. job_id r = i \<and> Q r) f (analysis_jobs d)
      = sql_set (\<lambda>r. job_id r = i) (\<lambda>_. f r) (analysis_jobs d)"
    using assms by (intro sql_set_key) (simp_all add: jobs_keys_def job_of_def)
  moreover have "job_id r = i" using assms(2) by (rule job_of_Some_id)
  ultimately show ?thesis using assms(4) by (simp add: set_jobs_def put_job_def)
qed

lemma set_job_hit_id:
  assumes "jobs_keys d" and "job_of d i = Some r" and "job_id (f r) = job_id r"
  shows "set_jobs (\<lambda>r. job_id r = i) f d = put_job (f r) d"
  using set_job_hit[of d i r "\<lambda>_. True" f] assms by simp

lemma set_job_miss:
  assumes "jobs_keys d" and "\<forall>r. job_of d i = Some r \<longrightarrow> \<not> Q r"
  shows "set_jobs (\<lambda>r. job_id r = i \<and> Q r) f d = d"
proof -
  have "sql_set (\<lambda>r. job_id r = i \<and> Q r) f (analysis_jobs d) = analysis_jobs d"
    using assms by (intro sql_set_key_miss) (cases "job_of d i"; auto simp: jobs_keys_def job_of_def)+
  then show ?thesis by (simp add: set_jobs_def)
qed

lemmas keyed_jobs = count_job count_job_id find_job set_job_hit set_job_hit_id set_job_miss

section \<open>Row-level behaviour of the claim operations\<close>

definition holds_claim :: "string \<Rightarrow> string \<Rightarrow> analysis_job \<Rightarrow> bool" where
  "holds_claim w t r \<longleftrightarrow> job_status r = StatusRunning
    \<and> job_worker_id r = Some w \<and> job_claim_token r = Some t"

definition owns_execution :: "string \<Rightarrow> string \<Rightarrow> analysis_job \<Rightarrow> bool" where
  "owns_execution w t r \<longleftrightarrow> holds_claim w t r \<and> job_execution_started r"

lemma claimed_by_holds: "claimed_by i w t r \<longleftrightarrow> job_id r = i \<and> holds_claim w t r"
  by (simp add: claimed_by_def holds_claim_def)

definition started_row :: "time \<Rightarrow> analysis_job \<Rightarrow> analysis_job" where
  "started_row now r = r\<lparr>job_execution_started := True,
     job_attempt_count := job_attempt_count r + 1, job_updated_at := now\<rparr>"

lemma MarkExecutionStarted_eq:
  assumes k: "jobs_keys d"
  shows "MarkExecutionStarted now i w t g d =
    (case job_of d i of
       Some r \<Rightarrow>
         if holds_claim w t r \<and> job_execution_generation r = g \<and> liveLeasePredicate now r
         then if job_execution_started r then (Inr (job_attempt_count r), d)
              else (Inr (job_attempt_count r + 1), put_job (started_row now r) d)
         else (Inl ErrOwnershipLost, d)
     | None \<Rightarrow> (Inl ErrOwnershipLost, d))"
proof (cases "job_of d i")
  case None
  with k show ?thesis
    by (simp add: MarkExecutionStarted_def MarkExecutionStartedTx_def Let_def claimed_by_holds
        conj_assoc keyed_jobs run_tx_def)
next
  case (Some r)
  let ?ok = "holds_claim w t r \<and> job_execution_generation r = g \<and> liveLeasePredicate now r"
  show ?thesis
  proof (cases "?ok \<and> \<not> job_execution_started r")
    case True
    have "job_of (put_job (started_row now r) d) i = Some (started_row now r)"
      using Some by (simp add: job_of_put_job started_row_def job_of_Some_id)
    moreover have "holds_claim w t (started_row now r)" "liveLeasePredicate now (started_row now r)"
      using True by (simp_all add: started_row_def holds_claim_def liveLeasePredicate_def)
    ultimately show ?thesis
      using k Some True
      by (simp add: MarkExecutionStarted_def MarkExecutionStartedTx_def Let_def claimed_by_holds
          conj_assoc keyed_jobs run_tx_def started_row_def)
  next
    case False
    with k Some show ?thesis
      by (auto simp: MarkExecutionStarted_def MarkExecutionStartedTx_def Let_def claimed_by_holds
          conj_assoc keyed_jobs run_tx_def)
  qed
qed

definition returned_row :: "time \<Rightarrow> analysis_job \<Rightarrow> analysis_job" where
  "returned_row now r = r\<lparr>job_status := StatusPending, job_worker_id := None,
     job_claim_token := None, job_lease_until := None, job_finished_at := None, job_updated_at := now\<rparr>"

lemma ReturnUndispatchedClaim_eq:
  assumes k: "jobs_keys d"
  shows "ReturnUndispatchedClaim now i w t g d =
    (case job_of d i of
       Some r \<Rightarrow>
         if holds_claim w t r \<and> job_execution_generation r = g \<and> \<not> job_execution_started r
         then (Inr (), put_job (returned_row now r) d) else (Inl ErrOwnershipLost, d)
     | None \<Rightarrow> (Inl ErrOwnershipLost, d))"
  using k by (cases "job_of d i")
    (auto simp: ReturnUndispatchedClaim_def Let_def claimed_by_holds conj_assoc keyed_jobs returned_row_def)

definition renewed_row :: "time \<Rightarrow> time \<Rightarrow> analysis_job \<Rightarrow> analysis_job" where
  "renewed_row now l r = r\<lparr>job_lease_until := Some l, job_updated_at := now\<rparr>"

lemma RenewLease_eq:
  assumes k: "jobs_keys d"
  shows "RenewLease now i w t l d =
    (case job_of d i of
       Some r \<Rightarrow> if holds_claim w t r \<and> liveLeasePredicate now r
         then (Inr (), put_job (renewed_row now l r) d) else (Inl ErrOwnershipLost, d)
     | None \<Rightarrow> (Inl ErrOwnershipLost, d))"
  using k by (cases "job_of d i")
    (auto simp: RenewLease_def Let_def claimed_by_holds conj_assoc keyed_jobs renewed_row_def)

lemma loadOwned_eq:
  assumes k: "jobs_keys d"
  shows "loadOwnedRunningJobTx i w t d =
    (case job_of d i of
       Some r \<Rightarrow> if owns_execution w t r
         then Inr \<lparr>orj_job_type = job_type r, orj_resource_id = job_resource_id r,
           orj_execution_generation = job_execution_generation r,
           orj_cancel_requested = job_cancel_requested r\<rparr>
         else Inl ErrOwnershipLost
     | None \<Rightarrow> Inl ErrOwnershipLost)"
  using k by (cases "job_of d i")
    (simp_all add: loadOwnedRunningJobTx_def claimed_by_holds conj_assoc find_job owns_execution_def)

lemma IsCancelRequested_eq:
  assumes k: "jobs_keys d"
  shows "IsCancelRequested i w t d =
    (case job_of d i of
       Some r \<Rightarrow> if holds_claim w t r then Inr (job_cancel_requested r) else Inl ErrOwnershipLost
     | None \<Rightarrow> Inl ErrOwnershipLost)"
proof -
  have "claimed_by i w t = (\<lambda>r. job_id r = i \<and> holds_claim w t r)"
    by (simp add: fun_eq_iff claimed_by_holds)
  with find_job[OF k, of i "holds_claim w t"] show ?thesis
    by (cases "job_of d i") (simp_all add: IsCancelRequested_def)
qed

section \<open>Row-level behaviour of the finalizers\<close>

definition cancelled_row :: "time \<Rightarrow> analysis_job \<Rightarrow> analysis_job" where
  "cancelled_row now r = r\<lparr>job_status := StatusCancelled,
     job_terminal_reason := Some TerminalReasonCancelled,
     job_finished_at := Some now, job_updated_at := now\<rparr>"

definition succeeded_row :: "time \<Rightarrow> analysis_job \<Rightarrow> analysis_job" where
  "succeeded_row now r = r\<lparr>job_status := StatusSucceeded, job_finished_at := Some now, job_updated_at := now\<rparr>"

definition failed_row :: "time \<Rightarrow> error_class \<Rightarrow> string \<Rightarrow> string \<Rightarrow> terminal_reason option \<Rightarrow> analysis_job \<Rightarrow> analysis_job" where
  "failed_row now cls code msg reason r = r\<lparr>job_status := StatusFailed, job_terminal_reason := reason,
     job_last_error_class := Some (error_class_text cls), job_last_error_code := Some code,
     job_last_error_message := Some msg, job_finished_at := Some now, job_updated_at := now\<rparr>"

definition retry_row :: "time \<Rightarrow> error_class \<Rightarrow> string \<Rightarrow> string \<Rightarrow> time \<Rightarrow> analysis_job \<Rightarrow> analysis_job" where
  "retry_row now cls code msg next r = r\<lparr>job_status := StatusRetryWait, job_next_run_at := next,
     job_last_error_class := Some (error_class_text cls), job_last_error_code := Some code,
     job_last_error_message := Some msg, job_updated_at := now\<rparr>"

lemmas row_defs = started_row_def returned_row_def renewed_row_def cancelled_row_def
  succeeded_row_def failed_row_def retry_row_def claim_row_def

lemma ConditionalFinalizeCancelTx_eq:
  assumes k: "jobs_keys d"
  shows "ConditionalFinalizeCancelTx now i w t d =
    (case job_of d i of
       Some r \<Rightarrow>
         if owns_execution w t r
         then if job_type r \<noteq> JobTypeRunDiagnosis then Inl ErrCancellationUnsupported
              else if \<not> job_cancel_requested r then Inl ErrCancellationNotRequested
              else cancelDiagnosisRunTx now (job_resource_id r) (job_execution_generation r)
                     (put_job (cancelled_row now r) d)
         else Inl ErrOwnershipLost
     | None \<Rightarrow> Inl ErrOwnershipLost)"
  using k by (cases "job_of d i")
    (auto simp: ConditionalFinalizeCancelTx_def loadOwned_eq Let_def claimed_by_holds conj_assoc
      keyed_jobs owns_execution_def cancelled_row_def)

lemma ConditionalFinalizeSuccessTx_eq:
  assumes k: "jobs_keys d"
  shows "ConditionalFinalizeSuccessTx now i w t d =
    (case job_of d i of
       Some r \<Rightarrow>
         if owns_execution w t r
         then if job_cancel_requested r then ConditionalFinalizeCancelTx now i w t d
              else Inr (put_job (succeeded_row now r) d)
         else Inl ErrOwnershipLost
     | None \<Rightarrow> Inl ErrOwnershipLost)"
  using k by (cases "job_of d i")
    (auto simp: ConditionalFinalizeSuccessTx_def ConditionalFinalizeCancelTx_eq loadOwned_eq Let_def
      claimed_by_holds conj_assoc keyed_jobs owns_execution_def succeeded_row_def)

lemma ConditionalFinalizeFailureTx_eq:
  assumes k: "jobs_keys d"
  shows "ConditionalFinalizeFailureTx now i w t cls code msg reason isTerminal next d =
    (case job_of d i of
       Some r \<Rightarrow>
         if owns_execution w t r
         then if job_type r = JobTypeRunDiagnosis \<and> job_cancel_requested r
              then ConditionalFinalizeCancelTx now i w t d
              else if isTerminal
              then failBusinessTx now i False code msg (put_job (failed_row now cls code msg reason r) d)
              else Inr (put_job (retry_row now cls code msg next r) d)
         else Inl ErrOwnershipLost
     | None \<Rightarrow> Inl ErrOwnershipLost)"
proof (cases "job_of d i")
  case None
  with k show ?thesis by (simp add: ConditionalFinalizeFailureTx_def loadOwned_eq)
next
  case (Some r)
  show ?thesis
  proof (cases "owns_execution w t r \<and> \<not> (job_type r = JobTypeRunDiagnosis \<and> job_cancel_requested r)")
    case True
    with k Some show ?thesis
      by (auto simp: ConditionalFinalizeFailureTx_def loadOwned_eq Let_def claimed_by_holds conj_assoc
          keyed_jobs owns_execution_def failed_row_def retry_row_def)
  next
    case False
    with k Some show ?thesis
      by (auto simp: ConditionalFinalizeFailureTx_def loadOwned_eq)
  qed
qed

end
