(* ===== verification/Job_Invariants.thy ===== *)
theory Job_Invariants
  imports Job_Refine
begin

text \<open>
  Every operation of the job store moves the rows of the table along the life cycle
  only, and keeps the keys of the table: \<open>jobs_evolve F\<close>. The invariant of the life cycle
  is therefore an invariant of the table under every operation.
\<close>

section \<open>Evolution of the table\<close>

definition resource_key :: "analysis_job \<Rightarrow> job_type \<times> string" where
  "resource_key r = (job_type r, job_resource_id r)"

text \<open>
  The rows move along the life cycle and rows are only added behind them, with new ids,
  as reachable rows, and without a second row for a resource.
\<close>

definition jobs_evolve :: "(string \<Rightarrow> bool) \<Rightarrow> db \<Rightarrow> db \<Rightarrow> bool" where
  "jobs_evolve F d d' \<longleftrightarrow> next_job_id d \<le> next_job_id d'
    \<and> (distinct (map resource_key (analysis_jobs d)) \<longrightarrow> distinct (map resource_key (analysis_jobs d')))
    \<and> (\<exists>ts us. analysis_jobs d' = ts @ us \<and> list_all2 (life_steps F) (analysis_jobs d) ts
        \<and> list_all (reachable fresh_job (life_step F)) us \<and> distinct (map job_id us)
        \<and> (\<forall>u \<in> set us. next_job_id d \<le> job_id u \<and> job_id u < next_job_id d'))"

lemma list_all2_job_id:
  "list_all2 (life_steps F) xs ys \<Longrightarrow> map job_id ys = map job_id xs"
  by (induction rule: list_all2_induct) (auto dest: life_steps_identity)

lemma list_all2_resource_key:
  "list_all2 (life_steps F) xs ys \<Longrightarrow> map resource_key ys = map resource_key xs"
  by (induction rule: list_all2_induct) (auto dest: life_steps_identity simp: resource_key_def)

lemma jobs_evolveI:
  "list_all2 (life_steps F) (analysis_jobs d) (analysis_jobs d') \<Longrightarrow> next_job_id d' = next_job_id d \<Longrightarrow>
    jobs_evolve F d d'"
  unfolding jobs_evolve_def
  by (frule list_all2_resource_key, intro conjI exI[where x = "analysis_jobs d'"] exI[where x = "[]"]) simp_all

lemma jobs_evolve_same:
  "analysis_jobs d' = analysis_jobs d \<Longrightarrow> next_job_id d' = next_job_id d \<Longrightarrow> jobs_evolve F d d'"
  by (rule jobs_evolveI) (auto intro: list_all2_refl)

lemma jobs_evolve_set_jobs:
  assumes "\<And>r. r \<in> set (analysis_jobs d) \<Longrightarrow> P r \<Longrightarrow> life_steps F r (f r)"
  shows "jobs_evolve F d (set_jobs P f d)"
proof (rule jobs_evolveI)
  show "list_all2 (life_steps F) (analysis_jobs d) (analysis_jobs (set_jobs P f d))"
    unfolding tables_set_jobs using assms by (intro list_all2_sql_set) auto
qed (simp add: set_jobs_def)

lemma jobs_evolve_put_job:
  assumes "jobs_keys d" and "job_of d i = Some r" and "life_steps F r r'"
  shows "jobs_evolve F d (put_job r' d)"
  unfolding put_job_def
proof (rule jobs_evolve_set_jobs)
  fix x assume x: "x \<in> set (analysis_jobs d)" "job_id x = job_id r'"
  from assms(3) have "job_id r' = job_id r" using life_steps_identity by blast
  with x assms have "x = r"
    using job_of_unique[OF assms(1) x(1)] job_of_Some_id[OF assms(2)] by simp
  with assms(3) show "life_steps F x r'" by simp
qed

lemma jobs_evolve_trans:
  assumes "jobs_evolve F a b" and "jobs_evolve F b c"
  shows "jobs_evolve F a c"
proof -
  from assms(1) obtain ts us where b: "analysis_jobs b = ts @ us"
    and ts: "list_all2 (life_steps F) (analysis_jobs a) ts"
    and us: "list_all (reachable fresh_job (life_step F)) us" "distinct (map job_id us)"
    and ids: "\<forall>u \<in> set us. next_job_id a \<le> job_id u \<and> job_id u < next_job_id b"
    by (auto simp: jobs_evolve_def)
  from assms(2) obtain ts' us' where c: "analysis_jobs c = ts' @ us'"
    and ts': "list_all2 (life_steps F) (ts @ us) ts'"
    and us': "list_all (reachable fresh_job (life_step F)) us'" "distinct (map job_id us')"
    and ids': "\<forall>u \<in> set us'. next_job_id b \<le> job_id u \<and> job_id u < next_job_id c"
    by (auto simp: jobs_evolve_def b)
  from ts' obtain t1 t2 where t12: "ts' = t1 @ t2" and t1: "list_all2 (life_steps F) ts t1"
    and t2: "list_all2 (life_steps F) us t2"
    by (auto simp: list_all2_append1)
  have next_ids: "next_job_id a \<le> next_job_id b" "next_job_id b \<le> next_job_id c"
    using assms by (simp_all add: jobs_evolve_def)
  have t2_ids: "map job_id t2 = map job_id us" using t2 by (rule list_all2_job_id)
  have t2_range: "next_job_id a \<le> job_id u \<and> job_id u < next_job_id b" if "u \<in> set t2" for u
  proof -
    from that have "job_id u \<in> set (map job_id us)" by (simp flip: t2_ids)
    with ids show ?thesis by auto
  qed
  have "list_all2 (life_steps F) (analysis_jobs a) t1"
    using ts t1 by (rule list_all2_comp) auto
  moreover have "list_all (reachable fresh_job (life_step F)) (t2 @ us')"
    using t2 us us' by (induction us t2 rule: list_all2_induct) (auto intro: job_life.reachable_steps)
  moreover have "distinct (map job_id (t2 @ us'))"
  proof -
    have "job_id ` set t2 \<inter> job_id ` set us' = {}" using t2_range ids' by fastforce
    moreover have "distinct (map job_id t2)" using us(2) by (simp add: t2_ids)
    ultimately show ?thesis using us'(2) by simp
  qed
  moreover have "\<forall>u \<in> set (t2 @ us'). next_job_id a \<le> job_id u \<and> job_id u < next_job_id c"
    using t2_range ids' next_ids by fastforce
  moreover have "distinct (map resource_key (analysis_jobs a)) \<longrightarrow> distinct (map resource_key (analysis_jobs c))"
    using assms by (simp add: jobs_evolve_def)
  moreover have "next_job_id a \<le> next_job_id c" using next_ids by simp
  moreover have "analysis_jobs c = t1 @ (t2 @ us')" using c t12 by simp
  ultimately show ?thesis unfolding jobs_evolve_def by blast
qed

section \<open>The table invariant\<close>

definition jobs_inv :: "db \<Rightarrow> bool" where
  "jobs_inv d \<longleftrightarrow> jobs_keys d \<and> distinct (map resource_key (analysis_jobs d))
    \<and> list_all life_inv (analysis_jobs d) \<and> (\<forall>r \<in> set (analysis_jobs d). job_id r < next_job_id d)"

lemma jobs_inv_keys: "jobs_inv d \<Longrightarrow> jobs_keys d"
  by (simp add: jobs_inv_def)

lemma jobs_inv_row: "jobs_inv d \<Longrightarrow> job_of d i = Some r \<Longrightarrow> life_inv r"
  by (auto simp: jobs_inv_def list_all_iff dest: job_of_in)

lemma list_all2_life_inv:
  "list_all2 (life_steps F) xs ys \<Longrightarrow> list_all life_inv xs \<Longrightarrow> list_all life_inv ys"
  by (induction rule: list_all2_induct) (auto intro: job_life.steps_inv)

lemma jobs_inv_evolve:
  assumes inv: "jobs_inv d" and "jobs_evolve F d d'"
  shows "jobs_inv d'"
proof -
  from assms(2) obtain ts us where d': "analysis_jobs d' = ts @ us"
    and ts: "list_all2 (life_steps F) (analysis_jobs d) ts"
    and us: "list_all (reachable fresh_job (life_step F)) us" "distinct (map job_id us)"
    and ids: "\<forall>u \<in> set us. next_job_id d \<le> job_id u \<and> job_id u < next_job_id d'"
    and next_ids: "next_job_id d \<le> next_job_id d'"
    and res: "distinct (map resource_key (analysis_jobs d'))"
    using inv by (auto simp: jobs_evolve_def jobs_inv_def)
  have ts_ids: "map job_id ts = map job_id (analysis_jobs d)" using ts by (rule list_all2_job_id)
  have ts_range: "job_id u < next_job_id d" if "u \<in> set ts" for u
  proof -
    from that have "job_id u \<in> set (map job_id (analysis_jobs d))" by (simp flip: ts_ids)
    with inv show ?thesis by (auto simp: jobs_inv_def)
  qed
  have "list_all life_inv us"
    using us(1) by (auto simp: list_all_iff intro: job_life.reachable_inv)
  moreover have "list_all life_inv ts"
    using ts inv by (auto simp: jobs_inv_def intro: list_all2_life_inv)
  moreover have "distinct (map job_id (ts @ us))"
  proof -
    have "job_id ` set ts \<inter> job_id ` set us = {}" using ts_range ids by fastforce
    moreover have "distinct (map job_id ts)" using inv by (simp add: ts_ids jobs_inv_def jobs_keys_def)
    ultimately show ?thesis using us(2) by simp
  qed
  moreover have "\<forall>r \<in> set (ts @ us). job_id r < next_job_id d'"
    using ts_range ids next_ids by fastforce
  ultimately show ?thesis using res d' by (simp add: jobs_inv_def jobs_keys_def)
qed

text \<open>The row of a job after an evolution is a later stage of the same job.\<close>

lemma jobs_evolve_row:
  assumes inv: "jobs_inv d" and ev: "jobs_evolve F d d'" and r: "job_of d i = Some r"
  obtains r' where "job_of d' i = Some r'" and "life_steps F r r'"
proof -
  from ev obtain ts us where d': "analysis_jobs d' = ts @ us"
    and ts: "list_all2 (life_steps F) (analysis_jobs d) ts" by (auto simp: jobs_evolve_def)
  from r have "r \<in> set (analysis_jobs d)" by (rule job_of_in)
  then obtain n where n: "n < length (analysis_jobs d)" "analysis_jobs d ! n = r"
    by (auto simp: in_set_conv_nth)
  with ts have steps: "life_steps F r (ts ! n)" and "n < length ts"
    by (auto simp: list_all2_conv_all_nth)
  then have "ts ! n \<in> set (analysis_jobs d')" by (simp add: d')
  moreover have "jobs_keys d'" using jobs_inv_evolve[OF inv ev] by (rule jobs_inv_keys)
  moreover have "job_id (ts ! n) = i"
    using life_steps_identity[OF steps] job_of_Some_id[OF r] by simp
  ultimately show thesis using steps that job_of_unique by blast
qed

section \<open>Business writes leave the jobs alone\<close>

text \<open>Two databases with the same job table.\<close>

definition same_jobs :: "db \<Rightarrow> db \<Rightarrow> bool" where
  "same_jobs d d' \<longleftrightarrow> analysis_jobs d' = analysis_jobs d \<and> next_job_id d' = next_job_id d"

lemma same_jobs_refl [simp]: "same_jobs d d"
  by (simp add: same_jobs_def)

lemma same_jobs_trans: "same_jobs a b \<Longrightarrow> same_jobs b c \<Longrightarrow> same_jobs a c"
  by (simp add: same_jobs_def)

lemma same_jobs_sets [simp]:
  "same_jobs d (set_snapshots P1 f1 e) \<longleftrightarrow> same_jobs d e"
  "same_jobs d (set_code_builds P2 f2 e) \<longleftrightarrow> same_jobs d e"
  "same_jobs d (set_retrieval_builds P3 f3 e) \<longleftrightarrow> same_jobs d e"
  "same_jobs d (set_revisions P4 f4 e) \<longleftrightarrow> same_jobs d e"
  "same_jobs d (set_runs P5 f5 e) \<longleftrightarrow> same_jobs d e"
  "same_jobs d (set_attempts P6 f6 e) \<longleftrightarrow> same_jobs d e"
  by (simp_all add: same_jobs_def)

lemma same_jobs_job_of: "same_jobs d d' \<Longrightarrow> job_of d' i = job_of d i"
  by (simp add: same_jobs_def job_of_def)

lemma same_jobs_keys: "same_jobs d d' \<Longrightarrow> jobs_keys d' \<longleftrightarrow> jobs_keys d"
  by (simp add: same_jobs_def jobs_keys_def)

lemma cancelDiagnosisRunTx_jobs: "cancelDiagnosisRunTx now run g d = Inr d' \<Longrightarrow> same_jobs d d'"
  by (auto simp: cancelDiagnosisRunTx_def Let_def split: if_splits option.splits)

lemma fail_business_update_jobs: "same_jobs d (snd (fail_business_update ty code res d))"
  by (simp add: fail_business_update_def Let_def split: job_type.split)

lemma fail_diagnosis_attempts_jobs: "same_jobs d (fail_diagnosis_attempts now reaped res g d)"
  by (simp add: fail_diagnosis_attempts_def Let_def)

lemma failAnalysisRevisionTx_jobs:
  "failAnalysisRevisionTx now ty res code msg d = Inr d' \<Longrightarrow> same_jobs d d'"
  by (auto simp: failAnalysisRevisionTx_def Let_def bindE_eq_Inr split: option.splits if_splits sum.splits)

lemma failBusinessTx_jobs:
  assumes "failBusinessTx now i reaped code msg d = Inr d'"
  shows "same_jobs d d'"
proof -
  obtain job where job: "job_of d i = Some job"
    using assms by (auto simp: failBusinessTx_def split: option.splits)
  obtain n d1 where up: "fail_business_update (job_type job)
      (if reaped then ''LEASE_EXPIRED_EXHAUSTED'' else if code \<noteq> '''' then code else ''JOB_FAILED'')
      (job_resource_id job) d = (n, d1)"
    by (metis surj_pair)
  let ?d2 = "if job_type job = JobTypeRunDiagnosis
    then fail_diagnosis_attempts now reaped (job_resource_id job) (job_execution_generation job) d1 else d1"
  have "same_jobs d d1"
    using fail_business_update_jobs[of d "job_type job" _ "job_resource_id job"] up by (metis snd_conv)
  moreover have "same_jobs d1 ?d2" by (simp add: fail_diagnosis_attempts_jobs)
  moreover have "same_jobs ?d2 d'"
    using assms job up
    by (auto simp: failBusinessTx_def Let_def intro!: failAnalysisRevisionTx_jobs
        split: job_type.splits if_splits prod.splits)
  ultimately show ?thesis by (blast intro: same_jobs_trans)
qed

section \<open>The life steps behind the row updates\<close>

lemma life_claim_row:
  "F t \<Longrightarrow> job_status r = StatusPending \<or> job_status r = StatusRetryWait \<Longrightarrow> life_step F r (claim_row w t l now r)"
  unfolding claim_row_def by (rule life_claim)

lemma life_started_row: "holds_claim w t r \<Longrightarrow> \<not> job_execution_started r \<Longrightarrow> life_step F r (started_row now r)"
  unfolding started_row_def by (rule life_start) (auto simp: holds_claim_def)

lemma life_returned_row:
  assumes "holds_claim w t r" and "\<not> job_execution_started r"
  shows "life_step F r (returned_row now r)"
proof -
  have "returned_row now r = r\<lparr>job_status := StatusPending, job_next_run_at := job_next_run_at r,
      job_worker_id := None, job_claim_token := None, job_lease_until := None,
      job_finished_at := None, job_updated_at := now\<rparr>"
    by (cases r) (simp add: returned_row_def)
  then show ?thesis
    using life_return[of r F now "job_next_run_at r"] assms by (simp add: holds_claim_def)
qed

lemma life_renewed_row: "holds_claim w t r \<Longrightarrow> life_step F r (renewed_row now l r)"
  unfolding renewed_row_def by (rule life_renew) (auto simp: holds_claim_def)

lemma life_cancelled_row:
  "owns_execution w t r \<Longrightarrow> job_type r = JobTypeRunDiagnosis \<Longrightarrow> job_cancel_requested r \<Longrightarrow>
    life_step F r (cancelled_row now r)"
  unfolding cancelled_row_def by (rule life_cancel) (auto simp: owns_execution_def holds_claim_def)

lemma life_succeeded_row:
  "owns_execution w t r \<Longrightarrow> \<not> job_cancel_requested r \<Longrightarrow> life_step F r (succeeded_row now r)"
  unfolding succeeded_row_def by (rule life_succeed) (auto simp: owns_execution_def holds_claim_def)

lemma life_failed_row:
  "owns_execution w t r \<Longrightarrow> \<not> (job_type r = JobTypeRunDiagnosis \<and> job_cancel_requested r) \<Longrightarrow>
    life_step F r (failed_row now cls code msg reason r)"
  unfolding failed_row_def by (rule life_fail) (auto simp: owns_execution_def holds_claim_def)

lemma life_retry_row:
  "owns_execution w t r \<Longrightarrow> \<not> (job_type r = JobTypeRunDiagnosis \<and> job_cancel_requested r) \<Longrightarrow>
    job_attempt_count r < job_max_attempts r \<Longrightarrow> life_step F r (retry_row now cls code msg nxt r)"
  unfolding retry_row_def by (rule life_retry) (auto simp: owns_execution_def holds_claim_def)

lemmas life_rows = life_claim_row life_started_row life_returned_row life_renewed_row
  life_cancelled_row life_succeeded_row life_failed_row life_retry_row

section \<open>The operations evolve the table\<close>

lemma evolve_row_step:
  "jobs_keys d \<Longrightarrow> job_of d i = Some r \<Longrightarrow> life_step F r r' \<Longrightarrow> jobs_evolve F d (put_job r' d)"
  by (rule jobs_evolve_put_job) auto

lemma MarkExecutionStarted_evolve:
  "jobs_keys d \<Longrightarrow> jobs_evolve F d (snd (MarkExecutionStarted now i w t g d))"
  by (auto simp: MarkExecutionStarted_eq jobs_evolve_same split: option.split
      intro!: evolve_row_step intro: life_started_row)

lemma ReturnUndispatchedClaim_evolve:
  "jobs_keys d \<Longrightarrow> jobs_evolve F d (snd (ReturnUndispatchedClaim now i w t g d))"
  by (auto simp: ReturnUndispatchedClaim_eq jobs_evolve_same split: option.split
      intro!: evolve_row_step intro: life_returned_row)

lemma RenewLease_evolve:
  "jobs_keys d \<Longrightarrow> jobs_evolve F d (snd (RenewLease now i w t l d))"
  by (auto simp: RenewLease_eq jobs_evolve_same split: option.split
      intro!: evolve_row_step intro: life_renewed_row)

lemma same_jobs_evolve: "jobs_evolve F d e \<Longrightarrow> same_jobs e e' \<Longrightarrow> jobs_evolve F d e'"
  by (rule jobs_evolve_trans) (auto intro: jobs_evolve_same simp: same_jobs_def)

lemma ConditionalFinalizeCancelTx_row:
  assumes k: "jobs_keys d" and ok: "ConditionalFinalizeCancelTx now i w t d = Inr d'"
  obtains r where "job_of d i = Some r" and "owns_execution w t r"
    and "job_type r = JobTypeRunDiagnosis" and "job_cancel_requested r"
    and "same_jobs (put_job (cancelled_row now r) d) d'"
  using ok by (auto simp: ConditionalFinalizeCancelTx_eq[OF k] split: option.splits if_splits
      dest: cancelDiagnosisRunTx_jobs)

lemma ConditionalFinalizeCancelTx_evolve:
  assumes k: "jobs_keys d" and ok: "ConditionalFinalizeCancelTx now i w t d = Inr d'"
  shows "jobs_evolve F d d'"
  using k ok
  by (rule ConditionalFinalizeCancelTx_row)
    (blast intro: same_jobs_evolve evolve_row_step[OF k] life_cancelled_row)

lemma ConditionalFinalizeSuccessTx_evolve:
  assumes k: "jobs_keys d" and ok: "ConditionalFinalizeSuccessTx now i w t d = Inr d'"
  shows "jobs_evolve F d d'"
  using ok k
  by (auto simp: ConditionalFinalizeSuccessTx_eq split: option.splits if_splits
      intro: ConditionalFinalizeCancelTx_evolve evolve_row_step life_succeeded_row)

text \<open>The caller of the failure finalizer schedules a retry only while attempts remain.\<close>

definition retry_admissible :: "int \<Rightarrow> bool \<Rightarrow> db \<Rightarrow> bool" where
  "retry_admissible i isTerminal d \<longleftrightarrow> isTerminal
    \<or> (case job_of d i of None \<Rightarrow> True | Some r \<Rightarrow> job_attempt_count r < job_max_attempts r)"

lemma ConditionalFinalizeFailureTx_evolve:
  assumes k: "jobs_keys d" and adm: "retry_admissible i isTerminal d"
    and ok: "ConditionalFinalizeFailureTx now i w t cls code msg reason isTerminal nxt d = Inr d'"
  shows "jobs_evolve F d d'"
proof -
  from ok obtain r where r: "job_of d i = Some r" and own: "owns_execution w t r"
    by (auto simp: ConditionalFinalizeFailureTx_eq[OF k] split: option.splits if_splits)
  show ?thesis
  proof (cases "job_type r = JobTypeRunDiagnosis \<and> job_cancel_requested r")
    case True
    with ok r own show ?thesis
      by (auto simp: ConditionalFinalizeFailureTx_eq[OF k] intro: ConditionalFinalizeCancelTx_evolve[OF k])
  next
    case live: False
    show ?thesis
    proof (cases isTerminal)
      case True
      with ok r own live have "failBusinessTx now i False code msg
          (put_job (failed_row now cls code msg reason r) d) = Inr d'"
        by (auto simp: ConditionalFinalizeFailureTx_eq[OF k])
      then have "same_jobs (put_job (failed_row now cls code msg reason r) d) d'"
        by (rule failBusinessTx_jobs)
      moreover have "jobs_evolve F d (put_job (failed_row now cls code msg reason r) d)"
        using k r by (rule evolve_row_step) (rule life_failed_row[OF own live])
      ultimately show ?thesis by (blast intro: same_jobs_evolve)
    next
      case False
      with ok r own live adm show ?thesis
        by (auto simp: ConditionalFinalizeFailureTx_eq[OF k] retry_admissible_def
            intro!: evolve_row_step[OF k r] life_retry_row[OF own live])
    qed
  qed
qed

lemma RequestCancel_evolve: "jobs_evolve F d (snd (RequestCancel now ty res d))"
  by (auto simp: RequestCancel_def Let_def jobs_evolve_same
      intro!: jobs_evolve_set_jobs r_into_rtranclp life_request_cancel)

lemma restore_business_jobs: "same_jobs d (snd (restore_business ty res d))"
  by (simp add: restore_business_def Let_def split: job_type.split)

lemma reset_evolve:
  "(\<And>r. P r \<Longrightarrow> job_status r = StatusFailed) \<Longrightarrow> jobs_evolve F d (set_jobs P (reset_job_row now) d)"
  by (rule jobs_evolve_set_jobs) (auto intro: life_reset)

lemma ManualRequeueTx_evolve:
  assumes "ManualRequeueTx now ty res d = Inr d'"
  shows "jobs_evolve F d d'"
proof -
  obtain n d1 where rb: "restore_business ty res d = (n, d1)" by (metis surj_pair)
  then have same: "same_jobs d d1" using restore_business_jobs[of d ty res] by simp
  from assms rb have "d' = set_jobs (\<lambda>r. job_type r = ty \<and> job_resource_id r = res
      \<and> job_status r = StatusFailed \<and> job_terminal_reason r = Some TerminalReasonRetryableExhausted)
      (reset_job_row now) d1"
    by (auto simp: ManualRequeueTx_def Let_def split: job_type.splits if_splits)
  then have "jobs_evolve F d1 d'" by (auto intro!: reset_evolve)
  moreover have "jobs_evolve F d d1" using same by (intro jobs_evolve_same) (simp_all add: same_jobs_def)
  ultimately show ?thesis by (blast intro: jobs_evolve_trans)
qed

lemma RetryDiagnosisTx_evolve:
  assumes "RetryDiagnosisTx now res d = Inr d'"
  shows "jobs_evolve F d d'"
proof -
  from assms obtain R f where d': "d' = set_jobs (\<lambda>r. job_type r = JobTypeRunDiagnosis
      \<and> job_resource_id r = res \<and> job_status r = StatusFailed) (reset_job_row now) (set_runs R f d)"
    by (auto simp: RetryDiagnosisTx_def Let_def split: option.splits if_splits)
  have "jobs_evolve F (set_runs R f d) d'" unfolding d' by (rule reset_evolve) simp
  moreover have "jobs_evolve F d (set_runs R f d)" by (intro jobs_evolve_same) simp_all
  ultimately show ?thesis by (rule jobs_evolve_trans[rotated])
qed

end
