(* ===== verification/Job_Business.thy ===== *)
theory Job_Business
  imports Job_Invariants
begin

text \<open>
  A terminal failure and the business object of its job: the snapshot, build or run that
  the job works for is \<open>FAILED\<close> in the same transaction, and so is the analysis revision
  that is waiting for it.
\<close>

section \<open>Primary keys of the business tables\<close>

definition business_keys :: "db \<Rightarrow> bool" where
  "business_keys d \<longleftrightarrow> distinct (map snap_id (repository_snapshots d))
    \<and> distinct (map cib_id (code_index_builds d)) \<and> distinct (map rb_id (retrieval_builds d))
    \<and> distinct (map run_id (diagnosis_runs d)) \<and> distinct (map rev_id (analysis_revisions d))"

lemma count_pos_by_key:
  assumes "distinct (map k t)" and "0 < sql_count P t" and "\<And>r. P r \<Longrightarrow> k r = i"
  shows "\<exists>r. by_key k i t = Some r \<and> P r"
proof -
  from assms(2) obtain r where "r \<in> set t" "P r" using sql_count_0_iff[of P t] by auto
  with assms(1,3) show ?thesis by (metis by_key_unique)
qed

lemma distinct_itoa: "distinct (map f xs) \<Longrightarrow> distinct (map (itoa \<circ> f) xs)"
  by (simp add: distinct_map inj_on_def)

section \<open>The business status after the update\<close>

lemma updated_status:
  assumes "distinct (map k t)" and "0 < sql_count P t" and "\<And>r. P r \<Longrightarrow> k r = i"
    and "\<And>r. P r \<Longrightarrow> k (f r) = k r" and "\<And>r. P r \<Longrightarrow> st (f r) = s"
  shows "\<exists>z. by_key k i (sql_set P f t) = Some z \<and> st z = s"
proof -
  from count_pos_by_key[OF assms(1-3)] obtain r where r: "by_key k i t = Some r" "P r" by auto
  have "by_key k i (sql_set P f t) = map_option (\<lambda>x. if P x then f x else x) (by_key k i t)"
    by (rule by_key_sql_set) (rule assms(4))
  with r assms(5) show ?thesis by simp
qed

lemma fail_business_update_status:
  assumes keys: "business_keys d" and up: "fail_business_update ty code res d = (n, d1)" and n: "0 < n"
  shows "business_status ty res d1 = Some ''FAILED''"
proof (cases ty)
  case JobTypeMaterializeSnapshot
  with up keys n show ?thesis
    by (auto simp: fail_business_update_def business_status_def Let_def business_keys_def
        intro!: updated_status)
next
  case JobTypeBuildCodeIndex
  have "distinct (map (itoa \<circ> cib_id) (code_index_builds d))"
    using keys by (intro distinct_itoa) (simp add: business_keys_def)
  with JobTypeBuildCodeIndex up n show ?thesis
    by (auto simp: fail_business_update_def business_status_def Let_def intro!: updated_status)
next
  case JobTypeBuildRetrieval
  have "distinct (map (itoa \<circ> rb_id) (retrieval_builds d))"
    using keys by (intro distinct_itoa) (simp add: business_keys_def)
  with JobTypeBuildRetrieval up n show ?thesis
    by (auto simp: fail_business_update_def business_status_def Let_def intro!: updated_status)
next
  case JobTypeRunDiagnosis
  with up keys n show ?thesis
    by (auto simp: fail_business_update_def business_status_def Let_def business_keys_def
        intro!: updated_status)
next
  case (JobTypeOther x)
  with up keys n show ?thesis
    by (auto simp: fail_business_update_def business_status_def Let_def business_keys_def
        intro!: updated_status)
qed

lemma by_key_sql_set_keep:
  "(\<And>r. P r \<Longrightarrow> k (f r) = k r) \<Longrightarrow> (\<And>r. P r \<Longrightarrow> st (f r) = st r) \<Longrightarrow>
    map_option st (by_key k i (sql_set P f t)) = map_option st (by_key k i t)"
  by (subst by_key_sql_set) (auto simp: option.map_comp comp_def intro!: option.map_cong0)

lemma fail_diagnosis_attempts_status:
  "business_status ty res (fail_diagnosis_attempts now reaped r g d) = business_status ty res d"
  unfolding business_status_def fail_diagnosis_attempts_def Let_def
  by (auto simp: by_key_sql_set_keep split: job_type.split)

lemma revisions_status [simp]:
  "business_status ty res (set_revisions P f d) = business_status ty res d"
  by (simp add: business_status_def split: job_type.split)

lemma failAnalysisRevisionTx_status:
  "failAnalysisRevisionTx now ty res code msg d = Inr d' \<Longrightarrow> business_status ty' res' d' = business_status ty' res' d"
  by (auto simp: failAnalysisRevisionTx_def Let_def bindE_eq_Inr split: option.splits if_splits sum.splits)

section \<open>The linked revision\<close>

lemma read_identity_revisions [simp]:
  "readRevisionResourceIdentityTx ty res (set_revisions P f d) = readRevisionResourceIdentityTx ty res d"
  by (simp add: readRevisionResourceIdentityTx_def Let_def split: job_type.split)

definition revision_failed :: "string \<Rightarrow> revision_stage \<Rightarrow> db \<Rightarrow> bool" where
  "revision_failed rid stage d \<longleftrightarrow> (\<exists>v. by_key rev_id rid (analysis_revisions d) = Some v
     \<and> rev_status v = RevFailed \<and> rev_stage v = stage)"

lemma failAnalysisRevisionTx_failed:
  assumes ok: "failAnalysisRevisionTx now ty res code msg d = Inr d'"
    and keys: "distinct (map rev_id (analysis_revisions d))"
    and st: "failure_stage ty = Some stage"
    and link: "readRevisionResourceIdentityTx ty res d' = Inr (ident, True)"
  shows "revision_failed (ident_revision_id ident) stage d'"
proof -
  let ?P = "\<lambda>r. rev_id r = ident_revision_id ident \<and> rev_status r = RevPreparing \<and> rev_stage r = stage"
  let ?f = "\<lambda>r. r\<lparr>rev_status := RevFailed, rev_stage := stage, rev_error_code := code,
      rev_error_message := msg, rev_version := rev_version r + 1, rev_updated_at := now\<rparr>"
  have read: "readRevisionResourceIdentityTx ty res d = Inr (ident, True)"
    using ok link st
    by (auto simp: failAnalysisRevisionTx_def Let_def bindE_eq_Inr split: if_splits sum.splits)
  with ok st have d': "d' = set_revisions ?P ?f d"
    and cur: "sql_count ?P (analysis_revisions d) = 1
      \<or> (\<exists>c. loadAnalysisRevisionTx (ident_revision_id ident) d' = Inr c \<and> ars_status c = RevFailed \<and> ars_stage c = stage)"
    by (auto simp: failAnalysisRevisionTx_def Let_def bindE_eq_Inr split: if_splits sum.splits)
  from cur show ?thesis
  proof
    assume "sql_count ?P (analysis_revisions d) = 1"
    then have "\<exists>z. by_key rev_id (ident_revision_id ident) (sql_set ?P ?f (analysis_revisions d)) = Some z
        \<and> (\<lambda>v. (rev_status v, rev_stage v)) z = (RevFailed, stage)"
      using keys by (intro updated_status) auto
    then show ?thesis by (auto simp: revision_failed_def d')
  next
    assume "\<exists>c. loadAnalysisRevisionTx (ident_revision_id ident) d' = Inr c
      \<and> ars_status c = RevFailed \<and> ars_stage c = stage"
    then show ?thesis
      by (auto simp: revision_failed_def loadAnalysisRevisionTx_def split: option.splits)
  qed
qed

section \<open>Failing the business object\<close>

lemma fail_update_revisions: "analysis_revisions (snd (fail_business_update ty code res d)) = analysis_revisions d"
  by (simp add: fail_business_update_def Let_def split: job_type.split)

lemma failBusinessTx_effect:
  assumes ok: "failBusinessTx now i reaped code msg d = Inr d'" and job: "job_of d i = Some job"
    and keys: "business_keys d"
  shows "business_status (job_type job) (job_resource_id job) d' = Some ''FAILED''"
    and "\<And>stage ident. failure_stage (job_type job) = Some stage \<Longrightarrow>
      readRevisionResourceIdentityTx (job_type job) (job_resource_id job) d' = Inr (ident, True) \<Longrightarrow>
      revision_failed (ident_revision_id ident) stage d'"
proof -
  let ?ty = "job_type job" and ?res = "job_resource_id job"
  let ?code = "if reaped then ''LEASE_EXPIRED_EXHAUSTED'' else if code \<noteq> '''' then code else ''JOB_FAILED''"
  let ?msg = "if reaped then ''Job lease expired and max attempts exceeded'' else msg"
  obtain n d1 where up: "fail_business_update ?ty ?code ?res d = (n, d1)" by (metis surj_pair)
  let ?d2 = "if ?ty = JobTypeRunDiagnosis
    then fail_diagnosis_attempts now reaped ?res (job_execution_generation job) d1 else d1"
  have step: "failAnalysisRevisionTx now ?ty ?res ?code ?msg ?d2 = Inr d'"
    and guard: "n = 0 \<Longrightarrow> business_status ?ty ?res d1 = Some ''FAILED''"
    using ok job up
    by (auto simp: failBusinessTx_def Let_def split: job_type.splits if_splits prod.splits)
  have "business_status ?ty ?res d1 = Some ''FAILED''"
    using guard fail_business_update_status[OF keys up] by (cases n) auto
  then show "business_status ?ty ?res d' = Some ''FAILED''"
    using failAnalysisRevisionTx_status[OF step]
    by (cases "?ty = JobTypeRunDiagnosis") (simp_all add: fail_diagnosis_attempts_status)
  have "analysis_revisions ?d2 = analysis_revisions d"
    using fail_update_revisions[of ?ty ?code ?res d] up by (simp add: fail_diagnosis_attempts_def Let_def)
  then have "distinct (map rev_id (analysis_revisions ?d2))" using keys by (simp add: business_keys_def)
  then show "revision_failed (ident_revision_id ident) stage d'"
    if "failure_stage ?ty = Some stage" "readRevisionResourceIdentityTx ?ty ?res d' = Inr (ident, True)"
    for stage ident
    using failAnalysisRevisionTx_failed[OF step _ that] by blast
qed

end
