(* ===== verification/Job_Queue.thy ===== *)
theory Job_Queue
  imports Job_Business "HOL-Library.Multiset"
begin

text \<open>
  The two batch operations of the job store: claiming (\<open>ClaimJobs\<close>) and reaping
  (\<open>ReapExpiredJobs\<close>). What each does to every row of the table, and that both evolve it
  along the life cycle.
\<close>

section \<open>Claiming\<close>

definition table_order :: "analysis_job list \<Rightarrow> bool" where
  "table_order rs \<longleftrightarrow> sorted (map job_id rs) \<and> distinct (map job_id rs)"

lemma distinct_map_sort_key: "distinct (map f xs) \<Longrightarrow> distinct (map f (sort_key g xs))"
  using mset_map[of f "sort_key g xs"] mset_map[of f xs]
  by (metis mset_eq_imp_distinct_iff mset_sort)

lemma distinct_map_take: "distinct (map f xs) \<Longrightarrow> distinct (map f (take n xs))"
  by (metis distinct_take take_map)

lemma claim_candidates_props:
  assumes "jobs_keys d"
  shows "set (claim_candidates locked now b d) \<subseteq> {r \<in> set (analysis_jobs d). claimable locked now r}"
    and "table_order (claim_candidates locked now b d)"
    and "0 \<le> b \<Longrightarrow> int (length (claim_candidates locked now b d)) \<le> b"
proof -
  let ?s = "sort_key job_id (filter (claimable locked now) (analysis_jobs d))"
  show "set (claim_candidates locked now b d) \<subseteq> {r \<in> set (analysis_jobs d). claimable locked now r}"
    unfolding claim_candidates_def using set_sql_limit[of b ?s] by auto
  have "distinct (map job_id ?s)"
    using assms by (intro distinct_map_sort_key) (simp add: jobs_keys_def distinct_map_filter)
  then show "table_order (claim_candidates locked now b d)"
    unfolding claim_candidates_def table_order_def sql_limit_def
    by (auto simp flip: take_map intro: distinct_map_take sorted_wrt_take)
  show "0 \<le> b \<Longrightarrow> int (length (claim_candidates locked now b d)) \<le> b"
    unfolding claim_candidates_def by (rule length_sql_limit)
qed

lemma set_jobs_key_job_of:
  assumes "\<And>r. job_id (f r) = job_id r"
  shows "job_of (set_jobs (\<lambda>r. job_id r = c) f d) i
    = (if i = c then map_option f (job_of d i) else job_of d i)"
proof -
  have "job_of (set_jobs (\<lambda>r. job_id r = c) f d) i
      = map_option (\<lambda>x. if job_id x = c then f x else x) (job_of d i)"
    using assms by (intro job_of_set_jobs) auto
  then show ?thesis
    by (cases "job_of d i") (auto dest: job_of_Some_id)
qed

lemma claim_row_id [simp]: "job_id (claim_row w t l now r) = job_id r"
  by (simp add: claim_row_def)

lemma claim_updates_other:
  "i \<notin> job_id ` set cs \<Longrightarrow> job_of (claim_updates tok k w l now cs d) i = job_of d i"
  by (induction tok k w l now cs d rule: claim_updates.induct) (simp_all add: set_jobs_key_job_of)

lemma claim_updates_hit:
  "distinct (map job_id cs) \<Longrightarrow> n < length cs \<Longrightarrow>
    job_of (claim_updates tok k w l now cs d) (job_id (cs ! n))
      = map_option (claim_row w (tok (k + n)) l now) (job_of d (job_id (cs ! n)))"
proof (induction cs arbitrary: k n d)
  case (Cons c cs)
  show ?case
  proof (cases n)
    case 0
    with Cons.prems show ?thesis by (simp add: claim_updates_other set_jobs_key_job_of)
  next
    case (Suc m)
    with Cons.prems have "cs ! m \<in> set cs" by simp
    with Cons.prems have "job_id (cs ! m) \<noteq> job_id c" by (auto dest: sym)
    with Suc Cons.prems Cons.IH[of m "Suc k"] show ?thesis by (simp add: set_jobs_key_job_of)
  qed
qed simp

lemma claim_updates_keys: "map job_id (analysis_jobs (claim_updates tok k w l now cs d)) = map job_id (analysis_jobs d)"
  by (induction tok k w l now cs d rule: claim_updates.induct) (simp_all add: map_key_sql_set)

lemma claim_updates_tables:
  "next_job_id (claim_updates tok k w l now cs d) = next_job_id d"
  "diagnosis_runs (claim_updates tok k w l now cs d) = diagnosis_runs d"
  "diagnosis_attempts (claim_updates tok k w l now cs d) = diagnosis_attempts d"
  by (induction tok k w l now cs d rule: claim_updates.induct) simp_all

lemma claim_updates_evolve:
  assumes F: "\<And>n. F (tok n)" and "jobs_keys d" and "distinct (map job_id cs)"
    and "\<forall>c \<in> set cs. \<exists>r. job_of d (job_id c) = Some r \<and> (job_status r = StatusPending \<or> job_status r = StatusRetryWait)"
  shows "jobs_evolve F d (claim_updates tok k w l now cs d)"
  using assms(2-)
proof (induction cs arbitrary: k d)
  case Nil
  show ?case by (simp add: jobs_evolve_same)
next
  case (Cons c cs)
  let ?d1 = "set_jobs (\<lambda>r. job_id r = job_id c) (claim_row w (tok k) l now) d"
  from Cons.prems(3) obtain r where r: "job_of d (job_id c) = Some r"
    and st: "job_status r = StatusPending \<or> job_status r = StatusRetryWait" by auto
  have d1: "?d1 = put_job (claim_row w (tok k) l now r) d"
    using Cons.prems(1) r by (rule set_job_hit_id) simp
  have "jobs_evolve F d ?d1"
    unfolding d1 using Cons.prems(1) r by (rule evolve_row_step) (rule life_claim_row[where F = F, OF F st])
  moreover have "jobs_evolve F ?d1 (claim_updates tok (Suc k) w l now cs ?d1)"
  proof (rule Cons.IH)
    show "jobs_keys ?d1" using Cons.prems(1) by (simp add: d1)
    show "distinct (map job_id cs)" using Cons.prems(2) by simp
    show "\<forall>c \<in> set cs. \<exists>r. job_of ?d1 (job_id c) = Some r \<and> (job_status r = StatusPending \<or> job_status r = StatusRetryWait)"
    proof
      fix x assume "x \<in> set cs"
      with Cons.prems(2) have "job_id x \<noteq> job_id c" by (auto dest: sym)
      with Cons.prems(3) \<open>x \<in> set cs\<close>
      show "\<exists>r. job_of ?d1 (job_id x) = Some r \<and> (job_status r = StatusPending \<or> job_status r = StatusRetryWait)"
        by (simp add: set_jobs_key_job_of)
    qed
  qed
  ultimately show ?case by (simp add: jobs_evolve_trans)
qed

lemma candidate_row:
  assumes "jobs_keys d" and "c \<in> set (claim_candidates locked now b d)"
  shows "job_of d (job_id c) = Some c" and "claimable locked now c"
  using assms claim_candidates_props(1)[OF assms(1), of locked now b] by (auto intro: job_of_unique)

lemma ClaimJobs_evolve:
  assumes "\<And>n. F (tok n)" and k: "jobs_keys d"
  shows "jobs_evolve F d (snd (ClaimJobs locked tok now w b dur d))"
  unfolding ClaimJobs_def Let_def snd_conv
proof (rule claim_updates_evolve[where F = F, OF assms])
  show "distinct (map job_id (claim_candidates locked now b d))"
    using claim_candidates_props(2)[OF k] by (auto simp: table_order_def)
  show "\<forall>c \<in> set (claim_candidates locked now b d). \<exists>r. job_of d (job_id c) = Some r
      \<and> (job_status r = StatusPending \<or> job_status r = StatusRetryWait)"
    using candidate_row[OF k] by (auto simp: claimable_def)
qed

lemma claimed_jobs_nth:
  "n < length cs \<Longrightarrow> claimed_jobs tok k w l now cs ! n = claimed_job w (tok (k + n)) l now (cs ! n)"
  by (induction cs arbitrary: k n) (auto simp: nth_Cons split: nat.split)

lemma length_claimed_jobs [simp]: "length (claimed_jobs tok k w l now cs) = length cs"
  by (induction cs arbitrary: k) auto

lemma claimed_jobs_ids: "map job_id (claimed_jobs tok k w l now cs) = map job_id cs"
  by (induction cs arbitrary: k) (simp_all add: claimed_job_def)

lemma ClaimJobs_Pair:
  assumes "ClaimJobs locked tok now w b lease d = (js, d')"
  shows "js = claimed_jobs tok 0 w (now + lease) now (claim_candidates locked now b d)"
    and "d' = claim_updates tok 0 w (now + lease) now (claim_candidates locked now b d) d"
  using assms by (simp_all add: ClaimJobs_def Let_def)

lemma ClaimJobs_row:
  assumes k: "jobs_keys d" and n: "n < length (claim_candidates locked now b d)"
  defines "c \<equiv> claim_candidates locked now b d ! n"
  shows "job_of (claim_updates tok 0 w l now (claim_candidates locked now b d) d) (job_id c)
    = Some (claim_row w (tok n) l now c)"
proof -
  have "c \<in> set (claim_candidates locked now b d)" using n by (simp add: c_def)
  note row = candidate_row(1)[OF k this]
  have "distinct (map job_id (claim_candidates locked now b d))"
    using claim_candidates_props(2)[OF k] by (simp add: table_order_def)
  from claim_updates_hit[OF this n, of tok 0 w l now d] row show ?thesis by (simp add: c_def)
qed

section \<open>Reaping\<close>

text \<open>The engine delivers the selected rows in some order, each row once.\<close>

definition scan_order :: "(analysis_job list \<Rightarrow> analysis_job list) \<Rightarrow> bool" where
  "scan_order scan \<longleftrightarrow> (\<forall>rs. mset (scan rs) = mset rs)"

lemma expired_jobs_props:
  assumes "jobs_keys d" and "scan_order scan"
  shows "set (expired_jobs scan locked now b d) \<subseteq> {r \<in> set (analysis_jobs d). lease_expired locked now r}"
    and "distinct (map job_id (expired_jobs scan locked now b d))"
proof -
  let ?f = "filter (lease_expired locked now) (analysis_jobs d)"
  have m: "mset (scan ?f) = mset ?f" using assms(2) by (simp add: scan_order_def)
  show "set (expired_jobs scan locked now b d) \<subseteq> {r \<in> set (analysis_jobs d). lease_expired locked now r}"
    unfolding expired_jobs_def using set_sql_limit[of b "scan ?f"] mset_eq_setD[OF m] by auto
  have "distinct (map job_id ?f)" using assms(1) by (simp add: jobs_keys_def distinct_map_filter)
  then have "distinct (map job_id (scan ?f))"
    using m by (metis mset_eq_imp_distinct_iff mset_map)
  then show "distinct (map job_id (expired_jobs scan locked now b d))"
    by (auto simp: expired_jobs_def sql_limit_def intro: distinct_map_take)
qed

text \<open>
  One round of the loop: the expired row takes one step of the life cycle that leaves
  \<open>RUNNING\<close>, and no other job row is touched.
\<close>

definition reaped_to :: "(string \<Rightarrow> bool) \<Rightarrow> analysis_job \<Rightarrow> analysis_job \<Rightarrow> db \<Rightarrow> db \<Rightarrow> bool" where
  "reaped_to F ej r' d d' \<longleftrightarrow> life_step F ej r' \<and> job_status r' \<noteq> StatusRunning
    \<and> same_jobs (put_job r' d) d'"

lemma same_jobs_put_job: "same_jobs d e \<Longrightarrow> same_jobs (put_job r d) (put_job r e)"
  by (simp add: same_jobs_def put_job_def set_jobs_def)

lemma cancelExpired_row:
  assumes k: "jobs_keys d" and ej: "job_of d (job_id ej) = Some ej"
    and exp: "lease_expired locked now ej" and c: "job_type ej = JobTypeRunDiagnosis" "job_cancel_requested ej"
    and ok: "cancelExpiredDiagnosisTx ej now d = Inr d'"
  shows "reaped_to F ej (cancelled_row now ej) d d'"
proof -
  let ?J = "\<lambda>r. job_id r = job_id ej \<and> job_status r = StatusRunning \<and> job_cancel_requested r
                \<and> (case job_lease_until r of None \<Rightarrow> False | Some t \<Rightarrow> t < now)"
  have "set_jobs ?J (\<lambda>r. r\<lparr>job_status := StatusCancelled,
                job_terminal_reason := Some TerminalReasonCancelled,
                job_finished_at := Some now, job_updated_at := now\<rparr>) d
      = put_job (cancelled_row now ej) d"
    using exp c unfolding cancelled_row_def
    by (intro set_job_hit[OF k ej]) (auto simp: lease_expired_def)
  then have "same_jobs (put_job (cancelled_row now ej) d) d'"
    using ok by (auto simp: cancelExpiredDiagnosisTx_def Let_def split: if_splits option.splits)
  moreover have "life_step F ej (cancelled_row now ej)"
    unfolding cancelled_row_def using exp c by (intro life_cancel) (auto simp: lease_expired_def)
  ultimately show ?thesis by (simp add: reaped_to_def cancelled_row_def)
qed

definition requeued_row :: "time \<Rightarrow> analysis_job \<Rightarrow> analysis_job" where
  "requeued_row now r = r\<lparr>job_status := StatusPending, job_next_run_at := now,
     job_worker_id := None, job_claim_token := None, job_lease_until := None,
     job_execution_started := False, job_finished_at := None, job_updated_at := now\<rparr>"

lemma requeue_row:
  assumes k: "jobs_keys d" and ej: "job_of d (job_id ej) = Some ej"
    and exp: "lease_expired locked now ej" and c: "\<not> job_execution_started ej"
  shows "requeue_never_started ej now d = Inr (put_job (requeued_row now ej) d)"
    and "life_step F ej (requeued_row now ej)"
proof -
  show "requeue_never_started ej now d = Inr (put_job (requeued_row now ej) d)"
    using exp c ej unfolding requeue_never_started_def Let_def requeued_row_def
    by (simp add: lease_expired_def count_job[OF k] set_job_hit[OF k ej])
  have "requeued_row now ej = ej\<lparr>job_status := StatusPending, job_next_run_at := now, job_worker_id := None,
      job_claim_token := None, job_lease_until := None, job_finished_at := None, job_updated_at := now\<rparr>"
    using c by (cases ej) (simp add: requeued_row_def)
  then show "life_step F ej (requeued_row now ej)"
    using life_return[of ej F now now] exp c by (simp add: lease_expired_def)
qed

definition unknown_message :: "string \<Rightarrow> string" where
  "unknown_message m = (if m = ''''
     then ''provider request outcome could not be confirmed; automatic replay is disabled'' else m)"

definition unknown_row :: "time \<Rightarrow> string \<Rightarrow> analysis_job \<Rightarrow> analysis_job" where
  "unknown_row now m r = failed_row now ErrorClassPermanent ''PROVIDER_OUTCOME_UNKNOWN'' (unknown_message m)
     (Some TerminalReasonPermanent) r"

lemma failExpired_row:
  assumes k: "jobs_keys d" and ej: "job_of d (job_id ej) = Some ej"
    and exp: "lease_expired locked now ej" and st: "job_execution_started ej"
    and c: "\<not> (job_type ej = JobTypeRunDiagnosis \<and> job_cancel_requested ej)"
    and ok: "failExpiredDiagnosisOutcomeUnknownTx ej a m now d = Inr d'"
  shows "reaped_to F ej (unknown_row now m ej) d d'"
proof -
  let ?Q = "\<lambda>r. job_status r = StatusRunning \<and> job_execution_started r"
  from ok have "\<exists>R f A g. d' = set_jobs (\<lambda>r. job_id r = job_id ej \<and> ?Q r) (unknown_row now m)
      (set_runs R f (set_attempts A g d))"
    unfolding failExpiredDiagnosisOutcomeUnknownTx_def unknown_message_def[symmetric] Let_def
      unknown_row_def[abs_def] failed_row_def error_class_text.simps
    by (simp split: if_split_asm) (intro exI, erule sym)
  then obtain e where same: "same_jobs d e"
    and d': "d' = set_jobs (\<lambda>r. job_id r = job_id ej \<and> ?Q r) (unknown_row now m) e"
    by (metis same_jobs_refl same_jobs_sets(5,6))
  have "d' = put_job (unknown_row now m ej) e"
    unfolding d' using same k ej exp st
    by (intro set_job_hit) (auto simp: same_jobs_keys same_jobs_job_of lease_expired_def
        unknown_row_def failed_row_def)
  then have "same_jobs (put_job (unknown_row now m ej) d) d'"
    using same by (simp add: same_jobs_put_job)
  moreover have "life_step F ej (unknown_row now m ej)"
    unfolding unknown_row_def failed_row_def using exp st c by (intro life_fail) (auto simp: lease_expired_def)
  ultimately show ?thesis by (simp add: reaped_to_def unknown_row_def failed_row_def)
qed

definition lease_retry_row :: "time \<Rightarrow> duration \<Rightarrow> analysis_job \<Rightarrow> analysis_job" where
  "lease_retry_row now backoff r = retry_row now ErrorClassOwnershipLost ''LEASE_EXPIRED''
     ''Job lease expired and worker did not renew'' (now + backoff) r"

lemma schedule_row:
  assumes k: "jobs_keys d" and ej: "job_of d (job_id ej) = Some ej"
    and exp: "lease_expired locked now ej" and st: "job_execution_started ej"
    and c: "\<not> (job_type ej = JobTypeRunDiagnosis \<and> job_cancel_requested ej)"
    and att: "job_attempt_count ej < job_max_attempts ej"
    and ok: "schedule_reaped_retry rnd ej now d = Inr d'"
  obtains backoff where "CalculateBackoff rnd (job_attempt_count ej) Second Minute = Some backoff"
    and "reaped_to F ej (lease_retry_row now backoff ej) d d'"
proof -
  from ok obtain backoff where b: "CalculateBackoff rnd (job_attempt_count ej) Second Minute = Some backoff"
    by (auto simp: schedule_reaped_retry_def split: option.splits)
  have "same_jobs (put_job (lease_retry_row now backoff ej) d) d'"
    using ok b ej by (auto simp: schedule_reaped_retry_def Let_def count_job_id[OF k] set_job_hit_id[OF k ej]
        lease_retry_row_def retry_row_def split: if_splits)
  moreover have "life_step F ej (lease_retry_row now backoff ej)"
    unfolding lease_retry_row_def retry_row_def
    using exp st c att by (intro life_retry) (auto simp: lease_expired_def)
  ultimately show thesis
    using b that by (simp add: reaped_to_def lease_retry_row_def retry_row_def)
qed

definition exhausted_row :: "time \<Rightarrow> analysis_job \<Rightarrow> analysis_job" where
  "exhausted_row now r = failed_row now ErrorClassOwnershipLost ''LEASE_EXPIRED_EXHAUSTED''
     ''Job lease expired and max attempts exceeded'' (Some TerminalReasonRetryableExhausted) r"

lemma fail_reaped_row:
  assumes k: "jobs_keys d" and ej: "job_of d (job_id ej) = Some ej"
    and exp: "lease_expired locked now ej" and st: "job_execution_started ej"
    and c: "\<not> (job_type ej = JobTypeRunDiagnosis \<and> job_cancel_requested ej)"
    and ok: "fail_reaped ej now d = Inr d'"
  shows "reaped_to F ej (exhausted_row now ej) d d'"
proof -
  from ok obtain d1 where fb: "failBusinessTx now (job_id ej) True ''LEASE_EXPIRED_EXHAUSTED''
      ''Job lease expired and max attempts exceeded'' d = Inr d1"
    and d': "d' = set_jobs (\<lambda>r. job_id r = job_id ej) (\<lambda>r. r\<lparr>job_status := StatusFailed,
             job_terminal_reason := Some TerminalReasonRetryableExhausted,
             job_last_error_class := Some ''OWNERSHIP_LOST'',
             job_last_error_code := Some ''LEASE_EXPIRED_EXHAUSTED'',
             job_last_error_message := Some ''Job lease expired and max attempts exceeded'',
             job_finished_at := Some now, job_updated_at := now\<rparr>) d1"
    by (auto simp: fail_reaped_def bindE_eq_Inr)
  from fb have same: "same_jobs d d1" by (rule failBusinessTx_jobs)
  then have k1: "jobs_keys d1" and ej1: "job_of d1 (job_id ej) = Some ej"
    using k ej by (simp_all add: same_jobs_keys same_jobs_job_of)
  have "d' = put_job (exhausted_row now ej) d1"
    unfolding d' exhausted_row_def failed_row_def error_class_text.simps
    by (rule set_job_hit_id[OF k1 ej1]) simp
  then have "same_jobs (put_job (exhausted_row now ej) d) d'"
    using same by (simp add: same_jobs_put_job)
  moreover have "life_step F ej (exhausted_row now ej)"
    unfolding exhausted_row_def failed_row_def using exp st c by (intro life_fail) (auto simp: lease_expired_def)
  ultimately show ?thesis by (simp add: reaped_to_def exhausted_row_def failed_row_def)
qed

lemma reap_one_row:
  assumes k: "jobs_keys d" and ej: "job_of d (job_id ej) = Some ej"
    and exp: "lease_expired locked now ej" and ok: "reap_one rnd now ej d = Inr d'"
  obtains r' where "reaped_to F ej r' d d'"
proof -
  consider (cancel) "job_type ej = JobTypeRunDiagnosis" "job_cancel_requested ej"
    | (requeue) "\<not> (job_type ej = JobTypeRunDiagnosis \<and> job_cancel_requested ej)" "\<not> job_execution_started ej"
    | (live) "\<not> (job_type ej = JobTypeRunDiagnosis \<and> job_cancel_requested ej)" "job_execution_started ej"
    by blast
  then show thesis
  proof cases
    case cancel
    with ok have "cancelExpiredDiagnosisTx ej now d = Inr d'" by (simp add: reap_one_def)
    from that cancelExpired_row[OF k ej exp cancel this] show thesis by blast
  next
    case requeue
    with ok have "requeue_never_started ej now d = Inr d'" by (auto simp: reap_one_def)
    with requeue_row[OF k ej exp requeue(2)] have "reaped_to F ej (requeued_row now ej) d d'"
      by (simp add: reaped_to_def requeued_row_def)
    then show thesis by (rule that)
  next
    case live
    show thesis
    proof (cases "if job_type ej = JobTypeRunDiagnosis then diagnosisOutcomeUnknownMarker ej d else None")
      case (Some am)
      with ok live obtain a m where "failExpiredDiagnosisOutcomeUnknownTx ej a m now d = Inr d'"
        by (cases am) (auto simp: reap_one_def)
      from that failExpired_row[OF k ej exp live(2,1) this] show thesis by blast
    next
      case None
      with ok live have rest: "(if job_attempt_count ej < job_max_attempts ej
          then schedule_reaped_retry rnd ej now d else fail_reaped ej now d) = Inr d'"
        by (auto simp: reap_one_def)
      show thesis
      proof (cases "job_attempt_count ej < job_max_attempts ej")
        case True
        with rest have "schedule_reaped_retry rnd ej now d = Inr d'" by simp
        from schedule_row[OF k ej exp live(2,1) True this] that show thesis by blast
      next
        case False
        with rest have "fail_reaped ej now d = Inr d'" by simp
        from that fail_reaped_row[OF k ej exp live(2,1) this] show thesis by blast
      qed
    qed
  qed
qed

lemma reaped_to_keys: "reaped_to F ej r' d d' \<Longrightarrow> jobs_keys d \<Longrightarrow> jobs_keys d'"
  by (metis reaped_to_def same_jobs_keys jobs_keys_put_job)

lemma reaped_to_job_of:
  "reaped_to F ej r' d d' \<Longrightarrow> job_of d (job_id ej) = Some ej \<Longrightarrow>
    job_of d' i = (if i = job_id ej then Some r' else job_of d i)"
  by (auto simp: reaped_to_def same_jobs_job_of job_of_put_job dest: life_step_identity)

lemma reaped_to_evolve:
  "reaped_to F ej r' d d' \<Longrightarrow> jobs_keys d \<Longrightarrow> job_of d (job_id ej) = Some ej \<Longrightarrow> jobs_evolve F d d'"
  unfolding reaped_to_def by (blast intro: same_jobs_evolve evolve_row_step)

lemma reaped_to_next: "reaped_to F ej r' d d' \<Longrightarrow> next_job_id d' = next_job_id d"
  by (simp add: reaped_to_def same_jobs_def put_job_def set_jobs_def)

lemma reap_all_rows:
  assumes "jobs_keys d" and "distinct (map job_id ejs)"
    and "\<forall>ej \<in> set ejs. job_of d (job_id ej) = Some ej \<and> lease_expired locked now ej"
    and "reap_all rnd now ejs d = Inr d'"
  shows "jobs_keys d' \<and> jobs_evolve F d d' \<and> next_job_id d' = next_job_id d
    \<and> (\<forall>i. i \<notin> job_id ` set ejs \<longrightarrow> job_of d' i = job_of d i)
    \<and> (\<forall>ej \<in> set ejs. \<exists>r'. life_step F ej r' \<and> job_status r' \<noteq> StatusRunning \<and> job_of d' (job_id ej) = Some r')"
  using assms
proof (induction ejs arbitrary: d)
  case Nil
  then show ?case by (simp add: jobs_evolve_same)
next
  case (Cons ej ejs)
  from Cons.prems(4) obtain d1 where one: "reap_one rnd now ej d = Inr d1"
    and rest: "reap_all rnd now ejs d1 = Inr d'" by (auto simp: bindE_eq_Inr)
  from Cons.prems(3) have ej: "job_of d (job_id ej) = Some ej" and exp: "lease_expired locked now ej" by auto
  from reap_one_row[OF Cons.prems(1) ej exp one] obtain r' where r': "reaped_to F ej r' d d1" .
  note of1 = reaped_to_job_of[OF r' ej]
  have fresh: "job_id ej \<notin> job_id ` set ejs" using Cons.prems(2) by auto
  have rows: "\<forall>x \<in> set ejs. job_of d1 (job_id x) = Some x \<and> lease_expired locked now x"
  proof
    fix x assume x: "x \<in> set ejs"
    with fresh have "job_id x \<noteq> job_id ej" by (metis image_eqI)
    with x Cons.prems(3) show "job_of d1 (job_id x) = Some x \<and> lease_expired locked now x"
      by (simp add: of1)
  qed
  have "distinct (map job_id ejs)" using Cons.prems(2) by simp
  note IH = Cons.IH[OF reaped_to_keys[OF r' Cons.prems(1)] this rows rest]
  have "jobs_evolve F d d'"
    using reaped_to_evolve[OF r' Cons.prems(1) ej] IH by (blast intro: jobs_evolve_trans)
  moreover have "next_job_id d' = next_job_id d" using IH reaped_to_next[OF r'] by simp
  moreover have "\<forall>i. i \<notin> job_id ` set (ej # ejs) \<longrightarrow> job_of d' i = job_of d i"
    using IH by (simp add: of1)
  moreover have "job_of d' (job_id ej) = Some r'" using IH fresh by (simp add: of1)
  then have "\<exists>r'. life_step F ej r' \<and> job_status r' \<noteq> StatusRunning \<and> job_of d' (job_id ej) = Some r'"
    using r' unfolding reaped_to_def by blast
  ultimately show ?case using IH unfolding list.set ball_simps by blast
qed

lemma ReapExpiredJobs_rows:
  assumes k: "jobs_keys d" and s: "scan_order scan"
    and ok: "ReapExpiredJobs rnd scan locked now b d = (Inr n, d')"
  defines "ejs \<equiv> expired_jobs scan locked now b d"
  shows "n = int (length ejs)" and "jobs_keys d'" and "jobs_evolve F d d'" and "next_job_id d' = next_job_id d"
    and "\<And>i. i \<notin> job_id ` set ejs \<Longrightarrow> job_of d' i = job_of d i"
    and "\<And>ej. ej \<in> set ejs \<Longrightarrow>
      \<exists>r'. life_step F ej r' \<and> job_status r' \<noteq> StatusRunning \<and> job_of d' (job_id ej) = Some r'"
proof -
  from ok have n: "n = int (length ejs)" and all: "reap_all rnd now ejs d = Inr d'"
    by (auto simp: ReapExpiredJobs_def ReapExpiredJobsTx_def run_tx_eq_Inr bindE_eq_Inr Let_def ejs_def)
  note props = expired_jobs_props[OF k s, of locked now b, folded ejs_def]
  have rows: "\<forall>ej \<in> set ejs. job_of d (job_id ej) = Some ej \<and> lease_expired locked now ej"
    using props(1) by (auto intro: job_of_unique[OF k])
  note all_rows = reap_all_rows[OF k props(2) rows all]
  show "n = int (length ejs)" by (rule n)
  show "jobs_keys d'" "jobs_evolve F d d'" "next_job_id d' = next_job_id d"
    "\<And>i. i \<notin> job_id ` set ejs \<Longrightarrow> job_of d' i = job_of d i"
    "\<And>ej. ej \<in> set ejs \<Longrightarrow>
      \<exists>r'. life_step F ej r' \<and> job_status r' \<noteq> StatusRunning \<and> job_of d' (job_id ej) = Some r'"
    using all_rows by blast+
qed

section \<open>An outcome that is not known\<close>

text \<open>What one round of the reaper does to the attempts of other runs: nothing.\<close>

definition attempts_of :: "string \<Rightarrow> db \<Rightarrow> diagnosis_attempt list" where
  "attempts_of res d = filter (\<lambda>a. att_diagnosis_run_id a = res) (diagnosis_attempts d)"

lemma filter_sql_set:
  "(\<And>r. P r \<Longrightarrow> \<not> Q r \<and> \<not> Q (f r)) \<Longrightarrow> filter Q (sql_set P f t) = filter Q t"
  by (induction t) (auto simp: sql_set_def)

lemma attempts_of_simps [simp]:
  "attempts_of res (set_jobs P f d) = attempts_of res d"
  "attempts_of res (set_runs P1 f1 d) = attempts_of res d"
  "attempts_of res (set_revisions P2 f2 d) = attempts_of res d"
  "attempts_of res (set_snapshots P3 f3 d) = attempts_of res d"
  "attempts_of res (set_code_builds P4 f4 d) = attempts_of res d"
  "attempts_of res (set_retrieval_builds P5 f5 d) = attempts_of res d"
  by (simp_all add: attempts_of_def)

lemma attempts_of_set:
  "(\<And>a. P a \<Longrightarrow> att_diagnosis_run_id a \<noteq> res \<and> att_diagnosis_run_id (f a) = att_diagnosis_run_id a) \<Longrightarrow>
    attempts_of res (set_attempts P f d) = attempts_of res d"
  unfolding attempts_of_def runs_tables by (rule filter_sql_set) auto

lemma failAnalysisRevisionTx_attempts:
  "failAnalysisRevisionTx now ty r code msg d = Inr d' \<Longrightarrow> attempts_of res d' = attempts_of res d"
  by (auto simp: failAnalysisRevisionTx_def Let_def bindE_eq_Inr split: option.splits if_splits sum.splits)

lemma failBusinessTx_attempts:
  assumes "failBusinessTx now i reaped code msg d = Inr d'" and "job_of d i = Some job"
    and "job_type job = JobTypeRunDiagnosis \<Longrightarrow> job_resource_id job \<noteq> res"
  shows "attempts_of res d' = attempts_of res d"
proof -
  obtain n d1 where up: "fail_business_update (job_type job)
      (if reaped then ''LEASE_EXPIRED_EXHAUSTED'' else if code \<noteq> '''' then code else ''JOB_FAILED'')
      (job_resource_id job) d = (n, d1)"
    by (metis surj_pair)
  let ?d2 = "if job_type job = JobTypeRunDiagnosis
    then fail_diagnosis_attempts now reaped (job_resource_id job) (job_execution_generation job) d1 else d1"
  have "attempts_of res (snd (fail_business_update ty c r d)) = attempts_of res d" for ty c r
    by (simp add: fail_business_update_def Let_def split: job_type.split)
  with up have "attempts_of res d1 = attempts_of res d" by (metis snd_conv)
  moreover have "attempts_of res ?d2 = attempts_of res d1"
    using assms(3) by (auto simp: fail_diagnosis_attempts_def Let_def intro!: attempts_of_set)
  moreover have "attempts_of res d' = attempts_of res ?d2"
    using assms(1,2) up
    by (auto simp: failBusinessTx_def Let_def intro!: failAnalysisRevisionTx_attempts
        split: job_type.splits if_splits prod.splits)
  ultimately show ?thesis by simp
qed

lemma reap_one_attempts:
  assumes "reap_one rnd now ej d = Inr d'" and "job_of d (job_id ej) = Some ej"
    and other: "job_type ej = JobTypeRunDiagnosis \<Longrightarrow> job_resource_id ej \<noteq> res"
  shows "attempts_of res d' = attempts_of res d"
proof -
  consider (cancel) "job_type ej = JobTypeRunDiagnosis" "cancelExpiredDiagnosisTx ej now d = Inr d'"
    | (requeue) "requeue_never_started ej now d = Inr d'"
    | (unknown) a m where "job_type ej = JobTypeRunDiagnosis" "failExpiredDiagnosisOutcomeUnknownTx ej a m now d = Inr d'"
    | (retry) "schedule_reaped_retry rnd ej now d = Inr d'"
    | (failed) "fail_reaped ej now d = Inr d'"
    using assms(1) unfolding reap_one_def by (auto split: if_split_asm option.split_asm)
  then show ?thesis
  proof cases
    case cancel
    with other show ?thesis unfolding cancelExpiredDiagnosisTx_def Let_def
      by (auto split: if_split_asm option.split_asm intro!: trans[OF attempts_of_set])
  next
    case requeue
    then show ?thesis by (auto simp: requeue_never_started_def Let_def split: if_split_asm)
  next
    case unknown
    with other show ?thesis unfolding failExpiredDiagnosisOutcomeUnknownTx_def Let_def
      by (auto simp: outcome_unknown_def split: if_split_asm intro!: trans[OF attempts_of_set])
  next
    case retry
    with other show ?thesis unfolding schedule_reaped_retry_def Let_def
      by (auto split: if_split_asm option.split_asm intro!: trans[OF attempts_of_set])
  next
    case failed
    then show ?thesis using failBusinessTx_attempts[OF _ assms(2) other]
      by (auto simp: fail_reaped_def bindE_eq_Inr)
  qed
qed

lemma find_filter: "(\<And>x. P x \<Longrightarrow> Q x) \<Longrightarrow> find P (filter Q xs) = find P xs"
  by (induction xs) auto

lemma marker_attempts_of:
  "diagnosisOutcomeUnknownMarker ej d = map_option (\<lambda>a. (att_id a, att_checkpoint_error_message a))
     (find (outcome_unknown ej) (attempts_of (job_resource_id ej) d))"
  unfolding diagnosisOutcomeUnknownMarker_def attempts_of_def
  by (subst find_filter) (auto simp: outcome_unknown_def)

text \<open>
  A started diagnosis whose provider outcome is unknown ends in a permanent failure,
  wherever it stands in the batch.
\<close>

lemma reap_all_unknown:
  assumes "jobs_keys d" and "distinct (map job_id ejs)"
    and "\<forall>ej \<in> set ejs. job_of d (job_id ej) = Some ej \<and> lease_expired locked now ej"
    and "distinct (map resource_key ejs)"
    and "reap_all rnd now ejs d = Inr d'"
    and "ej \<in> set ejs" and "job_type ej = JobTypeRunDiagnosis" and "\<not> job_cancel_requested ej"
    and "job_execution_started ej" and "diagnosisOutcomeUnknownMarker ej d = Some (a, m)"
  shows "job_of d' (job_id ej) = Some (unknown_row now m ej)"
  using assms
proof (induction ejs arbitrary: d)
  case (Cons e ejs)
  from Cons.prems(5) obtain d1 where one: "reap_one rnd now e d = Inr d1"
    and rest: "reap_all rnd now ejs d1 = Inr d'" by (auto simp: bindE_eq_Inr)
  from Cons.prems(3) have e: "job_of d (job_id e) = Some e" and exp: "lease_expired locked now e" by auto
  from reap_one_row[OF Cons.prems(1) e exp one] obtain r' where r': "reaped_to (\<lambda>_. True) e r' d d1" .
  note of1 = reaped_to_job_of[OF r' e]
  have fresh: "job_id e \<notin> job_id ` set ejs" using Cons.prems(2) by auto
  have rows: "\<forall>x \<in> set ejs. job_of d1 (job_id x) = Some x \<and> lease_expired locked now x"
  proof
    fix x assume x: "x \<in> set ejs"
    with fresh have "job_id x \<noteq> job_id e" by (metis image_eqI)
    with x Cons.prems(3) show "job_of d1 (job_id x) = Some x \<and> lease_expired locked now x"
      by (simp add: of1)
  qed
  have k1: "jobs_keys d1" using r' Cons.prems(1) by (rule reaped_to_keys)
  have dist: "distinct (map job_id ejs)" "distinct (map resource_key ejs)" using Cons.prems(2,4) by auto
  show ?case
  proof (cases "ej = e")
    case True
    with one Cons.prems(7-10) have "failExpiredDiagnosisOutcomeUnknownTx e a m now d = Inr d1"
      by (simp add: reap_one_def)
    from failExpired_row[OF Cons.prems(1) e exp _ _ this] Cons.prems(7-9) True
    have "reaped_to (\<lambda>_. True) e (unknown_row now m e) d d1" by simp
    then have "job_of d1 (job_id e) = Some (unknown_row now m e)"
      using e by (simp add: reaped_to_job_of)
    moreover have "job_of d' (job_id e) = job_of d1 (job_id e)"
      using reap_all_rows[OF k1 dist(1) rows rest] fresh by blast
    ultimately show ?thesis using True by simp
  next
    case False
    with Cons.prems(6) have mem: "ej \<in> set ejs" by simp
    have "job_type e = JobTypeRunDiagnosis \<Longrightarrow> job_resource_id e \<noteq> job_resource_id ej"
      using Cons.prems(4,7) mem by (auto simp: resource_key_def intro: rev_image_eqI)
    then have "attempts_of (job_resource_id ej) d1 = attempts_of (job_resource_id ej) d"
      by (rule reap_one_attempts[OF one e])
    then have "diagnosisOutcomeUnknownMarker ej d1 = Some (a, m)"
      using Cons.prems(10) by (simp add: marker_attempts_of)
    then show ?thesis using Cons.IH[OF k1 dist(1) rows dist(2) rest mem] Cons.prems(7-9) by blast
  qed
qed simp

lemma expired_resource_keys:
  assumes "jobs_inv d" and "scan_order scan"
  shows "distinct (map resource_key (expired_jobs scan locked now b d))"
proof -
  let ?f = "filter (lease_expired locked now) (analysis_jobs d)"
  have m: "mset (scan ?f) = mset ?f" using assms(2) by (simp add: scan_order_def)
  have "distinct (map resource_key ?f)" using assms(1) by (simp add: jobs_inv_def distinct_map_filter)
  then have "distinct (map resource_key (scan ?f))" using m by (metis mset_eq_imp_distinct_iff mset_map)
  then show ?thesis by (auto simp: expired_jobs_def sql_limit_def intro: distinct_map_take)
qed

section \<open>The jitter never panics\<close>

lemma reaper_backoff_total:
  "\<lbrakk>\<And>n. 0 < n \<Longrightarrow> 0 \<le> rnd n \<and> rnd n < n\<rbrakk> \<Longrightarrow> CalculateBackoff rnd a Second Minute \<noteq> None"
proof -
  assume rnd: "\<And>n. 0 < n \<Longrightarrow> 0 \<le> rnd n \<and> rnd n < n"
  have "CalculateBackoff rnd a Second Minute = CalculateBackoff rnd (if a \<le> 0 then 1 else a) Second Minute"
    by (simp add: CalculateBackoff_def Let_def)
  then show ?thesis
    using CalculateBackoff_eq[of "if a \<le> 0 then 1 else a" Second Minute rnd] rnd by simp
qed

end
