(* ===== verification/Diagnosis_Store.thy ===== *)
theory Diagnosis_Store
  imports Job_Store
begin

text \<open>
  The diagnosis store, \<open>internal/diagnosis/store.go\<close>: starting an attempt under a job
  claim, the durable marker around a provider dispatch, checkpoints, the claim-fenced
  finalizers of run, attempt and job, cancellation and the recovery of stale attempts.
  Each operation is one transaction on the database. \<open>now\<close> is the clock read,
  \<open>uuid\<close> the identifiers \<open>uuid.New\<close> draws and \<open>scan\<close> the order of an unordered
  \<open>SELECT\<close>.
\<close>

section \<open>Errors\<close>

definition ErrRunNotFound :: go_error where
  "ErrRunNotFound = Sentinel ''diagnosis.ErrRunNotFound'' ''diagnosis run not found''"

definition ErrAttemptNotFound :: go_error where
  "ErrAttemptNotFound = Sentinel ''diagnosis.ErrAttemptNotFound'' ''diagnosis attempt not found''"

definition ErrAttemptNotRunning :: go_error where
  "ErrAttemptNotRunning = Sentinel ''diagnosis.ErrAttemptNotRunning'' ''diagnosis attempt is not running''"

definition ErrAttemptAlreadyExists :: go_error where
  "ErrAttemptAlreadyExists =
    Sentinel ''diagnosis.ErrAttemptAlreadyExists'' ''diagnosis attempt already exists''"

definition ErrAttemptLeaseActive :: go_error where
  "ErrAttemptLeaseActive =
    Sentinel ''diagnosis.ErrAttemptLeaseActive'' ''diagnosis attempt still has an active job lease''"

definition ErrClaimConflict :: go_error where
  "ErrClaimConflict = Sentinel ''diagnosis.ErrClaimConflict''
    ''run claim conflict: status is not in expected state or already claimed''"

definition ErrRunTransitionConflict :: go_error where
  "ErrRunTransitionConflict =
    Sentinel ''diagnosis.ErrRunTransitionConflict'' ''diagnosis run is not running''"

definition wrapE :: "string \<Rightarrow> go_error + 'a \<Rightarrow> go_error + 'a" where
  "wrapE msg m = (case m of Inl e \<Rightarrow> Inl (errorf_w msg e) | Inr x \<Rightarrow> Inr x)"

section \<open>Rows\<close>

definition run_of :: "db \<Rightarrow> string \<Rightarrow> diagnosis_run option" where
  "run_of d i = by_key run_id i (diagnosis_runs d)"

definition attempt_of :: "db \<Rightarrow> string \<Rightarrow> diagnosis_attempt option" where
  "attempt_of d i = by_key att_id i (diagnosis_attempts d)"

text \<open>The \<open>WHERE\<close> clause of the attempt updates.\<close>

definition running_attempt :: "string \<Rightarrow> string \<Rightarrow> int \<Rightarrow> int \<Rightarrow> diagnosis_attempt \<Rightarrow> bool" where
  "running_attempt attemptID runID generation attemptNo a \<longleftrightarrow>
    att_id a = attemptID \<and> att_diagnosis_run_id a = runID \<and> att_execution_generation a = generation
    \<and> att_attempt_no a = attemptNo \<and> att_status a = AttemptStatusRunning"

text \<open>
  \<open>tx.Create(attempt)\<close>: the primary key and the key (run, generation, number) are unique;
  a zero generation takes the column's default and a zero creation time is the clock's.
\<close>

definition create_attempt :: "time \<Rightarrow> diagnosis_attempt \<Rightarrow> db \<Rightarrow> go_error + db" where
  "create_attempt now a0 d =
    (let a = a0\<lparr>att_execution_generation :=
               (if att_execution_generation a0 = 0 then 1 else att_execution_generation a0),
             att_created_at := (if att_created_at a0 = 0 then now else att_created_at a0)\<rparr>
     in if list_ex (\<lambda>b. att_id b = att_id a
             \<or> (att_diagnosis_run_id b = att_diagnosis_run_id a
                \<and> att_execution_generation b = att_execution_generation a
                \<and> att_attempt_no b = att_attempt_no a)) (diagnosis_attempts d)
        then Inl DuplicateKey
        else Inr (d\<lparr>diagnosis_attempts := diagnosis_attempts d @ [a]\<rparr>))"

section \<open>Starting an attempt\<close>

definition attempt_times :: "time \<Rightarrow> diagnosis_attempt \<Rightarrow> diagnosis_attempt" where
  "attempt_times now a =
    (let startedAt = (if att_started_at a = 0 then now else att_started_at a)
     in a\<lparr>att_started_at := startedAt,
          att_heartbeat_at := (if att_heartbeat_at a = 0 then startedAt else att_heartbeat_at a),
          att_deadline_at :=
            (if att_deadline_at a = 0 then startedAt + 30 * Minute else att_deadline_at a)\<rparr>)"

definition StartAttemptTx :: "time \<Rightarrow> string \<Rightarrow> diagnosis_attempt \<Rightarrow> db \<Rightarrow> go_error + db" where
  "StartAttemptTx now runID attempt d =
    (case run_of d runID of
       None \<Rightarrow> Inl GormErrRecordNotFound
     | Some run \<Rightarrow>
       let Q = (\<lambda>r. run_id r = runID \<and> run_status r = RunQueued) in
       if run_status run = RunQueued \<and> sql_count Q (diagnosis_runs d) \<noteq> 1 then Inl ErrClaimConflict
       else if run_status run \<noteq> RunQueued \<and> run_status run \<noteq> RunRunning
       then Inl (Errorf (''diagnosis '' @ runID @ '' cannot start from '' @ run_status_text (run_status run)) [])
       else
         let d1 = (if run_status run = RunQueued
               then set_runs Q (\<lambda>r. r\<lparr>run_status := RunRunning, run_version := run_version r + 1\<rparr>) d
               else d)
         in case attempt_of d1 (att_id attempt) of
              Some _ \<Rightarrow> Inl ErrAttemptAlreadyExists
            | None \<Rightarrow>
                let a = attempt_times now attempt
                in create_attempt now (a\<lparr>
                     att_execution_generation :=
                       (if att_execution_generation a \<le> 0 then 1 else att_execution_generation a),
                     att_checkpoint_kind :=
                       (if att_checkpoint_kind a = CheckpointKindOther '''' then CheckpointKindNone
                        else att_checkpoint_kind a),
                     att_status := AttemptStatusRunning\<rparr>) d1)"

definition StartAttempt ::
  "time \<Rightarrow> string \<Rightarrow> diagnosis_attempt \<Rightarrow> db \<Rightarrow> (go_error + unit) \<times> db" where
  "StartAttempt now runID attempt = unit_tx (StartAttemptTx now runID attempt)"

definition job_finalized :: "analysis_job \<Rightarrow> bool" where
  "job_finalized job \<longleftrightarrow> job_status job = StatusSucceeded \<or> job_status job = StatusFailed
    \<or> job_status job = StatusCancelled"

definition live_diagnosis_claim :: "int \<Rightarrow> string \<Rightarrow> string \<Rightarrow> int \<Rightarrow> string \<Rightarrow> analysis_job \<Rightarrow> bool" where
  "live_diagnosis_claim jobID workerID claimToken generation runID r \<longleftrightarrow>
    claimed_by jobID workerID claimToken r \<and> job_type r = JobTypeRunDiagnosis
    \<and> job_resource_id r = runID \<and> job_execution_generation r = generation \<and> job_execution_started r"

definition lockLiveDiagnosisJobTx ::
  "time \<Rightarrow> int \<Rightarrow> string \<Rightarrow> string \<Rightarrow> int \<Rightarrow> string \<Rightarrow> db \<Rightarrow> go_error + analysis_job" where
  "lockLiveDiagnosisJobTx now jobID workerID claimToken generation runID d =
    (case find (\<lambda>r. live_diagnosis_claim jobID workerID claimToken generation runID r
             \<and> \<not> job_cancel_requested r) (analysis_jobs d) of
       None \<Rightarrow>
         (case job_of d jobID of
            None \<Rightarrow> Inl ErrOwnershipLost
          | Some current \<Rightarrow>
              if job_finalized current then Inl ErrAlreadyFinalized
              else if live_diagnosis_claim jobID workerID claimToken generation runID current
                 \<and> job_cancel_requested current then Inl ErrCancellationRequested
              else Inl ErrOwnershipLost)
     | Some job \<Rightarrow> if \<not> liveLeasePredicate now job then Inl ErrOwnershipLost else Inr job)"

definition StartAttemptWithClaimTx ::
  "time \<Rightarrow> int \<Rightarrow> string \<Rightarrow> string \<Rightarrow> int \<Rightarrow> string \<Rightarrow> diagnosis_attempt option \<Rightarrow> db \<Rightarrow> go_error + db" where
  "StartAttemptWithClaimTx now jobID workerID claimToken generation runID attempt d =
    bindE (lockLiveDiagnosisJobTx now jobID workerID claimToken generation runID d) (\<lambda>job.
      let wantAttemptNo = (if job_attempt_count job \<le> 0 then 1 else job_attempt_count job) in
      case attempt of
        None \<Rightarrow> Inl ErrOwnershipLost
      | Some a \<Rightarrow>
        if att_diagnosis_run_id a \<noteq> runID \<or> att_execution_generation a \<noteq> generation
           \<or> att_attempt_no a \<noteq> wantAttemptNo \<or> att_worker_id a \<noteq> workerID
        then Inl ErrOwnershipLost
        else case run_of d runID of
          None \<Rightarrow> Inl GormErrRecordNotFound
        | Some run \<Rightarrow>
          let Q = (\<lambda>r. run_id r = runID \<and> run_status r = RunQueued \<and> \<not> run_cancel_requested r) in
          if run_cancel_requested run then Inl ErrCancellationRequested
          else if run_status run = RunQueued \<and> sql_count Q (diagnosis_runs d) \<noteq> 1 then Inl ErrClaimConflict
          else if run_status run \<noteq> RunQueued \<and> run_status run \<noteq> RunRunning
          then Inl (Errorf (''diagnosis '' @ runID @ '' cannot start from '' @
                 run_status_text (run_status run)) [])
          else
            let d1 = (if run_status run = RunQueued
                  then set_runs Q (\<lambda>r. r\<lparr>run_status := RunRunning, run_version := run_version r + 1\<rparr>) d
                  else d)
            in create_attempt now ((attempt_times now a)\<lparr>att_status := AttemptStatusRunning,
                 att_checkpoint_kind := CheckpointKindNone\<rparr>) d1)"

definition StartAttemptWithClaim ::
  "time \<Rightarrow> int \<Rightarrow> string \<Rightarrow> string \<Rightarrow> int \<Rightarrow> string \<Rightarrow> diagnosis_attempt option \<Rightarrow> db \<Rightarrow>
    (go_error + unit) \<times> db" where
  "StartAttemptWithClaim now jobID workerID claimToken generation runID attempt =
    unit_tx (StartAttemptWithClaimTx now jobID workerID claimToken generation runID attempt)"

section \<open>The execution lock\<close>

definition lockDiagnosisExecutionTx ::
  "int \<Rightarrow> string \<Rightarrow> string \<Rightarrow> int \<Rightarrow> string \<Rightarrow> string \<Rightarrow> bool \<Rightarrow> db \<Rightarrow>
    go_error + analysis_job \<times> diagnosis_run \<times> diagnosis_attempt" where
  "lockDiagnosisExecutionTx jobID workerID claimToken expectedGeneration runID attemptID cancellation d =
    (case find (\<lambda>r. claimed_by jobID workerID claimToken r \<and> job_type r = JobTypeRunDiagnosis
             \<and> job_resource_id r = runID \<and> job_execution_started r) (analysis_jobs d) of
       None \<Rightarrow>
         (case job_of d jobID of
            None \<Rightarrow> Inl ErrOwnershipLost
          | Some current \<Rightarrow> if job_finalized current then Inl ErrAlreadyFinalized else Inl ErrOwnershipLost)
     | Some job \<Rightarrow>
       if expectedGeneration > 0 \<and> job_execution_generation job \<noteq> expectedGeneration
       then Inl ErrOwnershipLost
       else if job_cancel_requested job \<and> \<not> cancellation then Inl ErrCancellationRequested
       else if \<not> job_cancel_requested job \<and> cancellation then Inl ErrCancellationNotRequested
       else case find (\<lambda>r. run_id r = runID \<and> run_status r = RunRunning) (diagnosis_runs d) of
         None \<Rightarrow> Inl ErrRunTransitionConflict
       | Some run \<Rightarrow>
         if run_cancel_requested run \<and> \<not> cancellation then Inl ErrCancellationRequested
         else if \<not> run_cancel_requested run \<and> cancellation then Inl ErrCancellationNotRequested
         else
           let expectedAttemptNo = (if job_attempt_count job \<le> 0 then 1 else job_attempt_count job)
           in case find (running_attempt attemptID runID (job_execution_generation job) expectedAttemptNo)
                     (diagnosis_attempts d) of
                None \<Rightarrow> Inl ErrAttemptNotRunning
              | Some attempt \<Rightarrow>
                  if att_worker_id attempt \<noteq> workerID then Inl ErrOwnershipLost
                  else Inr (job, run, attempt))"

definition lockLiveDiagnosisExecutionTx ::
  "time \<Rightarrow> int \<Rightarrow> string \<Rightarrow> string \<Rightarrow> int \<Rightarrow> string \<Rightarrow> string \<Rightarrow> int \<Rightarrow> db \<Rightarrow>
    go_error + analysis_job \<times> diagnosis_run \<times> diagnosis_attempt" where
  "lockLiveDiagnosisExecutionTx now jobID workerID claimToken generation runID attemptID attemptNo d =
    bindE (lockDiagnosisExecutionTx jobID workerID claimToken generation runID attemptID False d)
      (\<lambda>(job, run, attempt).
        if \<not> liveLeasePredicate now job then Inl ErrOwnershipLost
        else if att_attempt_no attempt \<noteq> attemptNo then Inl ErrOwnershipLost
        else Inr (job, run, attempt))"

section \<open>The durable dispatch marker\<close>

definition BeginProviderDispatchTx ::
  "time \<Rightarrow> int \<Rightarrow> string \<Rightarrow> string \<Rightarrow> int \<Rightarrow> string \<Rightarrow> string \<Rightarrow> int \<Rightarrow> db \<Rightarrow> go_error + db" where
  "BeginProviderDispatchTx now jobID workerID claimToken generation runID attemptID attemptNo d =
    bindE (lockLiveDiagnosisExecutionTx now jobID workerID claimToken generation runID attemptID attemptNo d)
      (\<lambda>(job, run, attempt).
        if att_status attempt \<noteq> AttemptStatusRunning then Inl ErrAttemptNotRunning
        else Inr (set_attempts (\<lambda>a. att_id a = attemptID \<and> att_status a = AttemptStatusRunning)
               (\<lambda>a. a\<lparr>att_provider_dispatch_unresolved := True\<rparr>) d))"

definition BeginProviderDispatch ::
  "time \<Rightarrow> int \<Rightarrow> string \<Rightarrow> string \<Rightarrow> int \<Rightarrow> string \<Rightarrow> string \<Rightarrow> int \<Rightarrow> db \<Rightarrow> (go_error + unit) \<times> db" where
  "BeginProviderDispatch now jobID workerID claimToken generation runID attemptID attemptNo =
    unit_tx (BeginProviderDispatchTx now jobID workerID claimToken generation runID attemptID attemptNo)"

definition CheckProviderDispatchAuthority ::
  "time \<Rightarrow> int \<Rightarrow> string \<Rightarrow> string \<Rightarrow> int \<Rightarrow> string \<Rightarrow> string \<Rightarrow> int \<Rightarrow> db \<Rightarrow> go_error + unit" where
  "CheckProviderDispatchAuthority now jobID workerID claimToken generation runID attemptID attemptNo d =
    bindE (lockLiveDiagnosisExecutionTx now jobID workerID claimToken generation runID attemptID attemptNo d)
      (\<lambda>(job, run, attempt).
        if \<not> att_provider_dispatch_unresolved attempt then Inl ErrOwnershipLost else Inr ())"

definition ProviderDispatchSucceededTx ::
  "time \<Rightarrow> int \<Rightarrow> string \<Rightarrow> string \<Rightarrow> int \<Rightarrow> string \<Rightarrow> string \<Rightarrow> int \<Rightarrow> db \<Rightarrow> go_error + db" where
  "ProviderDispatchSucceededTx now jobID workerID claimToken generation runID attemptID attemptNo d =
    bindE (lockLiveDiagnosisExecutionTx now jobID workerID claimToken generation runID attemptID attemptNo d)
      (\<lambda>(job, run, attempt).
        if \<not> att_provider_dispatch_unresolved attempt then Inl ErrOwnershipLost
        else if att_provider_dispatch_success_seen attempt then Inr d
        else
          let P = (\<lambda>a. att_id a = attemptID \<and> att_status a = AttemptStatusRunning
                    \<and> att_provider_dispatch_unresolved a)
          in if sql_count P (diagnosis_attempts d) \<noteq> 1 then Inl ErrOwnershipLost
             else Inr (set_attempts P (\<lambda>a. a\<lparr>att_provider_dispatch_success_seen := True\<rparr>) d))"

definition ProviderDispatchSucceeded ::
  "time \<Rightarrow> int \<Rightarrow> string \<Rightarrow> string \<Rightarrow> int \<Rightarrow> string \<Rightarrow> string \<Rightarrow> int \<Rightarrow> db \<Rightarrow> (go_error + unit) \<times> db" where
  "ProviderDispatchSucceeded now jobID workerID claimToken generation runID attemptID attemptNo =
    unit_tx (ProviderDispatchSucceededTx now jobID workerID claimToken generation runID attemptID attemptNo)"

definition ProviderDispatchFailedDefinitelyTx ::
  "time \<Rightarrow> int \<Rightarrow> string \<Rightarrow> string \<Rightarrow> int \<Rightarrow> string \<Rightarrow> string \<Rightarrow> int \<Rightarrow> db \<Rightarrow> go_error + bool \<times> db" where
  "ProviderDispatchFailedDefinitelyTx now jobID workerID claimToken generation runID attemptID attemptNo d =
    bindE (lockLiveDiagnosisExecutionTx now jobID workerID claimToken generation runID attemptID attemptNo d)
      (\<lambda>(job, run, attempt).
        if att_provider_dispatch_success_seen attempt then Inr (False, d)
        else
          let P = (\<lambda>a. att_id a = attemptID \<and> att_status a = AttemptStatusRunning
                    \<and> \<not> att_provider_dispatch_success_seen a)
          in Inr (sql_count P (diagnosis_attempts d) = 1,
                  set_attempts P (\<lambda>a. a\<lparr>att_provider_dispatch_unresolved := False\<rparr>) d))"

definition ProviderDispatchFailedDefinitely ::
  "time \<Rightarrow> int \<Rightarrow> string \<Rightarrow> string \<Rightarrow> int \<Rightarrow> string \<Rightarrow> string \<Rightarrow> int \<Rightarrow> db \<Rightarrow> (go_error + bool) \<times> db" where
  "ProviderDispatchFailedDefinitely now jobID workerID claimToken generation runID attemptID attemptNo =
    run_tx (ProviderDispatchFailedDefinitelyTx now jobID workerID claimToken generation runID attemptID attemptNo)"

section \<open>The finalizers\<close>

text \<open>The claim predicate of the job update that ends a finalizer.\<close>

definition finalizing_job :: "int \<Rightarrow> string \<Rightarrow> string \<Rightarrow> int \<Rightarrow> bool \<Rightarrow> analysis_job \<Rightarrow> bool" where
  "finalizing_job jobID workerID claimToken generation cancelRequested r \<longleftrightarrow>
    claimed_by jobID workerID claimToken r \<and> job_execution_generation r = generation
    \<and> job_execution_started r \<and> job_cancel_requested r = cancelRequested"

definition create_report :: "time \<Rightarrow> report \<Rightarrow> db \<Rightarrow> go_error + db" where
  "create_report now rep d =
    (if list_ex (\<lambda>x. rep_id x = rep_id rep) (reports d) then Inl DuplicateKey
     else Inr (d\<lparr>reports := reports d @
       [rep\<lparr>rep_created_at := (if rep_created_at rep = 0 then now else rep_created_at rep)\<rparr>]\<rparr>))"

fun create_citations :: "(nat \<Rightarrow> string) \<Rightarrow> nat \<Rightarrow> citation list \<Rightarrow> db \<Rightarrow> go_error + db" where
  "create_citations uuid k [] d = Inr d"
| "create_citations uuid k (c # cs) d =
    (let c' = (if cit_id c = '''' then c\<lparr>cit_id := uuid k\<rparr> else c)
     in if list_ex (\<lambda>x. cit_id x = cit_id c') (citations d)
        then Inl (errorf_w ''persist citation'' DuplicateKey)
        else create_citations uuid (Suc k) cs (d\<lparr>citations := citations d @ [c']\<rparr>))"

definition FinalizeSuccessTx ::
  "((string \<times> string) list \<Rightarrow> (string \<times> string) list) \<Rightarrow> (nat \<Rightarrow> string) \<Rightarrow> time \<Rightarrow> int \<Rightarrow> string \<Rightarrow>
    string \<Rightarrow> string \<Rightarrow> string \<Rightarrow> report option \<Rightarrow> citation list \<Rightarrow> int \<Rightarrow> int \<Rightarrow> int \<Rightarrow> db \<Rightarrow> go_error + db" where
  "FinalizeSuccessTx order uuid now jobID workerID claimToken runID attemptID report cits
      promptTokens completionTokens toolCalls d =
    bindE (lockDiagnosisExecutionTx jobID workerID claimToken 0 runID attemptID False d)
      (\<lambda>(job, run, attempt).
      case report of
        None \<Rightarrow> Inl (Errorf ''diagnosis report is required'' [])
      | Some rep \<Rightarrow>
        if rep_diagnosis_run_id rep \<noteq> runID \<or> rep_attempt_id rep \<noteq> attemptID
        then Inl (Errorf ''report lineage does not match diagnosis attempt'' [])
        else if list_ex (\<lambda>c. cit_snapshot_id c \<noteq> run_snapshot_id run
              \<or> (run_code_index_build_id run > 0
                 \<and> cit_code_index_build_id c \<noteq> run_code_index_build_id run)) cits
        then Inl (Errorf ''citation lineage does not match diagnosis snapshot/build'' [])
        else bindE (ValidateReportPersistence order report) (\<lambda>_.
          bindE (wrapE ''persist report'' (create_report now rep d)) (\<lambda>d1.
          bindE (create_citations uuid 0 cits d1) (\<lambda>d2.
          let A = running_attempt attemptID runID (att_execution_generation attempt) (att_attempt_no attempt);
              d3 = set_attempts A (\<lambda>a. a\<lparr>att_status := AttemptStatusSucceeded, att_finished_at := Some now,
                     att_prompt_tokens := promptTokens, att_completion_tokens := completionTokens,
                     att_tool_calls := toolCalls, att_raw_output := rep_raw_output rep,
                     att_structured_output_valid := (rep_report_status rep \<noteq> ReportInvalid),
                     att_provider_completed_at := Some now\<rparr>) d2;
              R = (\<lambda>r. run_id r = runID \<and> run_status r = RunRunning \<and> \<not> run_cancel_requested r);
              d4 = set_runs R (\<lambda>r. r\<lparr>run_status := RunSucceeded, run_final_attempt_id := attemptID,
                     run_version := run_version r + 1\<rparr>) d3;
              J = finalizing_job jobID workerID claimToken (job_execution_generation job) False;
              d5 = set_jobs J (\<lambda>r. r\<lparr>job_status := StatusSucceeded, job_finished_at := Some now,
                     job_updated_at := now\<rparr>) d4
          in if sql_count A (diagnosis_attempts d2) \<noteq> 1
             then Inl (Errorf (''attempt '' @ attemptID @ '' finalize conflict'') [])
             else if sql_count R (diagnosis_runs d3) \<noteq> 1
             then Inl (Errorf (''diagnosis '' @ runID @ '' finalize conflict'') [])
             else if sql_count J (analysis_jobs d4) \<noteq> 1 then Inl ErrOwnershipLost
             else Inr d5))))"

definition FinalizeSuccess ::
  "((string \<times> string) list \<Rightarrow> (string \<times> string) list) \<Rightarrow> (nat \<Rightarrow> string) \<Rightarrow> time \<Rightarrow> int \<Rightarrow> string \<Rightarrow>
    string \<Rightarrow> string \<Rightarrow> string \<Rightarrow> report option \<Rightarrow> citation list \<Rightarrow> int \<Rightarrow> int \<Rightarrow> int \<Rightarrow> db \<Rightarrow>
    (go_error + unit) \<times> db" where
  "FinalizeSuccess order uuid now jobID workerID claimToken runID attemptID report cits
      promptTokens completionTokens toolCalls =
    unit_tx (FinalizeSuccessTx order uuid now jobID workerID claimToken runID attemptID report cits
      promptTokens completionTokens toolCalls)"

definition default_to :: "string \<Rightarrow> string \<Rightarrow> string" where
  "default_to dflt s = (if s = '''' then dflt else s)"

definition invalid_report :: "(nat \<Rightarrow> string) \<Rightarrow> string \<Rightarrow> report \<Rightarrow> report" where
  "invalid_report uuid errorMessage rep = rep\<lparr>rep_report_status := ReportInvalid,
     rep_id := default_to (uuid 0) (rep_id rep),
     rep_findings_json := default_to ''[]'' (rep_findings_json rep),
     rep_recommended_checks_json := default_to ''[]'' (rep_recommended_checks_json rep),
     rep_structured_payload_json := default_to ''{}'' (rep_structured_payload_json rep),
     rep_limitations_json := default_to ''[]'' (rep_limitations_json rep),
     rep_parse_error := default_to errorMessage (rep_parse_error rep)\<rparr>"

definition FinalizeInvalidStructuredReportTx ::
  "((string \<times> string) list \<Rightarrow> (string \<times> string) list) \<Rightarrow> (nat \<Rightarrow> string) \<Rightarrow> time \<Rightarrow> int \<Rightarrow> string \<Rightarrow>
    string \<Rightarrow> string \<Rightarrow> string \<Rightarrow> report option \<Rightarrow> int \<Rightarrow> int \<Rightarrow> int \<Rightarrow> string \<Rightarrow> string \<Rightarrow> db \<Rightarrow> go_error + db" where
  "FinalizeInvalidStructuredReportTx order uuid now jobID workerID claimToken runID attemptID report
      promptTokens completionTokens toolCalls errorCode errorMessage d =
    bindE (lockDiagnosisExecutionTx jobID workerID claimToken 0 runID attemptID False d)
      (\<lambda>(job, run, attempt).
      case report of
        None \<Rightarrow> Inl (Errorf ''invalid structured report is required'' [])
      | Some rep0 \<Rightarrow>
        if rep_diagnosis_run_id rep0 \<noteq> runID \<or> rep_attempt_id rep0 \<noteq> attemptID
        then Inl (Errorf ''report lineage does not match diagnosis attempt'' [])
        else
          let rep = invalid_report uuid errorMessage rep0 in
          bindE (ValidateReportPersistence order (Some rep)) (\<lambda>_.
          bindE (wrapE ''persist invalid report'' (create_report now rep d)) (\<lambda>d1.
          let A = running_attempt attemptID runID (att_execution_generation attempt) (att_attempt_no attempt);
              d2 = set_attempts A (\<lambda>a. a\<lparr>att_status := AttemptStatusFailedTerminal,
                     att_finished_at := Some now, att_prompt_tokens := promptTokens,
                     att_completion_tokens := completionTokens, att_tool_calls := toolCalls,
                     att_error_code := errorCode, att_error_message := errorMessage,
                     att_retryable := False, att_raw_output := rep_raw_output rep,
                     att_structured_output_valid := False\<rparr>) d1;
              R = (\<lambda>r. run_id r = runID \<and> run_status r = RunRunning \<and> \<not> run_cancel_requested r);
              d3 = set_runs R (\<lambda>r. r\<lparr>run_status := RunFailed, run_final_attempt_id := attemptID,
                     run_version := run_version r + 1\<rparr>) d2;
              J = finalizing_job jobID workerID claimToken (job_execution_generation job) False;
              d4 = set_jobs J (\<lambda>r. r\<lparr>job_status := StatusFailed,
                     job_terminal_reason := Some TerminalReasonPermanent,
                     job_last_error_class := Some (error_class_text ErrorClassPermanent),
                     job_last_error_code := Some errorCode, job_last_error_message := Some errorMessage,
                     job_finished_at := Some now, job_updated_at := now\<rparr>) d3
          in if sql_count A (diagnosis_attempts d1) \<noteq> 1
             then Inl (Errorf (''attempt '' @ attemptID @ '' finalize conflict'') [])
             else if sql_count R (diagnosis_runs d2) \<noteq> 1
             then Inl (Errorf (''diagnosis '' @ runID @ '' finalize conflict'') [])
             else if sql_count J (analysis_jobs d3) \<noteq> 1 then Inl ErrOwnershipLost
             else Inr d4)))"

definition FinalizeInvalidStructuredReport ::
  "((string \<times> string) list \<Rightarrow> (string \<times> string) list) \<Rightarrow> (nat \<Rightarrow> string) \<Rightarrow> time \<Rightarrow> int \<Rightarrow> string \<Rightarrow>
    string \<Rightarrow> string \<Rightarrow> string \<Rightarrow> report option \<Rightarrow> int \<Rightarrow> int \<Rightarrow> int \<Rightarrow> string \<Rightarrow> string \<Rightarrow> db \<Rightarrow>
    (go_error + unit) \<times> db" where
  "FinalizeInvalidStructuredReport order uuid now jobID workerID claimToken runID attemptID report
      promptTokens completionTokens toolCalls errorCode errorMessage =
    unit_tx (FinalizeInvalidStructuredReportTx order uuid now jobID workerID claimToken runID attemptID
      report promptTokens completionTokens toolCalls errorCode errorMessage)"

definition FinalizeDiagnosisFailureTx ::
  "time \<Rightarrow> int \<Rightarrow> string \<Rightarrow> string \<Rightarrow> int \<Rightarrow> string \<Rightarrow> string \<Rightarrow> error_class \<Rightarrow> string \<Rightarrow> string \<Rightarrow>
    int \<Rightarrow> int \<Rightarrow> int \<Rightarrow> db \<Rightarrow> go_error + db" where
  "FinalizeDiagnosisFailureTx now jobID workerID claimToken executionGeneration runID attemptID
      errorClass errorCode errorMessage promptTokens completionTokens toolCalls d =
    bindE (lockDiagnosisExecutionTx jobID workerID claimToken executionGeneration runID attemptID False d)
      (\<lambda>(job, run, attempt).
      let A = running_attempt attemptID runID executionGeneration (att_attempt_no attempt);
          d1 = set_attempts A (\<lambda>a. a\<lparr>att_status := AttemptStatusFailedTerminal,
                 att_finished_at := Some now, att_prompt_tokens := promptTokens,
                 att_completion_tokens := completionTokens, att_tool_calls := toolCalls,
                 att_error_code := errorCode, att_error_message := errorMessage,
                 att_retryable := False\<rparr>) d;
          R = (\<lambda>r. run_id r = runID \<and> run_status r = RunRunning \<and> \<not> run_cancel_requested r);
          d2 = set_runs R (\<lambda>r. r\<lparr>run_status := RunFailed, run_final_attempt_id := attemptID,
                 run_version := run_version r + 1\<rparr>) d1;
          terminalReason = (if errorClass = ErrorClassRetryable then TerminalReasonRetryableExhausted
                            else TerminalReasonPermanent);
          J = finalizing_job jobID workerID claimToken executionGeneration False;
          d3 = set_jobs J (\<lambda>r. r\<lparr>job_status := StatusFailed,
                 job_terminal_reason := Some terminalReason,
                 job_last_error_class := Some (error_class_text errorClass),
                 job_last_error_code := Some errorCode, job_last_error_message := Some errorMessage,
                 job_finished_at := Some now, job_updated_at := now\<rparr>) d2
      in if sql_count A (diagnosis_attempts d) \<noteq> 1 then Inl ErrAttemptNotRunning
         else if sql_count R (diagnosis_runs d1) \<noteq> 1 then Inl ErrRunTransitionConflict
         else if sql_count J (analysis_jobs d2) \<noteq> 1 then Inl ErrOwnershipLost
         else Inr d3)"

definition FinalizeDiagnosisFailure ::
  "time \<Rightarrow> int \<Rightarrow> string \<Rightarrow> string \<Rightarrow> int \<Rightarrow> string \<Rightarrow> string \<Rightarrow> error_class \<Rightarrow> string \<Rightarrow> string \<Rightarrow>
    int \<Rightarrow> int \<Rightarrow> int \<Rightarrow> db \<Rightarrow> (go_error + unit) \<times> db" where
  "FinalizeDiagnosisFailure now jobID workerID claimToken executionGeneration runID attemptID
      errorClass errorCode errorMessage promptTokens completionTokens toolCalls d =
    (if errorClass \<noteq> ErrorClassPermanent \<and> errorClass \<noteq> ErrorClassRetryable
     then (Inl (Errorf (''invalid terminal diagnosis error class '' @ quoted (error_class_text errorClass)) []), d)
     else unit_tx (FinalizeDiagnosisFailureTx now jobID workerID claimToken executionGeneration runID
       attemptID errorClass errorCode errorMessage promptTokens completionTokens toolCalls) d)"

definition FinalizeRetryableAttemptTx ::
  "time \<Rightarrow> int \<Rightarrow> string \<Rightarrow> string \<Rightarrow> int \<Rightarrow> string \<Rightarrow> string \<Rightarrow> string \<Rightarrow> string \<Rightarrow> int \<Rightarrow> int \<Rightarrow> int \<Rightarrow>
    db \<Rightarrow> go_error + db" where
  "FinalizeRetryableAttemptTx now jobID workerID claimToken executionGeneration runID attemptID
      errorCode errorMessage promptTokens completionTokens toolCalls d =
    bindE (lockDiagnosisExecutionTx jobID workerID claimToken executionGeneration runID attemptID False d)
      (\<lambda>(job, run, attempt).
      let A = running_attempt attemptID runID executionGeneration (att_attempt_no attempt)
      in if sql_count A (diagnosis_attempts d) \<noteq> 1 then Inl ErrAttemptNotRunning
         else Inr (set_attempts A (\<lambda>a. a\<lparr>att_status := AttemptStatusFailedRetryable,
                att_finished_at := Some now, att_prompt_tokens := promptTokens,
                att_completion_tokens := completionTokens, att_tool_calls := toolCalls,
                att_error_code := errorCode, att_error_message := errorMessage,
                att_retryable := True\<rparr>) d))"

definition FinalizeRetryableAttempt ::
  "time \<Rightarrow> int \<Rightarrow> string \<Rightarrow> string \<Rightarrow> int \<Rightarrow> string \<Rightarrow> string \<Rightarrow> string \<Rightarrow> string \<Rightarrow> int \<Rightarrow> int \<Rightarrow> int \<Rightarrow>
    db \<Rightarrow> (go_error + unit) \<times> db" where
  "FinalizeRetryableAttempt now jobID workerID claimToken executionGeneration runID attemptID
      errorCode errorMessage promptTokens completionTokens toolCalls =
    unit_tx (FinalizeRetryableAttemptTx now jobID workerID claimToken executionGeneration runID attemptID
      errorCode errorMessage promptTokens completionTokens toolCalls)"

definition FinalizeCancellationTx ::
  "time \<Rightarrow> int \<Rightarrow> string \<Rightarrow> string \<Rightarrow> string \<Rightarrow> string \<Rightarrow> db \<Rightarrow> go_error + db" where
  "FinalizeCancellationTx now jobID workerID claimToken runID attemptID d =
    bindE (lockDiagnosisExecutionTx jobID workerID claimToken 0 runID attemptID True d)
      (\<lambda>(job, run, attempt).
      let A = running_attempt attemptID runID (job_execution_generation job) (att_attempt_no attempt);
          d1 = set_attempts A (\<lambda>a. a\<lparr>att_status := AttemptStatusCancelled,
                 att_finished_at := Some now, att_error_code := ''CANCELLED''\<rparr>) d;
          R = (\<lambda>r. run_id r = runID \<and> run_status r = RunRunning \<and> run_cancel_requested r);
          d2 = set_runs R (\<lambda>r. r\<lparr>run_status := RunCancelled, run_final_attempt_id := attemptID,
                 run_version := run_version r + 1\<rparr>) d1;
          J = finalizing_job jobID workerID claimToken (job_execution_generation job) True;
          d3 = set_jobs J (\<lambda>r. r\<lparr>job_status := StatusCancelled,
                 job_terminal_reason := Some TerminalReasonCancelled,
                 job_finished_at := Some now, job_updated_at := now\<rparr>) d2
      in if sql_count A (diagnosis_attempts d) \<noteq> 1 then Inl ErrOwnershipLost
         else if sql_count R (diagnosis_runs d1) \<noteq> 1
         then Inl (Errorf (''diagnosis '' @ runID @ '' cancellation conflict'') [])
         else if sql_count J (analysis_jobs d2) \<noteq> 1 then Inl ErrOwnershipLost
         else Inr d3)"

definition FinalizeCancellation ::
  "time \<Rightarrow> int \<Rightarrow> string \<Rightarrow> string \<Rightarrow> string \<Rightarrow> string \<Rightarrow> db \<Rightarrow> (go_error + unit) \<times> db" where
  "FinalizeCancellation now jobID workerID claimToken runID attemptID =
    unit_tx (FinalizeCancellationTx now jobID workerID claimToken runID attemptID)"

section \<open>Runs\<close>

text \<open>The unique keys of \<open>diagnosis_runs\<close>: the id, and (user, idempotency key).\<close>

definition CreateRunTx ::
  "(nat \<Rightarrow> string) \<Rightarrow> time \<Rightarrow> diagnosis_run \<Rightarrow> db \<Rightarrow> go_error + diagnosis_run \<times> db" where
  "CreateRunTx uuid now run0 d =
    (let run = run0\<lparr>run_id := default_to (uuid 0) (run_id run0), run_status := RunQueued,
           run_version := 1, run_created_at := (if run_created_at run0 = 0 then now else run_created_at run0)\<rparr>
     in if list_ex (\<lambda>r. run_id r = run_id run
             \<or> (run_user_id r = run_user_id run \<and> run_idempotency_key r = run_idempotency_key run))
             (diagnosis_runs d)
        then Inl DuplicateKey
        else if list_ex (\<lambda>r. job_type r = JobTypeRunDiagnosis \<and> job_resource_id r = run_id run)
             (analysis_jobs d)
        then Inl DuplicateKey
        else Inr (run, d\<lparr>diagnosis_runs := diagnosis_runs d @ [run],
          analysis_jobs := analysis_jobs d @ [\<lparr>
            job_id = next_job_id d, job_type = JobTypeRunDiagnosis, job_resource_id = run_id run,
            job_status = StatusPending, job_execution_generation = 1, job_terminal_reason = None,
            job_attempt_count = 0, job_execution_started = False, job_max_attempts = 3,
            job_next_run_at = now, job_worker_id = None, job_claim_token = None,
            job_lease_until = None, job_cancel_requested = False, job_last_error_class = None,
            job_last_error_code = None, job_last_error_message = None, job_created_at = now,
            job_updated_at = now, job_finished_at = None\<rparr>],
          next_job_id := next_job_id d + 1\<rparr>))"

definition CreateRun ::
  "(nat \<Rightarrow> string) \<Rightarrow> time \<Rightarrow> diagnosis_run \<Rightarrow> db \<Rightarrow> (go_error + diagnosis_run) \<times> db" where
  "CreateRun uuid now run = run_tx (CreateRunTx uuid now run)"

definition GetByID :: "string \<Rightarrow> db \<Rightarrow> go_error + diagnosis_run" where
  "GetByID i d = (case run_of d i of None \<Rightarrow> Inl ErrRunNotFound | Some r \<Rightarrow> Inr r)"

definition GetByIDAndUser :: "string \<Rightarrow> string \<Rightarrow> db \<Rightarrow> go_error + diagnosis_run" where
  "GetByIDAndUser i userID d =
    (case find (\<lambda>r. run_id r = i \<and> run_user_id r = userID) (diagnosis_runs d) of
       None \<Rightarrow> Inl ErrRunNotFound | Some r \<Rightarrow> Inr r)"

definition GetByIdempotencyKey :: "string \<Rightarrow> string \<Rightarrow> db \<Rightarrow> diagnosis_run option" where
  "GetByIdempotencyKey userID key d =
    find (\<lambda>r. run_user_id r = userID \<and> run_idempotency_key r = key) (diagnosis_runs d)"

definition ListByUser ::
  "(diagnosis_run list \<Rightarrow> diagnosis_run list) \<Rightarrow> string \<Rightarrow> int \<Rightarrow> int \<Rightarrow> db \<Rightarrow> diagnosis_run list \<times> int" where
  "ListByUser scan userID page0 pageSize0 d =
    (let page = (if page0 < 1 then 1 else page0);
         pageSize = (if pageSize0 < 1 \<or> pageSize0 > 100 then 20 else pageSize0);
         offset = (page - 1) * pageSize;
         mine = filter (\<lambda>r. run_user_id r = userID) (diagnosis_runs d)
     in (take (nat pageSize) (drop (nat offset) (sort_key (\<lambda>r. - run_created_at r) (scan mine))),
         int (length mine)))"

definition HasActiveRuns :: "db \<Rightarrow> bool" where
  "HasActiveRuns d \<longleftrightarrow>
    list_ex (\<lambda>r. run_status r = RunQueued \<or> run_status r = RunRunning) (diagnosis_runs d)"

section \<open>Checkpoints\<close>

record attempt_checkpoint =
  cp_execution_generation :: int
  cp_kind :: checkpoint_kind
  cp_raw_output :: string
  cp_parsed_report_json :: string
  cp_parsed_draft_json :: string
  cp_prompt_version :: string
  cp_agent_version :: string
  cp_structured :: bool
  cp_prompt_tokens :: int
  cp_completion_tokens :: int
  cp_cached_prompt_tokens :: int
  cp_reasoning_tokens :: int
  cp_tool_calls :: int
  cp_agent_rounds :: int
  cp_search_calls :: int
  cp_provider_calls :: int
  cp_error_code :: string
  cp_error_message :: string
  cp_finalization_reason :: string
  cp_finish_reason :: string

definition validateCheckpointBytes ::
  "((string \<times> string) list \<Rightarrow> (string \<times> string) list) \<Rightarrow> attempt_checkpoint \<Rightarrow> go_error + unit" where
  "validateCheckpointBytes order cp =
    validate_fields (order [(''raw_output'', cp_raw_output cp),
      (''parsed_report_json'', cp_parsed_report_json cp),
      (''parsed_report_draft_json'', cp_parsed_draft_json cp)]) MaxReportBytes"

definition truncateCheckpointMessage :: "string \<Rightarrow> string" where
  "truncateCheckpointMessage message =
    (let rs = runes message in if length rs > 255 then concat (take 255 rs) else message)"

definition is_final_checkpoint :: "checkpoint_kind \<Rightarrow> bool" where
  "is_final_checkpoint k \<longleftrightarrow> k = CheckpointKindFinalValid \<or> k = CheckpointKindFinalInvalid"

text \<open>\<open>checkpointUpdates\<close>: the assignments of the update map, applied to a row.\<close>

definition checkpointUpdates ::
  "time \<Rightarrow> attempt_checkpoint \<Rightarrow> bool \<Rightarrow> diagnosis_attempt \<Rightarrow> diagnosis_attempt" where
  "checkpointUpdates now cp withDraft a =
    (let kind = (if cp_kind cp = CheckpointKindOther '''' then CheckpointKindNone else cp_kind cp);
         a1 = a\<lparr>att_checkpoint_kind := kind,
                att_checkpoint_error_code := cp_error_code cp,
                att_checkpoint_error_message := truncateCheckpointMessage (cp_error_message cp),
                att_raw_output := cp_raw_output cp,
                att_parsed_report_json := cp_parsed_report_json cp,
                att_checkpoint_prompt_version := cp_prompt_version cp,
                att_checkpoint_agent_version := cp_agent_version cp,
                att_structured_output_valid := cp_structured cp,
                att_prompt_tokens := cp_prompt_tokens cp,
                att_completion_tokens := cp_completion_tokens cp,
                att_cached_prompt_tokens := cp_cached_prompt_tokens cp,
                att_reasoning_tokens := cp_reasoning_tokens cp,
                att_tool_calls := cp_tool_calls cp,
                att_agent_rounds := cp_agent_rounds cp,
                att_search_calls := cp_search_calls cp,
                att_provider_calls := cp_provider_calls cp,
                att_finalization_reason := cp_finalization_reason cp,
                att_finish_reason := cp_finish_reason cp,
                att_provider_completed_at := None\<rparr>;
         a2 = (if withDraft then a1\<lparr>att_parsed_report_draft_json := cp_parsed_draft_json cp\<rparr> else a1)
     in if is_final_checkpoint kind
        then a2\<lparr>att_provider_completed_at := Some now, att_provider_dispatch_unresolved := False,
                att_provider_dispatch_success_seen := False\<rparr>
        else a2)"

text \<open>The unfenced writer; its two exported forms differ in \<open>withDraft\<close> only.\<close>

definition updateAttemptCheckpoint ::
  "((string \<times> string) list \<Rightarrow> (string \<times> string) list) \<Rightarrow> time \<Rightarrow> string \<Rightarrow> attempt_checkpoint \<Rightarrow> bool \<Rightarrow>
    db \<Rightarrow> (go_error + unit) \<times> db" where
  "updateAttemptCheckpoint order now attemptID cp withDraft d =
    (case validateCheckpointBytes order cp of
       Inl e \<Rightarrow> (Inl e, d)
     | Inr _ \<Rightarrow>
       let P = (\<lambda>a. att_id a = attemptID \<and> att_execution_generation a = cp_execution_generation cp
                 \<and> att_status a = AttemptStatusRunning);
           d' = set_attempts P (checkpointUpdates now cp withDraft) d
       in if sql_count P (diagnosis_attempts d) \<noteq> 1 then (Inl ErrAttemptNotRunning, d') else (Inr (), d'))"

definition UpdateAttemptCheckpoint ::
  "((string \<times> string) list \<Rightarrow> (string \<times> string) list) \<Rightarrow> time \<Rightarrow> string \<Rightarrow> attempt_checkpoint \<Rightarrow>
    db \<Rightarrow> (go_error + unit) \<times> db" where
  "UpdateAttemptCheckpoint order now attemptID cp = updateAttemptCheckpoint order now attemptID cp False"

definition UpdateAttemptCheckpointWithDraft ::
  "((string \<times> string) list \<Rightarrow> (string \<times> string) list) \<Rightarrow> time \<Rightarrow> string \<Rightarrow> attempt_checkpoint \<Rightarrow>
    db \<Rightarrow> (go_error + unit) \<times> db" where
  "UpdateAttemptCheckpointWithDraft order now attemptID cp =
    updateAttemptCheckpoint order now attemptID cp True"

definition UpdateAttemptCheckpointWithClaimTx ::
  "((string \<times> string) list \<Rightarrow> (string \<times> string) list) \<Rightarrow> time \<Rightarrow> int \<Rightarrow> string \<Rightarrow> string \<Rightarrow> int \<Rightarrow> int \<Rightarrow>
    string \<Rightarrow> string \<Rightarrow> attempt_checkpoint \<Rightarrow> bool \<Rightarrow> db \<Rightarrow> go_error + db" where
  "UpdateAttemptCheckpointWithClaimTx order now jobID workerID claimToken generation attemptNo runID
      attemptID cp0 withDraft d =
    (let cp = (if cp_execution_generation cp0 \<le> 0 then cp0\<lparr>cp_execution_generation := generation\<rparr> else cp0)
     in if cp_execution_generation cp \<noteq> generation then Inl ErrOwnershipLost
        else bindE (validateCheckpointBytes order cp) (\<lambda>_.
          bindE (lockLiveDiagnosisExecutionTx now jobID workerID claimToken generation runID attemptID
                   attemptNo d) (\<lambda>(job, run, attempt).
            let P = running_attempt attemptID runID generation (att_attempt_no attempt)
            in if sql_count P (diagnosis_attempts d) \<noteq> 1 then Inl ErrOwnershipLost
               else Inr (set_attempts P (checkpointUpdates now cp withDraft) d))))"

definition UpdateAttemptCheckpointWithClaim ::
  "((string \<times> string) list \<Rightarrow> (string \<times> string) list) \<Rightarrow> time \<Rightarrow> int \<Rightarrow> string \<Rightarrow> string \<Rightarrow> int \<Rightarrow> int \<Rightarrow>
    string \<Rightarrow> string \<Rightarrow> attempt_checkpoint \<Rightarrow> bool \<Rightarrow> db \<Rightarrow> (go_error + unit) \<times> db" where
  "UpdateAttemptCheckpointWithClaim order now jobID workerID claimToken generation attemptNo runID
      attemptID cp withDraft =
    unit_tx (UpdateAttemptCheckpointWithClaimTx order now jobID workerID claimToken generation attemptNo
      runID attemptID cp withDraft)"

section \<open>Attempts\<close>

definition GetAttempt :: "string \<Rightarrow> db \<Rightarrow> go_error + diagnosis_attempt" where
  "GetAttempt attemptID d =
    (case attempt_of d attemptID of None \<Rightarrow> Inl ErrAttemptNotFound | Some a \<Rightarrow> Inr a)"

definition GetLatestFinalCheckpoint :: "string \<Rightarrow> int \<Rightarrow> db \<Rightarrow> diagnosis_attempt option" where
  "GetLatestFinalCheckpoint runID generation d =
    latest_attempt (filter (\<lambda>a. is_final_checkpoint (att_checkpoint_kind a)
        \<and> att_provider_completed_at a \<noteq> None) (generation_attempts runID generation d))"

definition ListAttemptsByRun :: "string \<Rightarrow> db \<Rightarrow> diagnosis_attempt list" where
  "ListAttemptsByRun runID d =
    sort_key att_execution_generation (sort_key att_attempt_no (sort_key att_created_at
      (filter (\<lambda>a. att_diagnosis_run_id a = runID) (diagnosis_attempts d))))"

definition UpdateAttemptHeartbeat :: "string \<Rightarrow> time \<Rightarrow> db \<Rightarrow> (go_error + unit) \<times> db" where
  "UpdateAttemptHeartbeat attemptID heartbeatAt d =
    (let P = (\<lambda>a. att_id a = attemptID \<and> att_status a = AttemptStatusRunning);
         d' = set_attempts P (\<lambda>a. a\<lparr>att_heartbeat_at := heartbeatAt\<rparr>) d
     in if sql_count P (diagnosis_attempts d) \<noteq> 1 then (Inl ErrAttemptNotRunning, d') else (Inr (), d'))"

definition finished_attempt ::
  "time \<Rightarrow> attempt_status \<Rightarrow> int \<Rightarrow> int \<Rightarrow> int \<Rightarrow> string \<Rightarrow> string \<Rightarrow> bool \<Rightarrow> diagnosis_attempt \<Rightarrow> diagnosis_attempt" where
  "finished_attempt now st promptTokens completionTokens toolCalls errCode errMsg retryable a =
    a\<lparr>att_status := st, att_finished_at := Some now, att_prompt_tokens := promptTokens,
      att_completion_tokens := completionTokens, att_tool_calls := toolCalls,
      att_error_code := errCode, att_error_message := errMsg, att_retryable := retryable\<rparr>"

definition FinishAttempt ::
  "time \<Rightarrow> string \<Rightarrow> string \<Rightarrow> attempt_status \<Rightarrow> int \<Rightarrow> int \<Rightarrow> int \<Rightarrow> string \<Rightarrow> string \<Rightarrow> bool \<Rightarrow> db \<Rightarrow>
    (go_error + unit) \<times> db" where
  "FinishAttempt now runID attemptID st promptTokens completionTokens toolCalls errCode errMsg retryable d =
    (let P = (\<lambda>a. att_id a = attemptID \<and> att_diagnosis_run_id a = runID \<and> att_status a = AttemptStatusRunning);
         d' = set_attempts P (finished_attempt now st promptTokens completionTokens toolCalls errCode
                errMsg retryable) d
     in if sql_count P (diagnosis_attempts d) \<noteq> 1 then (Inl ErrAttemptNotFound, d') else (Inr (), d'))"

definition CloseAttempt ::
  "time \<Rightarrow> string \<Rightarrow> string \<Rightarrow> int \<Rightarrow> attempt_status \<Rightarrow> string \<Rightarrow> string \<Rightarrow> bool \<Rightarrow> db \<Rightarrow>
    (go_error + unit) \<times> db" where
  "CloseAttempt now runID attemptID generation newStatus errCode errMsg retryable d =
    (if newStatus \<noteq> AttemptStatusFailedRetryable \<and> newStatus \<noteq> AttemptStatusFailedTerminal
        \<and> newStatus \<noteq> AttemptStatusCancelled \<and> newStatus \<noteq> AttemptStatusAbandoned
     then (Inl (Errorf (''invalid closed Attempt status '' @ quoted (attempt_status_text newStatus)) []), d)
     else
       let P = (\<lambda>a. att_id a = attemptID \<and> att_diagnosis_run_id a = runID
                 \<and> att_execution_generation a = generation \<and> att_status a = AttemptStatusRunning);
           d' = set_attempts P (\<lambda>a. a\<lparr>att_status := newStatus, att_finished_at := Some now,
                  att_error_code := errCode, att_error_message := errMsg, att_retryable := retryable\<rparr>) d
       in if sql_count P (diagnosis_attempts d) \<noteq> 1 then (Inl ErrAttemptNotRunning, d') else (Inr (), d'))"

definition FinishAttemptAndRunTx ::
  "time \<Rightarrow> string \<Rightarrow> string \<Rightarrow> run_status \<Rightarrow> attempt_status \<Rightarrow> int \<Rightarrow> int \<Rightarrow> int \<Rightarrow> string \<Rightarrow> string \<Rightarrow> bool \<Rightarrow>
    db \<Rightarrow> go_error + db" where
  "FinishAttemptAndRunTx now runID attemptID newRunStatus newAttemptStatus promptTokens
      completionTokens toolCalls errCode errMsg retryable d =
    (let P = (\<lambda>a. att_id a = attemptID \<and> att_diagnosis_run_id a = runID \<and> att_status a = AttemptStatusRunning);
         d1 = set_attempts P (finished_attempt now newAttemptStatus promptTokens completionTokens toolCalls
                errCode errMsg retryable) d;
         R = (\<lambda>r. run_id r = runID \<and> run_status r = RunRunning
                \<and> (newRunStatus \<noteq> RunCancelled \<longrightarrow> \<not> run_cancel_requested r));
         d2 = set_runs R (\<lambda>r. r\<lparr>run_status := newRunStatus, run_final_attempt_id := attemptID,
                run_version := run_version r + 1\<rparr>) d1
     in if sql_count P (diagnosis_attempts d) \<noteq> 1 then Inl ErrAttemptNotRunning
        else if sql_count R (diagnosis_runs d1) \<noteq> 1 then Inl ErrRunTransitionConflict
        else Inr d2)"

definition FinishAttemptAndRun ::
  "time \<Rightarrow> string \<Rightarrow> string \<Rightarrow> run_status \<Rightarrow> attempt_status \<Rightarrow> int \<Rightarrow> int \<Rightarrow> int \<Rightarrow> string \<Rightarrow> string \<Rightarrow> bool \<Rightarrow>
    db \<Rightarrow> (go_error + unit) \<times> db" where
  "FinishAttemptAndRun now runID attemptID newRunStatus newAttemptStatus promptTokens
      completionTokens toolCalls errCode errMsg retryable =
    unit_tx (FinishAttemptAndRunTx now runID attemptID newRunStatus newAttemptStatus promptTokens
      completionTokens toolCalls errCode errMsg retryable)"

text \<open>\<open>ClaimRun\<close>: the run is moved to \<open>RUNNING\<close> by an optimistic update on its version.\<close>

definition new_attempt :: "string \<Rightarrow> string \<Rightarrow> int \<Rightarrow> int \<Rightarrow> string \<Rightarrow> time \<Rightarrow> time \<Rightarrow> diagnosis_attempt" where
  "new_attempt aid runID generation attemptNo workerID now deadline = \<lparr>
     att_id = aid, att_diagnosis_run_id = runID, att_execution_generation = generation,
     att_attempt_no = attemptNo, att_worker_id = workerID, att_status = AttemptStatusRunning,
     att_started_at = now, att_heartbeat_at = now, att_deadline_at = deadline,
     att_finished_at = None, att_error_code = '''', att_error_message = '''', att_retryable = False,
     att_prompt_tokens = 0, att_completion_tokens = 0, att_tool_calls = 0,
     att_cached_prompt_tokens = 0, att_reasoning_tokens = 0, att_agent_rounds = 0,
     att_search_calls = 0, att_provider_calls = 0, att_finish_reason = '''', att_raw_output = '''',
     att_parsed_report_json = '''', att_parsed_report_draft_json = '''',
     att_checkpoint_kind = CheckpointKindNone, att_checkpoint_error_code = '''',
     att_checkpoint_error_message = '''', att_checkpoint_prompt_version = '''',
     att_checkpoint_agent_version = '''', att_structured_output_valid = False,
     att_provider_completed_at = None, att_provider_dispatch_unresolved = False,
     att_provider_dispatch_success_seen = False, att_finalization_reason = '''',
     att_created_at = 0\<rparr>"

definition ClaimRunTx ::
  "(nat \<Rightarrow> string) \<Rightarrow> time \<Rightarrow> string \<Rightarrow> run_status list \<Rightarrow> string \<Rightarrow> duration \<Rightarrow> db \<Rightarrow>
    go_error + (diagnosis_run \<times> diagnosis_attempt) \<times> db" where
  "ClaimRunTx uuid now runID expectedStatuses workerID attemptDeadline d =
    (case run_of d runID of
       None \<Rightarrow> Inl GormErrRecordNotFound
     | Some run \<Rightarrow>
       if run_status run \<notin> set expectedStatuses then Inl ErrClaimConflict
       else if run_cancel_requested run
       then Inl (Errorf (''run '' @ runID @ '' has been requested for cancellation'') [])
       else
         let generation = (case find (\<lambda>r. job_type r = JobTypeRunDiagnosis \<and> job_resource_id r = runID)
                 (analysis_jobs d) of
                 None \<Rightarrow> 1
               | Some job \<Rightarrow> if job_execution_generation job > 0 then job_execution_generation job else 1);
             count = length (generation_attempts runID generation d);
             R = (\<lambda>r. run_id r = runID \<and> run_version r = run_version run \<and> run_status r = run_status run);
             d1 = set_runs R (\<lambda>r. r\<lparr>run_status := RunRunning, run_version := run_version run + 1\<rparr>) d;
             attempt = new_attempt (uuid 0) runID generation (int count + 1) workerID now (now + attemptDeadline)
         in if sql_count R (diagnosis_runs d) = 0 then Inl ErrClaimConflict
            else bindE (create_attempt now attempt d1) (\<lambda>d2.
              Inr ((run\<lparr>run_status := RunRunning, run_version := run_version run + 1,
                      run_final_attempt_id := uuid 0\<rparr>, attempt\<lparr>att_created_at := now\<rparr>),
                   set_runs (\<lambda>r. run_id r = runID) (\<lambda>r. r\<lparr>run_final_attempt_id := uuid 0\<rparr>) d2)))"

definition ClaimRun ::
  "(nat \<Rightarrow> string) \<Rightarrow> time \<Rightarrow> string \<Rightarrow> run_status list \<Rightarrow> string \<Rightarrow> duration \<Rightarrow> db \<Rightarrow>
    (go_error + diagnosis_run \<times> diagnosis_attempt) \<times> db" where
  "ClaimRun uuid now runID expectedStatuses workerID attemptDeadline =
    run_tx (ClaimRunTx uuid now runID expectedStatuses workerID attemptDeadline)"

section \<open>Cancellation\<close>

text \<open>
  The switch on the run's and the job's status: the next run status and whether the
  job ends here, or the error.
\<close>

definition cancellation_decision :: "run_status \<Rightarrow> job_status \<Rightarrow> go_error + run_status \<times> bool" where
  "cancellation_decision rs js =
    (case rs of
       RunQueued \<Rightarrow>
         if js = StatusPending \<or> js = StatusRetryWait then Inr (RunCancelled, True)
         else if js = StatusRunning then Inr (RunQueued, False)
         else if js = StatusCancelled then Inr (RunCancelled, True)
         else Inl (Errorf (''cannot cancel queued diagnosis with job status '' @ job_status_text js) [])
     | RunRunning \<Rightarrow>
         if js = StatusRunning then Inr (RunRunning, False)
         else if js = StatusRetryWait \<or> js = StatusCancelled then Inr (RunCancelled, True)
         else Inl (Errorf (''cannot cancel running diagnosis with job status '' @ job_status_text js) [])
     | _ \<Rightarrow> Inl (Errorf (''cannot cancel run in terminal status '' @ run_status_text rs) []))"

definition RequestCancellationTx :: "time \<Rightarrow> string \<Rightarrow> string \<Rightarrow> db \<Rightarrow> go_error + db" where
  "RequestCancellationTx now runID userID d =
    (case find (\<lambda>r. job_type r = JobTypeRunDiagnosis \<and> job_resource_id r = runID) (analysis_jobs d) of
       None \<Rightarrow> Inl (Errorf (''diagnosis job '' @ runID @ '' not found'') [])
     | Some job \<Rightarrow>
       case find (\<lambda>r. run_id r = runID \<and> run_user_id r = userID) (diagnosis_runs d) of
         None \<Rightarrow> Inl ErrRunNotFound
       | Some run \<Rightarrow>
         bindE (cancellation_decision (run_status run) (job_status job)) (\<lambda>(nextStatus, jobTerminal).
           let J = (\<lambda>r. job_id r = job_id job \<and> job_status r = job_status job);
               d1 = set_jobs J (\<lambda>r. if jobTerminal
                      then r\<lparr>job_cancel_requested := True, job_updated_at := now,
                             job_status := StatusCancelled,
                             job_terminal_reason := Some TerminalReasonCancelled,
                             job_finished_at := Some now\<rparr>
                      else r\<lparr>job_cancel_requested := True, job_updated_at := now\<rparr>) d;
               R = (\<lambda>r. run_id r = runID \<and> run_user_id r = userID \<and> run_status r = run_status run);
               d2 = set_runs R (\<lambda>r. r\<lparr>run_cancel_requested := True, run_status := nextStatus,
                      run_version := run_version r + 1\<rparr>) d1
           in if sql_count J (analysis_jobs d) \<noteq> 1
              then Inl (Errorf (''diagnosis job '' @ runID @ '' changed during cancellation'') [])
              else if sql_count R (diagnosis_runs d1) \<noteq> 1
              then Inl (Errorf (''diagnosis run '' @ runID @ '' changed during cancellation'') [])
              else Inr d2))"

definition RequestCancellation ::
  "time \<Rightarrow> string \<Rightarrow> string \<Rightarrow> db \<Rightarrow> (go_error + unit) \<times> db" where
  "RequestCancellation now runID userID = unit_tx (RequestCancellationTx now runID userID)"

section \<open>Stale attempts\<close>

definition FetchStaleAttempts ::
  "(diagnosis_attempt list \<Rightarrow> diagnosis_attempt list) \<Rightarrow> time \<Rightarrow> duration \<Rightarrow> int \<Rightarrow> db \<Rightarrow> diagnosis_attempt list" where
  "FetchStaleAttempts scan now staleDuration limit0 d =
    (let limit = (if limit0 \<le> 0 then 50 else limit0); cutoff = now - staleDuration
     in sql_limit limit (scan (filter (\<lambda>a. att_status a = AttemptStatusRunning
          \<and> (att_heartbeat_at a < cutoff \<or> att_deadline_at a < now)) (diagnosis_attempts d))))"

definition job_owns_attempt :: "time \<Rightarrow> analysis_job option \<Rightarrow> diagnosis_attempt \<Rightarrow> bool" where
  "job_owns_attempt now job a \<longleftrightarrow>
    (case job of
       None \<Rightarrow> False
     | Some r \<Rightarrow> job_status r = StatusRunning \<and> job_execution_started r
         \<and> job_execution_generation r = att_execution_generation a
         \<and> job_attempt_count r = att_attempt_no a
         \<and> job_worker_id r = Some (att_worker_id a) \<and> liveLeasePredicate now r)"

definition RecoverStaleAttemptTx :: "time \<Rightarrow> string \<Rightarrow> string \<Rightarrow> db \<Rightarrow> go_error + db" where
  "RecoverStaleAttemptTx now attemptID runID d =
    (case find (\<lambda>a. att_id a = attemptID \<and> att_diagnosis_run_id a = runID
             \<and> att_status a = AttemptStatusRunning) (diagnosis_attempts d) of
       None \<Rightarrow> Inr d
     | Some attempt \<Rightarrow>
       let job = find (\<lambda>r. job_type r = JobTypeRunDiagnosis \<and> job_resource_id r = runID) (analysis_jobs d)
       in if job_owns_attempt now job attempt then Inl ErrAttemptLeaseActive
          else
            let P = (\<lambda>a. att_id a = attemptID \<and> att_diagnosis_run_id a = runID
                      \<and> att_execution_generation a = att_execution_generation attempt
                      \<and> att_status a = AttemptStatusRunning);
                d1 = set_attempts P (\<lambda>a. a\<lparr>att_status := AttemptStatusAbandoned,
                       att_finished_at := Some now, att_error_code := ''WORKER_CRASH_OR_STALE'',
                       att_error_message := ''Worker crashed or lost ownership, attempt abandoned''\<rparr>) d
            in if sql_count P (diagnosis_attempts d) = 0 then Inr d1
               else Inr (set_runs (\<lambda>r. run_id r = runID \<and> run_status r = RunRunning)
                      (\<lambda>r. r\<lparr>run_version := run_version r + 1\<rparr>) d1))"

definition RecoverStaleAttempt :: "time \<Rightarrow> string \<Rightarrow> string \<Rightarrow> db \<Rightarrow> (go_error + unit) \<times> db" where
  "RecoverStaleAttempt now attemptID runID = unit_tx (RecoverStaleAttemptTx now attemptID runID)"

section \<open>The provider identity lock\<close>

text \<open>
  \<open>WithProviderConfigLock\<close> around \<open>fn\<close>: outside MySQL the store's mutex, in MySQL the named
  lock. \<open>conn\<close> is the error of obtaining a connection and \<open>getLock\<close> the answer of
  \<open>GET_LOCK\<close> (\<open>None\<close> for \<open>NULL\<close>).
\<close>

definition WithProviderConfigLock ::
  "bool \<Rightarrow> go_error option \<Rightarrow> go_error + int option \<Rightarrow> ('s \<Rightarrow> go_error option \<times> 's) option \<Rightarrow> 's \<Rightarrow>
    go_error option \<times> 's" where
  "WithProviderConfigLock isMySQL conn getLock fn s =
    (case fn of
       None \<Rightarrow> (None, s)
     | Some f \<Rightarrow>
       if \<not> isMySQL then f s
       else case conn of
         Some e \<Rightarrow> (Some e, s)
       | None \<Rightarrow>
         (case getLock of
            Inl e \<Rightarrow> (Some (errorf_w ''acquire provider identity lock'' e), s)
          | Inr acquired \<Rightarrow>
              if acquired \<noteq> Some 1
              then (Some (Errorf ''timed out acquiring provider identity lock'' []), s)
              else f s))"

section \<open>Request hashes and transition tables\<close>

text \<open>\<open>internal/diagnosis/state.go\<close>, over the digest \<open>sha256_hex\<close>.\<close>

definition request_payload ::
  "string \<Rightarrow> string \<Rightarrow> string \<Rightarrow> string \<Rightarrow> string \<Rightarrow> int list \<Rightarrow> string" where
  "request_payload repoID snapshotID title description errorLog pinnedBuildIDs =
    (let codeIndexBuildID = (case pinnedBuildIDs of [] \<Rightarrow> 0 | a # _ \<Rightarrow> a);
         retrievalBuildID = (case pinnedBuildIDs of _ # b # _ \<Rightarrow> b | _ \<Rightarrow> 0)
     in trim_space repoID @ ''|'' @ trim_space snapshotID @ ''|'' @ trim_space title @ ''|'' @
        trim_space description @ ''|'' @ trim_space errorLog @ ''|'' @
        itoa codeIndexBuildID @ ''|'' @ itoa retrievalBuildID)"

definition ComputeRequestHash ::
  "(string \<Rightarrow> string) \<Rightarrow> string \<Rightarrow> string \<Rightarrow> string \<Rightarrow> string \<Rightarrow> string \<Rightarrow> int list \<Rightarrow> string" where
  "ComputeRequestHash sha256_hex repoID snapshotID title description errorLog pinnedBuildIDs =
    sha256_hex (request_payload repoID snapshotID title description errorLog pinnedBuildIDs)"

definition ComputeRequestHashForRevision ::
  "(string \<Rightarrow> string) \<Rightarrow> string \<Rightarrow> string \<Rightarrow> string \<Rightarrow> string \<Rightarrow> string \<Rightarrow> string \<Rightarrow> int list \<Rightarrow> string" where
  "ComputeRequestHashForRevision sha256_hex revisionID repoID snapshotID title description errorLog
      pinnedBuildIDs =
    sha256_hex (trim_space revisionID @ ''|'' @
      ComputeRequestHash sha256_hex repoID snapshotID title description errorLog pinnedBuildIDs)"

fun IsValidRunTransition :: "run_status \<Rightarrow> run_status \<Rightarrow> bool" where
  "IsValidRunTransition RunQueued b \<longleftrightarrow> b = RunRunning \<or> b = RunCancelled"
| "IsValidRunTransition RunRunning b \<longleftrightarrow> b = RunSucceeded \<or> b = RunFailed \<or> b = RunCancelled"
| "IsValidRunTransition _ b \<longleftrightarrow> False"

definition IsValidAttemptTransition :: "attempt_status \<Rightarrow> attempt_status \<Rightarrow> bool" where
  "IsValidAttemptTransition a b \<longleftrightarrow> a = AttemptStatusRunning
    \<and> (b = AttemptStatusSucceeded \<or> b = AttemptStatusFailedRetryable \<or> b = AttemptStatusFailedTerminal
       \<or> b = AttemptStatusCancelled \<or> b = AttemptStatusAbandoned)"

end
