(* ===== verification/Diagnosis_Refine.thy ===== *)
theory Diagnosis_Refine
  imports Diagnosis_Store Job_Queue
begin

text \<open>
  What the operations of the diagnosis store do to the three state machines they touch.
  On the job table they refine the same life cycle as the job store. Runs and attempts
  have step relations of their own: a run keeps what it was created with and moves along
  the edges of \<open>state.go\<close> (and the edges the job store adds), an attempt is closed once,
  and its dispatch marker is cleared only when no accepted provider response is at stake.
\<close>

section \<open>The execution lock\<close>

lemma find_conj_job:
  "jobs_keys d \<Longrightarrow> find (\<lambda>r. claimed_by i w t r \<and> Q r) (analysis_jobs d) =
    (case job_of d i of Some r \<Rightarrow> if holds_claim w t r \<and> Q r then Some r else None | None \<Rightarrow> None)"
  by (simp add: claimed_by_holds conj_assoc find_job)

lemma lockDiagnosisExecutionTx_Inr:
  assumes k: "jobs_keys d"
    and ok: "lockDiagnosisExecutionTx i w t g run att c d = Inr (job, r, a)"
  shows "job_of d i = Some job" and "owns_execution w t job" and "job_type job = JobTypeRunDiagnosis"
    and "job_resource_id job = run" and "0 < g \<Longrightarrow> job_execution_generation job = g"
    and "job_cancel_requested job = c"
    and "run_id r = run" and "run_status r = RunRunning" and "run_cancel_requested r = c"
    and "r \<in> set (diagnosis_runs d)"
    and "a \<in> set (diagnosis_attempts d)"
    and "running_attempt att run (job_execution_generation job)
      (if job_attempt_count job \<le> 0 then 1 else job_attempt_count job) a"
    and "att_worker_id a = w"
proof -
  have all: "job_of d i = Some job \<and> owns_execution w t job \<and> job_type job = JobTypeRunDiagnosis
    \<and> job_resource_id job = run \<and> (0 < g \<longrightarrow> job_execution_generation job = g)
    \<and> job_cancel_requested job = c
    \<and> find (\<lambda>r. run_id r = run \<and> run_status r = RunRunning) (diagnosis_runs d) = Some r
    \<and> run_cancel_requested r = c
    \<and> find (running_attempt att run (job_execution_generation job)
        (if job_attempt_count job \<le> 0 then 1 else job_attempt_count job)) (diagnosis_attempts d) = Some a
    \<and> att_worker_id a = w"
    using ok unfolding lockDiagnosisExecutionTx_def find_conj_job[OF k] Let_def
    by (auto simp: owns_execution_def split: option.splits if_split_asm)
  then show "job_of d i = Some job" "owns_execution w t job" "job_type job = JobTypeRunDiagnosis"
    "job_resource_id job = run" "0 < g \<Longrightarrow> job_execution_generation job = g"
    "job_cancel_requested job = c" "run_cancel_requested r = c" "att_worker_id a = w"
    by blast+
  from all have r: "find (\<lambda>r. run_id r = run \<and> run_status r = RunRunning) (diagnosis_runs d) = Some r"
    by blast
  from find_SomeD[OF r] show "run_id r = run" "run_status r = RunRunning" "r \<in> set (diagnosis_runs d)"
    by blast+
  from all have a: "find (running_attempt att run (job_execution_generation job)
      (if job_attempt_count job \<le> 0 then 1 else job_attempt_count job)) (diagnosis_attempts d) = Some a"
    by blast
  from find_SomeD[OF a] show "a \<in> set (diagnosis_attempts d)"
    "running_attempt att run (job_execution_generation job)
      (if job_attempt_count job \<le> 0 then 1 else job_attempt_count job) a"
    by blast+
qed

lemma lockDiagnosisExecutionTx_stale:
  assumes k: "jobs_keys d" and stale: "\<forall>r. job_of d i = Some r \<longrightarrow> \<not> owns_execution w t r"
  shows "lockDiagnosisExecutionTx i w t g run att c d =
    Inl (if (\<exists>r. job_of d i = Some r \<and> job_finalized r) then ErrAlreadyFinalized else ErrOwnershipLost)"
proof -
  have "find (\<lambda>r. claimed_by i w t r \<and> job_type r = JobTypeRunDiagnosis
      \<and> job_resource_id r = run \<and> job_execution_started r) (analysis_jobs d) = None"
    using stale by (cases "job_of d i") (auto simp: find_conj_job[OF k] owns_execution_def)
  then show ?thesis
    by (cases "job_of d i") (simp_all add: lockDiagnosisExecutionTx_def)
qed

section \<open>Steps of runs and attempts\<close>

definition run_pinned :: "diagnosis_run \<Rightarrow> diagnosis_run" where
  "run_pinned r = r\<lparr>run_status := RunQueued, run_cancel_requested := False,
     run_final_attempt_id := '''', run_version := 0\<rparr>"

definition run_edge :: "run_status \<Rightarrow> run_status \<Rightarrow> bool" where
  "run_edge a b \<longleftrightarrow> IsValidRunTransition a b \<or> (a = RunQueued \<and> b = RunFailed)
    \<or> (a = RunFailed \<and> b = RunQueued)"

definition run_step :: "diagnosis_run \<Rightarrow> diagnosis_run \<Rightarrow> bool" where
  "run_step r r' \<longleftrightarrow> run_pinned r' = run_pinned r
    \<and> (if run_status r' = run_status r then run_version r \<le> run_version r'
       else run_edge (run_status r) (run_status r') \<and> run_version r < run_version r')"

lemma run_step_refl [simp]: "run_step r r"
  by (simp add: run_step_def)

definition att_identity :: "diagnosis_attempt \<Rightarrow> string \<times> string \<times> int \<times> int \<times> string" where
  "att_identity a = (att_id a, att_diagnosis_run_id a, att_execution_generation a, att_attempt_no a, att_worker_id a)"

definition att_edge :: "attempt_status \<Rightarrow> attempt_status \<Rightarrow> bool" where
  "att_edge a b \<longleftrightarrow> IsValidAttemptTransition a b
    \<or> (a = AttemptStatusAbandoned \<and> b = AttemptStatusFailedTerminal)"

text \<open>
  Clearing the dispatch marker of an accepted response takes a final checkpoint, and only
  where \<open>K\<close> permits one.
\<close>

definition marker_safe :: "bool \<Rightarrow> diagnosis_attempt \<Rightarrow> diagnosis_attempt \<Rightarrow> bool" where
  "marker_safe K a a' \<longleftrightarrow>
    (att_provider_dispatch_unresolved a \<and> att_provider_dispatch_success_seen a \<longrightarrow>
       (att_provider_dispatch_unresolved a' \<and> att_provider_dispatch_success_seen a')
       \<or> (K \<and> is_final_checkpoint (att_checkpoint_kind a') \<and> att_provider_completed_at a' \<noteq> None))"

definition att_step :: "bool \<Rightarrow> diagnosis_attempt \<Rightarrow> diagnosis_attempt \<Rightarrow> bool" where
  "att_step K a a' \<longleftrightarrow> att_identity a' = att_identity a \<and> marker_safe K a a'
    \<and> (att_status a' = att_status a \<or> att_edge (att_status a) (att_status a'))
    \<and> (att_status a \<noteq> AttemptStatusRunning \<and> att_status a' = att_status a \<longrightarrow> a' = a)"

lemma att_step_refl [simp]: "att_step K a a"
  by (simp add: att_step_def marker_safe_def)

text \<open>Closing an attempt: whatever else the row says, the marker is left alone.\<close>

definition closes :: "attempt_status \<Rightarrow> (diagnosis_attempt \<Rightarrow> diagnosis_attempt) \<Rightarrow> bool" where
  "closes st f \<longleftrightarrow> IsValidAttemptTransition AttemptStatusRunning st \<and> (\<forall>a. att_identity (f a) = att_identity a
    \<and> att_status (f a) = st
    \<and> att_provider_dispatch_unresolved (f a) = att_provider_dispatch_unresolved a
    \<and> att_provider_dispatch_success_seen (f a) = att_provider_dispatch_success_seen a)"

lemma closes_step: "closes st f \<Longrightarrow> att_status a = AttemptStatusRunning \<Longrightarrow> att_step K a (f a)"
  by (auto simp: closes_def att_step_def att_edge_def marker_safe_def IsValidAttemptTransition_def)

section \<open>Evolution of the two tables\<close>

text \<open>
  The unique keys: the id, and (user, idempotency key) for a run, (run, generation,
  attempt number) for an attempt.
\<close>

definition run_keys :: "diagnosis_run \<Rightarrow> string \<times> string \<times> string" where
  "run_keys r = (run_id r, run_user_id r, run_idempotency_key r)"

definition att_keys :: "diagnosis_attempt \<Rightarrow> string \<times> string \<times> int \<times> int" where
  "att_keys a = (att_id a, att_diagnosis_run_id a, att_execution_generation a, att_attempt_no a)"

definition new_run :: "diagnosis_run \<Rightarrow> bool" where
  "new_run r \<longleftrightarrow> run_status r = RunQueued \<and> run_version r = 1"

definition new_att :: "diagnosis_attempt \<Rightarrow> bool" where
  "new_att a \<longleftrightarrow> att_status a = AttemptStatusRunning"

lemma run_step_keys: "run_step r r' \<Longrightarrow> run_keys r' = run_keys r"
  unfolding run_step_def run_keys_def run_pinned_def
  by (cases r; cases r') auto

interpretation run_table: row_table new_run run_step run_keys
  by unfold_locales (fact run_step_keys)

interpretation attempt_table: row_table new_att "att_step K" att_keys for K
  by unfold_locales (simp add: att_step_def att_identity_def att_keys_def)

definition runs_evolve :: "db \<Rightarrow> db \<Rightarrow> bool" where
  "runs_evolve d d' \<longleftrightarrow> table_evolve new_run run_step run_keys (diagnosis_runs d) (diagnosis_runs d')"

definition attempts_evolve :: "bool \<Rightarrow> db \<Rightarrow> db \<Rightarrow> bool" where
  "attempts_evolve K d d' \<longleftrightarrow>
    table_evolve new_att (att_step K) att_keys (diagnosis_attempts d) (diagnosis_attempts d')"

section \<open>The three tables at once\<close>

definition diag_evolve :: "(string \<Rightarrow> bool) \<Rightarrow> bool \<Rightarrow> db \<Rightarrow> db \<Rightarrow> bool" where
  "diag_evolve F K d d' \<longleftrightarrow> jobs_evolve F d d' \<and> runs_evolve d d' \<and> attempts_evolve K d d'"

lemma diag_evolve_trans: "diag_evolve F K a b \<Longrightarrow> diag_evolve F K b c \<Longrightarrow> diag_evolve F K a c"
  unfolding diag_evolve_def runs_evolve_def attempts_evolve_def
  by (blast intro: jobs_evolve_trans table_evolve_trans)

lemma diag_evolve_refl [simp]: "diag_evolve F K d d"
  by (simp add: diag_evolve_def runs_evolve_def attempts_evolve_def table_evolve_refl jobs_evolve_same)

lemma diag_evolve_set_attempts:
  "(\<And>a. P a \<Longrightarrow> att_step K a (f a)) \<Longrightarrow> diag_evolve F K d (set_attempts P f d)"
  by (auto simp: diag_evolve_def runs_evolve_def attempts_evolve_def
      intro!: table_evolve_refl run_table.evolve_set attempt_table.evolve_set jobs_evolve_same)

lemma diag_evolve_set_runs:
  "(\<And>r. P r \<Longrightarrow> run_step r (f r)) \<Longrightarrow> diag_evolve F K d (set_runs P f d)"
  by (auto simp: diag_evolve_def runs_evolve_def attempts_evolve_def
      intro!: table_evolve_refl run_table.evolve_set attempt_table.evolve_set jobs_evolve_same)

lemma diag_evolve_set_jobs:
  "jobs_evolve F d (set_jobs P f d) \<Longrightarrow> diag_evolve F K d (set_jobs P f d)"
  by (auto simp: diag_evolve_def runs_evolve_def attempts_evolve_def intro!: table_evolve_refl)

lemma diag_evolve_put_job:
  "jobs_keys d \<Longrightarrow> job_of d i = Some r \<Longrightarrow> life_step F r r' \<Longrightarrow> diag_evolve F K d (put_job r' d)"
  by (auto simp: diag_evolve_def runs_evolve_def attempts_evolve_def
      intro!: table_evolve_refl evolve_row_step)

text \<open>Permitting a checkpoint only adds steps.\<close>

lemma table_evolve_mono:
  assumes "table_evolve new s ident xs ys" and "\<And>r r'. s r r' \<Longrightarrow> s' r r'"
  shows "table_evolve new s' ident xs ys"
proof -
  have steps: "s'\<^sup>*\<^sup>* r r'" if "s\<^sup>*\<^sup>* r r'" for r r'
    using that by (induction rule: rtranclp_induct) (auto intro: assms(2) rtranclp.rtrancl_into_rtrancl)
  have reach: "reachable new s' r" if "reachable new s r" for r
    using that by (induction rule: reachable.induct) (auto intro: reach_init reach_step assms(2))
  from assms(1) obtain ts us where "ys = ts @ us" "list_all2 s\<^sup>*\<^sup>* xs ts" "list_all (reachable new s) us"
    "unique_keys (map ident xs) \<longrightarrow> unique_keys (map ident ys)"
    by (auto simp: table_evolve_def)
  moreover from this have "list_all2 s'\<^sup>*\<^sup>* xs ts" "list_all (reachable new s') us"
    using steps reach by (auto simp: list_all2_conv_all_nth list_all_iff)
  ultimately show ?thesis unfolding table_evolve_def by blast
qed

lemma diag_evolve_permit: "diag_evolve F False d d' \<Longrightarrow> diag_evolve F K d d'"
  unfolding diag_evolve_def attempts_evolve_def
  by (auto elim!: table_evolve_mono simp: att_step_def marker_safe_def)

text \<open>An operation that leaves the three tables alone.\<close>

lemma diag_evolve_same:
  "analysis_jobs d' = analysis_jobs d \<Longrightarrow> next_job_id d' = next_job_id d \<Longrightarrow>
    diagnosis_runs d' = diagnosis_runs d \<Longrightarrow> diagnosis_attempts d' = diagnosis_attempts d \<Longrightarrow>
    diag_evolve F K d d'"
  by (simp add: diag_evolve_def runs_evolve_def attempts_evolve_def table_evolve_refl jobs_evolve_same)

end
