(* ===== verification/Diagnosis_Invariants.thy ===== *)
theory Diagnosis_Invariants
  imports Diagnosis_Refine
begin

text \<open>
  Every operation of the job store and of the diagnosis store evolves the tables of jobs,
  runs and attempts (\<open>diag_evolve\<close>): the refinement lemmas, one per operation.
\<close>

section \<open>Attempts\<close>

lemma keeps_running_step:
  assumes "att_status a = AttemptStatusRunning" and "att_identity a' = att_identity a"
    and "att_status a' = att_status a" and "marker_safe K a a'"
  shows "att_step K a a'"
  using assms by (simp add: att_step_def)

lemma checkpointUpdates_keep [simp]:
  "att_identity (checkpointUpdates now cp withDraft a) = att_identity a"
  "att_status (checkpointUpdates now cp withDraft a) = att_status a"
  by (simp_all add: checkpointUpdates_def Let_def att_identity_def)

lemma checkpointUpdates_marker: "marker_safe True a (checkpointUpdates now cp withDraft a)"
  by (simp add: checkpointUpdates_def Let_def marker_safe_def)

lemma checkpoint_step: "att_status a = AttemptStatusRunning \<Longrightarrow> att_step True a (checkpointUpdates now cp withDraft a)"
  by (rule keeps_running_step) (simp_all add: checkpointUpdates_marker)

lemma create_attempt_evolve:
  assumes "create_attempt now a d = Inr d'" and "att_status a = AttemptStatusRunning"
  shows "diag_evolve F K d d'"
proof -
  from assms obtain b where d': "d' = d\<lparr>diagnosis_attempts := diagnosis_attempts d @ [b]\<rparr>"
    and b: "att_status b = AttemptStatusRunning"
    and fresh: "\<forall>x \<in> set (diagnosis_attempts d). att_id x \<noteq> att_id b
      \<and> \<not> (att_diagnosis_run_id x = att_diagnosis_run_id b
        \<and> att_execution_generation x = att_execution_generation b \<and> att_attempt_no x = att_attempt_no b)"
    by (auto simp: create_attempt_def Let_def list_ex_iff split: if_split_asm)
  from fresh have "attempts_evolve K d d'"
    unfolding attempts_evolve_def d' using b
    by (auto simp: new_att_def att_keys_def intro!: attempt_table.evolve_add)
  then show ?thesis
    by (simp add: d' diag_evolve_def runs_evolve_def table_evolve_refl jobs_evolve_same)
qed

lemma start_run_evolve:
  "diag_evolve F K d (set_runs (\<lambda>r. run_id r = i \<and> run_status r = RunQueued \<and> Q r)
     (\<lambda>r. r\<lparr>run_status := RunRunning, run_version := run_version r + 1\<rparr>) d)"
  by (rule diag_evolve_set_runs) (simp add: run_step_def run_pinned_def run_edge_def)

lemma StartAttemptWithClaimTx_evolve:
  assumes "StartAttemptWithClaimTx now i w t g run att d = Inr d'"
  shows "diag_evolve F K d d'"
proof -
  let ?Q = "\<lambda>r. run_id r = run \<and> run_status r = RunQueued \<and> \<not> run_cancel_requested r"
  let ?f = "\<lambda>r. r\<lparr>run_status := RunRunning, run_version := run_version r + 1\<rparr>"
  from assms obtain job a rr where a: "att = Some a" and rr: "run_of d run = Some rr"
    unfolding StartAttemptWithClaimTx_def
    by (auto simp: Let_def bindE_eq_Inr split: option.split_asm if_split_asm)
  define d1 where "d1 = (if run_status rr = RunQueued then set_runs ?Q ?f d else d)"
  from assms a rr have c: "create_attempt now ((attempt_times now a)\<lparr>att_status := AttemptStatusRunning,
      att_checkpoint_kind := CheckpointKindNone\<rparr>) d1 = Inr d'"
    unfolding StartAttemptWithClaimTx_def d1_def
    by (auto simp: Let_def bindE_eq_Inr split: if_split_asm)
  have "diag_evolve F K d d1" unfolding d1_def by (simp add: start_run_evolve)
  moreover have "diag_evolve F K d1 d'" using c by (rule create_attempt_evolve) simp
  ultimately show ?thesis by (rule diag_evolve_trans)
qed

lemma BeginProviderDispatchTx_evolve:
  "BeginProviderDispatchTx now i w t g run att n d = Inr d' \<Longrightarrow> diag_evolve F K d d'"
  by (auto simp: BeginProviderDispatchTx_def bindE_eq_Inr att_identity_def marker_safe_def split: if_splits
      intro!: diag_evolve_set_attempts keeps_running_step)

lemma ProviderDispatchSucceededTx_evolve:
  "ProviderDispatchSucceededTx now i w t g run att n d = Inr d' \<Longrightarrow> diag_evolve F K d d'"
  by (auto simp: ProviderDispatchSucceededTx_def Let_def bindE_eq_Inr att_identity_def marker_safe_def split: if_splits
      intro!: diag_evolve_set_attempts keeps_running_step)

lemma ProviderDispatchFailedDefinitelyTx_evolve:
  "ProviderDispatchFailedDefinitelyTx now i w t g run att n d = Inr (b, d') \<Longrightarrow> diag_evolve F K d d'"
  by (auto simp: ProviderDispatchFailedDefinitelyTx_def Let_def bindE_eq_Inr att_identity_def marker_safe_def split: if_splits
      intro!: diag_evolve_set_attempts keeps_running_step)

lemma UpdateAttemptCheckpointWithClaimTx_evolve:
  "UpdateAttemptCheckpointWithClaimTx order now i w t g n run att cp dr d = Inr d' \<Longrightarrow> diag_evolve F True d d'"
  by (auto simp: UpdateAttemptCheckpointWithClaimTx_def Let_def bindE_eq_Inr running_attempt_def split: if_splits
      intro!: diag_evolve_set_attempts checkpoint_step)

lemma UpdateAttemptHeartbeat_evolve: "diag_evolve F K d (snd (UpdateAttemptHeartbeat att h d))"
  by (auto simp: UpdateAttemptHeartbeat_def Let_def att_identity_def marker_safe_def
      intro!: diag_evolve_set_attempts keeps_running_step)

lemma close_attempts_evolve:
  "closes st f \<Longrightarrow> (\<And>a. P a \<Longrightarrow> att_status a = AttemptStatusRunning) \<Longrightarrow> diag_evolve F K d (set_attempts P f d)"
  by (rule diag_evolve_set_attempts) (auto intro: closes_step)

lemma CloseAttempt_evolve: "diag_evolve F K d (snd (CloseAttempt now run att g st c m b d))"
  by (auto simp: CloseAttempt_def Let_def closes_def IsValidAttemptTransition_def att_identity_def
      intro!: close_attempts_evolve[where st = st])

lemma abandon_evolve:
  assumes "\<And>a. P a \<Longrightarrow> att_status a = AttemptStatusRunning"
  shows "diag_evolve F K d (set_attempts P (\<lambda>a. a\<lparr>att_status := AttemptStatusAbandoned,
      att_finished_at := f, att_error_code := c, att_error_message := m\<rparr>) d)"
  using assms by (intro close_attempts_evolve[where st = AttemptStatusAbandoned])
    (auto simp: closes_def IsValidAttemptTransition_def att_identity_def)

lemma touch_run_evolve:
  "diag_evolve F K d (set_runs R (\<lambda>r. r\<lparr>run_version := run_version r + 1\<rparr>) d)"
  by (rule diag_evolve_set_runs) (simp add: run_step_def run_pinned_def)

lemma RecoverStaleAttemptTx_evolve:
  "RecoverStaleAttemptTx now att run d = Inr d' \<Longrightarrow> diag_evolve F K d d'"
  unfolding RecoverStaleAttemptTx_def Let_def
  by (auto split: option.splits if_split_asm intro!: abandon_evolve diag_evolve_trans[OF abandon_evolve touch_run_evolve])

section \<open>The finalizers of the diagnosis store\<close>

text \<open>The three closing updates of a finalizer, on a job row that the claim owns.\<close>

lemma finalizing_job_eq:
  "finalizing_job i w t g c = (\<lambda>r. job_id r = i \<and> (holds_claim w t r \<and> job_execution_generation r = g
     \<and> job_execution_started r \<and> job_cancel_requested r = c))"
  by (auto simp: finalizing_job_def claimed_by_holds)

lemma closing_updates_evolve:
  assumes k: "jobs_keys d" and job: "job_of d i = Some job" and own: "owns_execution w t job"
    and gen: "job_execution_generation job = g" and can: "job_cancel_requested job = c"
    and f: "closes st f" and A: "\<And>a. A a \<Longrightarrow> att_status a = AttemptStatusRunning"
    and R: "\<And>r. R r \<Longrightarrow> run_step r (h r)"
    and J: "life_step F job (j job)"
  shows "diag_evolve F K d (set_jobs (finalizing_job i w t g c) j (set_runs R h (set_attempts A f d)))"
proof -
  let ?d1 = "set_attempts A f d" and ?d2 = "set_runs R h (set_attempts A f d)"
  have same: "same_jobs d ?d2" by simp
  have k2: "jobs_keys ?d2" and job2: "job_of ?d2 i = Some job"
    using k job by (simp_all add: same_jobs_keys[OF same])
  have "set_jobs (finalizing_job i w t g c) j ?d2 = put_job (j job) ?d2"
    unfolding finalizing_job_eq using own gen can life_step_identity[OF J]
    by (intro set_job_hit[OF k2 job2]) (auto simp: owns_execution_def)
  moreover have "diag_evolve F K ?d2 (put_job (j job) ?d2)"
    using k2 job2 J by (rule diag_evolve_put_job)
  moreover have "diag_evolve F K d ?d1" using f A by (rule close_attempts_evolve)
  moreover have "diag_evolve F K ?d1 ?d2" using R by (rule diag_evolve_set_runs)
  ultimately show ?thesis by (metis diag_evolve_trans)
qed

lemma run_end_step:
  "run_status r = RunRunning \<Longrightarrow> IsValidRunTransition RunRunning st \<Longrightarrow>
    run_step r (r\<lparr>run_status := st, run_final_attempt_id := a, run_version := run_version r + 1\<rparr>)"
  by (auto simp: run_step_def run_pinned_def run_edge_def)

lemma FinalizeCancellationTx_evolve:
  assumes k: "jobs_keys d" and ok: "FinalizeCancellationTx now i w t run att d = Inr d'"
  shows "diag_evolve F K d d'"
proof -
  from ok obtain job r a where l: "lockDiagnosisExecutionTx i w t 0 run att True d = Inr (job, r, a)"
    by (auto simp: FinalizeCancellationTx_def bindE_eq_Inr)
  note L = lockDiagnosisExecutionTx_Inr[OF k l]
  let ?j = "\<lambda>r. r\<lparr>job_status := StatusCancelled, job_terminal_reason := Some TerminalReasonCancelled,
      job_finished_at := Some now, job_updated_at := now\<rparr>"
  have "life_step F job (?j job)"
    using L life_cancelled_row[of w t job F now] by (simp add: cancelled_row_def)
  then show ?thesis
    using ok l unfolding FinalizeCancellationTx_def bindE_Inr Let_def
    by (auto simp: closes_def IsValidAttemptTransition_def att_identity_def running_attempt_def
        split: if_split_asm
        intro!: closing_updates_evolve[OF k L(1,2) refl L(6), where st = AttemptStatusCancelled] run_end_step)
qed

lemma FinalizeDiagnosisFailureTx_evolve:
  assumes k: "jobs_keys d" and g: "0 < g"
    and ok: "FinalizeDiagnosisFailureTx now i w t g run att cls code msg pt ct tc d = Inr d'"
  shows "diag_evolve F K d d'"
proof -
  from ok obtain job r a where l: "lockDiagnosisExecutionTx i w t g run att False d = Inr (job, r, a)"
    by (auto simp: FinalizeDiagnosisFailureTx_def bindE_eq_Inr)
  note L = lockDiagnosisExecutionTx_Inr[OF k l]
  let ?reason = "Some (if cls = ErrorClassRetryable then TerminalReasonRetryableExhausted else TerminalReasonPermanent)"
  have "life_step F job (failed_row now cls code msg ?reason job)"
    using L by (intro life_failed_row[of w t]) auto
  then show ?thesis
    using ok l unfolding FinalizeDiagnosisFailureTx_def bindE_Inr Let_def failed_row_def
    by (auto simp: closes_def IsValidAttemptTransition_def att_identity_def running_attempt_def
        split: if_split_asm
        intro!: closing_updates_evolve[OF k L(1,2) L(5)[OF g] L(6), where st = AttemptStatusFailedTerminal] run_end_step)
qed

lemma FinalizeRetryableAttemptTx_evolve:
  "FinalizeRetryableAttemptTx now i w t g run att code msg pt ct tc d = Inr d' \<Longrightarrow> diag_evolve F K d d'"
  by (auto simp: FinalizeRetryableAttemptTx_def Let_def bindE_eq_Inr closes_def IsValidAttemptTransition_def
      att_identity_def running_attempt_def split: if_splits
      intro!: close_attempts_evolve[where st = AttemptStatusFailedRetryable])

text \<open>Reports and citations live in tables of their own.\<close>

definition same_diag :: "db \<Rightarrow> db \<Rightarrow> bool" where
  "same_diag d d' \<longleftrightarrow> same_jobs d d' \<and> diagnosis_runs d' = diagnosis_runs d
    \<and> diagnosis_attempts d' = diagnosis_attempts d"

lemma same_diag_jobs: "same_diag d d' \<Longrightarrow> same_jobs d d'"
  by (simp add: same_diag_def)

lemma same_diag_evolve: "same_diag d d' \<Longrightarrow> diag_evolve F K d d'"
  by (rule diag_evolve_same) (simp_all add: same_diag_def same_jobs_def)

lemma create_report_same: "create_report now rep d = Inr d' \<Longrightarrow> same_diag d d'"
  by (auto simp: create_report_def same_diag_def same_jobs_def split: if_splits)

lemma create_citations_same: "create_citations uuid n cs d = Inr d' \<Longrightarrow> same_diag d d'"
  by (induction uuid n cs d rule: create_citations.induct)
    (auto simp: Let_def same_diag_def same_jobs_def split: if_split_asm)

text \<open>A successful finalization is the creation of the report followed by the three closing updates.\<close>

definition finalized_success ::
  "time \<Rightarrow> int \<Rightarrow> string \<Rightarrow> string \<Rightarrow> string \<Rightarrow> string \<Rightarrow> report \<Rightarrow> int \<Rightarrow> int \<Rightarrow> int \<Rightarrow>
    analysis_job \<Rightarrow> diagnosis_attempt \<Rightarrow> db \<Rightarrow> db" where
  "finalized_success now i w t run att rp pt ct tc job a d =
    set_jobs (finalizing_job i w t (job_execution_generation job) False)
      (\<lambda>r. r\<lparr>job_status := StatusSucceeded, job_finished_at := Some now, job_updated_at := now\<rparr>)
      (set_runs (\<lambda>r. run_id r = run \<and> run_status r = RunRunning \<and> \<not> run_cancel_requested r)
        (\<lambda>r. r\<lparr>run_status := RunSucceeded, run_final_attempt_id := att, run_version := run_version r + 1\<rparr>)
        (set_attempts (running_attempt att run (att_execution_generation a) (att_attempt_no a))
          (\<lambda>a. a\<lparr>att_status := AttemptStatusSucceeded, att_finished_at := Some now,
                     att_prompt_tokens := pt, att_completion_tokens := ct,
                     att_tool_calls := tc, att_raw_output := rep_raw_output rp,
                     att_structured_output_valid := (rep_report_status rp \<noteq> ReportInvalid),
                     att_provider_completed_at := Some now\<rparr>) d))"

lemma FinalizeSuccessTx_Inr:
  assumes "FinalizeSuccessTx order uuid now i w t run att rep cits pt ct tc d = Inr d'"
  obtains job r a rp d1 d2 where "lockDiagnosisExecutionTx i w t 0 run att False d = Inr (job, r, a)"
    and "rep = Some rp" and "rep_diagnosis_run_id rp = run" and "rep_attempt_id rp = att"
    and "\<forall>c \<in> set cits. cit_snapshot_id c = run_snapshot_id r
      \<and> (run_code_index_build_id r > 0 \<longrightarrow> cit_code_index_build_id c = run_code_index_build_id r)"
    and "create_report now rp d = Inr d1" and "create_citations uuid 0 cits d1 = Inr d2"
    and "d' = finalized_success now i w t run att rp pt ct tc job a d2"
proof -
  from assms obtain job r a where l: "lockDiagnosisExecutionTx i w t 0 run att False d = Inr (job, r, a)"
    by (auto simp: FinalizeSuccessTx_def bindE_eq_Inr)
  with assms show thesis
    unfolding FinalizeSuccessTx_def bindE_Inr Let_def
    by (auto simp: bindE_eq_Inr wrapE_def list_ex_iff finalized_success_def split: option.splits sum.splits if_split_asm
        intro!: that[OF l])
qed

lemma FinalizeSuccessTx_evolve:
  assumes k: "jobs_keys d"
    and ok: "FinalizeSuccessTx order uuid now i w t run att rep cits pt ct tc d = Inr d'"
  shows "diag_evolve F K d d'"
proof -
  from ok obtain job r a rp d1 d2 where l: "lockDiagnosisExecutionTx i w t 0 run att False d = Inr (job, r, a)"
    and c: "create_report now rp d = Inr d1" "create_citations uuid 0 cits d1 = Inr d2"
    and d': "d' = finalized_success now i w t run att rp pt ct tc job a d2"
    by (rule FinalizeSuccessTx_Inr)
  note L = lockDiagnosisExecutionTx_Inr[OF k l]
  from c have same: "same_diag d d2"
    by (auto simp: same_diag_def same_jobs_def dest!: create_report_same create_citations_same)
  then have k2: "jobs_keys d2" and job2: "job_of d2 i = Some job"
    using k L(1) by (simp_all add: same_jobs_keys[OF same_diag_jobs] same_jobs_job_of[OF same_diag_jobs])
  have "life_step F job (job\<lparr>job_status := StatusSucceeded, job_finished_at := Some now, job_updated_at := now\<rparr>)"
    using L life_succeeded_row[of w t job F now] by (simp add: succeeded_row_def)
  then have "diag_evolve F K d2 d'"
    unfolding d' finalized_success_def
    by (intro closing_updates_evolve[OF k2 job2 L(2) refl L(6), where st = AttemptStatusSucceeded])
      (auto simp: closes_def IsValidAttemptTransition_def att_identity_def running_attempt_def intro!: run_end_step)
  with same_diag_evolve[OF same] show ?thesis by (rule diag_evolve_trans)
qed

lemma FinalizeInvalidStructuredReportTx_evolve:
  assumes k: "jobs_keys d"
    and ok: "FinalizeInvalidStructuredReportTx order uuid now i w t run att rep pt ct tc code msg d = Inr d'"
  shows "diag_evolve F K d d'"
proof -
  from ok obtain job r a where l: "lockDiagnosisExecutionTx i w t 0 run att False d = Inr (job, r, a)"
    by (auto simp: FinalizeInvalidStructuredReportTx_def bindE_eq_Inr)
  note L = lockDiagnosisExecutionTx_Inr[OF k l]
  from ok l obtain rp d1 where c: "create_report now rp d = Inr d1"
    and d': "d' = set_jobs (finalizing_job i w t (job_execution_generation job) False)
      (failed_row now ErrorClassPermanent code msg (Some TerminalReasonPermanent))
      (set_runs (\<lambda>r. run_id r = run \<and> run_status r = RunRunning \<and> \<not> run_cancel_requested r)
        (\<lambda>r. r\<lparr>run_status := RunFailed, run_final_attempt_id := att, run_version := run_version r + 1\<rparr>)
        (set_attempts (running_attempt att run (att_execution_generation a) (att_attempt_no a))
          (\<lambda>a. a\<lparr>att_status := AttemptStatusFailedTerminal,
                     att_finished_at := Some now, att_prompt_tokens := pt,
                     att_completion_tokens := ct, att_tool_calls := tc,
                     att_error_code := code, att_error_message := msg,
                     att_retryable := False, att_raw_output := rep_raw_output rp,
                     att_structured_output_valid := False\<rparr>) d1))"
    unfolding FinalizeInvalidStructuredReportTx_def bindE_Inr Let_def failed_row_def[abs_def]
    by (auto simp: bindE_eq_Inr wrapE_def split: option.splits sum.splits if_split_asm)
  from c have same: "same_diag d d1" by (rule create_report_same)
  then have k2: "jobs_keys d1" and job2: "job_of d1 i = Some job"
    using k L(1) by (simp_all add: same_jobs_keys[OF same_diag_jobs] same_jobs_job_of[OF same_diag_jobs])
  have "life_step F job (failed_row now ErrorClassPermanent code msg (Some TerminalReasonPermanent) job)"
    using L by (intro life_failed_row[of w t]) auto
  then have "diag_evolve F K d1 d'"
    unfolding d' by (intro closing_updates_evolve[OF k2 job2 L(2) refl L(6), where st = AttemptStatusFailedTerminal])
      (auto simp: closes_def IsValidAttemptTransition_def att_identity_def running_attempt_def intro!: run_end_step)
  with same_diag_evolve[OF same] show ?thesis by (rule diag_evolve_trans)
qed

end
