(* ===== verification/Evidence_Store.thy ===== *)
theory Evidence_Store
  imports Job_Store
begin

text \<open>
  The table of issued evidence (\<open>GormEvidenceStore\<close> in \<open>internal/evidence/item.go\<close>): rows are
  only ever added, under a fresh id, and looked up by id within an attempt, by identity of
  the source range, or by id alone.
\<close>

definition ErrEvidenceNotFound :: go_error where
  "ErrEvidenceNotFound = Sentinel ''evidence.ErrEvidenceNotFound'' ''EVIDENCE_NOT_FOUND''"

definition evidence_named :: "string \<Rightarrow> db \<Rightarrow> bool" where
  "evidence_named i d \<longleftrightarrow> list_ex (\<lambda>x. ev_id x = i) (attempt_evidence_items d)"

definition EvidenceCreate :: "string \<Rightarrow> attempt_evidence_item \<Rightarrow> db \<Rightarrow> (go_error + unit) \<times> db" where
  "EvidenceCreate uuid item0 d =
    (let item = (if ev_id item0 = '''' then item0\<lparr>ev_id := ''ev_'' @ uuid\<rparr> else item0)
     in if evidence_named (ev_id item) d then (Inl DuplicateKey, d)
        else (Inr (), d\<lparr>attempt_evidence_items := attempt_evidence_items d @ [item]\<rparr>))"

definition GetByAttemptAndID :: "string \<Rightarrow> string \<Rightarrow> db \<Rightarrow> go_error + attempt_evidence_item" where
  "GetByAttemptAndID attemptID evidenceID d =
    (case find (\<lambda>x. ev_attempt_id x = attemptID \<and> ev_id x = evidenceID) (attempt_evidence_items d) of
       None \<Rightarrow> Inl ErrEvidenceNotFound | Some x \<Rightarrow> Inr x)"

definition FindCanonical ::
  "string \<Rightarrow> string \<Rightarrow> string \<Rightarrow> int \<Rightarrow> int \<Rightarrow> string \<Rightarrow> db \<Rightarrow> attempt_evidence_item option" where
  "FindCanonical attemptID snapshotID filePath startLine endLine rawHash d =
    find (\<lambda>x. ev_attempt_id x = attemptID \<and> ev_snapshot_id x = snapshotID \<and> ev_file_path x = filePath
      \<and> ev_start_line x = startLine \<and> ev_end_line x = endLine \<and> ev_raw_content_hash x = rawHash)
      (attempt_evidence_items d)"

definition FindByID :: "string \<Rightarrow> db \<Rightarrow> go_error + attempt_evidence_item" where
  "FindByID evidenceID d =
    (case find (\<lambda>x. ev_id x = evidenceID) (attempt_evidence_items d) of
       None \<Rightarrow> Inl ErrEvidenceNotFound | Some x \<Rightarrow> Inr x)"

text \<open>Creation adds a row at most; every other table stays as it is.\<close>

lemma EvidenceCreate_frame:
  obtains its where "snd (EvidenceCreate uuid item d) = d\<lparr>attempt_evidence_items := attempt_evidence_items d @ its\<rparr>"
proof (cases "fst (EvidenceCreate uuid item d)")
  case (Inl e)
  then have "snd (EvidenceCreate uuid item d) = d\<lparr>attempt_evidence_items := attempt_evidence_items d @ []\<rparr>"
    by (simp add: EvidenceCreate_def Let_def split: if_splits)
  then show ?thesis by (rule that)
next
  case (Inr x)
  then show ?thesis by (auto simp: EvidenceCreate_def Let_def intro: that split: if_splits)
qed

end
