(* ===== verification/Diagnosis_System.thy ===== *)
theory Diagnosis_System
  imports Diagnosis_Invariants Evidence_Store
begin

text \<open>
  The remaining refinement lemmas (creation, cancellation and the operations of the job
  store on runs and attempts), and the transition system of all operations the program
  calls on jobs, runs, attempts and issued evidence, with its invariant.
\<close>

section \<open>Runs and attempts under the job store\<close>

definition biz_evolve :: "bool \<Rightarrow> db \<Rightarrow> db \<Rightarrow> bool" where
  "biz_evolve K d d' \<longleftrightarrow> runs_evolve d d' \<and> attempts_evolve K d d'"

lemma diag_evolve_biz: "diag_evolve F K d d' \<longleftrightarrow> jobs_evolve F d d' \<and> biz_evolve K d d'"
  by (simp add: diag_evolve_def biz_evolve_def)

lemma biz_evolve_trans: "biz_evolve K a b \<Longrightarrow> biz_evolve K b c \<Longrightarrow> biz_evolve K a c"
  unfolding biz_evolve_def runs_evolve_def attempts_evolve_def by (blast intro: table_evolve_trans)

lemma biz_evolve_same:
  "diagnosis_runs d' = diagnosis_runs d \<Longrightarrow> diagnosis_attempts d' = diagnosis_attempts d \<Longrightarrow> biz_evolve K d d'"
  by (simp add: biz_evolve_def runs_evolve_def attempts_evolve_def table_evolve_refl)

lemma biz_evolve_set_runs: "(\<And>r. P r \<Longrightarrow> run_step r (f r)) \<Longrightarrow> biz_evolve K d (set_runs P f d)"
  using diag_evolve_set_runs by (auto simp: diag_evolve_biz)

lemma biz_evolve_set_attempts: "(\<And>a. P a \<Longrightarrow> att_step K a (f a)) \<Longrightarrow> biz_evolve K d (set_attempts P f d)"
  using diag_evolve_set_attempts by (auto simp: diag_evolve_biz)

lemma biz_evolve_jobs: "biz_evolve K d (set_jobs P f e) \<longleftrightarrow> biz_evolve K d e" "biz_evolve K d (put_job r e) \<longleftrightarrow> biz_evolve K d e"
  by (simp_all add: biz_evolve_def runs_evolve_def attempts_evolve_def)

lemma biz_evolve_from_job: "biz_evolve K (put_job r d) e \<longleftrightarrow> biz_evolve K d e" "biz_evolve K (set_jobs P f d) e \<longleftrightarrow> biz_evolve K d e"
  by (simp_all add: biz_evolve_def runs_evolve_def attempts_evolve_def)

lemma run_step_leave:
  "run_status r = RunQueued \<or> run_status r = RunRunning \<Longrightarrow> st = RunCancelled \<or> st = RunFailed \<Longrightarrow>
    run_step r (r\<lparr>run_status := st, run_version := run_version r + 1\<rparr>)"
  "run_status r = RunQueued \<or> run_status r = RunRunning \<Longrightarrow>
    run_step r (r\<lparr>run_status := RunCancelled, run_cancel_requested := c, run_final_attempt_id := a,
      run_version := run_version r + 1\<rparr>)"
  "run_status r = RunFailed \<Longrightarrow>
    run_step r (r\<lparr>run_status := RunQueued, run_cancel_requested := c, run_final_attempt_id := a,
      run_version := run_version r + 1\<rparr>)"
  "run_step r (r\<lparr>run_final_attempt_id := a\<rparr>)"
  by (auto simp: run_step_def run_pinned_def run_edge_def)

lemma close_biz:
  "closes st f \<Longrightarrow> (\<And>a. P a \<Longrightarrow> att_status a = AttemptStatusRunning) \<Longrightarrow> biz_evolve K d (set_attempts P f d)"
  using close_attempts_evolve by (auto simp: diag_evolve_biz)

lemma cancelDiagnosisRunTx_biz:
  assumes "cancelDiagnosisRunTx now run g d = Inr d'"
  shows "biz_evolve K d d'"
proof -
  let ?P = "\<lambda>a. att_diagnosis_run_id a = run \<and> att_execution_generation a = g \<and> att_status a = AttemptStatusRunning"
  let ?d1 = "set_attempts ?P (\<lambda>a. a\<lparr>att_status := AttemptStatusAbandoned, att_finished_at := Some now\<rparr>) d"
  let ?R = "\<lambda>r. run_id r = run \<and> (run_status r = RunQueued \<or> run_status r = RunRunning)"
  have "biz_evolve K d ?d1"
    by (rule close_biz[where st = AttemptStatusAbandoned])
      (simp_all add: closes_def IsValidAttemptTransition_def att_identity_def)
  moreover have "biz_evolve K ?d1 (set_runs ?R (\<lambda>r. r\<lparr>run_status := RunCancelled, run_cancel_requested := True,
      run_final_attempt_id := h r, run_version := run_version r + 1\<rparr>) ?d1)" for h
    by (rule biz_evolve_set_runs) (auto intro: run_step_leave(2))
  ultimately show ?thesis
    using assms unfolding cancelDiagnosisRunTx_def Let_def
    by (auto split: if_split_asm option.split_asm intro: biz_evolve_trans)
qed

lemma fail_business_update_biz: "biz_evolve K d (snd (fail_business_update ty code res d))"
  by (auto simp: fail_business_update_def Let_def split: job_type.split
      intro!: biz_evolve_same biz_evolve_set_runs run_step_leave(1))

lemma fail_diagnosis_attempts_biz: "biz_evolve K d (fail_diagnosis_attempts now reaped res g d)"
proof -
  let ?P = "\<lambda>a. att_diagnosis_run_id a = res \<and> att_execution_generation a = g \<and> att_status a = AttemptStatusRunning"
  let ?f = "\<lambda>a. a\<lparr>att_status := (if reaped then AttemptStatusAbandoned else AttemptStatusFailedTerminal),
      att_finished_at := Some now\<rparr>"
  have "biz_evolve K d (set_attempts ?P ?f d)"
    by (rule close_biz[where st = "if reaped then AttemptStatusAbandoned else AttemptStatusFailedTerminal"])
      (simp_all add: closes_def IsValidAttemptTransition_def att_identity_def)
  then show ?thesis
    unfolding fail_diagnosis_attempts_def Let_def
    by (rule biz_evolve_trans) (rule biz_evolve_set_runs, rule run_step_leave(4))
qed

lemma failAnalysisRevisionTx_biz:
  "failAnalysisRevisionTx now ty res code msg d = Inr d' \<Longrightarrow> biz_evolve K d d'"
  by (auto simp: failAnalysisRevisionTx_def Let_def bindE_eq_Inr
      split: option.splits if_splits sum.splits intro!: biz_evolve_same)

lemma failBusinessTx_biz:
  assumes "failBusinessTx now i reaped code msg d = Inr d'"
  shows "biz_evolve K d d'"
proof -
  obtain job where job: "job_of d i = Some job"
    using assms by (auto simp: failBusinessTx_def split: option.splits)
  obtain n d1 where up: "fail_business_update (job_type job)
      (if reaped then ''LEASE_EXPIRED_EXHAUSTED'' else if code \<noteq> '''' then code else ''JOB_FAILED'')
      (job_resource_id job) d = (n, d1)"
    by (metis surj_pair)
  let ?d2 = "if job_type job = JobTypeRunDiagnosis
    then fail_diagnosis_attempts now reaped (job_resource_id job) (job_execution_generation job) d1 else d1"
  have "biz_evolve K d d1"
    using fail_business_update_biz[of K d "job_type job" _ "job_resource_id job"] up by (metis snd_conv)
  moreover have "biz_evolve K d1 ?d2" by (simp add: fail_diagnosis_attempts_biz biz_evolve_same)
  moreover have "biz_evolve K ?d2 d'"
    using assms job up
    by (auto simp: failBusinessTx_def Let_def intro!: failAnalysisRevisionTx_biz
        split: job_type.splits if_splits prod.splits)
  ultimately show ?thesis by (blast intro: biz_evolve_trans)
qed

lemma ConditionalFinalizeCancelTx_biz:
  assumes k: "jobs_keys d" and ok: "ConditionalFinalizeCancelTx now i w t d = Inr d'"
  shows "biz_evolve K d d'"
  using ok by (auto simp: ConditionalFinalizeCancelTx_eq[OF k] split: option.splits if_splits
      dest!: cancelDiagnosisRunTx_biz simp: biz_evolve_from_job)

lemma ConditionalFinalizeSuccessTx_biz:
  assumes k: "jobs_keys d" and ok: "ConditionalFinalizeSuccessTx now i w t d = Inr d'"
  shows "biz_evolve K d d'"
  using ok by (auto simp: ConditionalFinalizeSuccessTx_eq[OF k] biz_evolve_jobs split: option.splits if_splits
      intro: ConditionalFinalizeCancelTx_biz[OF k] biz_evolve_same)

lemma ConditionalFinalizeFailureTx_biz:
  assumes k: "jobs_keys d"
    and ok: "ConditionalFinalizeFailureTx now i w t cls code msg reason isTerminal nxt d = Inr d'"
  shows "biz_evolve K d d'"
  using ok by (auto simp: ConditionalFinalizeFailureTx_eq[OF k] biz_evolve_jobs biz_evolve_from_job
      split: option.splits if_splits dest!: failBusinessTx_biz
      intro: ConditionalFinalizeCancelTx_biz[OF k] biz_evolve_same)

lemma restore_business_biz: "biz_evolve K d (snd (restore_business ty res d))"
  by (auto simp: restore_business_def Let_def split: job_type.split
      intro!: biz_evolve_same biz_evolve_set_runs run_step_leave(3))

lemma ManualRequeueTx_biz:
  assumes "ManualRequeueTx now ty res d = Inr d'"
  shows "biz_evolve K d d'"
proof -
  obtain n d1 where rb: "restore_business ty res d = (n, d1)" by (metis surj_pair)
  then have "biz_evolve K d d1" using restore_business_biz[of K d ty res] by simp
  moreover from assms rb obtain P where "d' = set_jobs P (reset_job_row now) d1"
    by (auto simp: ManualRequeueTx_def Let_def split: job_type.splits if_splits)
  ultimately show ?thesis by (simp add: biz_evolve_jobs)
qed

lemma RetryDiagnosisTx_biz: "RetryDiagnosisTx now res d = Inr d' \<Longrightarrow> biz_evolve K d d'"
  by (auto simp: RetryDiagnosisTx_def Let_def biz_evolve_jobs split: option.splits if_splits
      intro!: biz_evolve_set_runs run_step_leave(3))

section \<open>Runs and attempts under the reaper\<close>

lemma cancelExpiredDiagnosisTx_biz:
  assumes "cancelExpiredDiagnosisTx ej now d = Inr d'"
  shows "biz_evolve K d d'"
proof -
  let ?A = "\<lambda>a. att_diagnosis_run_id a = job_resource_id ej
      \<and> att_execution_generation a = job_execution_generation ej
      \<and> att_attempt_no a = job_attempt_count ej \<and> att_status a = AttemptStatusRunning"
  let ?f = "\<lambda>a. a\<lparr>att_status := AttemptStatusAbandoned, att_finished_at := Some now\<rparr>"
  let ?R = "\<lambda>r. run_id r = job_resource_id ej \<and> (run_status r = RunQueued \<or> run_status r = RunRunning)"
  have A: "biz_evolve K d (set_attempts ?A ?f (set_jobs J j d))" for J j
    by (rule biz_evolve_from_job(2)[where P = J and f = j, THEN iffD1],
        rule close_biz[where st = AttemptStatusAbandoned])
      (simp_all add: closes_def IsValidAttemptTransition_def att_identity_def)
  have R: "biz_evolve K e (set_runs ?R (\<lambda>r. r\<lparr>run_status := RunCancelled, run_cancel_requested := True,
      run_final_attempt_id := h r, run_version := run_version r + 1\<rparr>) e)" for h e
    by (rule biz_evolve_set_runs) (auto intro: run_step_leave(2))
  show ?thesis
    using assms unfolding cancelExpiredDiagnosisTx_def Let_def
    by (auto split: if_split_asm option.split_asm intro!: biz_evolve_trans[OF A R])
qed

lemma failExpiredDiagnosisOutcomeUnknownTx_biz:
  assumes "failExpiredDiagnosisOutcomeUnknownTx ej aid m now d = Inr d'"
  shows "biz_evolve K d d'"
proof -
  let ?A = "\<lambda>a. att_id a = aid \<and> outcome_unknown ej a"
  let ?f = "\<lambda>a. a\<lparr>att_status := AttemptStatusFailedTerminal, att_finished_at := Some now,
      att_error_code := ''PROVIDER_OUTCOME_UNKNOWN'', att_error_message := unknown_message m, att_retryable := False\<rparr>"
  let ?R = "\<lambda>r. run_id r = job_resource_id ej \<and> run_status r = RunRunning \<and> \<not> run_cancel_requested r"
  have A: "biz_evolve K d (set_attempts ?A ?f d)"
    by (rule biz_evolve_set_attempts) (auto simp: outcome_unknown_def att_step_def att_identity_def
        marker_safe_def att_edge_def IsValidAttemptTransition_def)
  have R: "biz_evolve K e (set_runs ?R (\<lambda>r. r\<lparr>run_status := RunFailed, run_final_attempt_id := aid,
      run_version := run_version r + 1\<rparr>) e)" for e
    by (rule biz_evolve_set_runs) (auto intro: run_end_step)
  show ?thesis
    using assms unfolding failExpiredDiagnosisOutcomeUnknownTx_def unknown_message_def[symmetric] Let_def
    by (auto simp: biz_evolve_jobs split: if_split_asm intro!: biz_evolve_trans[OF A R])
qed

lemma schedule_reaped_retry_biz:
  assumes "schedule_reaped_retry rnd ej now d = Inr d'"
  shows "biz_evolve K d d'"
proof -
  let ?A = "\<lambda>a. att_diagnosis_run_id a = job_resource_id ej
      \<and> att_execution_generation a = job_execution_generation ej
      \<and> att_attempt_no a = job_attempt_count ej \<and> att_status a = AttemptStatusRunning"
  have A: "biz_evolve K d (set_attempts ?A (\<lambda>a. a\<lparr>att_status := AttemptStatusAbandoned,
      att_finished_at := Some now, att_error_code := c, att_error_message := m\<rparr>) (set_jobs J j d))" for J j c m
    by (rule biz_evolve_from_job(2)[where P = J and f = j, THEN iffD1],
        rule close_biz[where st = AttemptStatusAbandoned])
      (simp_all add: closes_def IsValidAttemptTransition_def att_identity_def)
  show ?thesis
    using assms unfolding schedule_reaped_retry_def Let_def
    by (auto simp: biz_evolve_jobs split: if_split_asm option.split_asm intro!: A biz_evolve_same)
qed

lemma reap_one_biz: "reap_one rnd now ej d = Inr d' \<Longrightarrow> biz_evolve K d d'"
  unfolding reap_one_def
  by (auto simp: requeue_never_started_def fail_reaped_def bindE_eq_Inr biz_evolve_jobs Let_def
      split: if_split_asm option.split_asm
      intro: cancelExpiredDiagnosisTx_biz failExpiredDiagnosisOutcomeUnknownTx_biz schedule_reaped_retry_biz
        failBusinessTx_biz biz_evolve_same)

lemma reap_all_biz: "reap_all rnd now ejs d = Inr d' \<Longrightarrow> biz_evolve K d d'"
  by (induction ejs arbitrary: d)
    (auto simp: bindE_eq_Inr biz_evolve_same intro: biz_evolve_trans reap_one_biz)

section \<open>Creation\<close>

lemma jobs_evolve_add:
  assumes "fresh_job r" and "job_id r = next_job_id d"
    and "\<forall>x \<in> set (analysis_jobs d). resource_key x \<noteq> resource_key r"
    and "analysis_jobs d' = analysis_jobs d @ [r]" and "next_job_id d' = next_job_id d + 1"
  shows "jobs_evolve F d d'"
proof -
  have "list_all (reachable fresh_job (life_step F)) [r]" using assms(1) by (simp add: reach_init)
  moreover have "list_all2 (life_steps F) (analysis_jobs d) (analysis_jobs d)" by (simp add: list_all2_refl)
  moreover have "distinct (map resource_key (analysis_jobs d)) \<longrightarrow> distinct (map resource_key (analysis_jobs d @ [r]))"
    using assms(3) by force
  moreover have "distinct (map job_id [r])" by simp
  moreover have "\<forall>u \<in> set [r]. next_job_id d \<le> job_id u \<and> job_id u < next_job_id d + 1"
    using assms(2) by simp
  moreover have "next_job_id d \<le> next_job_id d + 1" by simp
  ultimately show ?thesis unfolding jobs_evolve_def assms(4,5) by blast
qed

text \<open>The job a caller of the store asks for: a new one, with no attempts.\<close>

definition new_job_request :: "analysis_job \<Rightarrow> bool" where
  "new_job_request job \<longleftrightarrow> (job_status job = StatusOther '''' \<or> job_status job = StatusPending)
    \<and> job_attempt_count job = 0"

lemma CreateJobTx_evolve:
  assumes "CreateJobTx now job d = Inr (j, d')" and "new_job_request job"
  shows "jobs_evolve F d d'" and "biz_evolve K d d'"
proof -
  let ?r = "insert_job_row (next_job_id d) (job_defaults now job)"
  from assms(1) have d': "d' = d\<lparr>analysis_jobs := analysis_jobs d @ [?r], next_job_id := next_job_id d + 1\<rparr>"
    and uniq: "\<forall>x \<in> set (analysis_jobs d). resource_key x \<noteq> resource_key ?r"
    by (auto simp: CreateJobTx_def Let_def list_ex_iff resource_key_def insert_job_row_def split: if_split_asm)
  have "fresh_job ?r"
    using assms(2) by (auto simp: fresh_job_def insert_job_row_def job_defaults_def new_job_request_def)
  moreover have "job_id ?r = next_job_id d" by (simp add: insert_job_row_def)
  ultimately show "jobs_evolve F d d'" using uniq by (rule jobs_evolve_add) (simp_all add: d')
  show "biz_evolve K d d'" by (rule biz_evolve_same) (simp_all add: d')
qed

lemma CreateRunTx_evolve:
  assumes "CreateRunTx uuid now run d = Inr (r, d')"
  shows "diag_evolve F K d d'"
proof -
  define row where "row = \<lparr>
            job_id = next_job_id d, job_type = JobTypeRunDiagnosis, job_resource_id = run_id r,
            job_status = StatusPending, job_execution_generation = 1, job_terminal_reason = None,
            job_attempt_count = 0, job_execution_started = False, job_max_attempts = 3,
            job_next_run_at = now, job_worker_id = None, job_claim_token = None,
            job_lease_until = None, job_cancel_requested = False, job_last_error_class = None,
            job_last_error_code = None, job_last_error_message = None, job_created_at = now,
            job_updated_at = now, job_finished_at = None\<rparr>"
  from assms have d': "d' = d\<lparr>diagnosis_runs := diagnosis_runs d @ [r],
        analysis_jobs := analysis_jobs d @ [row], next_job_id := next_job_id d + 1\<rparr>"
    and r: "run_status r = RunQueued" "run_version r = 1"
    and runs: "\<forall>x \<in> set (diagnosis_runs d). run_id x \<noteq> run_id r
      \<and> \<not> (run_user_id x = run_user_id r \<and> run_idempotency_key x = run_idempotency_key r)"
    and jobs: "\<forall>x \<in> set (analysis_jobs d). resource_key x \<noteq> resource_key row"
    by (auto simp: CreateRunTx_def Let_def list_ex_iff row_def resource_key_def split: if_split_asm)
  have "jobs_evolve F d d'"
    using jobs by (intro jobs_evolve_add[where r = row]) (simp_all add: d' row_def fresh_job_def)
  moreover have "runs_evolve d d'"
    unfolding runs_evolve_def d' using r runs
    by (auto simp: new_run_def run_keys_def intro!: run_table.evolve_add)
  ultimately show ?thesis
    by (simp add: diag_evolve_def attempts_evolve_def d' table_evolve_refl)
qed

section \<open>Cancellation requests\<close>

lemma cancellation_decision_Inr:
  "cancellation_decision rs js = Inr (ns, ends) \<Longrightarrow>
    (rs = RunQueued \<or> rs = RunRunning)
    \<and> (if ends then ns = RunCancelled \<and> (js = StatusPending \<or> js = StatusRetryWait \<or> js = StatusCancelled)
       else ns = rs \<and> js = StatusRunning)"
  by (auto simp: cancellation_decision_def split: run_status.split_asm if_split_asm)

definition cancel_row :: "time \<Rightarrow> bool \<Rightarrow> analysis_job \<Rightarrow> analysis_job" where
  "cancel_row now ends r = (if ends
     then r\<lparr>job_cancel_requested := True, job_updated_at := now, job_status := StatusCancelled,
            job_terminal_reason := Some TerminalReasonCancelled, job_finished_at := Some now\<rparr>
     else r\<lparr>job_cancel_requested := True, job_updated_at := now\<rparr>)"

lemma cancel_row_steps:
  assumes "job_type r = JobTypeRunDiagnosis"
    and "if ends then job_status r = StatusPending \<or> job_status r = StatusRetryWait \<or> job_status r = StatusCancelled
      else job_status r = StatusRunning"
  shows "life_steps F r (cancel_row now ends r)"
proof -
  let ?r1 = "r\<lparr>job_cancel_requested := True, job_updated_at := now\<rparr>"
  consider (live) "\<not> ends" "job_status r = StatusRunning"
    | (idle) "ends" "job_status r = StatusPending \<or> job_status r = StatusRetryWait"
    | (again) "ends" "job_status r = StatusCancelled"
    using assms(2) by (auto split: if_split_asm)
  then show ?thesis
  proof cases
    case live
    then have "life_step F r ?r1" using assms(1) by (intro life_request_cancel) auto
    with live show ?thesis by (simp add: cancel_row_def)
  next
    case idle
    then have s1: "life_step F r ?r1" using assms(1) by (intro life_request_cancel) auto
    have "life_step F ?r1 (?r1\<lparr>job_status := StatusCancelled, job_terminal_reason := Some TerminalReasonCancelled,
        job_finished_at := Some now, job_updated_at := now\<rparr>)"
      using idle assms(1) by (intro life_cancel) auto
    moreover have "?r1\<lparr>job_status := StatusCancelled, job_terminal_reason := Some TerminalReasonCancelled,
        job_finished_at := Some now, job_updated_at := now\<rparr> = cancel_row now ends r"
      using idle by (cases r) (simp add: cancel_row_def)
    ultimately have "life_step F ?r1 (cancel_row now ends r)" by metis
    with s1 show ?thesis by (rule converse_rtranclp_into_rtranclp[OF _ r_into_rtranclp])
  next
    case again
    then have "life_step F r (r\<lparr>job_status := StatusCancelled, job_cancel_requested := True,
        job_terminal_reason := Some TerminalReasonCancelled, job_finished_at := Some now, job_updated_at := now\<rparr>)"
      using assms(1) by (intro life_recancel) auto
    moreover have "r\<lparr>job_status := StatusCancelled, job_cancel_requested := True,
        job_terminal_reason := Some TerminalReasonCancelled, job_finished_at := Some now, job_updated_at := now\<rparr>
        = cancel_row now ends r"
      using again by (cases r) (simp add: cancel_row_def)
    ultimately show ?thesis by (metis r_into_rtranclp)
  qed
qed

lemma RequestCancellationTx_Inr:
  assumes k: "jobs_keys d" and ok: "RequestCancellationTx now run user d = Inr d'"
  obtains job r ns ends where "job_of d (job_id job) = Some job" and "job_type job = JobTypeRunDiagnosis"
    and "job_resource_id job = run" and "r \<in> set (diagnosis_runs d)" and "run_id r = run" and "run_user_id r = user"
    and "cancellation_decision (run_status r) (job_status job) = Inr (ns, ends)"
    and "d' = set_runs (\<lambda>x. run_id x = run \<and> run_user_id x = user \<and> run_status x = run_status r)
      (\<lambda>x. x\<lparr>run_cancel_requested := True, run_status := ns, run_version := run_version x + 1\<rparr>)
      (put_job (cancel_row now ends job) d)"
proof -
  from ok obtain job where j: "find (\<lambda>r. job_type r = JobTypeRunDiagnosis \<and> job_resource_id r = run)
      (analysis_jobs d) = Some job"
    by (auto simp: RequestCancellationTx_def split: option.split_asm)
  with ok obtain r where r: "find (\<lambda>r. run_id r = run \<and> run_user_id r = user) (diagnosis_runs d) = Some r"
    by (auto simp: RequestCancellationTx_def split: option.split_asm)
  from find_SomeD[OF j] have jp: "job \<in> set (analysis_jobs d)" "job_type job = JobTypeRunDiagnosis"
    "job_resource_id job = run" by auto
  have of: "job_of d (job_id job) = Some job" using k jp(1) by (rule job_of_unique)
  from ok j r obtain ns ends where dec: "cancellation_decision (run_status r) (job_status job) = Inr (ns, ends)"
    and d': "d' = set_runs (\<lambda>x. run_id x = run \<and> run_user_id x = user \<and> run_status x = run_status r)
      (\<lambda>x. x\<lparr>run_cancel_requested := True, run_status := ns, run_version := run_version x + 1\<rparr>)
      (set_jobs (\<lambda>x. job_id x = job_id job \<and> job_status x = job_status job) (cancel_row now ends) d)"
    unfolding cancel_row_def
    by (auto simp: RequestCancellationTx_def Let_def bindE_eq_Inr split: if_split_asm)
  have eq: "set_jobs (\<lambda>x. job_id x = job_id job \<and> job_status x = job_status job) (cancel_row now ends) d
      = put_job (cancel_row now ends job) d"
    by (rule set_job_hit[OF k of]) (simp_all add: cancel_row_def)
  from find_SomeD[OF r] have rp: "r \<in> set (diagnosis_runs d)" "run_id r = run" "run_user_id r = user" by auto
  show thesis using d'[unfolded eq] by (rule that[OF of jp(2,3) rp dec])
qed

lemma RequestCancellationTx_evolve:
  assumes k: "jobs_keys d" and ok: "RequestCancellationTx now run user d = Inr d'"
  shows "diag_evolve F K d d'"
  using k ok
proof (rule RequestCancellationTx_Inr)
  fix job r ns ends
  assume job: "job_of d (job_id job) = Some job" "job_type job = JobTypeRunDiagnosis"
    and dec: "cancellation_decision (run_status r) (job_status job) = Inr (ns, ends)"
    and d': "d' = set_runs (\<lambda>x. run_id x = run \<and> run_user_id x = user \<and> run_status x = run_status r)
      (\<lambda>x. x\<lparr>run_cancel_requested := True, run_status := ns, run_version := run_version x + 1\<rparr>)
      (put_job (cancel_row now ends job) d)"
  note D = cancellation_decision_Inr[OF dec]
  have "life_steps F job (cancel_row now ends job)"
    using D by (intro cancel_row_steps job(2)) (auto split: if_split_asm)
  then have "diag_evolve F K d (put_job (cancel_row now ends job) d)"
    by (auto simp: diag_evolve_def runs_evolve_def attempts_evolve_def
        intro!: table_evolve_refl jobs_evolve_put_job[OF k job(1)])
  moreover have "diag_evolve F K (put_job (cancel_row now ends job) d) d'"
    unfolding d' using D by (intro diag_evolve_set_runs)
      (auto simp: run_step_def run_pinned_def run_edge_def split: if_split_asm)
  ultimately show ?thesis by (rule diag_evolve_trans)
qed

section \<open>The transition system\<close>

text \<open>
  One rule per operation that the program calls on jobs, runs and attempts; the arguments
  range over everything a caller may pass. \<open>F\<close> holds the tokens claims draw. A retry is
  scheduled only while attempts remain (what \<open>executeJob\<close> checks), and the failure
  finalizer of a diagnosis gets the generation of its claim, which is positive.
\<close>

inductive system_step :: "(string \<Rightarrow> bool) \<Rightarrow> db \<Rightarrow> db \<Rightarrow> bool" for F :: "string \<Rightarrow> bool" where
  sys_create_job: "new_job_request job \<Longrightarrow> system_step F d (snd (CreateJob now job d))"
| sys_claim: "(\<And>n. F (tok n)) \<Longrightarrow> system_step F d (snd (ClaimJobs locked tok now w b lease d))"
| sys_start: "system_step F d (snd (MarkExecutionStarted now i w t g d))"
| sys_return: "system_step F d (snd (ReturnUndispatchedClaim now i w t g d))"
| sys_renew: "system_step F d (snd (RenewLease now i w t l d))"
| sys_succeed: "system_step F d (snd (ConditionalFinalizeSuccess now i w t d))"
| sys_fail: "retry_admissible i isTerminal d \<Longrightarrow>
    system_step F d (snd (ConditionalFinalizeFailure now i w t cls code msg reason isTerminal nxt d))"
| sys_cancel: "system_step F d (snd (ConditionalFinalizeCancel now i w t d))"
| sys_request_cancel: "system_step F d (snd (RequestCancel now ty res d))"
| sys_reap: "scan_order scan \<Longrightarrow> system_step F d (snd (ReapExpiredJobs rnd scan locked now b d))"
| sys_requeue: "system_step F d (snd (ManualRequeue now ty res d))"
| sys_retry: "system_step F d (snd (RetryDiagnosis now res d))"
| sys_create_run: "system_step F d (snd (CreateRun uuid now run d))"
| sys_start_attempt: "system_step F d (snd (StartAttemptWithClaim now i w t g run att d))"
| sys_begin_dispatch: "system_step F d (snd (BeginProviderDispatch now i w t g run att n d))"
| sys_dispatch_ok: "system_step F d (snd (ProviderDispatchSucceeded now i w t g run att n d))"
| sys_dispatch_failed: "system_step F d (snd (ProviderDispatchFailedDefinitely now i w t g run att n d))"
| sys_checkpoint:
    "system_step F d (snd (UpdateAttemptCheckpointWithClaim order now i w t g n run att cp draft d))"
| sys_heartbeat: "system_step F d (snd (UpdateAttemptHeartbeat att h d))"
| sys_close: "system_step F d (snd (CloseAttempt now run att g st code msg retryable d))"
| sys_diag_success:
    "system_step F d (snd (FinalizeSuccess order uuid now i w t run att rep cits pt ct tc d))"
| sys_diag_invalid:
    "system_step F d (snd (FinalizeInvalidStructuredReport order uuid now i w t run att rep pt ct tc code msg d))"
| sys_diag_fail: "0 < g \<Longrightarrow>
    system_step F d (snd (FinalizeDiagnosisFailure now i w t g run att cls code msg pt ct tc d))"
| sys_diag_retry:
    "system_step F d (snd (FinalizeRetryableAttempt now i w t g run att code msg pt ct tc d))"
| sys_diag_cancel: "system_step F d (snd (FinalizeCancellation now i w t run att d))"
| sys_diag_request_cancel: "system_step F d (snd (RequestCancellation now run user d))"
| sys_recover: "system_step F d (snd (RecoverStaleAttempt now att run d))"
| sys_issue_evidence: "system_step F d (snd (EvidenceCreate uuid item d))"

lemma unit_tx_evolve:
  "(\<And>d'. f d = Inr d' \<Longrightarrow> diag_evolve F K d d') \<Longrightarrow> diag_evolve F K d (snd (unit_tx f d))"
  by (auto simp: unit_tx_def run_tx_def bindE_eq_Inr split: sum.split)

lemma run_tx_evolve:
  "(\<And>x d'. f d = Inr (x, d') \<Longrightarrow> diag_evolve F K d d') \<Longrightarrow> diag_evolve F K d (snd (run_tx f d))"
  by (auto simp: run_tx_def split: sum.split)

lemma job_row_ops_biz:
  assumes "jobs_keys d"
  shows "biz_evolve K d (snd (MarkExecutionStarted now i w t g d))"
    and "biz_evolve K d (snd (ReturnUndispatchedClaim now i w t g d))"
    and "biz_evolve K d (snd (RenewLease now i w t l d))"
    and "biz_evolve K d (snd (RequestCancel now ty res d))"
    and "biz_evolve K d (snd (ClaimJobs locked tok now w b lease d))"
proof -
  show "biz_evolve K d (snd (MarkExecutionStarted now i w t g d))"
    by (auto simp: MarkExecutionStarted_eq[OF assms] biz_evolve_jobs biz_evolve_same split: option.split)
  show "biz_evolve K d (snd (ReturnUndispatchedClaim now i w t g d))"
    by (auto simp: ReturnUndispatchedClaim_eq[OF assms] biz_evolve_jobs biz_evolve_same split: option.split)
  show "biz_evolve K d (snd (RenewLease now i w t l d))"
    by (auto simp: RenewLease_eq[OF assms] biz_evolve_jobs biz_evolve_same split: option.split)
  show "biz_evolve K d (snd (RequestCancel now ty res d))"
    by (auto simp: RequestCancel_def Let_def biz_evolve_jobs biz_evolve_same)
  show "biz_evolve K d (snd (ClaimJobs locked tok now w b lease d))"
    by (auto simp: ClaimJobs_def Let_def claim_updates_tables intro: biz_evolve_same)
qed

lemma ReapExpiredJobs_diag_evolve:
  assumes k: "jobs_keys d" and s: "scan_order scan"
  shows "diag_evolve F K d (snd (ReapExpiredJobs rnd scan locked now b d))"
  unfolding ReapExpiredJobs_def
proof (rule run_tx_evolve)
  fix x d' assume tx: "ReapExpiredJobsTx rnd scan locked now b d = Inr (x, d')"
  then have ok: "ReapExpiredJobs rnd scan locked now b d = (Inr x, d')"
    by (simp add: ReapExpiredJobs_def run_tx_eq_Inr)
  from tx have "reap_all rnd now (expired_jobs scan locked now b d) d = Inr d'"
    by (auto simp: ReapExpiredJobsTx_def Let_def bindE_eq_Inr)
  then have "biz_evolve K d d'" by (rule reap_all_biz)
  with ReapExpiredJobs_rows(3)[OF k s ok] show "diag_evolve F K d d'" by (simp add: diag_evolve_biz)
qed

lemma store_tx_evolve:
  "CreateJobTx now job d = Inr (j, d') \<Longrightarrow> new_job_request job \<Longrightarrow> diag_evolve F K d d'"
  "ManualRequeueTx now ty res d = Inr d' \<Longrightarrow> diag_evolve F K d d'"
  "RetryDiagnosisTx now res d = Inr d' \<Longrightarrow> diag_evolve F K d d'"
  "jobs_keys d \<Longrightarrow> ConditionalFinalizeSuccessTx now i w t d = Inr d' \<Longrightarrow> diag_evolve F K d d'"
  "jobs_keys d \<Longrightarrow> ConditionalFinalizeCancelTx now i w t d = Inr d' \<Longrightarrow> diag_evolve F K d d'"
  "jobs_keys d \<Longrightarrow> ConditionalFinalizeFailureTx now i w t cls code msg reason isTerminal nxt d = Inr d' \<Longrightarrow>
    retry_admissible i isTerminal d \<Longrightarrow> diag_evolve F K d d'"
  unfolding diag_evolve_biz
  by (blast intro: CreateJobTx_evolve ManualRequeueTx_evolve ManualRequeueTx_biz RetryDiagnosisTx_evolve
      RetryDiagnosisTx_biz ConditionalFinalizeSuccessTx_evolve ConditionalFinalizeSuccessTx_biz
      ConditionalFinalizeCancelTx_evolve ConditionalFinalizeCancelTx_biz
      ConditionalFinalizeFailureTx_evolve ConditionalFinalizeFailureTx_biz)+

text \<open>Every step but the writing of a checkpoint does without the permit.\<close>

lemma system_step_evolve_or_checkpoint:
  assumes "system_step F d d'" and k: "jobs_keys d"
  shows "diag_evolve F False d d'
    \<or> (\<exists>order now i w t g n run att cp draft.
        d' = snd (UpdateAttemptCheckpointWithClaim order now i w t g n run att cp draft d))"
proof -
  let ?checkpoint = "\<exists>order now i w t g n run att cp draft.
      d' = snd (UpdateAttemptCheckpointWithClaim order now i w t g n run att cp draft d)"
  have "diag_evolve F False d d'" if "\<not> ?checkpoint"
    using assms(1)
  proof cases
    case (sys_create_job job now)
    then show ?thesis unfolding CreateJob_def
      by (auto intro!: run_tx_evolve intro: store_tx_evolve)
  next
    case (sys_claim tok locked now w b lease)
    then show ?thesis by (simp add: diag_evolve_biz ClaimJobs_evolve k job_row_ops_biz)
  next
    case sys_start
    then show ?thesis by (simp add: diag_evolve_biz MarkExecutionStarted_evolve k job_row_ops_biz)
  next
    case sys_return
    then show ?thesis by (simp add: diag_evolve_biz ReturnUndispatchedClaim_evolve k job_row_ops_biz)
  next
    case sys_renew
    then show ?thesis by (simp add: diag_evolve_biz RenewLease_evolve k job_row_ops_biz)
  next
    case sys_succeed
    then show ?thesis unfolding ConditionalFinalizeSuccess_def
      by (auto intro!: unit_tx_evolve intro: store_tx_evolve k)
  next
    case sys_fail
    then show ?thesis unfolding ConditionalFinalizeFailure_def
      by (auto intro!: unit_tx_evolve intro: store_tx_evolve k)
  next
    case sys_cancel
    then show ?thesis unfolding ConditionalFinalizeCancel_def
      by (auto intro!: unit_tx_evolve intro: store_tx_evolve k)
  next
    case sys_request_cancel
    then show ?thesis by (simp add: diag_evolve_biz RequestCancel_evolve k job_row_ops_biz)
  next
    case sys_reap
    then show ?thesis by (simp add: ReapExpiredJobs_diag_evolve k)
  next
    case sys_requeue
    then show ?thesis unfolding ManualRequeue_def
      by (auto intro!: unit_tx_evolve intro: store_tx_evolve k)
  next
    case sys_retry
    then show ?thesis unfolding RetryDiagnosis_def
      by (auto intro!: unit_tx_evolve intro: store_tx_evolve k)
  next
    case sys_create_run
    then show ?thesis unfolding CreateRun_def by (auto intro!: run_tx_evolve intro: CreateRunTx_evolve)
  next
    case sys_dispatch_failed
    then show ?thesis unfolding ProviderDispatchFailedDefinitely_def
      by (auto intro!: run_tx_evolve intro: ProviderDispatchFailedDefinitelyTx_evolve)
  next
    case sys_diag_fail
    then show ?thesis unfolding FinalizeDiagnosisFailure_def
      by (auto intro!: unit_tx_evolve intro: FinalizeDiagnosisFailureTx_evolve[OF k])
  next
    case sys_checkpoint
    with that show ?thesis by blast
  next
    case sys_heartbeat
    then show ?thesis by (simp add: UpdateAttemptHeartbeat_evolve)
  next
    case sys_close
    then show ?thesis by (simp add: CloseAttempt_evolve)
  next
    case (sys_issue_evidence uuid item)
    then show ?thesis by (auto simp: EvidenceCreate_def Let_def intro: diag_evolve_same)
  qed (auto simp: StartAttemptWithClaim_def BeginProviderDispatch_def ProviderDispatchSucceeded_def
      FinalizeSuccess_def FinalizeInvalidStructuredReport_def
      FinalizeRetryableAttempt_def FinalizeCancellation_def RequestCancellation_def RecoverStaleAttempt_def
      intro!: unit_tx_evolve
      intro: StartAttemptWithClaimTx_evolve BeginProviderDispatchTx_evolve ProviderDispatchSucceededTx_evolve
        FinalizeSuccessTx_evolve[OF k]
        FinalizeInvalidStructuredReportTx_evolve[OF k] FinalizeRetryableAttemptTx_evolve
        FinalizeCancellationTx_evolve[OF k] RequestCancellationTx_evolve[OF k] RecoverStaleAttemptTx_evolve)
  then show ?thesis by blast
qed

lemma system_step_evolve:
  assumes "system_step F d d'" and k: "jobs_keys d"
  shows "diag_evolve F True d d'"
  using system_step_evolve_or_checkpoint[OF assms]
proof (elim disjE exE)
  assume "diag_evolve F False d d'"
  then show ?thesis by (rule diag_evolve_permit)
next
  fix order now i w t g n run att cp draft
  assume "d' = snd (UpdateAttemptCheckpointWithClaim order now i w t g n run att cp draft d)"
  then show ?thesis unfolding UpdateAttemptCheckpointWithClaim_def
    by (auto intro!: unit_tx_evolve intro: UpdateAttemptCheckpointWithClaimTx_evolve)
qed

section \<open>The system invariant\<close>

definition sys_inv :: "db \<Rightarrow> bool" where
  "sys_inv d \<longleftrightarrow> jobs_inv d \<and> unique_keys (map run_keys (diagnosis_runs d))
    \<and> unique_keys (map att_keys (diagnosis_attempts d))"

definition init_db :: "db \<Rightarrow> bool" where
  "init_db d \<longleftrightarrow> analysis_jobs d = [] \<and> diagnosis_runs d = [] \<and> diagnosis_attempts d = []"

lemma init_db_inv: "init_db d \<Longrightarrow> sys_inv d"
  by (simp add: init_db_def sys_inv_def jobs_inv_def jobs_keys_def unique_keys_def)

lemma diag_evolve_inv: "diag_evolve F K d d' \<Longrightarrow> sys_inv d \<Longrightarrow> sys_inv d'"
  unfolding sys_inv_def diag_evolve_def runs_evolve_def attempts_evolve_def
  by (auto simp: table_evolve_def intro: jobs_inv_evolve)

lemma sys_inv_keys: "sys_inv d \<Longrightarrow> jobs_keys d"
  by (simp add: sys_inv_def jobs_inv_keys)

lemma system_step_inv: "sys_inv d \<Longrightarrow> system_step F d d' \<Longrightarrow> sys_inv d'"
  by (blast intro: diag_evolve_inv system_step_evolve sys_inv_keys)

interpretation sys: invariant_system init_db "system_step F" sys_inv for F
  by unfold_locales (fact init_db_inv system_step_inv)+

lemma system_steps_evolve:
  assumes "(system_step F)\<^sup>*\<^sup>* d d'" and "sys_inv d"
  shows "diag_evolve F True d d'"
  using assms(1)
proof (induction rule: rtranclp_induct)
  case base
  show ?case by simp
next
  case (step e e')
  have "sys_inv e" using step.hyps(1) assms(2) by (rule sys.steps_inv)
  then show ?case
    using step by (blast intro: diag_evolve_trans system_step_evolve sys_inv_keys)
qed

end
