(* ===== verification/Scenario.thy ===== *)
theory Scenario
  imports Diagnosis_System
begin

text \<open>
  A concrete history, built by the operations themselves: a diagnosis run is created, its
  job claimed and started, and the attempt begun. The states serve as concrete instances
  of the theorems.
\<close>

definition demo_empty :: db where
  "demo_empty = \<lparr>analysis_jobs = [], repository_snapshots = [], code_index_builds = [],
     retrieval_builds = [], analysis_revisions = [], diagnosis_runs = [], diagnosis_attempts = [],
     repositories = [], reports = [], citations = [], attempt_evidence_items = [], code_files = [], symbols = [], symbol_relations = [],
     next_job_id = 1, next_code_index_build_id = 1, next_retrieval_build_id = 1,
     next_code_file_id = 1, next_symbol_id = 1, next_symbol_relation_id = 1\<rparr>"

definition demo_run :: diagnosis_run where
  "demo_run = \<lparr>run_id = ''run'', run_user_id = ''user'', run_repository_id = ''repo'',
     run_analysis_revision_id = '''', run_snapshot_id = ''snap'', run_code_index_build_id = 4,
     run_retrieval_build_id = 5, run_issue_title = ''title'', run_issue_description = ''text'',
     run_error_log = '''', run_status = RunQueued, run_cancel_requested = False,
     run_provider_endpoint_fingerprint = ''endpoint'', run_provider_config_fingerprint = ''config'',
     run_normalized_base_url = ''http://provider'', run_model_name = ''model'', run_prompt_version = ''p1'',
     run_agent_version = ''a1'', run_agent_config_hash = ''cfg'', run_max_agent_rounds = 8, run_max_tool_calls = 12,
     run_max_search_calls = 3, run_max_repeat_calls = 2, run_max_evidence_packet_bytes = 32768,
     run_max_tool_result_bytes = 32768, run_finalization_turns = 1, run_max_output_tokens = 4096,
     run_reasoning_effort = '''', run_provider_timeout_seconds = 60, run_provider_retry_attempts = 0,
     run_pipeline_fingerprint = '''', run_temperature = 0, run_idempotency_key = ''key'', run_idempotency_request_hash = ''hash'',
     run_final_attempt_id = '''', run_version = 0, run_created_at = 0\<rparr>"

definition demo_tok :: "nat \<Rightarrow> string" where
  "demo_tok n = ''t'' @ itoa (int n)"

definition demo_created :: db where
  "demo_created = snd (CreateRun (\<lambda>_. ''uuid'') 100 demo_run demo_empty)"

definition demo_claimed :: db where
  "demo_claimed = snd (ClaimJobs (\<lambda>_. False) demo_tok 100 ''w'' 5 60 demo_created)"

definition demo_started :: db where
  "demo_started = snd (MarkExecutionStarted 110 1 ''w'' ''t0'' 1 demo_claimed)"

definition demo_running :: db where
  "demo_running = snd (StartAttemptWithClaim 111 1 ''w'' ''t0'' 1 ''run''
     (Some (new_attempt ''att'' ''run'' 1 1 ''w'' 111 999)) demo_started)"

definition demo_job :: analysis_job where
  "demo_job = \<lparr>job_id = 1, job_type = JobTypeRunDiagnosis, job_resource_id = ''run'',
     job_status = StatusRunning, job_execution_generation = 1, job_terminal_reason = None,
     job_attempt_count = 1, job_execution_started = True, job_max_attempts = 3, job_next_run_at = 100,
     job_worker_id = Some ''w'', job_claim_token = Some ''t0'', job_lease_until = Some 160,
     job_cancel_requested = False, job_last_error_class = None, job_last_error_code = None,
     job_last_error_message = None, job_created_at = 100, job_updated_at = 110, job_finished_at = None\<rparr>"

lemma demo_running_jobs: "analysis_jobs demo_running = [demo_job]"
  by code_simp

lemma demo_running_inv: "sys_inv demo_running"
  by code_simp

lemma demo_running_job: "job_of demo_running 1 = Some demo_job"
  by code_simp

text \<open>The states are reachable.\<close>

abbreviation any_token :: "string \<Rightarrow> bool" where
  "any_token \<equiv> (\<lambda>_. True)"

lemma demo_reachable:
  "reachable init_db (system_step any_token) demo_created"
  "reachable init_db (system_step any_token) demo_claimed"
  "reachable init_db (system_step any_token) demo_started"
  "reachable init_db (system_step any_token) demo_running"
proof -
  have "init_db demo_empty" by (simp add: init_db_def demo_empty_def)
  then have e: "reachable init_db (system_step any_token) demo_empty" by (rule reach_init)
  show 1: "reachable init_db (system_step any_token) demo_created"
    unfolding demo_created_def by (rule reach_step[OF e]) (rule sys_create_run)
  show 2: "reachable init_db (system_step any_token) demo_claimed"
    unfolding demo_claimed_def by (rule reach_step[OF 1]) (rule sys_claim, simp)
  show 3: "reachable init_db (system_step any_token) demo_started"
    unfolding demo_started_def by (rule reach_step[OF 2]) (rule sys_start)
  show "reachable init_db (system_step any_token) demo_running"
    unfolding demo_running_def by (rule reach_step[OF 3]) (rule sys_start_attempt)
qed

end
