(* ===== verification/Job_Properties.thy ===== *)
theory Job_Properties
  imports Scenario
begin

text \<open>
  The properties of the job store: refinement of the life cycle, the invariant of every
  reachable table, fencing of superseded claims, claiming, reaping, and the agreement of
  a job with its business object.
\<close>

section \<open>Refinement and invariant\<close>

text \<open>
  C1. Every sequence of operations of the job store and the diagnosis store, in any order and by
  any callers, refines the job life cycle: a job keeps its row, and the row moves only by
  claim, start, return, renewal, success, retry, failure, cancellation and explicit reset.
\<close>

theorem job_history_refines_life_cycle:
  assumes "sys_inv d" and "(system_step F)\<^sup>*\<^sup>* d d'" and "job_of d i = Some r"
  shows "\<exists>r'. job_of d' i = Some r' \<and> life_steps F r r'"
proof -
  have "jobs_inv d" using assms(1) by (simp add: sys_inv_def)
  moreover have "jobs_evolve F d d'"
    using system_steps_evolve[OF assms(2,1)] by (simp add: diag_evolve_def)
  ultimately show ?thesis using assms(3) by (rule jobs_evolve_row) blast
qed

theorem job_history_refines_life_cycle_witness:
  "\<exists>r'. job_of (snd (RenewLease 120 1 ''w'' ''t0'' 220 demo_running)) 1 = Some r'
     \<and> life_steps any_token demo_job r'"
proof -
  have "(system_step any_token)\<^sup>*\<^sup>* demo_running (snd (RenewLease 120 1 ''w'' ''t0'' 220 demo_running))"
    by (rule r_into_rtranclp) (rule sys_renew)
  with demo_running_inv show ?thesis
    by (rule job_history_refines_life_cycle) (rule demo_running_job)
qed

text \<open>
  C2. In every reachable database each job row is well formed: a running job names its worker,
  its claim token and its lease; a pending job names none and has not started; the number
  of charged attempts lies between zero and the maximum, and is below it while the job
  waits for an execution; a job is finished exactly when its status is terminal; only a
  diagnosis on request is cancelled.
\<close>

theorem reachable_job_well_formed:
  assumes "reachable init_db (system_step F) d" and "r \<in> set (analysis_jobs d)"
  shows "(job_status r = StatusRunning \<longrightarrow>
        job_worker_id r \<noteq> None \<and> job_claim_token r \<noteq> None \<and> job_lease_until r \<noteq> None)
    \<and> (job_status r = StatusPending \<longrightarrow>
        job_worker_id r = None \<and> job_claim_token r = None \<and> \<not> job_execution_started r)
    \<and> 0 \<le> job_attempt_count r \<and> job_attempt_count r \<le> job_max_attempts r
    \<and> (job_status r = StatusPending \<or> job_status r = StatusRetryWait \<longrightarrow>
        job_attempt_count r < job_max_attempts r)
    \<and> (isTerminalJobStatus (job_status r) \<longleftrightarrow> job_finished_at r \<noteq> None)
    \<and> (job_status r = StatusCancelled \<longrightarrow> job_type r = JobTypeRunDiagnosis \<and> job_cancel_requested r)
    \<and> 1 \<le> job_execution_generation r"
proof -
  have "sys_inv d" using assms(1) by (rule sys.reachable_inv)
  then have "life_inv r" using assms(2) by (simp add: sys_inv_def jobs_inv_def list_all_iff)
  then show ?thesis by (simp add: life_inv_def)
qed

theorem reachable_job_well_formed_witness:
  "job_attempt_count demo_job \<le> job_max_attempts demo_job \<and> job_worker_id demo_job \<noteq> None"
  using reachable_job_well_formed[OF demo_reachable(4), of demo_job]
  by (simp add: demo_running_jobs demo_job_def)



section \<open>Fencing\<close>

text \<open>
  C4. A worker whose claim is no longer the one in the row can do nothing to the job: starting,
  returning, renewing and the three finalizers answer \<open>ErrOwnershipLost\<close> and leave the
  database as it was, as does asking for a cancellation.
\<close>

theorem stale_claim_is_fenced:
  assumes "jobs_keys d" and "\<forall>r. job_of d i = Some r \<longrightarrow> \<not> holds_claim w t r"
  shows "MarkExecutionStarted now i w t g d = (Inl ErrOwnershipLost, d)
    \<and> ReturnUndispatchedClaim now i w t g d = (Inl ErrOwnershipLost, d)
    \<and> RenewLease now i w t l d = (Inl ErrOwnershipLost, d)
    \<and> ConditionalFinalizeSuccess now i w t d = (Inl ErrOwnershipLost, d)
    \<and> ConditionalFinalizeFailure now i w t cls code msg reason isTerminal nxt d = (Inl ErrOwnershipLost, d)
    \<and> ConditionalFinalizeCancel now i w t d = (Inl ErrOwnershipLost, d)
    \<and> IsCancelRequested i w t d = Inl ErrOwnershipLost"
proof (cases "job_of d i")
  case None
  with assms(1) show ?thesis
    by (simp add: MarkExecutionStarted_eq ReturnUndispatchedClaim_eq RenewLease_eq
        ConditionalFinalizeSuccess_def ConditionalFinalizeFailure_def ConditionalFinalizeCancel_def
        ConditionalFinalizeSuccessTx_eq ConditionalFinalizeFailureTx_eq ConditionalFinalizeCancelTx_eq
        IsCancelRequested_eq unit_tx_def run_tx_def)
next
  case (Some r)
  with assms(2) have "\<not> holds_claim w t r" "\<not> owns_execution w t r" by (simp_all add: owns_execution_def)
  with Some assms(1) show ?thesis
    by (simp add: MarkExecutionStarted_eq ReturnUndispatchedClaim_eq RenewLease_eq
        ConditionalFinalizeSuccess_def ConditionalFinalizeFailure_def ConditionalFinalizeCancel_def
        ConditionalFinalizeSuccessTx_eq ConditionalFinalizeFailureTx_eq ConditionalFinalizeCancelTx_eq
        IsCancelRequested_eq unit_tx_def run_tx_def)
qed

theorem stale_claim_is_fenced_witness:
  "RenewLease 120 1 ''w'' ''old'' 220 demo_running = (Inl ErrOwnershipLost, demo_running)"
proof -
  have "jobs_keys demo_running" using demo_running_inv by (rule sys_inv_keys)
  moreover have "\<forall>r. job_of demo_running 1 = Some r \<longrightarrow> \<not> holds_claim ''w'' ''old'' r"
    by (simp add: demo_running_job demo_job_def holds_claim_def)
  ultimately show ?thesis using stale_claim_is_fenced by blast
qed

text \<open>
  C5. A superseded claim never comes back: once a job row is not held under a token that no later
  claim draws, it is not held under that token in any later state, whatever operations run
  in between, so every operation under the old token stays fenced.
\<close>

theorem superseded_claim_never_regained:
  assumes "sys_inv d" and "(system_step F)\<^sup>*\<^sup>* d d'" and "\<not> F t"
    and "job_of d i = Some r" and "\<not> holds_claim w t r"
  shows "\<exists>r'. job_of d' i = Some r' \<and> \<not> holds_claim w t r'"
proof -
  have step: "\<not> holds_claim w t y" if "life_step F x y" and "\<not> holds_claim w t x" for x y
    using that assms(3) by (elim life_stepE) (auto simp: holds_claim_def reset_job_row_def)
  have steps: "\<not> holds_claim w t y" if "life_steps F x y" and "\<not> holds_claim w t x" for x y
    using that by (induction rule: rtranclp_induct) (auto dest: step)
  have "jobs_inv d" using assms(1) by (simp add: sys_inv_def)
  moreover have "jobs_evolve F d d'"
    using system_steps_evolve[OF assms(2,1)] by (simp add: diag_evolve_def)
  ultimately obtain r' where "job_of d' i = Some r'" and "life_steps F r r'"
    using assms(4) by (rule jobs_evolve_row)
  with steps assms(5) show ?thesis by auto
qed

theorem superseded_claim_never_regained_witness:
  "\<exists>r'. job_of (snd (ClaimJobs (\<lambda>_. False) (\<lambda>_. ''new'') 100 ''w'' 5 60 demo_created)) 1 = Some r'
     \<and> \<not> holds_claim ''w'' ''old'' r'"
proof (rule superseded_claim_never_regained[where F = "\<lambda>s. s = ''new''"])
  show "sys_inv demo_created" by (rule sys.reachable_inv) (rule demo_reachable(1))
  show "(system_step (\<lambda>s. s = ''new''))\<^sup>*\<^sup>* demo_created
      (snd (ClaimJobs (\<lambda>_. False) (\<lambda>_. ''new'') 100 ''w'' 5 60 demo_created))"
    by (rule r_into_rtranclp) (rule sys_claim, simp)
  show "job_of demo_created 1 = Some (the (job_of demo_created 1))" by code_simp
  show "\<not> holds_claim ''w'' ''old'' (the (job_of demo_created 1))" by code_simp
qed simp

text \<open>
  C6. The execution-start boundary charges one attempt per claim. A live claim that has not
  started is charged exactly once: the operation returns the new attempt number, and
  every replay under the same claim and a live lease (an ambiguous commit that is tried
  again) returns the same number and changes nothing.
\<close>

theorem execution_start_charges_once:
  assumes "jobs_keys d" and "job_of d i = Some r" and "holds_claim w t r"
    and "job_execution_generation r = g" and "liveLeasePredicate now r" and "\<not> job_execution_started r"
    and "MarkExecutionStarted now i w t g d = (res, d')" and "liveLeasePredicate later r"
  shows "res = Inr (job_attempt_count r + 1) \<and> d' = put_job (started_row now r) d
    \<and> MarkExecutionStarted later i w t g d' = (res, d')"
proof -
  have first: "MarkExecutionStarted now i w t g d = (Inr (job_attempt_count r + 1), put_job (started_row now r) d)"
    using assms by (simp add: MarkExecutionStarted_eq)
  let ?s = "started_row now r"
  have "jobs_keys (put_job ?s d)" using assms(1) by simp
  moreover have "job_of (put_job ?s d) i = Some ?s"
    using assms(2) by (simp add: job_of_put_job started_row_def job_of_Some_id)
  moreover have "holds_claim w t ?s" "job_execution_generation ?s = g" "liveLeasePredicate later ?s"
    "job_execution_started ?s" "job_attempt_count ?s = job_attempt_count r + 1"
    using assms by (simp_all add: started_row_def holds_claim_def liveLeasePredicate_def)
  ultimately have "MarkExecutionStarted later i w t g (put_job ?s d)
      = (Inr (job_attempt_count r + 1), put_job ?s d)"
    by (simp add: MarkExecutionStarted_eq)
  with first assms(7) show ?thesis by simp
qed

theorem execution_start_charges_once_witness:
  "MarkExecutionStarted 120 1 ''w'' ''t0'' 1 demo_started = (Inr 1, demo_started)"
proof -
  let ?r = "the (job_of demo_claimed 1)"
  have row: "job_of demo_claimed 1 = Some ?r" by code_simp
  have facts: "jobs_keys demo_claimed" "holds_claim ''w'' ''t0'' ?r" "job_execution_generation ?r = 1"
    "liveLeasePredicate 110 ?r" "\<not> job_execution_started ?r" "liveLeasePredicate 120 ?r"
    "job_attempt_count ?r = 0" by code_simp+
  have call: "MarkExecutionStarted 110 1 ''w'' ''t0'' 1 demo_claimed
      = (fst (MarkExecutionStarted 110 1 ''w'' ''t0'' 1 demo_claimed), demo_started)"
    by (simp add: demo_started_def)
  from execution_start_charges_once[OF facts(1) row facts(2-5) call facts(6)] facts(7)
  show ?thesis by simp
qed

section \<open>Claiming\<close>

lemma map_sort_key: "map f (sort_key f xs) = sort (map f xs)"
  by (rule properties_for_sort[symmetric]) (simp_all add: mset_map)

text \<open>
  C7. A claim takes the due jobs with the smallest ids, at most the batch size, and nothing else:
  each claimed row becomes \<open>RUNNING\<close> under the worker, with a token of its own and the
  lease, and no attempt is charged yet; every other row stays as it was.
\<close>

theorem claim_takes_first_due_jobs:
  assumes "jobs_keys d" and "ClaimJobs locked tok now w b lease d = (js, d')"
  shows "map job_id js = take (nat b) (sort (map job_id (filter (claimable locked now) (analysis_jobs d))))
    \<and> (\<forall>n < length js. \<exists>r. job_of d (job_id (js ! n)) = Some r \<and> claimable locked now r
        \<and> job_of d' (job_id (js ! n)) = Some (claim_row w (tok n) (now + lease) now r)
        \<and> js ! n = claimed_job w (tok n) (now + lease) now r)
    \<and> (\<forall>i. i \<notin> set (map job_id js) \<longrightarrow> job_of d' i = job_of d i)"
proof -
  let ?cs = "claim_candidates locked now b d"
  note js = ClaimJobs_Pair(1)[OF assms(2)] and d' = ClaimJobs_Pair(2)[OF assms(2)]
  have ids: "map job_id js = map job_id ?cs" by (simp add: js claimed_jobs_ids)
  have "map job_id ?cs = take (nat b) (sort (map job_id (filter (claimable locked now) (analysis_jobs d))))"
    by (simp add: claim_candidates_def sql_limit_def take_map[symmetric] map_sort_key)
  moreover have "\<exists>r. job_of d (job_id (js ! n)) = Some r \<and> claimable locked now r
        \<and> job_of d' (job_id (js ! n)) = Some (claim_row w (tok n) (now + lease) now r)
        \<and> js ! n = claimed_job w (tok n) (now + lease) now r" if "n < length js" for n
  proof -
    have n: "n < length ?cs" using that by (simp add: js)
    then have "?cs ! n \<in> set ?cs" by simp
    note row = candidate_row[OF assms(1) this]
    have nth: "js ! n = claimed_job w (tok n) (now + lease) now (?cs ! n)"
      using n by (simp add: js claimed_jobs_nth)
    then have "job_id (js ! n) = job_id (?cs ! n)" by (simp add: claimed_job_def)
    with row nth ClaimJobs_row[OF assms(1) n] show ?thesis by (simp add: d')
  qed
  moreover have "job_of d' i = job_of d i" if "i \<notin> set (map job_id js)" for i
    using that by (simp only: ids d') (simp add: claim_updates_other)
  ultimately show ?thesis using ids by simp
qed

theorem claim_takes_first_due_jobs_witness:
  "map job_id (fst (ClaimJobs (\<lambda>_. False) demo_tok 100 ''w'' 5 60 demo_created)) = [1]"
proof -
  have "jobs_keys demo_created" by code_simp
  from claim_takes_first_due_jobs[OF this prod.collapse[symmetric]]
  have "map job_id (fst (ClaimJobs (\<lambda>_. False) demo_tok 100 ''w'' 5 60 demo_created))
      = take (nat 5) (sort (map job_id (filter (claimable (\<lambda>_. False) 100) (analysis_jobs demo_created))))"
    by blast
  also have "\<dots> = [1]" by code_simp
  finally show ?thesis .
qed

text \<open>
  Two workers never hold the same claim: a job claimed by one call is not claimed again by a
  later call as long as nothing gave it back, however late the second call comes.
\<close>

theorem consecutive_claims_disjoint:
  assumes "jobs_keys d" and "ClaimJobs locked tok now w b lease d = (js, d')"
    and "ClaimJobs locked' tok' now' w' b' lease' d' = (js', d'')"
  shows "set (map job_id js) \<inter> set (map job_id js') = {}"
proof -
  have k': "jobs_keys d'"
    using assms(1) by (simp add: ClaimJobs_Pair(2)[OF assms(2)] jobs_keys_def claim_updates_keys)
  have False if "i \<in> set (map job_id js)" "i \<in> set (map job_id js')" for i
  proof -
    let ?cs = "claim_candidates locked now b d"
    from that(1) have "i \<in> set (map job_id ?cs)"
      by (simp only: ClaimJobs_Pair(1)[OF assms(2)] claimed_jobs_ids)
    then obtain n where n: "n < length ?cs" "i = job_id (?cs ! n)" by (auto simp: in_set_conv_nth)
    have "job_of d' i = Some (claim_row w (tok n) (now + lease) now (?cs ! n))"
      unfolding n(2) ClaimJobs_Pair(2)[OF assms(2)] by (rule ClaimJobs_row[OF assms(1) n(1)])
    moreover from that(2) have "i \<in> set (map job_id (claim_candidates locked' now' b' d'))"
      by (simp only: ClaimJobs_Pair(1)[OF assms(3)] claimed_jobs_ids)
    then obtain c where "job_of d' i = Some c" "claimable locked' now' c"
      using candidate_row[OF k'] by auto
    ultimately show False by (simp add: claimable_def claim_row_def)
  qed
  then show ?thesis by blast
qed

theorem consecutive_claims_disjoint_witness:
  "set (map job_id (fst (ClaimJobs (\<lambda>_. False) demo_tok 100 ''w'' 5 60 demo_created)))
   \<inter> set (map job_id (fst (ClaimJobs (\<lambda>_. False) demo_tok 500 ''v'' 5 60 demo_claimed))) = {}"
proof -
  have "jobs_keys demo_created" by code_simp
  moreover have "ClaimJobs (\<lambda>_. False) demo_tok 100 ''w'' 5 60 demo_created
      = (fst (ClaimJobs (\<lambda>_. False) demo_tok 100 ''w'' 5 60 demo_created), demo_claimed)"
    by (simp add: demo_claimed_def)
  ultimately show ?thesis by (rule consecutive_claims_disjoint) (rule prod.collapse[symmetric])
qed

section \<open>Reaping\<close>

text \<open>
  C9. A round of the reaper is all or nothing. When it commits, it reports the number of jobs it
  took, every one of them has left \<open>RUNNING\<close> by one step of the life cycle, and every job
  whose lease has not expired is untouched. When it fails, the database is unchanged.
\<close>

theorem reaper_takes_expired_jobs_only:
  assumes "jobs_keys d" and "scan_order scan" and "ReapExpiredJobs rnd scan locked now b d = (res, d')"
  shows "case res of
      Inl e \<Rightarrow> d' = d
    | Inr n \<Rightarrow> n = int (length (expired_jobs scan locked now b d))
        \<and> (\<forall>i r. job_of d i = Some r \<and> \<not> lease_expired locked now r \<longrightarrow> job_of d' i = Some r)
        \<and> (\<forall>ej \<in> set (expired_jobs scan locked now b d). \<exists>r'. job_of d' (job_id ej) = Some r'
              \<and> life_step any_token ej r' \<and> job_status r' \<noteq> StatusRunning)"
proof (cases res)
  case (Inl e)
  with assms(3) show ?thesis by (simp add: ReapExpiredJobs_def run_tx_eq_Inl)
next
  case (Inr n)
  let ?ejs = "expired_jobs scan locked now b d"
  from assms(3) Inr have ok: "ReapExpiredJobs rnd scan locked now b d = (Inr n, d')" by simp
  note R = ReapExpiredJobs_rows[OF assms(1,2) ok]
  have live: "job_of d' i = Some r" if r: "job_of d i = Some r" and l: "\<not> lease_expired locked now r" for i r
  proof -
    have "i \<notin> job_id ` set ?ejs"
    proof
      assume "i \<in> job_id ` set ?ejs"
      then obtain ej where ej: "ej \<in> set ?ejs" "i = job_id ej" by auto
      then have "ej \<in> set (analysis_jobs d)" "lease_expired locked now ej"
        using expired_jobs_props(1)[OF assms(1,2), of locked now b] by auto
      with job_of_unique[OF assms(1)] ej(2) r l show False by auto
    qed
    then show ?thesis using R(5) r by simp
  qed
  from R(1) live R(6) Inr show ?thesis by (simp, blast)
qed

theorem reaper_takes_expired_jobs_only_witness:
  "case ReapExpiredJobs (\<lambda>_. 0) id (\<lambda>_. False) 500 10 demo_running of (Inr n, d') \<Rightarrow> n = 1 | _ \<Rightarrow> False"
proof -
  have s: "scan_order id" by (simp add: scan_order_def)
  have k: "jobs_keys demo_running" by code_simp
  have res: "fst (ReapExpiredJobs (\<lambda>_. 0) id (\<lambda>_. False) 500 10 demo_running) = Inr 1" by code_simp
  from reaper_takes_expired_jobs_only[OF k s prod.collapse[symmetric]] res
  show ?thesis by (simp add: case_prod_beta)
qed

text \<open>
  C10. The reaper never hands a diagnosis back for execution when the outcome of a provider request
  is unknown: a started diagnosis whose lease expired, without a cancellation request, and
  whose current attempt carries the dispatch marker or the checkpoint code, ends \<open>FAILED\<close>
  as permanent with the code \<open>PROVIDER_OUTCOME_UNKNOWN\<close>, in its generation and with the
  attempts it was charged.
\<close>

theorem reaper_never_replays_unknown_outcome:
  assumes "jobs_inv d" and "scan_order scan"
    and "ReapExpiredJobs rnd scan locked now b d = (Inr n, d')"
    and "ej \<in> set (expired_jobs scan locked now b d)" and "job_type ej = JobTypeRunDiagnosis"
    and "\<not> job_cancel_requested ej" and "job_execution_started ej"
    and "a \<in> set (diagnosis_attempts d)" and "outcome_unknown ej a"
  shows "\<exists>r'. job_of d' (job_id ej) = Some r' \<and> job_status r' = StatusFailed
    \<and> job_terminal_reason r' = Some TerminalReasonPermanent
    \<and> job_last_error_code r' = Some ''PROVIDER_OUTCOME_UNKNOWN''
    \<and> executions r' = executions ej"
proof -
  have k: "jobs_keys d" using assms(1) by (rule jobs_inv_keys)
  let ?ejs = "expired_jobs scan locked now b d"
  from assms(3) have all: "reap_all rnd now ?ejs d = Inr d'"
    by (auto simp: ReapExpiredJobs_def ReapExpiredJobsTx_def run_tx_eq_Inr bindE_eq_Inr Let_def)
  note props = expired_jobs_props[OF k assms(2), of locked now b]
  have rows: "\<forall>ej \<in> set ?ejs. job_of d (job_id ej) = Some ej \<and> lease_expired locked now ej"
    using props(1) by (auto intro: job_of_unique[OF k])
  obtain aid m where "diagnosisOutcomeUnknownMarker ej d = Some (aid, m)"
  proof -
    have "find (outcome_unknown ej) (diagnosis_attempts d) \<noteq> None"
      using assms(8,9) by (auto simp: find_None_iff)
    then show thesis using that by (auto simp: diagnosisOutcomeUnknownMarker_def)
  qed
  then have "job_of d' (job_id ej) = Some (unknown_row now m ej)"
    using reap_all_unknown[OF k props(2) rows expired_resource_keys[OF assms(1,2)] all assms(4-7)] by blast
  then show ?thesis by (simp add: unknown_row_def failed_row_def executions_def)
qed

theorem reaper_never_replays_unknown_outcome_witness:
  "\<exists>r'. job_of (snd (ReapExpiredJobs (\<lambda>_. 0) id (\<lambda>_. False) 500 10
      (snd (BeginProviderDispatch 112 1 ''w'' ''t0'' 1 ''run'' ''att'' 1 demo_running)))) 1 = Some r'
    \<and> job_status r' = StatusFailed \<and> job_terminal_reason r' = Some TerminalReasonPermanent
    \<and> job_last_error_code r' = Some ''PROVIDER_OUTCOME_UNKNOWN'' \<and> executions r' = executions demo_job"
proof -
  let ?d = "snd (BeginProviderDispatch 112 1 ''w'' ''t0'' 1 ''run'' ''att'' 1 demo_running)"
  have inv: "jobs_inv ?d" by code_simp
  have s: "scan_order id" by (simp add: scan_order_def)
  have "fst (ReapExpiredJobs (\<lambda>_. 0) id (\<lambda>_. False) 500 10 ?d) = Inr 1" by code_simp
  then have ok: "ReapExpiredJobs (\<lambda>_. 0) id (\<lambda>_. False) 500 10 ?d
      = (Inr 1, snd (ReapExpiredJobs (\<lambda>_. 0) id (\<lambda>_. False) 500 10 ?d))" by (simp add: prod_eq_iff)
  have e: "expired_jobs id (\<lambda>_. False) 500 10 ?d = [demo_job]" by code_simp
  have "list_ex (outcome_unknown demo_job) (diagnosis_attempts ?d)" by code_simp
  then obtain a where "a \<in> set (diagnosis_attempts ?d)" "outcome_unknown demo_job a"
    by (auto simp: list_ex_iff)
  from reaper_never_replays_unknown_outcome[OF inv s ok, of demo_job, OF _ _ _ _ this] e
  show ?thesis by (simp add: demo_job_def)
qed

end
