(* ===== verification/Job_Outcomes.thy ===== *)
theory Job_Outcomes
  imports Scenario
begin

text \<open>
  How an execution of a job ends, and what may follow: an accepted cancellation wins over
  success and failure, a terminal failure takes the business object and its revision along,
  and only the explicit retry operations open a new execution generation.
\<close>

section \<open>Cancellation of a run with its job\<close>

lemma run_by_key_all:
  assumes "distinct (map run_id t)" and "by_key run_id i t = Some r"
  shows "\<forall>x \<in> set t. run_id x = i \<longrightarrow> x = r"
  using assms by (metis by_key_unique option.inject)

definition cancelled_run :: "string \<Rightarrow> (diagnosis_run \<Rightarrow> string) \<Rightarrow> diagnosis_run \<Rightarrow> diagnosis_run" where
  "cancelled_run run fin r = (if run_id r = run \<and> (run_status r = RunQueued \<or> run_status r = RunRunning)
     then r\<lparr>run_status := RunCancelled, run_cancel_requested := True, run_final_attempt_id := fin r,
       run_version := run_version r + 1\<rparr> else r)"

lemma cancelled_run_simps [simp]:
  "run_id (cancelled_run run fin r) = run_id r"
  "run_status (cancelled_run run fin r) = (if run_id r = run \<and> (run_status r = RunQueued \<or> run_status r = RunRunning)
     then RunCancelled else run_status r)"
  by (auto simp: cancelled_run_def)

lemma cancelDiagnosisRunTx_Inr:
  assumes "cancelDiagnosisRunTx now run g d = Inr d'"
  obtains fin where "diagnosis_runs d' = map (cancelled_run run fin) (diagnosis_runs d)"
    and "diagnosis_attempts d' = sql_set (\<lambda>a. att_diagnosis_run_id a = run
        \<and> att_execution_generation a = g \<and> att_status a = AttemptStatusRunning)
      (\<lambda>a. a\<lparr>att_status := AttemptStatusAbandoned, att_finished_at := Some now\<rparr>) (diagnosis_attempts d)"
    and "sql_count (\<lambda>r. run_id r = run \<and> (run_status r = RunQueued \<or> run_status r = RunRunning))
        (diagnosis_runs d) = 0 \<longrightarrow> (\<forall>z. by_key run_id run (diagnosis_runs d) = Some z \<longrightarrow> run_status z = RunCancelled)"
proof -
  let ?P = "\<lambda>r. run_id r = run \<and> (run_status r = RunQueued \<or> run_status r = RunRunning)"
  let ?A = "\<lambda>a. att_diagnosis_run_id a = run \<and> att_execution_generation a = g \<and> att_status a = AttemptStatusRunning"
  let ?d1 = "set_attempts ?A (\<lambda>a. a\<lparr>att_status := AttemptStatusAbandoned, att_finished_at := Some now\<rparr>) d"
  define fin where "fin = (\<lambda>r :: diagnosis_run. case latest_attempt (generation_attempts run g ?d1) of
      Some a \<Rightarrow> att_id a | None \<Rightarrow> run_final_attempt_id r)"
  let ?h = "\<lambda>r :: diagnosis_run. r\<lparr>run_status := RunCancelled, run_cancel_requested := True,
      run_final_attempt_id := fin r, run_version := run_version r + 1\<rparr>"
  let ?d2 = "set_runs ?P ?h ?d1"
  have eq: "cancelDiagnosisRunTx now run g d = (if sql_count ?P (diagnosis_runs ?d1) = 0
      then (case by_key run_id run (diagnosis_runs ?d2) of
              None \<Rightarrow> Inr ?d2
            | Some r \<Rightarrow> if run_status r \<noteq> RunCancelled
                then Inl (Errorf (''diagnosis '' @ run @ '' cannot be cancelled from status '' @
                       run_status_text (run_status r)) []) else Inr ?d2)
      else Inr ?d2)"
    unfolding cancelDiagnosisRunTx_def Let_def fin_def by (rule refl)
  have d': "d' = ?d2"
    using assms unfolding eq by (simp split: if_split_asm option.split_asm)
  show thesis
  proof (rule that)
    show "diagnosis_runs d' = map (cancelled_run run fin) (diagnosis_runs d)"
      unfolding d' by (simp add: sql_set_def cancelled_run_def)
    show "diagnosis_attempts d' = sql_set ?A
        (\<lambda>a. a\<lparr>att_status := AttemptStatusAbandoned, att_finished_at := Some now\<rparr>) (diagnosis_attempts d)"
      unfolding d' by simp
    show "sql_count ?P (diagnosis_runs d) = 0 \<longrightarrow>
        (\<forall>z. by_key run_id run (diagnosis_runs d) = Some z \<longrightarrow> run_status z = RunCancelled)"
      using assms unfolding eq by (simp add: sql_set_none split: if_split_asm option.split_asm)
  qed
qed

lemma cancelDiagnosisRunTx_effect:
  assumes keys: "distinct (map run_id (diagnosis_runs d))"
    and ok: "cancelDiagnosisRunTx now run g d = Inr d'"
  shows "\<forall>r \<in> set (diagnosis_runs d'). run_id r = run \<longrightarrow> run_status r = RunCancelled"
    and "\<forall>a \<in> set (diagnosis_attempts d'). att_diagnosis_run_id a = run \<and> att_execution_generation a = g
      \<longrightarrow> att_status a \<noteq> AttemptStatusRunning"
proof -
  let ?P = "\<lambda>r. run_id r = run \<and> (run_status r = RunQueued \<or> run_status r = RunRunning)"
  obtain fin where runs: "diagnosis_runs d' = map (cancelled_run run fin) (diagnosis_runs d)"
    and atts: "diagnosis_attempts d' = sql_set (\<lambda>a. att_diagnosis_run_id a = run
        \<and> att_execution_generation a = g \<and> att_status a = AttemptStatusRunning)
      (\<lambda>a. a\<lparr>att_status := AttemptStatusAbandoned, att_finished_at := Some now\<rparr>) (diagnosis_attempts d)"
    and none: "sql_count ?P (diagnosis_runs d) = 0 \<longrightarrow>
      (\<forall>z. by_key run_id run (diagnosis_runs d) = Some z \<longrightarrow> run_status z = RunCancelled)"
    by (rule cancelDiagnosisRunTx_Inr[OF ok])
  show "\<forall>a \<in> set (diagnosis_attempts d'). att_diagnosis_run_id a = run \<and> att_execution_generation a = g
      \<longrightarrow> att_status a \<noteq> AttemptStatusRunning"
    unfolding atts ball_sql_set by simp
  show "\<forall>r \<in> set (diagnosis_runs d'). run_id r = run \<longrightarrow> run_status r = RunCancelled"
  proof (intro ballI impI)
    fix r assume r: "r \<in> set (diagnosis_runs d')" and i: "run_id r = run"
    from r obtain x where x: "x \<in> set (diagnosis_runs d)" "r = cancelled_run run fin x"
      unfolding runs set_map by (elim imageE)
    with i have i: "run_id x = run" by simp
    from keys x(1) i have bk: "by_key run_id run (diagnosis_runs d) = Some x" by (metis by_key_unique)
    show "run_status r = RunCancelled"
    proof (cases "?P x")
      case True
      with x(2) show ?thesis by simp
    next
      case False
      have "sql_count ?P (diagnosis_runs d) = 0"
        using False run_by_key_all[OF keys bk] by (auto simp: sql_count_0_iff)
      with none bk x(2) i False show ?thesis by simp
    qed
  qed
qed

text \<open>The cancellation commits unless the run has already succeeded or failed.\<close>

lemma cancelDiagnosisRunTx_commits:
  assumes "\<forall>r \<in> set (diagnosis_runs d). run_id r = run \<longrightarrow> run_status r \<noteq> RunSucceeded \<and> run_status r \<noteq> RunFailed"
  shows "\<exists>d'. cancelDiagnosisRunTx now run g d = Inr d'"
proof (cases "sql_count (\<lambda>r. run_id r = run \<and> (run_status r = RunQueued \<or> run_status r = RunRunning))
    (diagnosis_runs d) = 0")
  case True
  have "run_status z = RunCancelled" if "by_key run_id run (diagnosis_runs d) = Some z" for z
    using by_key_Some_in[OF that] True assms by (cases "run_status z") (auto simp: sql_count_0_iff)
  with True show ?thesis
    unfolding cancelDiagnosisRunTx_def Let_def by (simp add: sql_set_none split: option.split)
next
  case False
  then show ?thesis unfolding cancelDiagnosisRunTx_def Let_def by simp
qed

text \<open>
  C11. An accepted cancellation wins. When the worker that owns a diagnosis finalizes it and a
  cancellation was requested, reporting success and reporting a failure (retryable or
  terminal) both do exactly what the cancellation finalizer does. Unless the run has
  already succeeded or failed that transaction commits, and afterwards the job is
  \<open>CANCELLED\<close>, so is its run, and no attempt of the generation is left running.
\<close>

theorem cancellation_wins:
  assumes inv: "sys_inv d" and job: "job_of d i = Some r" and own: "owns_execution w t r"
    and diag: "job_type r = JobTypeRunDiagnosis" and can: "job_cancel_requested r"
    and open_run: "\<forall>x \<in> set (diagnosis_runs d). run_id x = job_resource_id r \<longrightarrow>
      run_status x \<noteq> RunSucceeded \<and> run_status x \<noteq> RunFailed"
  shows "\<exists>d'. ConditionalFinalizeSuccess now i w t d = (Inr (), d')
    \<and> ConditionalFinalizeFailure now i w t cls code msg reason isTerminal nxt d = (Inr (), d')
    \<and> ConditionalFinalizeCancel now i w t d = (Inr (), d')
    \<and> job_of d' i = Some (cancelled_row now r)
    \<and> (\<forall>x \<in> set (diagnosis_runs d'). run_id x = job_resource_id r \<longrightarrow> run_status x = RunCancelled)
    \<and> (\<forall>a \<in> set (diagnosis_attempts d'). att_diagnosis_run_id a = job_resource_id r
        \<and> att_execution_generation a = job_execution_generation r \<longrightarrow> att_status a \<noteq> AttemptStatusRunning)"
proof -
  have k: "jobs_keys d" using inv by (rule sys_inv_keys)
  have eqs: "ConditionalFinalizeSuccessTx now i w t d = ConditionalFinalizeCancelTx now i w t d"
    "ConditionalFinalizeFailureTx now i w t cls code msg reason isTerminal nxt d = ConditionalFinalizeCancelTx now i w t d"
    using job own diag can by (simp_all add: ConditionalFinalizeSuccessTx_eq[OF k] ConditionalFinalizeFailureTx_eq[OF k])
  let ?e = "put_job (cancelled_row now r) d"
  have tx: "ConditionalFinalizeCancelTx now i w t d =
      cancelDiagnosisRunTx now (job_resource_id r) (job_execution_generation r) ?e"
    using job own diag can by (simp add: ConditionalFinalizeCancelTx_eq[OF k])
  have "\<exists>d'. cancelDiagnosisRunTx now (job_resource_id r) (job_execution_generation r) ?e = Inr d'"
    by (rule cancelDiagnosisRunTx_commits) (simp add: open_run)
  then obtain d' where
    d': "cancelDiagnosisRunTx now (job_resource_id r) (job_execution_generation r) ?e = Inr d'" ..
  have keys: "distinct (map run_id (diagnosis_runs ?e))"
    using inv by (simp add: sys_inv_def unique_keys_def run_keys_def comp_def)
  have row: "job_of d' i = Some (cancelled_row now r)"
    using same_jobs_job_of[OF cancelDiagnosisRunTx_jobs[OF d'], of i] job job_of_Some_id[OF job]
    by (simp add: job_of_put_job cancelled_row_def)
  have calls: "ConditionalFinalizeSuccess now i w t d = (Inr (), d')"
    "ConditionalFinalizeFailure now i w t cls code msg reason isTerminal nxt d = (Inr (), d')"
    "ConditionalFinalizeCancel now i w t d = (Inr (), d')"
    unfolding ConditionalFinalizeSuccess_def ConditionalFinalizeFailure_def ConditionalFinalizeCancel_def
      unit_tx_def by (simp_all add: eqs tx d')
  with row cancelDiagnosisRunTx_effect[OF keys d'] show ?thesis by blast
qed

theorem cancellation_wins_witness:
  "\<exists>d'. ConditionalFinalizeSuccess 130 1 ''w'' ''t0'' (snd (RequestCancellation 120 ''run'' ''user'' demo_running)) = (Inr (), d')
    \<and> map job_status (analysis_jobs d') = [StatusCancelled]"
proof -
  let ?d = "snd (RequestCancellation 120 ''run'' ''user'' demo_running)"
  let ?r = "the (job_of ?d 1)"
  have facts: "sys_inv ?d" "job_of ?d 1 = Some ?r" "owns_execution ''w'' ''t0'' ?r"
    "job_type ?r = JobTypeRunDiagnosis" "job_cancel_requested ?r"
    "\<forall>x \<in> set (diagnosis_runs ?d). run_id x = job_resource_id ?r \<longrightarrow>
      run_status x \<noteq> RunSucceeded \<and> run_status x \<noteq> RunFailed" by code_simp+
  have "map job_status (analysis_jobs (snd (ConditionalFinalizeSuccess 130 1 ''w'' ''t0'' ?d))) = [StatusCancelled]"
    by code_simp
  with cancellation_wins[OF facts, of 130] show ?thesis by fastforce
qed

section \<open>Terminal failure\<close>

text \<open>
  C12. A terminal failure is one transaction over the job, its business object and the revision
  that waits for it. When the worker's terminal failure commits, the job is \<open>FAILED\<close> with
  the reported class, code, message and reason, its snapshot, build or run is \<open>FAILED\<close>, and
  a revision linked to a snapshot or build is \<open>FAILED\<close> at that stage; when it does not
  commit, nothing has changed.
\<close>

theorem terminal_failure_is_atomic:
  assumes k: "jobs_keys d" and bk: "business_keys d" and job: "job_of d i = Some r"
    and live: "\<not> (job_type r = JobTypeRunDiagnosis \<and> job_cancel_requested r)"
    and call: "ConditionalFinalizeFailure now i w t cls code msg reason True nxt d = (res, d')"
  shows "case res of
      Inl e \<Rightarrow> d' = d
    | Inr _ \<Rightarrow> owns_execution w t r \<and> job_of d' i = Some (failed_row now cls code msg reason r)
        \<and> business_status (job_type r) (job_resource_id r) d' = Some ''FAILED''
        \<and> (\<forall>stage ident. failure_stage (job_type r) = Some stage
            \<and> readRevisionResourceIdentityTx (job_type r) (job_resource_id r) d' = Inr (ident, True)
            \<longrightarrow> revision_failed (ident_revision_id ident) stage d')"
proof (cases res)
  case (Inl e)
  with call show ?thesis
    unfolding ConditionalFinalizeFailure_def unit_tx_def by (simp add: run_tx_eq_Inl)
next
  case (Inr u)
  let ?f = "failed_row now cls code msg reason r"
  from call Inr have "ConditionalFinalizeFailureTx now i w t cls code msg reason True nxt d = Inr d'"
    unfolding ConditionalFinalizeFailure_def unit_tx_def by (auto simp: run_tx_eq_Inr bindE_eq_Inr)
  with job live have own: "owns_execution w t r" and fail: "failBusinessTx now i False code msg (put_job ?f d) = Inr d'"
    by (simp_all add: ConditionalFinalizeFailureTx_eq[OF k] split: if_split_asm)
  have row: "job_of (put_job ?f d) i = Some ?f"
    using job job_of_Some_id[OF job] by (simp add: job_of_put_job failed_row_def)
  have bk': "business_keys (put_job ?f d)" using bk by (simp add: business_keys_def)
  have same: "job_type ?f = job_type r" "job_resource_id ?f = job_resource_id r" by (simp_all add: failed_row_def)
  have "job_of d' i = Some ?f"
    using same_jobs_job_of[OF failBusinessTx_jobs[OF fail]] row by simp
  with own failBusinessTx_effect[OF fail row bk'] Inr show ?thesis
    unfolding same by simp
qed

text \<open>A snapshot that is being materialized for a revision, with its claimed job.\<close>

definition demo_snapshot_db :: db where
  "demo_snapshot_db = demo_empty\<lparr>
     repository_snapshots := [\<lparr>snap_id = ''s'', snap_repository_id = ''repo'', snap_analysis_revision_id = ''rev'',
       snap_commit_sha = ''c'', snap_ref = ''main'', snap_requested_ref = ''main'', snap_materialized_path = '''', snap_content_hash = '''',
       snap_status = SnapMaterializing, snap_file_count = 0, snap_total_bytes = 0, snap_error_code = '''',
       snap_created_at = 1, snap_ready_at = None\<rparr>],
     analysis_revisions := [\<lparr>rev_id = ''rev'', rev_repository_id = ''repo'', rev_source_ref = ''main'',
       rev_commit_sha = ''c'', rev_pipeline_version = ''v'', rev_pipeline_fingerprint = ''f'', rev_snapshot_id = ''s'',
       rev_code_index_build_id = 0, rev_retrieval_build_id = 0, rev_status = RevPreparing,
       rev_stage = StageMaterializing, rev_error_code = '''', rev_error_message = '''', rev_execution_generation = 1,
       rev_version = 1, rev_created_at = 1, rev_updated_at = 1, rev_ready_at = None\<rparr>],
     analysis_jobs := [demo_job\<lparr>job_type := JobTypeMaterializeSnapshot, job_resource_id := ''s''\<rparr>]\<rparr>"

theorem terminal_failure_is_atomic_witness:
  "case ConditionalFinalizeFailure 130 1 ''w'' ''t0'' ErrorClassPermanent ''E'' ''m''
      (Some TerminalReasonPermanent) True 0 demo_snapshot_db of
     (Inr _, d') \<Rightarrow> business_status JobTypeMaterializeSnapshot ''s'' d' = Some ''FAILED''
   | _ \<Rightarrow> False"
proof -
  let ?c = "ConditionalFinalizeFailure 130 1 ''w'' ''t0'' ErrorClassPermanent ''E'' ''m''
      (Some TerminalReasonPermanent) True 0 demo_snapshot_db"
  let ?r = "the (job_of demo_snapshot_db 1)"
  have facts: "jobs_keys demo_snapshot_db" "business_keys demo_snapshot_db" "job_of demo_snapshot_db 1 = Some ?r"
    "\<not> (job_type ?r = JobTypeRunDiagnosis \<and> job_cancel_requested ?r)"
    "job_type ?r = JobTypeMaterializeSnapshot" "job_resource_id ?r = ''s''"
    "fst ?c = Inr ()" by code_simp+
  obtain d' where "?c = (Inr (), d')" using facts(7) by (cases ?c) simp
  with terminal_failure_is_atomic[OF facts(1-4) this] facts(5,6) show ?thesis by simp
qed

section \<open>Explicit retries\<close>

text \<open>The job of a resource: there is at most one.\<close>

definition resource_job :: "job_type \<Rightarrow> string \<Rightarrow> db \<Rightarrow> analysis_job option" where
  "resource_job ty res d = by_key resource_key (ty, res) (analysis_jobs d)"

lemma resource_pred:
  "(\<lambda>r. job_type r = ty \<and> job_resource_id r = res \<and> Q r) = (\<lambda>r. resource_key r = (ty, res) \<and> Q r)"
  by (auto simp: resource_key_def)

lemma resource_job_props:
  assumes "jobs_inv d"
  shows "find (\<lambda>r. job_type r = ty \<and> job_resource_id r = res \<and> Q r) (analysis_jobs d) =
      (case resource_job ty res d of Some r \<Rightarrow> if Q r then Some r else None | None \<Rightarrow> None)"
    and "sql_count (\<lambda>r. job_type r = ty \<and> job_resource_id r = res \<and> Q r) (analysis_jobs d) =
      (case resource_job ty res d of Some r \<Rightarrow> if Q r then 1 else 0 | None \<Rightarrow> 0)"
  using assms unfolding resource_pred resource_job_def
  by (simp_all add: jobs_inv_def find_key sql_count_key)

lemma resource_job_in:
  assumes "jobs_inv d" and "resource_job ty res d = Some r"
  shows "job_of d (job_id r) = Some r" and "job_type r = ty" and "job_resource_id r = res"
  using assms by_key_Some_in[of resource_key "(ty, res)" "analysis_jobs d" r]
  by (auto simp: resource_job_def resource_key_def jobs_inv_def intro: job_of_unique)

lemma set_resource_job:
  assumes inv: "jobs_inv d" and r: "resource_job ty res d = Some r" and q: "Q r" and id: "job_id (f r) = job_id r"
  shows "set_jobs (\<lambda>r. job_type r = ty \<and> job_resource_id r = res \<and> Q r) f d = put_job (f r) d"
proof -
  have r_in: "r \<in> set (analysis_jobs d)" and key: "resource_key r = (ty, res)"
    using by_key_Some_in[OF r[unfolded resource_job_def]] by auto
  have "(if resource_key x = (ty, res) \<and> Q x then f x else x) = (if job_id x = job_id (f r) then f r else x)"
    if "x \<in> set (analysis_jobs d)" for x
  proof (cases "x = r")
    case True
    with key q id show ?thesis by simp
  next
    case False
    with inv that r_in key have "resource_key x \<noteq> (ty, res)" "job_id x \<noteq> job_id r"
      by (metis distinct_map inj_on_def jobs_inv_def jobs_keys_def)+
    with id show ?thesis by simp
  qed
  then show ?thesis
    unfolding resource_pred put_job_def set_jobs_def sql_set_def by (auto cong: map_cong)
qed

lemma set_runs_put_job: "set_runs R h (put_job r d) = put_job r (set_runs R h d)"
  by (simp add: put_job_def set_jobs_def set_runs_def)

lemma resource_job_frame: "analysis_jobs d' = analysis_jobs d \<Longrightarrow> resource_job ty res d' = resource_job ty res d"
  by (simp add: resource_job_def)

lemma jobs_inv_frame: "same_jobs d d' \<Longrightarrow> jobs_inv d \<Longrightarrow> jobs_inv d'"
  by (simp add: jobs_inv_def jobs_keys_def same_jobs_def)

text \<open>The recorded cause of a failure, as the retry policy reads it.\<close>

definition last_failure_retryable :: "analysis_job \<Rightarrow> bool" where
  "last_failure_retryable r \<longleftrightarrow> IsRetryableDiagnosisProviderFailure
    (ErrorClass (case job_last_error_class r of None \<Rightarrow> '''' | Some c \<Rightarrow> c))
    (to_upper (case job_last_error_code r of None \<Rightarrow> '''' | Some c \<Rightarrow> c))"

lemma count_run:
  assumes "distinct (map run_id t)"
  shows "sql_count (\<lambda>r. run_id r = i \<and> Q r) t = (case by_key run_id i t of Some r \<Rightarrow> if Q r then 1 else 0 | None \<Rightarrow> 0)"
  using assms by (rule sql_count_key)

lemma RetryDiagnosisTx_eq:
  fixes res :: string
  assumes inv: "sys_inv d"
  defines "R \<equiv> \<lambda>x :: diagnosis_run. run_id x = res \<and> run_status x = RunFailed"
  defines "h \<equiv> \<lambda>x :: diagnosis_run. x\<lparr>run_status := RunQueued, run_cancel_requested := False, run_final_attempt_id := '''',
    run_version := run_version x + 1\<rparr>"
  shows "RetryDiagnosisTx now res d =
    (case resource_job JobTypeRunDiagnosis res d of
       None \<Rightarrow> Inl SqlErrNoRows
     | Some r \<Rightarrow>
         if job_status r \<noteq> StatusFailed then Inl SqlErrNoRows
         else if \<not> last_failure_retryable r
         then Inl (Errorf ''diagnosis retry is only allowed after an external provider failure'' [])
         else if \<exists>x \<in> set (diagnosis_runs d). R x
         then Inr (put_job (reset_job_row now r) (set_runs R h d))
         else Inl (Errorf (''diagnosis '' @ res @ '' is not in FAILED state'') []))"
proof -
  have ji: "jobs_inv d" and dr: "distinct (map run_id (diagnosis_runs d))"
    using inv by (simp_all add: sys_inv_def unique_keys_def run_keys_def comp_def)
  let ?d1 = "set_runs R h d"
  have ji1: "jobs_inv ?d1" using ji by (rule jobs_inv_frame[rotated]) (simp add: same_jobs_def)
  have rj: "resource_job JobTypeRunDiagnosis res ?d1 = resource_job JobTypeRunDiagnosis res d"
    by (rule resource_job_frame) simp
  have cnt: "sql_count R (diagnosis_runs d) \<noteq> 1 \<longleftrightarrow> \<not> (\<exists>x \<in> set (diagnosis_runs d). R x)"
    using sql_count_key_le_1[OF dr, of res "\<lambda>x. run_status x = RunFailed"] sql_count_0_iff[of R "diagnosis_runs d"]
    unfolding R_def by auto
  show ?thesis
  proof (cases "resource_job JobTypeRunDiagnosis res d")
    case None
    then show ?thesis unfolding RetryDiagnosisTx_def by (simp add: resource_job_props[OF ji])
  next
    case (Some r)
    have put: "set_jobs (\<lambda>r. job_type r = JobTypeRunDiagnosis \<and> job_resource_id r = res \<and> job_status r = StatusFailed)
        (reset_job_row now) ?d1 = put_job (reset_job_row now r) ?d1" if "job_status r = StatusFailed"
      using ji1 Some[folded rj] that by (rule set_resource_job) (simp add: reset_job_row_def)
    show ?thesis
      unfolding RetryDiagnosisTx_def Let_def R_def[symmetric] h_def[symmetric] last_failure_retryable_def
      using Some cnt put by (simp add: resource_job_props[OF ji] resource_job_props[OF ji1] rj)
  qed
qed

lemma text_FAILED [simp]:
  "snapshot_status_text s = ''FAILED'' \<longleftrightarrow> s = SnapFailed"
  "build_status_text b = ''FAILED'' \<longleftrightarrow> b = BuildStatusFailed"
  "run_status_text q = ''FAILED'' \<longleftrightarrow> q = RunFailed"
  by (cases s, simp_all) (cases b, simp_all, cases q, simp_all)

lemma restore_business_count:
  assumes keys: "business_keys d" and ty: "\<And>t. ty \<noteq> JobTypeOther t"
  shows "fst (restore_business ty res d) = (if business_status ty res d = Some ''FAILED'' then 1 else 0)"
proof -
  have dist: "distinct (map snap_id (repository_snapshots d))" "distinct (map run_id (diagnosis_runs d))"
    "distinct (map (itoa \<circ> cib_id) (code_index_builds d))" "distinct (map (itoa \<circ> rb_id) (retrieval_builds d))"
    using keys by (auto simp: business_keys_def intro: distinct_itoa)
  note counts = sql_count_key[OF dist(1)] sql_count_key[OF dist(2)]
    sql_count_key[OF dist(3), unfolded comp_def] sql_count_key[OF dist(4), unfolded comp_def]
  show ?thesis
    using ty by (cases ty) (auto simp: restore_business_def business_status_def Let_def counts comp_def split: option.splits)
qed

lemma restore_business_none:
  assumes "fst (restore_business ty res d) = 0"
  shows "business_status ty' res' (snd (restore_business ty res d)) = business_status ty' res' d"
  using assms by (cases ty) (simp_all add: restore_business_def Let_def sql_set_none business_status_def
      split: job_type.split)

lemma ManualRequeueTx_eq:
  assumes inv: "jobs_inv d" and keys: "business_keys d" and ty: "\<And>t. ty \<noteq> JobTypeOther t"
  shows "(\<exists>d'. ManualRequeueTx now ty res d = Inr d') \<longleftrightarrow>
      (business_status ty res d = None \<or> business_status ty res d = Some ''FAILED'')
      \<and> (\<exists>r. resource_job ty res d = Some r \<and> job_status r = StatusFailed
           \<and> job_terminal_reason r = Some TerminalReasonRetryableExhausted)"
    and "ManualRequeueTx now ty res d = Inr d' \<Longrightarrow> resource_job ty res d = Some r \<Longrightarrow>
      d' = put_job (reset_job_row now r) (snd (restore_business ty res d))"
proof -
  obtain n d1 where rb: "restore_business ty res d = (n, d1)" by (metis surj_pair)
  have same: "same_jobs d d1" using restore_business_jobs[of d ty res] rb by simp
  have ji: "jobs_inv d1" using same inv by (rule jobs_inv_frame)
  have rj: "resource_job ty res d1 = resource_job ty res d"
    using same by (intro resource_job_frame) (simp add: same_jobs_def)
  let ?Q = "\<lambda>r. job_status r = StatusFailed \<and> job_terminal_reason r = Some TerminalReasonRetryableExhausted"
  have bs: "n \<noteq> 1 \<and> business_status ty res d1 \<noteq> None \<longleftrightarrow>
      \<not> (business_status ty res d = None \<or> business_status ty res d = Some ''FAILED'')"
    using restore_business_count[OF keys ty, of res] restore_business_none[of ty res d ty res] rb
    by (auto split: if_splits)
  have eq: "ManualRequeueTx now ty res d =
      (if n \<noteq> 1 \<and> business_status ty res d1 \<noteq> None
       then Inl (Errorf (''cannot requeue business object ('' @ job_type_text ty @ '', '' @ res @
              ''): not in FAILED state'') [])
       else if sql_count (\<lambda>r. job_type r = ty \<and> job_resource_id r = res \<and> ?Q r) (analysis_jobs d1) = 0
       then Inl (Errorf (''cannot requeue job ('' @ job_type_text ty @ '', '' @ res @
              ''): not in FAILED state with RETRYABLE_EXHAUSTED'') [])
       else Inr (set_jobs (\<lambda>r. job_type r = ty \<and> job_resource_id r = res \<and> ?Q r) (reset_job_row now) d1))"
    using rb ty unfolding ManualRequeueTx_def Let_def by (cases ty) (simp_all, blast)
  show "(\<exists>d'. ManualRequeueTx now ty res d = Inr d') \<longleftrightarrow>
      (business_status ty res d = None \<or> business_status ty res d = Some ''FAILED'')
      \<and> (\<exists>r. resource_job ty res d = Some r \<and> ?Q r)"
    unfolding eq bs resource_job_props[OF ji] rj by (auto split: option.splits)
  assume ok: "ManualRequeueTx now ty res d = Inr d'" and r: "resource_job ty res d = Some r"
  have "?Q r \<and> d' = set_jobs (\<lambda>r. job_type r = ty \<and> job_resource_id r = res \<and> ?Q r) (reset_job_row now) d1"
    using ok r unfolding eq resource_job_props[OF ji] rj by (simp split: if_split_asm)
  moreover have "set_jobs (\<lambda>r. job_type r = ty \<and> job_resource_id r = res \<and> ?Q r) (reset_job_row now) d1
      = put_job (reset_job_row now r) d1" if "?Q r"
    using ji r[folded rj] that by (rule set_resource_job) (simp add: reset_job_row_def)
  ultimately show "d' = put_job (reset_job_row now r) (snd (restore_business ty res d))" using rb by simp
qed

lemma put_job_other: "i \<noteq> job_id r \<Longrightarrow> job_of (put_job r d) i = job_of d i"
  by (simp add: job_of_put_job)

lemma reset_row_of:
  assumes "jobs_inv d" and "resource_job ty res d = Some r" and "same_jobs d e"
  shows "job_of (put_job (reset_job_row now r) e) (job_id r) = Some (reset_job_row now r)"
    and "i \<noteq> job_id r \<Longrightarrow> job_of (put_job (reset_job_row now r) e) i = job_of d i"
  using resource_job_in(1)[OF assms(1,2)] same_jobs_job_of[OF assms(3)]
  by (auto simp: job_of_put_job reset_job_row_def)

lemma unit_tx_ok: "(\<exists>d'. unit_tx f d = (Inr (), d')) \<longleftrightarrow> (\<exists>d'. f d = Inr d')"
  by (auto simp: unit_tx_def run_tx_eq_Inr bindE_eq_Inr)

lemma unit_tx_Inr: "unit_tx f d = (Inr u, d') \<Longrightarrow> f d = Inr d'"
  by (auto simp: unit_tx_def run_tx_eq_Inr bindE_eq_Inr)

text \<open>
  C13. A failed job runs again only on an explicit request, and only when its failure allows it.
  Requeueing commits exactly when the resource's job has failed by exhausting its retries
  and its business object is absent or failed; retrying a diagnosis commits exactly when
  its job and its run have failed and the recorded cause is a retryable provider failure.
  Whichever commits, that job alone changes: it is pending again in the next execution
  generation, with no attempt charged, no claim and no recorded failure.
\<close>

theorem explicit_retry_policy:
  assumes inv: "sys_inv d" and keys: "business_keys d" and ty: "\<forall>t. ty \<noteq> JobTypeOther t"
  shows "((\<exists>d'. ManualRequeue now ty res d = (Inr (), d')) \<longleftrightarrow>
      business_status ty res d \<in> {None, Some ''FAILED''}
      \<and> (\<exists>r. resource_job ty res d = Some r \<and> job_status r = StatusFailed
           \<and> job_terminal_reason r = Some TerminalReasonRetryableExhausted))
    \<and> ((\<exists>d'. RetryDiagnosis now res d = (Inr (), d')) \<longleftrightarrow>
      (\<exists>r. resource_job JobTypeRunDiagnosis res d = Some r \<and> job_status r = StatusFailed
         \<and> last_failure_retryable r \<and> (\<exists>x \<in> set (diagnosis_runs d). run_id x = res \<and> run_status x = RunFailed)))
    \<and> (\<forall>r d'. resource_job ty res d = Some r \<longrightarrow>
        ManualRequeue now ty res d = (Inr (), d')
          \<or> ty = JobTypeRunDiagnosis \<and> RetryDiagnosis now res d = (Inr (), d') \<longrightarrow>
        job_of d' (job_id r) = Some (reset_job_row now r)
        \<and> (\<forall>i. i \<noteq> job_id r \<longrightarrow> job_of d' i = job_of d i))"
    (is "?requeue \<and> ?retry \<and> ?effect")
proof (intro conjI)
  have ji: "jobs_inv d" using inv by (simp add: sys_inv_def)
  have ty': "\<And>t. ty \<noteq> JobTypeOther t" using ty by blast
  show ?requeue
    unfolding ManualRequeue_def unit_tx_ok ManualRequeueTx_eq(1)[OF ji keys ty'] by blast
  show ?retry
    unfolding RetryDiagnosis_def unit_tx_ok RetryDiagnosisTx_eq[OF inv] by (auto split: option.splits)
  show ?effect
  proof (intro allI impI)
    fix r d' assume r: "resource_job ty res d = Some r"
      and ok: "ManualRequeue now ty res d = (Inr (), d')
        \<or> ty = JobTypeRunDiagnosis \<and> RetryDiagnosis now res d = (Inr (), d')"
    have "\<exists>e. same_jobs d e \<and> d' = put_job (reset_job_row now r) e"
      using ok
    proof (elim disjE conjE)
      assume "ManualRequeue now ty res d = (Inr (), d')"
      then have "ManualRequeueTx now ty res d = Inr d'" unfolding ManualRequeue_def by (rule unit_tx_Inr)
      from ManualRequeueTx_eq(2)[OF ji keys ty' this r] show ?thesis using restore_business_jobs by blast
    next
      assume t: "ty = JobTypeRunDiagnosis" and "RetryDiagnosis now res d = (Inr (), d')"
      then have "RetryDiagnosisTx now res d = Inr d'" unfolding RetryDiagnosis_def by (blast intro: unit_tx_Inr)
      with r t have "\<exists>R h. put_job (reset_job_row now r) (set_runs R h d) = d'"
        unfolding RetryDiagnosisTx_eq[OF inv] by (simp split: if_split_asm) blast
      then show ?thesis by (metis same_jobs_refl same_jobs_sets(5))
    qed
    then obtain e where e: "same_jobs d e" "d' = put_job (reset_job_row now r) e" by blast
    from reset_row_of[OF ji r e(1)] show "job_of d' (job_id r) = Some (reset_job_row now r)
        \<and> (\<forall>i. i \<noteq> job_id r \<longrightarrow> job_of d' i = job_of d i)"
      unfolding e(2) by blast
  qed
qed

text \<open>A diagnosis that timed out at its provider and has been failed for good.\<close>

definition demo_failed :: db where
  "demo_failed = snd (FinalizeDiagnosisFailure 120 1 ''w'' ''t0'' 1 ''run'' ''att'' ErrorClassRetryable
     ''PROVIDER_TIMEOUT'' ''timeout'' 0 0 0 demo_running)"

theorem explicit_retry_policy_witness:
  "\<exists>d'. RetryDiagnosis 200 ''run'' demo_failed = (Inr (), d')
    \<and> (\<exists>r. job_of d' 1 = Some r \<and> job_execution_generation r = 2 \<and> job_status r = StatusPending)"
proof -
  let ?r = "the (resource_job JobTypeRunDiagnosis ''run'' demo_failed)"
  have facts: "sys_inv demo_failed" "business_keys demo_failed"
    "resource_job JobTypeRunDiagnosis ''run'' demo_failed = Some ?r" "job_status ?r = StatusFailed"
    "last_failure_retryable ?r" "\<exists>x \<in> set (diagnosis_runs demo_failed). run_id x = ''run'' \<and> run_status x = RunFailed"
    "job_id ?r = 1" "job_execution_generation ?r = 1" by code_simp+
  have ty: "\<forall>t. JobTypeRunDiagnosis \<noteq> JobTypeOther t" by simp
  note policy = explicit_retry_policy[OF facts(1,2) ty, of 200 "''run''"]
  from policy facts(3-6) obtain d' where d': "RetryDiagnosis 200 ''run'' demo_failed = (Inr (), d')" by blast
  with policy facts(3,7) have "job_of d' 1 = Some (reset_job_row 200 ?r)" by metis
  with d' facts(8) show ?thesis by (auto simp: reset_job_row_def)
qed

end
