(* ===== verification/Retry_Properties.thy ===== *)
theory Retry_Properties
  imports Job_Model
begin

text \<open>
  Properties of \<open>internal/jobs/retry.go\<close>: the bounds of the exponential backoff on 64-bit
  integers, and which errors become a cancellation or a loss of ownership.
\<close>

section \<open>Backoff\<close>

lemma backoff_factor_closed:
  assumes "1 \<le> a"
  shows "backoff_factor a = 2 ^ nat (min 6 (a - 1))"
proof (cases "a \<le> 7")
  case True
  then have "min 6 (a - 1) = a - 1" by simp
  with True assms show ?thesis by (simp add: backoff_factor_small)
next
  case False
  then show ?thesis by (simp add: backoff_factor_saturates min_def)
qed

lemma CalculateBackoff_attempt: "CalculateBackoff rnd a base mx = CalculateBackoff rnd (max 1 a) base mx"
  by (cases "a \<le> 0") (simp_all add: CalculateBackoff_def max_def Let_def)

text \<open>
  C14. The backoff never panics and never overflows for base delays up to \<open>2 ^ 56\<close> ns and
  maxima below \<open>2 ^ 62\<close> ns, whatever the attempt number and whatever the generator
  draws: the delay is at least the exponential delay \<open>base * 2 ^ min 6 (attempt - 1)\<close>
  capped by the maximum, exceeds it by at most a quarter, and never exceeds the maximum.
\<close>

theorem backoff_bounds:
  fixes attempt base mx :: int
  assumes rnd: "\<forall>n > 0. 0 \<le> rnd n \<and> rnd n < n"
    and base: "0 < base" "base \<le> 2 ^ 56" and mx: "0 < mx" "mx < 2 ^ 62"
  defines "b \<equiv> min mx (base * 2 ^ nat (min 6 (max 1 attempt - 1)))"
  shows "\<exists>t. CalculateBackoff rnd attempt base mx = Some t \<and> b \<le> t \<and> 4 * t \<le> 5 * b \<and> t \<le> mx"
proof -
  have b: "plain_backoff (max 1 attempt) base mx = b"
    using backoff_factor_closed[of "max 1 attempt"] by (simp add: plain_backoff_def b_def)
  let ?n = "b div Millisecond div 4 + 1"
  have eq: "CalculateBackoff rnd attempt base mx = Some (min mx (b + rnd ?n * Millisecond))"
    using CalculateBackoff_eq[of "max 1 attempt" base mx rnd] rnd base mx
    unfolding b CalculateBackoff_attempt[of rnd attempt] by simp
  have pos: "0 < b" "b \<le> mx" using base mx by (simp_all add: b_def)
  then have "0 < ?n" by (simp add: pos_imp_zdiv_nonneg_iff)
  with rnd have "0 \<le> rnd ?n" "rnd ?n < ?n" by blast+
  then have r: "0 \<le> rnd ?n" "rnd ?n \<le> b div Millisecond div 4" by linarith+
  have "b div Millisecond div 4 = b div (4 * Millisecond)" by (simp add: zdiv_zmult2_eq[symmetric])
  moreover have "b div (4 * Millisecond) * (4 * Millisecond) \<le> b" using pos by (simp add: div_times_less_eq_dividend)
  ultimately have "4 * (rnd ?n * Millisecond) \<le> b" using r by linarith
  then have "4 * min mx (b + rnd ?n * Millisecond) \<le> 5 * b" by (auto simp: min_def)
  with eq r pos show ?thesis by (intro exI[of _ "min mx (b + rnd ?n * Millisecond)"]) auto
qed

theorem backoff_bounds_witness:
  "\<exists>t. CalculateBackoff (\<lambda>n. n - 1) 3 Second Minute = Some t \<and> 4 * Second \<le> t \<and> t \<le> 5 * Second"
  using backoff_bounds[of "\<lambda>n. n - 1" Second Minute 3] by auto

section \<open>Classification\<close>

text \<open>
  C15. Only a user's cancellation, somewhere on the chain of wrapped errors, is classified as
  cancelled, and only a lost claim or a shutdown as lost ownership; an explicit category
  anywhere on the chain takes precedence over both. A cancelled or expired context is by
  itself retryable.
\<close>

theorem classification_follows_the_chain:
  "(fst (ClassifyError (Some e)) = ErrorClassCancelled \<longleftrightarrow>
      (case errors_as as_categorized e of
         Some (c, k) \<Rightarrow> c = ErrorClassCancelled
       | None \<Rightarrow> on_chain e ErrUserCancellation))
   \<and> (fst (ClassifyError (Some e)) = ErrorClassOwnershipLost \<longleftrightarrow>
      (case errors_as as_categorized e of
         Some (c, k) \<Rightarrow> c = ErrorClassOwnershipLost
       | None \<Rightarrow> \<not> on_chain e ErrUserCancellation
           \<and> (on_chain e ErrOwnershipLost \<or> on_chain e ErrWorkerShutdown)))
   \<and> (errors_as as_categorized e = None
      \<and> (on_chain e ContextCanceled \<or> on_chain e ContextDeadlineExceeded) \<longrightarrow>
      fst (ClassifyError (Some e)) = ErrorClassRetryable
      \<or> on_chain e ErrUserCancellation \<or> on_chain e ErrOwnershipLost \<or> on_chain e ErrWorkerShutdown)"
  unfolding errors_is_on_chain[symmetric]
  by (auto simp: ClassifyError_def HTTPStatusToErrorClass_def Let_def split: option.splits)

theorem classification_follows_the_chain_witness:
  "fst (ClassifyError (Some (errorf_w ''read'' ContextCanceled))) = ErrorClassRetryable"
proof -
  let ?e = "errorf_w ''read'' ContextCanceled"
  have "errors_as as_categorized ?e = None" "\<not> errors_is ?e ErrUserCancellation" "\<not> errors_is ?e ErrOwnershipLost"
    "\<not> errors_is ?e ErrWorkerShutdown" "errors_is ?e ContextCanceled"
    by (simp_all add: errorf_w_def ContextCanceled_def errors_as.simps)
  with classification_follows_the_chain[of ?e] show ?thesis unfolding errors_is_on_chain by blast
qed

end
