(* ===== verification/Diagnosis_Properties.thy ===== *)
theory Diagnosis_Properties
  imports Job_Outcomes
begin

text \<open>
  The properties of the diagnosis store: what a run and an attempt keep over every history,
  the durable marker around a provider dispatch, atomic finalization, fencing of workers
  that lost their claim, cancellation, checkpoints and request hashes.
\<close>

section \<open>Histories of runs and attempts\<close>


lemma attempt_of_row:
  assumes inv: "sys_inv d" and st: "(system_step F)\<^sup>*\<^sup>* d d'" and a: "attempt_of d i = Some a"
  obtains a' where "attempt_of d' i = Some a'" and "(att_step True)\<^sup>*\<^sup>* a a'"
proof -
  have key: "fst \<circ> att_keys = att_id" by (simp add: att_keys_def fun_eq_iff)
  have "table_evolve new_att (att_step True) att_keys (diagnosis_attempts d) (diagnosis_attempts d')"
    using system_steps_evolve[OF st inv] by (simp add: diag_evolve_def attempts_evolve_def)
  then show thesis
    using attempt_table.evolve_row[of True "diagnosis_attempts d" "diagnosis_attempts d'" i a] inv a that
    unfolding key attempt_of_def sys_inv_def by blast
qed







text \<open>An attempt that is neither running nor abandoned is immutable.\<close>

lemma att_step_closed:
  assumes "att_step K a a'" and "att_status a \<noteq> AttemptStatusRunning"
  shows "att_status a' \<noteq> AttemptStatusRunning" and "att_status a \<noteq> AttemptStatusAbandoned \<Longrightarrow> a' = a"
  using assms unfolding att_step_def att_edge_def IsValidAttemptTransition_def
  by (cases "att_status a' = att_status a"; simp)+

lemma att_steps_closed:
  "(att_step True)\<^sup>*\<^sup>* a a' \<Longrightarrow> att_status a \<noteq> AttemptStatusRunning \<Longrightarrow> att_status a' \<noteq> AttemptStatusRunning
    \<and> (att_status a \<noteq> AttemptStatusAbandoned \<longrightarrow> a' = a)"
proof (induction rule: rtranclp_induct)
  case base
  then show ?case by simp
next
  case (step y z)
  then show ?case using att_step_closed[OF step.hyps(2)] by blast
qed

lemma att_steps_identity: "(att_step True)\<^sup>*\<^sup>* a a' \<Longrightarrow> att_identity a' = att_identity a"
  by (induction rule: rtranclp_induct) (simp_all add: att_step_def)

text \<open>
  C17. An attempt is closed once. Over every history an attempt keeps its row, its run, generation,
  number and worker; once it is closed it is never running again, and once it is closed
  other than by abandonment nothing in its row ever changes (only the reaper still marks an
  abandoned attempt as failed when its provider outcome is unknown).
\<close>

theorem attempt_is_closed_once:
  assumes "sys_inv d" and "(system_step F)\<^sup>*\<^sup>* d d'" and "attempt_of d i = Some a"
  shows "\<exists>a'. attempt_of d' i = Some a' \<and> att_identity a' = att_identity a
    \<and> (att_status a \<noteq> AttemptStatusRunning \<longrightarrow> att_status a' \<noteq> AttemptStatusRunning)
    \<and> (att_status a \<noteq> AttemptStatusRunning \<and> att_status a \<noteq> AttemptStatusAbandoned \<longrightarrow> a' = a)"
proof -
  from assms obtain a' where "attempt_of d' i = Some a'" and "(att_step True)\<^sup>*\<^sup>* a a'" by (rule attempt_of_row)
  with att_steps_closed att_steps_identity show ?thesis by blast
qed

text \<open>The demo diagnosis, failed for good by its worker.\<close>

definition demo_attempt_failed :: db where
  "demo_attempt_failed = snd (FinalizeDiagnosisFailure 120 1 ''w'' ''t0'' 1 ''run'' ''att'' ErrorClassPermanent
     ''E'' ''broken'' 0 0 0 demo_running)"

theorem attempt_is_closed_once_witness:
  "attempt_of (snd (RecoverStaleAttempt 5000 ''att'' ''run'' demo_attempt_failed)) ''att''
    = attempt_of demo_attempt_failed ''att''"
proof -
  let ?a = "the (attempt_of demo_attempt_failed ''att'')"
  have inv: "sys_inv demo_attempt_failed" by code_simp
  have st: "(system_step any_token)\<^sup>*\<^sup>* demo_attempt_failed (snd (RecoverStaleAttempt 5000 ''att'' ''run'' demo_attempt_failed))"
    by (rule r_into_rtranclp) (rule sys_recover)
  have row: "attempt_of demo_attempt_failed ''att'' = Some ?a" by code_simp
  have closed: "att_status ?a \<noteq> AttemptStatusRunning" "att_status ?a \<noteq> AttemptStatusAbandoned" by code_simp+
  obtain a' where a': "attempt_of (snd (RecoverStaleAttempt 5000 ''att'' ''run'' demo_attempt_failed)) ''att'' = Some a'"
    "att_status ?a \<noteq> AttemptStatusRunning \<and> att_status ?a \<noteq> AttemptStatusAbandoned \<longrightarrow> a' = ?a"
    using attempt_is_closed_once[OF inv st row] by blast
  with closed row show ?thesis by simp
qed

section \<open>The dispatch marker\<close>

abbreviation accepted_unsaved :: "diagnosis_attempt \<Rightarrow> bool" where
  "accepted_unsaved a \<equiv> att_provider_dispatch_unresolved a \<and> att_provider_dispatch_success_seen a"

abbreviation saved :: "diagnosis_attempt \<Rightarrow> bool" where
  "saved a \<equiv> is_final_checkpoint (att_checkpoint_kind a) \<and> att_provider_completed_at a \<noteq> None"

text \<open>Without a checkpoint the row keeps the two flags.\<close>

lemma accepted_kept:
  assumes inv: "sys_inv d" and ev: "diag_evolve F False d d'" and a: "attempt_of d i = Some a" and acc: "accepted_unsaved a"
  shows "\<exists>a'. attempt_of d' i = Some a' \<and> accepted_unsaved a'"
proof -
  have key: "fst \<circ> att_keys = att_id" by (simp add: att_keys_def fun_eq_iff)
  have "table_evolve new_att (att_step False) att_keys (diagnosis_attempts d) (diagnosis_attempts d')"
    using ev by (simp add: diag_evolve_def attempts_evolve_def)
  then obtain a' where a': "attempt_of d' i = Some a'" "(att_step False)\<^sup>*\<^sup>* a a'"
    using attempt_table.evolve_row[of False "diagnosis_attempts d" "diagnosis_attempts d'" i a] inv a
    unfolding key attempt_of_def sys_inv_def by blast
  from a'(2) acc have "accepted_unsaved a'"
    by (induction rule: rtranclp_induct) (simp_all add: att_step_def marker_safe_def)
  with a'(1) show ?thesis by blast
qed

text \<open>Writing a checkpoint keeps them or leaves a final checkpoint.\<close>

lemma accepted_checkpoint:
  assumes a: "attempt_of d i = Some a" and acc: "accepted_unsaved a"
    and d': "d' = snd (UpdateAttemptCheckpointWithClaim order now j w t g n run att cp draft d)"
  shows "\<exists>a'. attempt_of d' i = Some a' \<and> (accepted_unsaved a' \<or> saved a')"
proof (cases "UpdateAttemptCheckpointWithClaimTx order now j w t g n run att cp draft d")
  case (Inl e)
  then have "d' = d" unfolding d' UpdateAttemptCheckpointWithClaim_def unit_tx_def by simp
  with a acc show ?thesis by blast
next
  case (Inr e)
  then have "d' = e" unfolding d' UpdateAttemptCheckpointWithClaim_def unit_tx_def by simp
  moreover from Inr obtain P cp' where "e = set_attempts P (checkpointUpdates now cp' draft) d"
    unfolding UpdateAttemptCheckpointWithClaimTx_def Let_def
    by (auto simp: bindE_eq_Inr split: if_split_asm)
  ultimately have "attempt_of d' i = map_option (\<lambda>x. if P x then checkpointUpdates now cp' draft x else x) (attempt_of d i)"
    unfolding attempt_of_def
    by (simp add: by_key_sql_set att_identity_def[symmetric]) (rule by_key_sql_set, simp add: checkpointUpdates_def Let_def)
  with a acc show ?thesis
    using checkpointUpdates_marker[of a now cp' draft] by (simp add: marker_safe_def)
qed

text \<open>
  C18. A provider response that was accepted is never forgotten. Once an attempt carries the
  dispatch marker together with the note that a response was seen, the row keeps both until
  a final checkpoint is saved: along every history either the last state still shows both,
  or some state on the way shows the attempt with a final checkpoint.
\<close>

theorem accepted_response_is_never_forgotten:
  assumes inv: "sys_inv d" and steps: "(system_step F)\<^sup>*\<^sup>* d d'"
    and row: "attempt_of d i = Some a" and acc: "accepted_unsaved a"
  shows "(\<exists>a'. attempt_of d' i = Some a' \<and> accepted_unsaved a')
    \<or> (\<exists>e b. (system_step F)\<^sup>*\<^sup>* d e \<and> (system_step F)\<^sup>*\<^sup>* e d' \<and> attempt_of e i = Some b \<and> saved b)"
  using steps
proof (induction rule: rtranclp_induct)
  case base
  then show ?case using row acc by blast
next
  case (step y z)
  from step.IH show ?case
  proof (elim disjE exE conjE)
    fix a' assume a': "attempt_of y i = Some a'" "att_provider_dispatch_unresolved a'"
      "att_provider_dispatch_success_seen a'"
    have y: "sys_inv y" using step.hyps(1) inv by (rule sys.steps_inv)
    have "\<exists>b. attempt_of z i = Some b \<and> (accepted_unsaved b \<or> saved b)"
      using system_step_evolve_or_checkpoint[OF step.hyps(2) sys_inv_keys[OF y]]
    proof (elim disjE exE)
      assume "diag_evolve F False y z"
      from accepted_kept[OF y this a'(1)] a'(2,3) show ?thesis by blast
    qed (use accepted_checkpoint[OF a'(1)] a'(2,3) in blast)
    moreover have "(system_step F)\<^sup>*\<^sup>* d z" using step.hyps by (rule rtranclp.rtrancl_into_rtrancl)
    ultimately show ?thesis by blast
  next
    fix e b assume "(system_step F)\<^sup>*\<^sup>* d e" "(system_step F)\<^sup>*\<^sup>* e y" "attempt_of e i = Some b"
      "is_final_checkpoint (att_checkpoint_kind b)" "att_provider_completed_at b \<noteq> None"
    then show ?thesis using step.hyps(2) by (meson rtranclp.rtrancl_into_rtrancl)
  qed
qed

text \<open>The demo diagnosis with an accepted response that is not yet saved.\<close>

definition demo_accepted :: db where
  "demo_accepted = snd (ProviderDispatchSucceeded 113 1 ''w'' ''t0'' 1 ''run'' ''att'' 1
     (snd (BeginProviderDispatch 112 1 ''w'' ''t0'' 1 ''run'' ''att'' 1 demo_running)))"

theorem accepted_response_is_never_forgotten_witness:
  "(\<exists>a'. attempt_of (snd (ProviderDispatchFailedDefinitely 114 1 ''w'' ''t0'' 1 ''run'' ''att'' 1 demo_accepted)) ''att''
        = Some a' \<and> accepted_unsaved a')
    \<or> (\<exists>e b. (system_step any_token)\<^sup>*\<^sup>* demo_accepted e \<and> (system_step any_token)\<^sup>*\<^sup>* e
         (snd (ProviderDispatchFailedDefinitely 114 1 ''w'' ''t0'' 1 ''run'' ''att'' 1 demo_accepted))
         \<and> attempt_of e ''att'' = Some b \<and> saved b)"
proof -
  let ?a = "the (attempt_of demo_accepted ''att'')"
  have facts: "sys_inv demo_accepted" "attempt_of demo_accepted ''att'' = Some ?a" "accepted_unsaved ?a" by code_simp+
  have st: "(system_step any_token)\<^sup>*\<^sup>* demo_accepted
      (snd (ProviderDispatchFailedDefinitely 114 1 ''w'' ''t0'' 1 ''run'' ''att'' 1 demo_accepted))"
    by (rule r_into_rtranclp) (rule sys_dispatch_failed)
  show ?thesis by (rule accepted_response_is_never_forgotten[OF facts(1) st facts(2,3)])
qed

section \<open>Finalization\<close>



lemma run_of_set_runs:
  "(\<And>r. P r \<Longrightarrow> run_id (f r) = run_id r) \<Longrightarrow>
    run_of (set_runs P f d) i = map_option (\<lambda>r. if P r then f r else r) (run_of d i)"
  unfolding run_of_def set_runs_def by (simp add: by_key_sql_set)

lemma attempt_of_set_attempts:
  "(\<And>a. P a \<Longrightarrow> att_id (f a) = att_id a) \<Longrightarrow>
    attempt_of (set_attempts P f d) i = map_option (\<lambda>a. if P a then f a else a) (attempt_of d i)"
  unfolding attempt_of_def set_attempts_def by (simp add: by_key_sql_set)

lemma lookups_frame:
  "job_of (set_runs R g d) i = job_of d i" "job_of (set_attempts A h d) i = job_of d i"
  "run_of (set_jobs P f d) j = run_of d j" "run_of (set_attempts A h d) j = run_of d j"
  "attempt_of (set_jobs P f d) k = attempt_of d k" "attempt_of (set_runs R g d) k = attempt_of d k"
  by (simp_all add: job_of_def run_of_def attempt_of_def set_jobs_def set_runs_def set_attempts_def)

lemmas lookups = job_of_set_jobs run_of_set_runs attempt_of_set_attempts lookups_frame






section \<open>Fencing\<close>

lemma unit_tx_Inl: "f d = Inl e \<Longrightarrow> unit_tx f d = (Inl e, d)"
  by (simp add: unit_tx_def run_tx_Inl)


definition demo_checkpoint :: attempt_checkpoint where
  "demo_checkpoint = \<lparr>cp_execution_generation = 1, cp_kind = CheckpointKindFinalValid, cp_raw_output = ''raw'',
     cp_parsed_report_json = ''{}'', cp_parsed_draft_json = ''{}'', cp_prompt_version = ''p'',
     cp_agent_version = ''a'', cp_structured = True, cp_prompt_tokens = 1, cp_completion_tokens = 2,
     cp_cached_prompt_tokens = 3, cp_reasoning_tokens = 4, cp_tool_calls = 5, cp_agent_rounds = 6,
     cp_search_calls = 7, cp_provider_calls = 8, cp_error_code = '''', cp_error_message = '''',
     cp_finalization_reason = '''', cp_finish_reason = ''stop''\<rparr>"


section \<open>Cancellation requests\<close>

text \<open>The pairs of run and job states in which the request is accepted.\<close>

definition cancellable :: "run_status \<Rightarrow> job_status \<Rightarrow> bool" where
  "cancellable rs js \<longleftrightarrow>
    rs = RunQueued \<and> js \<in> {StatusPending, StatusRetryWait, StatusRunning, StatusCancelled}
    \<or> rs = RunRunning \<and> js \<in> {StatusRetryWait, StatusRunning, StatusCancelled}"

lemma cancellation_decision_eq:
  "cancellable rs js \<Longrightarrow> cancellation_decision rs js =
    Inr (if js = StatusRunning then rs else RunCancelled, js \<noteq> StatusRunning)"
  "\<not> cancellable rs js \<Longrightarrow> \<exists>e. cancellation_decision rs js = Inl e"
  by (cases rs; auto simp: cancellable_def cancellation_decision_def)+

lemma RequestCancellationTx_eq:
  assumes inv: "sys_inv d" and job: "resource_job JobTypeRunDiagnosis run d = Some job"
    and run: "run_of d run = Some r" and user: "run_user_id r = u" and ok: "cancellable (run_status r) (job_status job)"
  shows "RequestCancellationTx now run u d = Inr
    (set_runs (\<lambda>x. run_id x = run \<and> run_user_id x = u \<and> run_status x = run_status r)
       (\<lambda>x. x\<lparr>run_cancel_requested := True,
           run_status := (if job_status job = StatusRunning then run_status r else RunCancelled),
           run_version := run_version x + 1\<rparr>)
       (set_jobs (\<lambda>x. job_id x = job_id job \<and> job_status x = job_status job)
         (\<lambda>x. if job_status job \<noteq> StatusRunning
           then x\<lparr>job_cancel_requested := True, job_updated_at := now, job_status := StatusCancelled,
                  job_terminal_reason := Some TerminalReasonCancelled, job_finished_at := Some now\<rparr>
           else x\<lparr>job_cancel_requested := True, job_updated_at := now\<rparr>) d))"
proof -
  have ji: "jobs_inv d" and dr: "distinct (map run_id (diagnosis_runs d))"
    using inv by (simp_all add: sys_inv_def unique_keys_def run_keys_def comp_def)
  note row = resource_job_in[OF ji job]
  have dj: "distinct (map job_id (analysis_jobs d))" using ji by (simp add: jobs_inv_def jobs_keys_def)
  have jf: "find (\<lambda>r. job_type r = JobTypeRunDiagnosis \<and> job_resource_id r = run) (analysis_jobs d) = Some job"
    using resource_job_props(1)[OF ji, of JobTypeRunDiagnosis run "\<lambda>_. True"] job by simp
  have rf: "find (\<lambda>x. run_id x = run \<and> run_user_id x = u) (diagnosis_runs d) = Some r"
    using run user unfolding find_key[OF dr] run_of_def by simp
  have cj: "sql_count (\<lambda>x. job_id x = job_id job \<and> job_status x = job_status job) (analysis_jobs d) = 1"
    using row(1) unfolding sql_count_key[OF dj] job_of_def by simp
  have cr: "sql_count (\<lambda>x. run_id x = run \<and> run_user_id x = u \<and> run_status x = run_status r) (diagnosis_runs d) = 1"
    using run user unfolding sql_count_key[OF dr] run_of_def by simp
  show ?thesis
    unfolding RequestCancellationTx_def jf rf option.case cancellation_decision_eq(1)[OF ok] bindE_Inr Let_def prod.case
    using cj cr by simp
qed

text \<open>
  C21. A cancellation request by the owner of a run is accepted in exactly the pairs of run and
  job states listed by \<open>cancellable\<close>; a refused request changes nothing. An accepted
  request is recorded on the job and on the run at once. A job that waits ends cancelled
  together with its run; a job that is running keeps its claim, and from then on no
  finalization of success is accepted for that run, whoever calls it.
\<close>

theorem cancellation_request_outcome:
  assumes inv: "sys_inv d" and job: "resource_job JobTypeRunDiagnosis run d = Some job"
    and run: "run_of d run = Some r" and call: "RequestCancellation now run (run_user_id r) d = (res, d')"
  shows "case res of
      Inl e \<Rightarrow> d' = d \<and> cancellable (run_status r) (job_status job) = False
    | Inr _ \<Rightarrow> cancellable (run_status r) (job_status job)
        \<and> (\<exists>job' r'. job_of d' (job_id job) = Some job' \<and> run_of d' run = Some r'
            \<and> job_cancel_requested job' \<and> run_cancel_requested r'
            \<and> job_worker_id job' = job_worker_id job \<and> job_claim_token job' = job_claim_token job
            \<and> (job_status job', run_status r') =
                (if job_status job = StatusRunning then (StatusRunning, run_status r) else (StatusCancelled, RunCancelled)))
        \<and> (\<exists>e. FinalizeSuccess order uuid now' (job_id job) w t run att rep cits pt ct tc d' = (Inl e, d'))"
proof (cases "cancellable (run_status r) (job_status job)")
  case True
  have ji: "jobs_inv d" using inv by (simp add: sys_inv_def)
  note row = resource_job_in[OF ji job]
  have rid: "run_id r = run" using run by (auto simp: run_of_def dest: by_key_Some_in)
  from RequestCancellationTx_eq[OF inv job run refl True, of now] call
  have res: "res = Inr ()" and d': "RequestCancellationTx now run (run_user_id r) d = Inr d'"
    by (simp_all add: RequestCancellation_def unit_tx_def)
  note eq = RequestCancellationTx_eq[OF inv job run refl True, of now, unfolded d', simplified sum.inject]
  obtain job' r' where new: "job_of d' (job_id job) = Some job'" "run_of d' run = Some r'"
      "job_cancel_requested job'" "run_cancel_requested r'"
      "job_worker_id job' = job_worker_id job" "job_claim_token job' = job_claim_token job"
      "(job_status job', run_status r') =
        (if job_status job = StatusRunning then (StatusRunning, run_status r) else (StatusCancelled, RunCancelled))"
    using row run rid unfolding eq by (simp add: lookups)
  have "system_step any_token d d'"
    using sys_diag_request_cancel[of any_token d now run "run_user_id r"] call by simp
  then have "sys_inv d'" using inv by (rule sys.steps_inv[OF r_into_rtranclp])
  then have k: "jobs_keys d'" by (rule sys_inv_keys)
  have "\<not> (\<exists>d''. FinalizeSuccessTx order uuid now' (job_id job) w t run att rep cits pt ct tc d' = Inr d'')"
  proof (rule notI, elim exE)
    fix d'' assume "FinalizeSuccessTx order uuid now' (job_id job) w t run att rep cits pt ct tc d' = Inr d''"
    then obtain j q a where l: "lockDiagnosisExecutionTx (job_id job) w t 0 run att False d' = Inr (j, q, a)"
      by (rule FinalizeSuccessTx_Inr)
    from lockDiagnosisExecutionTx_Inr[OF k l] new(1,3) show False by simp
  qed
  then have "\<exists>e. FinalizeSuccess order uuid now' (job_id job) w t run att rep cits pt ct tc d' = (Inl e, d')"
    unfolding FinalizeSuccess_def by (metis sum.exhaust unit_tx_Inl)
  with new True show ?thesis unfolding res by auto
next
  case False
  obtain e where e: "cancellation_decision (run_status r) (job_status job) = Inl e"
    using cancellation_decision_eq(2)[OF False] by blast
  have ji: "jobs_inv d" and dr: "distinct (map run_id (diagnosis_runs d))"
    using inv by (simp_all add: sys_inv_def unique_keys_def run_keys_def comp_def)
  have "find (\<lambda>r. job_type r = JobTypeRunDiagnosis \<and> job_resource_id r = run) (analysis_jobs d) = Some job"
    using resource_job_props(1)[OF ji, of JobTypeRunDiagnosis run "\<lambda>_. True"] job by simp
  moreover have "find (\<lambda>x. run_id x = run \<and> run_user_id x = run_user_id r) (diagnosis_runs d) = Some r"
    using run unfolding find_key[OF dr] run_of_def by simp
  ultimately have "RequestCancellationTx now run (run_user_id r) d = Inl e"
    by (simp add: RequestCancellationTx_def e)
  then have "RequestCancellation now run (run_user_id r) d = (Inl e, d)"
    unfolding RequestCancellation_def by (rule unit_tx_Inl)
  with call have "res = Inl e" "d' = d" by simp_all
  with False show ?thesis by simp
qed

theorem cancellation_request_outcome_witness:
  "\<exists>job' r'. job_of (snd (RequestCancellation 120 ''run'' ''user'' demo_running)) 1 = Some job'
    \<and> run_of (snd (RequestCancellation 120 ''run'' ''user'' demo_running)) ''run'' = Some r'
    \<and> job_cancel_requested job' \<and> run_cancel_requested r' \<and> job_claim_token job' = Some ''t0''
    \<and> job_status job' = StatusRunning \<and> run_status r' = RunRunning"
proof -
  let ?r = "the (run_of demo_running ''run'')"
  let ?c = "RequestCancellation 120 ''run'' (run_user_id ?r) demo_running"
  have job: "resource_job JobTypeRunDiagnosis ''run'' demo_running = Some demo_job"
    by (simp add: resource_job_def demo_running_jobs by_key_def resource_key_def demo_job_def)
  have run: "run_of demo_running ''run'' = Some ?r" "run_user_id ?r = ''user''" "run_status ?r = RunRunning"
    "fst ?c = Inr ()" by code_simp+
  then have call: "?c = (Inr (), snd ?c)" by (simp add: prod_eq_iff)
  have cols: "job_id demo_job = 1" "job_claim_token demo_job = Some ''t0''" "job_status demo_job = StatusRunning"
    by (simp_all add: demo_job_def)
  from cancellation_request_outcome[OF demo_running_inv job run(1) call, of id demo_tok 0 "''''" "''''" "''''" None "[]" 0 0 0]
  show ?thesis unfolding sum.case run(2,3) cols by auto
qed

text \<open>
  The pair of a running run and a pending job is missing from the list, and it is reachable:
  a diagnosis whose first attempt failed with a retryable error is claimed again and the
  claim is returned before it is dispatched. The owner's request is then refused although
  the job merely waits.
\<close>

definition demo_waiting :: db where
  "demo_waiting = snd (ReturnUndispatchedClaim 202 1 ''w2'' ''t0'' 1 (snd (ClaimJobs (\<lambda>_. False) demo_tok 201 ''w2'' 5 60
     (snd (ConditionalFinalizeFailure 121 1 ''w'' ''t0'' ErrorClassRetryable ''E'' ''m'' None False 130
       (snd (FinalizeRetryableAttempt 120 1 ''w'' ''t0'' 1 ''run'' ''att'' ''E'' ''m'' 0 0 0 demo_running)))))))"

lemma demo_waiting_reachable: "reachable init_db (system_step any_token) demo_waiting"
proof -
  have "reachable init_db (system_step any_token)
      (snd (FinalizeRetryableAttempt 120 1 ''w'' ''t0'' 1 ''run'' ''att'' ''E'' ''m'' 0 0 0 demo_running))"
    by (rule reach_step[OF demo_reachable(4)]) (rule sys_diag_retry)
  then have "reachable init_db (system_step any_token)
      (snd (ConditionalFinalizeFailure 121 1 ''w'' ''t0'' ErrorClassRetryable ''E'' ''m'' None False 130
       (snd (FinalizeRetryableAttempt 120 1 ''w'' ''t0'' 1 ''run'' ''att'' ''E'' ''m'' 0 0 0 demo_running))))"
    by (rule reach_step) (rule sys_fail, code_simp)
  then have "reachable init_db (system_step any_token)
      (snd (ClaimJobs (\<lambda>_. False) demo_tok 201 ''w2'' 5 60
     (snd (ConditionalFinalizeFailure 121 1 ''w'' ''t0'' ErrorClassRetryable ''E'' ''m'' None False 130
       (snd (FinalizeRetryableAttempt 120 1 ''w'' ''t0'' 1 ''run'' ''att'' ''E'' ''m'' 0 0 0 demo_running))))))"
    by (rule reach_step) (rule sys_claim, simp)
  then show ?thesis
    unfolding demo_waiting_def by (rule reach_step) (rule sys_return)
qed

lemma waiting_run_refuses_cancellation:
  "\<exists>d r job. reachable init_db (system_step any_token) d \<and> run_of d ''run'' = Some r \<and> run_status r = RunRunning
    \<and> job_of d 1 = Some job \<and> job_status job = StatusPending
    \<and> RequestCancellation 300 ''run'' (run_user_id r) d
        = (Inl (Errorf ''cannot cancel running diagnosis with job status PENDING'' []), d)"
proof -
  let ?r = "the (run_of demo_waiting ''run'')" and ?j = "the (job_of demo_waiting 1)"
  have f: "run_of demo_waiting ''run'' = Some ?r" "run_status ?r = RunRunning" "job_of demo_waiting 1 = Some ?j"
    "job_status ?j = StatusPending"
    "fst (RequestCancellation 300 ''run'' (run_user_id ?r) demo_waiting)
        = Inl (Errorf ''cannot cancel running diagnosis with job status PENDING'' [])" by code_simp+
  then have "RequestCancellation 300 ''run'' (run_user_id ?r) demo_waiting
        = (Inl (Errorf ''cannot cancel running diagnosis with job status PENDING'' []), demo_waiting)"
    unfolding RequestCancellation_def unit_tx_def prod_eq_iff by (simp add: run_tx_rollback)
  with f demo_waiting_reachable show ?thesis by blast
qed

section \<open>Checkpoints\<close>

lemma latest_attempt_max:
  assumes "x \<in> set xs" and "\<And>y. y \<in> set xs \<Longrightarrow> y \<noteq> x \<Longrightarrow> att_attempt_no y < att_attempt_no x"
  shows "latest_attempt xs = Some x"
proof -
  have "latest_attempt ys = Some b \<Longrightarrow> b \<in> set ys" for ys b
    by (induction ys arbitrary: b) (auto split: option.split_asm if_split_asm)
  moreover have "ys \<noteq> [] \<Longrightarrow> latest_attempt ys \<noteq> None" for ys
    by (cases ys) (auto split: option.split)
  ultimately have some: "ys \<noteq> [] \<Longrightarrow> \<exists>b \<in> set ys. latest_attempt ys = Some b" for ys by blast
  show ?thesis using assms
  proof (induction xs)
    case Nil
    then show ?case by simp
  next
    case (Cons y ys)
    show ?case
    proof (cases "x \<in> set ys")
      case True
      with Cons have "latest_attempt ys = Some x" by simp
      moreover have "y \<noteq> x \<Longrightarrow> att_attempt_no y < att_attempt_no x" using Cons.prems(2) by simp
      ultimately show ?thesis by (cases "y = x") auto
    next
      case False
      then have x: "x = y" using Cons.prems(1) by simp
      show ?thesis
      proof (cases "ys = []")
        case False
        with some obtain b where b: "b \<in> set ys" "latest_attempt ys = Some b" by blast
        moreover have "b \<noteq> x" using b(1) \<open>x \<notin> set ys\<close> by blast
        ultimately have "att_attempt_no b < att_attempt_no x" using Cons.prems(2) by simp
        with b x show ?thesis by simp
      qed (simp add: x)
    qed
  qed
qed

lemma UpdateAttemptCheckpointWithClaim_Inr:
  assumes "UpdateAttemptCheckpointWithClaim order now i w t g n run att cp draft d = (Inr u, d')"
  obtains a where "a \<in> set (diagnosis_attempts d)" and "running_attempt att run g n a"
    and "d' = set_attempts (running_attempt att run g n)
      (checkpointUpdates now (cp\<lparr>cp_execution_generation := g\<rparr>) draft) d"
proof -
  let ?cp = "if cp_execution_generation cp \<le> 0 then cp\<lparr>cp_execution_generation := g\<rparr> else cp"
  from assms have tx: "UpdateAttemptCheckpointWithClaimTx order now i w t g n run att cp draft d = Inr d'"
    unfolding UpdateAttemptCheckpointWithClaim_def by (rule unit_tx_Inr)
  then have g: "cp_execution_generation ?cp = g"
    unfolding UpdateAttemptCheckpointWithClaimTx_def Let_def by (simp split: if_split_asm)
  then have cp: "?cp = cp\<lparr>cp_execution_generation := g\<rparr>" by auto
  from tx obtain job r a where l: "lockLiveDiagnosisExecutionTx now i w t g run att n d = Inr (job, r, a)"
    and c: "sql_count (running_attempt att run g (att_attempt_no a)) (diagnosis_attempts d) = 1"
    and d': "d' = set_attempts (running_attempt att run g (att_attempt_no a)) (checkpointUpdates now ?cp draft) d"
    unfolding UpdateAttemptCheckpointWithClaimTx_def Let_def
    by (auto simp: bindE_eq_Inr split: if_split_asm)
  have n: "att_attempt_no a = n"
    using l by (auto simp: lockLiveDiagnosisExecutionTx_def bindE_eq_Inr split: if_split_asm)
  obtain b where "b \<in> set (diagnosis_attempts d)" "running_attempt att run g n b"
    using c sql_count_0_iff[of "running_attempt att run g n" "diagnosis_attempts d"] unfolding n by auto
  then show thesis using d' unfolding n cp by (rule that)
qed

text \<open>
  C22. A final checkpoint survives the attempt that wrote it. When the owner of the newest attempt
  of a generation has saved a final checkpoint, looking for the latest final checkpoint
  of that run and generation returns this attempt with the kind, the raw output, the parsed
  report, the draft, the versions and all counters as they were passed, and the dispatch
  marker is cleared.
\<close>

theorem final_checkpoint_round_trip:
  assumes inv: "sys_inv d" and final: "is_final_checkpoint (cp_kind cp)"
    and newest: "\<forall>b \<in> set (generation_attempts run g d). att_attempt_no b \<le> n"
    and call: "UpdateAttemptCheckpointWithClaim order now i w t g n run att cp True d = (Inr u, d')"
  shows "\<exists>a. GetLatestFinalCheckpoint run g d' = Some a \<and> att_id a = att \<and> att_attempt_no a = n
    \<and> att_checkpoint_kind a = cp_kind cp \<and> att_raw_output a = cp_raw_output cp
    \<and> att_parsed_report_json a = cp_parsed_report_json cp
    \<and> att_parsed_report_draft_json a = cp_parsed_draft_json cp
    \<and> att_checkpoint_prompt_version a = cp_prompt_version cp
    \<and> att_checkpoint_agent_version a = cp_agent_version cp
    \<and> att_structured_output_valid a = cp_structured cp
    \<and> (att_prompt_tokens a, att_completion_tokens a, att_cached_prompt_tokens a, att_reasoning_tokens a)
        = (cp_prompt_tokens cp, cp_completion_tokens cp, cp_cached_prompt_tokens cp, cp_reasoning_tokens cp)
    \<and> (att_tool_calls a, att_agent_rounds a, att_search_calls a, att_provider_calls a)
        = (cp_tool_calls cp, cp_agent_rounds cp, cp_search_calls cp, cp_provider_calls cp)
    \<and> att_provider_completed_at a = Some now
    \<and> att_provider_dispatch_unresolved a = False \<and> att_provider_dispatch_success_seen a = False"
proof -
  let ?f = "checkpointUpdates now (cp\<lparr>cp_execution_generation := g\<rparr>) True"
  let ?P = "running_attempt att run g n"
  from call obtain b where b: "b \<in> set (diagnosis_attempts d)" "?P b" and d': "d' = set_attempts ?P ?f d"
    by (rule UpdateAttemptCheckpointWithClaim_Inr)
  have keys: "att_keys (?f x) = att_keys x" for x
    by (simp add: att_keys_def checkpointUpdates_def Let_def)
  have kind: "cp_kind cp \<noteq> CheckpointKindOther ''''" using final by (auto simp: is_final_checkpoint_def)
  define fin where "fin = filter (\<lambda>a. is_final_checkpoint (att_checkpoint_kind a) \<and> att_provider_completed_at a \<noteq> None)
      (generation_attempts run g d')"
  have table: "diagnosis_attempts d' = map (\<lambda>x. if ?P x then ?f x else x) (diagnosis_attempts d)"
    unfolding d' by (simp add: sql_set_def)
  have "map att_keys (diagnosis_attempts d') = map att_keys (diagnosis_attempts d)"
    unfolding table by (simp add: keys)
  then have dist: "distinct (map (snd \<circ> att_keys) (diagnosis_attempts d'))"
    using inv by (simp add: sys_inv_def unique_keys_def flip: map_map)
  have col: "att_diagnosis_run_id (?f x) = att_diagnosis_run_id x" "att_execution_generation (?f x) = att_execution_generation x"
      "att_attempt_no (?f x) = att_attempt_no x" for x
    by (simp_all add: checkpointUpdates_def Let_def)
  have in': "?f b \<in> set (diagnosis_attempts d')" unfolding table using b by force
  have mem: "?f b \<in> set fin"
    using in' b(2) final kind unfolding fin_def generation_attempts_def
    by (simp add: col running_attempt_def) (simp add: checkpointUpdates_def Let_def)
  have less: "att_attempt_no y < att_attempt_no (?f b)" if y: "y \<in> set fin" and ne: "y \<noteq> ?f b" for y
  proof -
    have y': "y \<in> set (diagnosis_attempts d')" "att_diagnosis_run_id y = run" "att_execution_generation y = g"
      using y by (simp_all add: fin_def generation_attempts_def)
    then obtain z where z: "z \<in> set (diagnosis_attempts d)" "y = (if ?P z then ?f z else z)" unfolding table by auto
    have "z \<in> set (generation_attempts run g d)" "att_attempt_no y = att_attempt_no z"
      using z y'(2,3) col by (auto simp: generation_attempts_def split: if_split_asm)
    then have "att_attempt_no y \<le> n" using newest by simp
    moreover have "snd (att_keys y) \<noteq> snd (att_keys (?f b))"
      using dist y'(1) in' ne unfolding distinct_map inj_on_def comp_def by blast
    then have "att_attempt_no y \<noteq> n"
      using y'(2,3) b(2) unfolding keys by (simp add: att_keys_def running_attempt_def)
    ultimately show ?thesis using b(2) col by (simp add: running_attempt_def)
  qed
  have "GetLatestFinalCheckpoint run g d' = Some (?f b)"
    unfolding GetLatestFinalCheckpoint_def fin_def[symmetric] by (rule latest_attempt_max[OF mem less])
  then show ?thesis
    using b(2) final kind
    by (intro exI[of _ "?f b"]) (simp add: checkpointUpdates_def Let_def running_attempt_def)
qed

theorem final_checkpoint_round_trip_witness:
  "\<exists>a. GetLatestFinalCheckpoint ''run'' 1
        (snd (UpdateAttemptCheckpointWithClaim id 120 1 ''w'' ''t0'' 1 1 ''run'' ''att'' demo_checkpoint True demo_accepted)) = Some a
    \<and> att_id a = ''att'' \<and> att_raw_output a = ''raw'' \<and> att_provider_dispatch_unresolved a = False"
proof -
  let ?c = "UpdateAttemptCheckpointWithClaim id 120 1 ''w'' ''t0'' 1 1 ''run'' ''att'' demo_checkpoint True demo_accepted"
  have f: "sys_inv demo_accepted" "is_final_checkpoint (cp_kind demo_checkpoint)"
    "\<forall>b \<in> set (generation_attempts ''run'' 1 demo_accepted). att_attempt_no b \<le> 1" "fst ?c = Inr ()" by code_simp+
  then have call: "?c = (Inr (), snd ?c)" by (simp add: prod_eq_iff)
  have "cp_raw_output demo_checkpoint = ''raw''" by (simp add: demo_checkpoint_def)
  with final_checkpoint_round_trip[OF f(1-3) call] show ?thesis by auto
qed

section \<open>Request hashes\<close>

text \<open>
  Moving a separator between the title and the description gives two requests that every
  digest maps to the same hash.
\<close>

lemma request_hash_collision:
  "ComputeRequestHash sha repo snap ''a|b'' ''c'' errlog pins = ComputeRequestHash sha repo snap ''a'' ''b|c'' errlog pins"
proof -
  have "trim_space ''a|b'' = ''a|b''" "trim_space ''c'' = ''c''" "trim_space ''a'' = ''a''" "trim_space ''b|c'' = ''b|c''"
    by code_simp+
  then show ?thesis by (simp add: ComputeRequestHash_def request_payload_def)
qed

end
