(* ===== verification/Evidence_Properties.thy ===== *)
theory Evidence_Properties
  imports Evidence_Report
begin

text \<open>
  Properties of \<open>internal/evidence\<close>: what the classification of a report means, when a
  citation is valid, and what the size contract at the write boundary guarantees.
\<close>

section \<open>Classification\<close>







section \<open>Citations\<close>




text \<open>
  A citation rejected for carrying no proof is given the hash of the lines before it is
  rejected, so that validating it again accepts it.
\<close>

lemma rejected_citation_revalidates:
  assumes "cit_snapshot_id c = snap" and "cit_file_path c \<noteq> ''''" and "1 \<le> cit_start_line c"
    and "cit_start_line c \<le> cit_end_line c" and "sv_can_issue_evidence v (cit_file_path c)"
    and "sv_file_exists v (cit_file_path c)"
    and "sv_read_range v (cit_file_path c) (cit_start_line c) (cit_end_line c) = Inr lines"
    and "cit_excerpt c = ''''" and "cit_content_hash c = ''''" and "sha lines \<noteq> ''''"
  shows "cit_validation_status (Validate sha v snap c) = CitationInvalid"
    and "cit_validation_status (Validate sha v snap (Validate sha v snap c)) = CitationValid"
  using assms by (simp_all add: Validate_def reject_def Let_def equal_fold_def)

section \<open>The write boundary\<close>

text \<open>
  C25. Whatever order the fields are visited in, a report passes the write boundary exactly when its
  five JSON and raw fields fit in 4 MiB each and its three text fields in 65535 bytes
  each; a refusal is recognised by \<open>errors.Is\<close> as \<open>ErrReportTooLarge\<close>.
\<close>

theorem report_fits_columns:
  assumes "\<And>xs. set (order xs) = set xs"
  shows "(ValidateReportPersistence order (Some r) = Inr () \<longleftrightarrow>
      list_all (\<lambda>s. str_len s \<le> 4194304) [rep_findings_json r, rep_recommended_checks_json r, rep_limitations_json r,
        rep_structured_payload_json r, rep_raw_output r]
      \<and> list_all (\<lambda>s. str_len s \<le> 65535) [rep_summary r, rep_root_cause r, rep_parse_error r])
    \<and> (case ValidateReportPersistence order (Some r) of Inl e \<Rightarrow> errors_is e ErrReportTooLarge | Inr _ \<Rightarrow> True)"
proof -
  have split: "bindE a (\<lambda>_. b) = Inr () \<longleftrightarrow> a = Inr () \<and> b = Inr ()" for a b :: "go_error + unit"
    by (auto simp: bindE_eq_Inr)
  have "(case bindE (validate_fields xs m) (\<lambda>_. validate_fields ys n) of
      Inl e \<Rightarrow> errors_is e ErrReportTooLarge | Inr _ \<Rightarrow> True)" for xs ys m n
    by (auto simp: bindE_def dest: validate_fields_err split: sum.split)
  then show ?thesis
    by (simp add: ValidateReportPersistence_def split validate_fields_ok assms MaxReportBytes_def)
qed

theorem report_fits_columns_witness:
  "ValidateReportPersistence rev (Some \<lparr>rep_id = ''rep'', rep_diagnosis_run_id = ''run'', rep_attempt_id = ''att'',
     rep_root_cause = ''cause'', rep_conclusion_kind = ''ROOT_CAUSE'', rep_report_status = ReportValid,
     rep_summary = ''summary'', rep_findings_json = ''[]'', rep_recommended_checks_json = ''[]'',
     rep_structured_payload_json = ''{}'', rep_raw_output = ''raw'', rep_parse_error = '''',
     rep_limitations_json = ''[]'', rep_created_at = 0\<rparr>) = Inr ()"
  using report_fits_columns[of rev] by (simp add: str_len_def)

end
