(* ===== verification/Job_Worker.thy ===== *)
theory Job_Worker
  imports Job_Store
begin

text \<open>
  The job worker, \<open>internal/jobs/worker.go\<close> and \<open>lease.go\<close>: reserving capacity and claiming,
  the durable start boundary, the execution of one job with all its outcomes, and the
  resolution of finalizations whose reply was lost.

  The worker talks to the store over a network and shares it with other processes. A
  \<open>schedule\<close> supplies, for the \<open>k\<close>-th interaction, the clock, what the other processes (and
  the worker's own lease renewer and cancellation poller) did to the database before it,
  and what happened to the reply: it may be delivered, or lost before or after the
  operation took effect. It also tells when stopping was requested and how the contexts
  of the worker ended. Every loop that waits takes fuel; running out is \<open>None\<close>.
\<close>

section \<open>Configuration\<close>

record worker_config =
  cfg_worker_id :: string
  cfg_concurrency :: int
  cfg_batch_size :: int
  cfg_poll_interval :: duration
  cfg_lease_duration :: duration
  cfg_reap_interval :: duration
  cfg_base_backoff :: duration
  cfg_max_backoff :: duration
  cfg_shutdown_cleanup_timeout :: duration

definition DefaultWorkerConfig :: "string \<Rightarrow> worker_config" where
  "DefaultWorkerConfig uuid = \<lparr>cfg_worker_id = ''worker-'' @ take 8 uuid, cfg_concurrency = 4, cfg_batch_size = 4,
     cfg_poll_interval = Second, cfg_lease_duration = 30 * Second, cfg_reap_interval = 10 * Second,
     cfg_base_backoff = 2 * Second, cfg_max_backoff = 60 * Second, cfg_shutdown_cleanup_timeout = 5 * Second\<rparr>"

text \<open>The configuration \<open>NewWorker\<close> stores.\<close>

definition NewWorker :: "worker_config \<Rightarrow> worker_config" where
  "NewWorker cfg0 =
    (let cfg = cfg0\<lparr>cfg_concurrency := (if cfg_concurrency cfg0 \<le> 0 then 1 else cfg_concurrency cfg0)\<rparr>
     in cfg\<lparr>
       cfg_batch_size := (if cfg_batch_size cfg \<le> 0 then cfg_concurrency cfg else cfg_batch_size cfg),
       cfg_poll_interval := (if cfg_poll_interval cfg \<le> 0 then Second else cfg_poll_interval cfg),
       cfg_lease_duration := (if cfg_lease_duration cfg \<le> 0 then 30 * Second else cfg_lease_duration cfg),
       cfg_reap_interval := (if cfg_reap_interval cfg \<le> 0 then 10 * Second else cfg_reap_interval cfg),
       cfg_shutdown_cleanup_timeout :=
         (if cfg_shutdown_cleanup_timeout cfg \<le> 0 then 5 * Second else cfg_shutdown_cleanup_timeout cfg)\<rparr>)"

definition undispatchedClaimOperationTimeout :: "worker_config \<Rightarrow> duration" where
  "undispatchedClaimOperationTimeout cfg =
    (let t0 = go_div (cfg_lease_duration cfg) 4;
         t1 = (if t0 \<le> 0 then cfg_lease_duration cfg else t0)
     in if t1 > Second then Second else t1)"

definition finalizationOperationTimeout :: "worker_config \<Rightarrow> duration" where
  "finalizationOperationTimeout cfg =
    (let t0 = go_div (cfg_lease_duration cfg) 4;
         t1 = (if t0 < 500 * Millisecond then 500 * Millisecond else t0)
     in if t1 > Second then Second else t1)"

definition finalizationRetryDelay :: "worker_config \<Rightarrow> duration" where
  "finalizationRetryDelay cfg =
    (let d0 = cfg_poll_interval cfg;
         d1 = (if d0 < 25 * Millisecond then 25 * Millisecond else d0)
     in if d1 > Second then Second else d1)"

text \<open>The period of \<open>LeaseRenewer.run\<close> and of the renewer during finalization.\<close>

definition renew_interval :: "duration \<Rightarrow> duration" where
  "renew_interval leaseDuration =
    (let i = go_div leaseDuration 3 in if i < 100 * Millisecond then 100 * Millisecond else i)"

section \<open>Talking to the store\<close>

datatype reply = Delivered | LostBefore go_error | LostAfter go_error

record schedule =
  sc_now :: "nat \<Rightarrow> time"
  sc_env :: "nat \<Rightarrow> db \<Rightarrow> db"
  sc_reply :: "nat \<Rightarrow> reply"
  sc_stop :: "nat \<Rightarrow> bool"
  sc_cleanup_ended :: "nat \<Rightarrow> bool"
  sc_job_cause :: "nat \<Rightarrow> go_error option"
  sc_final_cause :: "nat \<Rightarrow> go_error option"

type_synonym world = "nat \<times> db"

definition store_call ::
  "schedule \<Rightarrow> (time \<Rightarrow> db \<Rightarrow> (go_error + 'a) \<times> db) \<Rightarrow> world \<Rightarrow> (go_error + 'a) \<times> world" where
  "store_call sch f s =
    (case s of (k, d0) \<Rightarrow>
      let d = sc_env sch k d0; out = f (sc_now sch k) d
      in case sc_reply sch k of
           Delivered \<Rightarrow> (fst out, (Suc k, snd out))
         | LostBefore e \<Rightarrow> (Inl e, (Suc k, d))
         | LostAfter e \<Rightarrow> (Inl e, (Suc k, snd out)))"

definition tick :: "world \<Rightarrow> world" where
  "tick s = (Suc (fst s), snd s)"

definition read_job :: "schedule \<Rightarrow> int \<Rightarrow> world \<Rightarrow> (go_error + analysis_job) \<times> world" where
  "read_job sch i = store_call sch (\<lambda>now d. (GetJobByID i d, d))"

text \<open>\<open>errors.Join\<close> of two errors, either of which may be \<open>nil\<close>.\<close>

definition errors_join :: "go_error option \<Rightarrow> go_error option \<Rightarrow> go_error option" where
  "errors_join a b =
    (case (a, b) of
       (None, None) \<Rightarrow> None
     | (Some x, None) \<Rightarrow> Some (Errorf (error_text x) [x])
     | (None, Some y) \<Rightarrow> Some (Errorf (error_text y) [y])
     | (Some x, Some y) \<Rightarrow> Some (Errorf (error_text x @ [char_of (10::nat)] @ error_text y) [x, y]))"

section \<open>Worker state\<close>

record worker_state =
  ws_active :: "int list"
  ws_stopping :: bool
  ws_dispatch_stopped :: bool
  ws_cancelled :: "(int \<times> go_error) list"
  ws_finalization_errors :: "(int \<times> go_error) list"

definition registerActive :: "int \<Rightarrow> worker_state \<Rightarrow> worker_state" where
  "registerActive i ws =
    (if ws_stopping ws then ws\<lparr>ws_cancelled := (i, ErrWorkerShutdown) # ws_cancelled ws\<rparr>
     else ws\<lparr>ws_active := i # removeAll i (ws_active ws)\<rparr>)"

definition replaceActive :: "int \<Rightarrow> worker_state \<Rightarrow> worker_state" where
  "replaceActive i ws =
    (if ws_stopping ws then ws\<lparr>ws_cancelled := (i, ErrWorkerShutdown) # ws_cancelled ws\<rparr>
     else ws\<lparr>ws_active := i # removeAll i (ws_active ws)\<rparr>)"

definition unregisterActive :: "int \<Rightarrow> worker_state \<Rightarrow> worker_state" where
  "unregisterActive i ws = ws\<lparr>ws_active := removeAll i (ws_active ws)\<rparr>"

definition cancelActive :: "go_error \<Rightarrow> worker_state \<Rightarrow> worker_state" where
  "cancelActive cause ws = ws\<lparr>ws_stopping := True,
     ws_cancelled := map (\<lambda>i. (i, cause)) (ws_active ws) @ ws_cancelled ws\<rparr>"

definition clearFinalizationError :: "int \<Rightarrow> worker_state \<Rightarrow> worker_state" where
  "clearFinalizationError i ws =
    ws\<lparr>ws_finalization_errors := filter (\<lambda>(j, e). j \<noteq> i) (ws_finalization_errors ws)\<rparr>"

definition recordFinalizationError :: "int \<Rightarrow> go_error \<Rightarrow> worker_state \<Rightarrow> worker_state" where
  "recordFinalizationError i e ws =
    ws\<lparr>ws_finalization_errors := (i, e) # filter (\<lambda>(j, e). j \<noteq> i) (ws_finalization_errors ws)\<rparr>"

definition unresolvedFinalizationError :: "worker_state \<Rightarrow> go_error option" where
  "unresolvedFinalizationError ws =
    (case ws_finalization_errors ws of
       [] \<Rightarrow> None
     | (i, e) # _ \<Rightarrow>
         Some (errorf_w (''job '' @ itoa i @ '' has unresolved terminal finalization'') e))"

definition requestStop :: "worker_state \<Rightarrow> worker_state" where
  "requestStop ws = ws\<lparr>ws_dispatch_stopped := True\<rparr>"

text \<open>
  \<open>StopGracefully\<close>: \<open>loops\<close> and \<open>drain\<close> are the results of waiting for the two loops and
  for the jobs in flight under the caller's context.
\<close>

definition StopGracefully ::
  "go_error option \<Rightarrow> go_error option \<Rightarrow> worker_state \<Rightarrow> go_error option \<times> worker_state" where
  "StopGracefully loops drain ws0 =
    (let ws = requestStop ws0
     in case loops of
          Some e \<Rightarrow> (Some e, cancelActive ErrWorkerShutdown ws)
        | None \<Rightarrow>
          (case drain of
             Some e \<Rightarrow> (Some e, cancelActive ErrWorkerShutdown ws)
           | None \<Rightarrow> (unresolvedFinalizationError ws, ws)))"

section \<open>Claiming under a capacity\<close>

text \<open>The loop \<open>reserveSlots\<close> on a semaphore of which \<open>occupied\<close> slots are taken.\<close>

function reserveSlots :: "int \<Rightarrow> int \<Rightarrow> int \<Rightarrow> int \<Rightarrow> int \<times> int" where
  "reserveSlots batchSize capacity occupied reserved =
    (if reserved < batchSize \<and> occupied < capacity
     then reserveSlots batchSize capacity (occupied + 1) (reserved + 1)
     else (occupied, reserved))"
  by pat_completeness auto
termination
  by (relation "measure (\<lambda>(b, c, n, r). nat (c - n))") auto

declare reserveSlots.simps [simp del]

record claim_loop =
  cl_sem :: int
  cl_in_flight :: "analysis_job list"

text \<open>One round of \<open>claimLoop\<close>: reserve, claim, give back the slots that were not filled.\<close>

definition claimLoop_round ::
  "schedule \<Rightarrow> worker_config \<Rightarrow> (int \<Rightarrow> bool) \<Rightarrow> (nat \<Rightarrow> string) \<Rightarrow> world \<times> claim_loop \<Rightarrow> world \<times> claim_loop" where
  "claimLoop_round sch cfg locked tok x =
    (case x of (s, cl) \<Rightarrow>
      case reserveSlots (cfg_batch_size cfg) (cfg_concurrency cfg) (cl_sem cl) 0 of
        (occupied, reserved) \<Rightarrow>
          if reserved = 0 then (tick s, cl\<lparr>cl_sem := occupied\<rparr>)
          else case store_call sch (\<lambda>now d. case ClaimJobs locked tok now (cfg_worker_id cfg) reserved
                      (cfg_lease_duration cfg) d of (js, d') \<Rightarrow> (Inr js, d')) s of
            (Inl e, s') \<Rightarrow> (s', cl\<lparr>cl_sem := occupied - reserved\<rparr>)
          | (Inr jobs, s') \<Rightarrow>
              (s', cl\<lparr>cl_sem := occupied - (reserved - int (length jobs)),
                     cl_in_flight := cl_in_flight cl @ jobs\<rparr>))"

text \<open>A job goroutine ends: its slot is released.\<close>

definition job_done :: "analysis_job \<Rightarrow> claim_loop \<Rightarrow> claim_loop" where
  "job_done j cl = cl\<lparr>cl_sem := cl_sem cl - 1, cl_in_flight := remove1 j (cl_in_flight cl)\<rparr>"

definition reapLoop_tick ::
  "schedule \<Rightarrow> (int \<Rightarrow> int) \<Rightarrow> (analysis_job list \<Rightarrow> analysis_job list) \<Rightarrow> (int \<Rightarrow> bool) \<Rightarrow> world \<Rightarrow>
    (go_error + int) \<times> world" where
  "reapLoop_tick sch rnd scan locked =
    store_call sch (\<lambda>now. ReapExpiredJobs rnd scan locked now 50)"

section \<open>The start boundary\<close>

datatype executionStartResolution =
  executionStartUnknown | executionStartNotStarted | executionStartStarted | executionStartOwnershipLost

definition undispatchedClaimToken :: "analysis_job \<Rightarrow> string" where
  "undispatchedClaimToken job = (case job_claim_token job of None \<Rightarrow> '''' | Some t \<Rightarrow> t)"

definition resolveExecutionStart ::
  "schedule \<Rightarrow> worker_config \<Rightarrow> analysis_job \<Rightarrow> world \<Rightarrow>
    (executionStartResolution \<times> int \<times> go_error option) \<times> world" where
  "resolveExecutionStart sch cfg job s =
    (case read_job sch (job_id job) s of
       (Inl e, s') \<Rightarrow> ((executionStartUnknown, 0, Some e), s')
     | (Inr current, s') \<Rightarrow>
       if job_id current \<noteq> job_id job \<or> job_status current \<noteq> StatusRunning
          \<or> job_worker_id current \<noteq> Some (cfg_worker_id cfg)
          \<or> job_claim_token current \<noteq> Some (undispatchedClaimToken job)
          \<or> job_execution_generation current \<noteq> job_execution_generation job
       then ((executionStartOwnershipLost, 0, Some ErrOwnershipLost), s')
       else if job_execution_started current
       then ((executionStartStarted, job_attempt_count current, None), s')
       else ((executionStartNotStarted, job_attempt_count current, None), s'))"

fun startClaimedExecution ::
  "schedule \<Rightarrow> worker_config \<Rightarrow> analysis_job \<Rightarrow> nat \<Rightarrow> world \<Rightarrow>
    ((executionStartResolution \<times> int \<times> go_error option) \<times> world) option" where
  "startClaimedExecution sch cfg job 0 s = None"
| "startClaimedExecution sch cfg job (Suc fuel) s =
    (if sc_stop sch (fst s) then Some ((executionStartNotStarted, 0, None), s)
     else case store_call sch (\<lambda>now. MarkExecutionStarted now (job_id job) (cfg_worker_id cfg)
                 (undispatchedClaimToken job) (job_execution_generation job)) s of
       (Inr attemptCount, s1) \<Rightarrow> Some ((executionStartStarted, attemptCount, None), s1)
     | (Inl err, s1) \<Rightarrow>
       if errors_is err ErrOwnershipLost then Some ((executionStartOwnershipLost, 0, Some err), s1)
       else case resolveExecutionStart sch cfg job s1 of
         ((state, durableAttemptCount, readErr), s2) \<Rightarrow>
           (case state of
              executionStartStarted \<Rightarrow> Some ((executionStartStarted, durableAttemptCount, None), s2)
            | executionStartOwnershipLost \<Rightarrow>
                Some ((executionStartOwnershipLost, 0, errors_join (Some err) readErr), s2)
            | executionStartUnknown \<Rightarrow>
                Some ((executionStartUnknown, 0, errors_join (Some err) readErr), s2)
            | executionStartNotStarted \<Rightarrow>
                if sc_stop sch (fst s2) then Some ((executionStartNotStarted, 0, Some err), s2)
                else case store_call sch (\<lambda>now. RenewLease now (job_id job) (cfg_worker_id cfg)
                            (undispatchedClaimToken job) (now + cfg_lease_duration cfg)) s2 of
                  (renewed, s3) \<Rightarrow>
                    (case renewed of
                       Inl renewErr \<Rightarrow>
                         if errors_is renewErr ErrOwnershipLost
                         then Some ((executionStartOwnershipLost, 0, errors_join (Some err) (Some renewErr)), s3)
                         else if sc_stop sch (fst s3)
                         then Some ((executionStartNotStarted, durableAttemptCount, errors_join (Some err) readErr), s3)
                         else startClaimedExecution sch cfg job fuel (tick s3)
                     | Inr _ \<Rightarrow>
                         if sc_stop sch (fst s3)
                         then Some ((executionStartNotStarted, durableAttemptCount, errors_join (Some err) readErr), s3)
                         else startClaimedExecution sch cfg job fuel (tick s3))))"

section \<open>Returning undispatched claims\<close>

fun renew_pending :: "schedule \<Rightarrow> worker_config \<Rightarrow> analysis_job list \<Rightarrow> world \<Rightarrow> world" where
  "renew_pending sch cfg [] s = s"
| "renew_pending sch cfg (job # jobs) s =
    (if sc_cleanup_ended sch (fst s) then renew_pending sch cfg jobs s
     else renew_pending sch cfg jobs (snd (store_call sch (\<lambda>now. RenewLease now (job_id job) (cfg_worker_id cfg)
            (undispatchedClaimToken job) (now + cfg_lease_duration cfg)) s)))"

fun return_pending :: "schedule \<Rightarrow> worker_config \<Rightarrow> analysis_job list \<Rightarrow> world \<Rightarrow> analysis_job list \<times> world" where
  "return_pending sch cfg [] s = ([], s)"
| "return_pending sch cfg (job # jobs) s =
    (if sc_cleanup_ended sch (fst s)
     then (case return_pending sch cfg jobs s of (ps, s') \<Rightarrow> (job # ps, s'))
     else case store_call sch (\<lambda>now. ReturnUndispatchedClaim now (job_id job) (cfg_worker_id cfg)
                 (undispatchedClaimToken job) (job_execution_generation job)) s of
       (Inr _, s1) \<Rightarrow> return_pending sch cfg jobs s1
     | (Inl err, s1) \<Rightarrow>
         if errors_is err ErrOwnershipLost then return_pending sch cfg jobs s1
         else (case return_pending sch cfg jobs s1 of (ps, s') \<Rightarrow> (job # ps, s')))"

fun returnUndispatchedClaims ::
  "schedule \<Rightarrow> worker_config \<Rightarrow> nat \<Rightarrow> analysis_job list \<Rightarrow> world \<Rightarrow> (analysis_job list \<times> world) option" where
  "returnUndispatchedClaims sch cfg 0 pending s = None"
| "returnUndispatchedClaims sch cfg (Suc fuel) pending s =
    (if pending = [] then Some ([], s)
     else case return_pending sch cfg pending (renew_pending sch cfg pending s) of
       (pending', s') \<Rightarrow>
         if sc_cleanup_ended sch (fst s') then Some (pending', s')
         else if pending' = [] then Some ([], s')
         else returnUndispatchedClaims sch cfg fuel pending' (tick s'))"

section \<open>Resolving a finalization\<close>

definition sameExecutionClaim :: "analysis_job \<Rightarrow> analysis_job \<Rightarrow> string \<Rightarrow> bool" where
  "sameExecutionClaim claim current workerID \<longleftrightarrow>
    job_claim_token claim \<noteq> None \<and> job_claim_token current \<noteq> None \<and> job_worker_id current \<noteq> None
    \<and> job_execution_started claim \<and> job_execution_started current
    \<and> job_worker_id current = Some workerID
    \<and> job_claim_token current = job_claim_token claim
    \<and> job_execution_generation current = job_execution_generation claim"

definition cancelledFinalizationExpected :: "analysis_job \<Rightarrow> bool" where
  "cancelledFinalizationExpected job \<longleftrightarrow> job_status job = StatusCancelled \<and> job_cancel_requested job
    \<and> job_terminal_reason job = Some TerminalReasonCancelled"

definition successFinalizationExpected :: "analysis_job \<Rightarrow> bool" where
  "successFinalizationExpected job \<longleftrightarrow> job_status job = StatusSucceeded
    \<or> (job_status job = StatusCancelled \<and> job_cancel_requested job
       \<and> job_terminal_reason job = Some TerminalReasonCancelled)"

definition failureFinalizationExpected ::
  "error_class \<Rightarrow> string \<Rightarrow> terminal_reason option \<Rightarrow> bool \<Rightarrow> analysis_job \<Rightarrow> bool" where
  "failureFinalizationExpected cls code reason isTerminal job \<longleftrightarrow>
    (if cancelledFinalizationExpected job then True
     else if (isTerminal \<and> job_status job \<noteq> StatusFailed) \<or> (\<not> isTerminal \<and> job_status job \<noteq> StatusRetryWait)
     then False
     else if job_last_error_class job \<noteq> Some (error_class_text cls) \<or> job_last_error_code job \<noteq> Some code
     then False
     else if isTerminal then reason \<noteq> None \<and> job_terminal_reason job = reason
     else True)"

fun resolveFinalization ::
  "schedule \<Rightarrow> (nat \<Rightarrow> go_error option) \<Rightarrow> worker_config \<Rightarrow> analysis_job \<Rightarrow>
    (time \<Rightarrow> db \<Rightarrow> (go_error + unit) \<times> db) \<Rightarrow> (analysis_job \<Rightarrow> bool) \<Rightarrow> nat \<Rightarrow> go_error option \<Rightarrow> world \<Rightarrow>
    (go_error option \<times> world) option" where
  "resolveFinalization sch cause cfg claim finalize expected 0 lastErr s = None"
| "resolveFinalization sch cause cfg claim finalize expected (Suc fuel) lastErr s =
    (case cause (fst s) of
       Some e \<Rightarrow>
         Some (Some (case lastErr of
             None \<Rightarrow> e
           | Some l \<Rightarrow> Errorf (''finalization context ended after '' @ error_text l @ '': '' @ error_text e) [e]), s)
     | None \<Rightarrow>
       (case store_call sch finalize s of
          (Inr _, s1) \<Rightarrow> Some (None, s1)
        | (Inl err, s1) \<Rightarrow>
          (case read_job sch (job_id claim) s1 of
             (Inl readErr, s2) \<Rightarrow>
               if errors_is readErr SqlErrNoRows then Some (Some ErrOwnershipLost, s2)
               else resolveFinalization sch cause cfg claim finalize expected fuel
                 (Some (Errorf (''finalization failed ('' @ error_text err @
                    '') and durable state could not be read: '' @ error_text readErr) [readErr])) (tick s2)
           | (Inr current, s2) \<Rightarrow>
               if sameExecutionClaim claim current (cfg_worker_id cfg)
               then if expected current then Some (None, s2)
                    else if job_status current \<noteq> StatusRunning \<or> \<not> job_execution_started current
                    then Some (Some (Errorf (''job '' @ itoa (job_id claim) @
                           '' left the active claim without reaching the expected terminal state: status='' @
                           job_status_text (job_status current)) []), s2)
                    else resolveFinalization sch cause cfg claim finalize expected fuel (Some err) (tick s2)
               else Some (Some ErrOwnershipLost, s2))))"

section \<open>Finalizations a handler did itself\<close>

datatype atomicHandlerFinalizationResolution =
    atomicHandlerFinalizationUnresolved | atomicHandlerFinalizationAccepted
  | atomicHandlerFinalizationSameClaimRunning | atomicHandlerFinalizationOwnershipLost
  | atomicHandlerFinalizationStateConflict

text \<open>\<open>atomicHandlerFinalizationConflictError\<close>, an error that carries a status.\<close>

definition conflict_error :: "job_status \<Rightarrow> go_error" where
  "conflict_error st = Sentinel ''jobs.atomicHandlerFinalizationConflictError'' (job_status_text st)"

definition as_conflict :: "go_error \<Rightarrow> string option" where
  "as_conflict e = (case e of
     Sentinel n m \<Rightarrow> if n = ''jobs.atomicHandlerFinalizationConflictError'' then Some m else None
   | _ \<Rightarrow> None)"

definition durableJobStatusFromError :: "go_error \<Rightarrow> string" where
  "durableJobStatusFromError e = (case errors_as as_conflict e of Some st \<Rightarrow> st | None \<Rightarrow> ''UNKNOWN'')"

definition resolveAtomicHandlerFinalization ::
  "schedule \<Rightarrow> worker_config \<Rightarrow> analysis_job \<Rightarrow> job_status \<Rightarrow> world \<Rightarrow>
    (atomicHandlerFinalizationResolution \<times> go_error option) \<times> world" where
  "resolveAtomicHandlerFinalization sch cfg claim expectedStatus s =
    (case read_job sch (job_id claim) s of
       (Inl e, s') \<Rightarrow>
         if errors_is e SqlErrNoRows then ((atomicHandlerFinalizationOwnershipLost, Some ErrOwnershipLost), s')
         else ((atomicHandlerFinalizationUnresolved,
                Some (errorf_w ''read durable job after handler finalization error'' e)), s')
     | (Inr current, s') \<Rightarrow>
         if \<not> sameExecutionClaim claim current (cfg_worker_id cfg)
         then ((atomicHandlerFinalizationOwnershipLost, Some ErrOwnershipLost), s')
         else if isTerminalJobStatus expectedStatus \<and> job_status current = expectedStatus
         then ((atomicHandlerFinalizationAccepted, None), s')
         else if job_status current = StatusRunning \<and> job_execution_started current
         then ((atomicHandlerFinalizationSameClaimRunning, None), s')
         else ((atomicHandlerFinalizationStateConflict, Some (conflict_error (job_status current))), s'))"

definition preserveProviderOutcomeUnknownPolicy :: "failure_policy option \<Rightarrow> bool" where
  "preserveProviderOutcomeUnknownPolicy policy \<longleftrightarrow>
    (case policy of None \<Rightarrow> False
     | Some p \<Rightarrow> fp_error_class p = ErrorClassPermanent \<and> fp_error_code p = ''PROVIDER_OUTCOME_UNKNOWN'')"

section \<open>Executing a job\<close>

datatype 'a exec = Done 'a | OutOfFuel | Panic

type_synonym handler = "analysis_job \<Rightarrow> world \<Rightarrow> go_error option \<times> world"

text \<open>The closure \<open>finish\<close>: the terminal store call under the context of the finalization.\<close>

definition finish ::
  "schedule \<Rightarrow> worker_config \<Rightarrow> nat \<Rightarrow> analysis_job \<Rightarrow> (time \<Rightarrow> db \<Rightarrow> (go_error + unit) \<times> db) \<Rightarrow>
    (analysis_job \<Rightarrow> bool) \<Rightarrow> world \<times> worker_state \<Rightarrow> (world \<times> worker_state) exec" where
  "finish sch cfg fuel job finalize expected x =
    (case x of (s, ws0) \<Rightarrow>
      let ws = replaceActive (job_id job) ws0
      in case resolveFinalization sch (sc_final_cause sch) cfg job finalize expected fuel None s of
           None \<Rightarrow> OutOfFuel
         | Some (None, s') \<Rightarrow> Done (s', clearFinalizationError (job_id job) ws)
         | Some (Some err, s') \<Rightarrow>
             if \<not> errors_is err ErrOwnershipLost
             then Done (s', recordFinalizationError (job_id job) err ws)
             else Done (s', clearFinalizationError (job_id job) ws))"

definition finalize_success :: "worker_config \<Rightarrow> analysis_job \<Rightarrow> time \<Rightarrow> db \<Rightarrow> (go_error + unit) \<times> db" where
  "finalize_success cfg job now =
    ConditionalFinalizeSuccess now (job_id job) (cfg_worker_id cfg) (undispatchedClaimToken job)"

definition finalize_cancel :: "worker_config \<Rightarrow> analysis_job \<Rightarrow> time \<Rightarrow> db \<Rightarrow> (go_error + unit) \<times> db" where
  "finalize_cancel cfg job now =
    ConditionalFinalizeCancel now (job_id job) (cfg_worker_id cfg) (undispatchedClaimToken job)"

definition finalize_failure ::
  "worker_config \<Rightarrow> analysis_job \<Rightarrow> error_class \<Rightarrow> string \<Rightarrow> string \<Rightarrow> terminal_reason option \<Rightarrow> bool \<Rightarrow> time \<Rightarrow>
    time \<Rightarrow> db \<Rightarrow> (go_error + unit) \<times> db" where
  "finalize_failure cfg job cls code message reason isTerminal nextRun now =
    ConditionalFinalizeFailure now (job_id job) (cfg_worker_id cfg) (undispatchedClaimToken job)
      cls code message reason isTerminal nextRun"

text \<open>The part of \<open>executeJob\<close> after the handler's error and the cause of its context are settled.\<close>

definition conclude ::
  "schedule \<Rightarrow> (int \<Rightarrow> int) \<Rightarrow> worker_config \<Rightarrow> nat \<Rightarrow> analysis_job \<Rightarrow> failure_policy option \<Rightarrow> go_error option \<Rightarrow>
    world \<times> worker_state \<Rightarrow> (world \<times> worker_state) exec" where
  "conclude sch rnd cfg fuel job policy result x =
    (case result of
       None \<Rightarrow> finish sch cfg fuel job (finalize_success cfg job) successFinalizationExpected x
     | Some err \<Rightarrow>
       if errors_is err ErrAlreadyFinalized then Done x
       else
         let errClass = (case policy of Some p \<Rightarrow> fp_error_class p | None \<Rightarrow> fst (ClassifyError (Some err)));
             errCode = (case policy of Some p \<Rightarrow> fp_error_code p | None \<Rightarrow> snd (ClassifyError (Some err)));
             message = (case policy of Some p \<Rightarrow> fp_error_message p | None \<Rightarrow> error_text err)
         in if errClass = ErrorClassCancelled
            then finish sch cfg fuel job (finalize_cancel cfg job) cancelledFinalizationExpected x
            else if errors_is err ErrOwnershipLost \<or> errClass = ErrorClassOwnershipLost then Done x
            else
              (case policy of
                 Some p \<Rightarrow>
                   finish sch cfg fuel job
                     (finalize_failure cfg job errClass errCode message (fp_terminal_reason p) (fp_terminal p) (fp_next_run_at p))
                     (failureFinalizationExpected errClass errCode (fp_terminal_reason p) (fp_terminal p)) x
               | None \<Rightarrow>
                   if errClass = ErrorClassPermanent \<or> job_attempt_count job \<ge> job_max_attempts job
                   then
                     let reason = Some (if errClass = ErrorClassPermanent then TerminalReasonPermanent
                                        else TerminalReasonRetryableExhausted)
                     in finish sch cfg fuel job (finalize_failure cfg job errClass errCode message reason True 0)
                          (failureFinalizationExpected errClass errCode reason True) x
                   else
                     case CalculateBackoff rnd (job_attempt_count job) (cfg_base_backoff cfg) (cfg_max_backoff cfg) of
                       None \<Rightarrow> Panic
                     | Some backoff \<Rightarrow>
                         finish sch cfg fuel job
                           (finalize_failure cfg job errClass errCode message None False (sc_now sch (fst (fst x)) + backoff))
                           (failureFinalizationExpected errClass errCode None False) x))"

text \<open>The cause of the job's context decides over the handler's error.\<close>

definition after_cause ::
  "schedule \<Rightarrow> (int \<Rightarrow> int) \<Rightarrow> worker_config \<Rightarrow> nat \<Rightarrow> analysis_job \<Rightarrow> failure_policy option \<Rightarrow> go_error option \<Rightarrow>
    world \<times> worker_state \<Rightarrow> (world \<times> worker_state) exec" where
  "after_cause sch rnd cfg fuel job policy err x =
    (case sc_job_cause sch (fst (fst x)) of
       None \<Rightarrow> conclude sch rnd cfg fuel job policy err x
     | Some c \<Rightarrow>
       if errors_is c ErrWorkerShutdown \<and> \<not> preserveProviderOutcomeUnknownPolicy policy then Done x
       else if errors_is c ErrOwnershipLost \<or> \<not> preserveProviderOutcomeUnknownPolicy policy
       then conclude sch rnd cfg fuel job None (Some c) x
       else conclude sch rnd cfg fuel job policy err x)"

text \<open>The body of \<open>executeJob\<close> between registering the job as active and its deferred removal.\<close>

definition execute_active ::
  "schedule \<Rightarrow> (int \<Rightarrow> int) \<Rightarrow> worker_config \<Rightarrow> (job_type \<Rightarrow> handler option) \<Rightarrow> nat \<Rightarrow> analysis_job \<Rightarrow>
    world \<times> worker_state \<Rightarrow> (world \<times> worker_state) exec" where
  "execute_active sch rnd cfg handlers fuel job x0 =
    (case x0 of (s0, ws) \<Rightarrow>
      case handlers (job_type job) of
        None \<Rightarrow>
          finish sch cfg fuel job
            (finalize_failure cfg job ErrorClassPermanent ''NO_HANDLER_REGISTERED''
              (''no handler registered for job type '' @ job_type_text (job_type job)) (Some TerminalReasonPermanent) True 0)
            (failureFinalizationExpected ErrorClassPermanent ''NO_HANDLER_REGISTERED'' (Some TerminalReasonPermanent) True)
            (s0, ws)
      | Some h \<Rightarrow>
        if job_cancel_requested job
        then finish sch cfg fuel job (finalize_cancel cfg job) cancelledFinalizationExpected (s0, ws)
        else case h job s0 of
          (err, s1) \<Rightarrow>
            (case (case err of None \<Rightarrow> None | Some e \<Rightarrow> errors_as as_atomic e) of
               None \<Rightarrow> after_cause sch rnd cfg fuel job None err (s1, ws)
             | Some (expectedStatus, cause, policy) \<Rightarrow>
               (case resolveAtomicHandlerFinalization sch cfg job expectedStatus s1 of
                  ((resolution, resolutionErr), s2) \<Rightarrow>
                    (case resolution of
                       atomicHandlerFinalizationAccepted \<Rightarrow> Done (s2, clearFinalizationError (job_id job) ws)
                     | atomicHandlerFinalizationSameClaimRunning \<Rightarrow>
                         after_cause sch rnd cfg fuel job policy
                           (Some (case cause of Some c \<Rightarrow> c | None \<Rightarrow> AtomicHandlerFinalizationError expectedStatus cause policy))
                           (s2, ws)
                     | atomicHandlerFinalizationOwnershipLost \<Rightarrow> Done (s2, clearFinalizationError (job_id job) ws)
                     | atomicHandlerFinalizationStateConflict \<Rightarrow>
                         let r = (case resolutionErr of Some r \<Rightarrow> r | None \<Rightarrow> ErrOwnershipLost)
                         in Done (s2, recordFinalizationError (job_id job)
                              (errorf_w (ErrorCodeAtomicFinalizationStateConflict @ '': expected '' @
                                 job_status_text expectedStatus @ '', durable job is '' @ durableJobStatusFromError r) r) ws)
                     | atomicHandlerFinalizationUnresolved \<Rightarrow>
                         let r = (case resolutionErr of Some r \<Rightarrow> r | None \<Rightarrow> ErrOwnershipLost)
                         in Done (s2, recordFinalizationError (job_id job)
                              (errorf_w ''handler-owned atomic finalization could not be reconciled'' r) ws)))))"

definition executeJob ::
  "schedule \<Rightarrow> (int \<Rightarrow> int) \<Rightarrow> worker_config \<Rightarrow> (job_type \<Rightarrow> handler option) \<Rightarrow> nat \<Rightarrow> analysis_job \<Rightarrow>
    world \<times> worker_state \<Rightarrow> (world \<times> worker_state) exec" where
  "executeJob sch rnd cfg handlers fuel job x =
    (case x of (s, ws) \<Rightarrow>
      case execute_active sch rnd cfg handlers fuel job (s, registerActive (job_id job) ws) of
        Done (s', ws') \<Rightarrow> Done (s', unregisterActive (job_id job) ws')
      | other \<Rightarrow> other)"

text \<open>Resolving the start boundary, then the launch gate, then the execution.\<close>

definition startAndDispatchClaim ::
  "schedule \<Rightarrow> (int \<Rightarrow> int) \<Rightarrow> worker_config \<Rightarrow> (job_type \<Rightarrow> handler option) \<Rightarrow> nat \<Rightarrow> analysis_job \<Rightarrow>
    world \<times> worker_state \<Rightarrow> (world \<times> worker_state) exec" where
  "startAndDispatchClaim sch rnd cfg handlers fuel job x =
    (case x of (s, ws) \<Rightarrow>
      case startClaimedExecution sch cfg job fuel s of
        None \<Rightarrow> OutOfFuel
      | Some ((state, attemptCount, err), s1) \<Rightarrow>
        (case state of
           executionStartOwnershipLost \<Rightarrow> Done (s1, ws)
         | executionStartUnknown \<Rightarrow> Done (s1, ws)
         | executionStartNotStarted \<Rightarrow>
             (case returnUndispatchedClaims sch cfg fuel [job] s1 of
                None \<Rightarrow> OutOfFuel
              | Some (pending, s2) \<Rightarrow> Done (s2, ws))
         | executionStartStarted \<Rightarrow>
             let job' = job\<lparr>job_attempt_count := attemptCount, job_execution_started := True\<rparr>
             in if ws_dispatch_stopped ws \<or> sc_stop sch (fst s1) then Done (s1, ws)
                else executeJob sch rnd cfg handlers fuel job' (s1, ws)))"

section \<open>The background goroutines of an execution\<close>

text \<open>
  One tick of \<open>LeaseRenewer.run\<close> and of the cancellation poll: \<open>None\<close> keeps the goroutine
  going, \<open>Some cause\<close> cancels the job's context with that cause and ends it.
\<close>

definition lease_renewer_tick ::
  "schedule \<Rightarrow> int \<Rightarrow> string \<Rightarrow> string \<Rightarrow> duration \<Rightarrow> world \<Rightarrow> go_error option \<times> world" where
  "lease_renewer_tick sch jobID workerID claimToken leaseDuration s =
    (case store_call sch (\<lambda>now. RenewLease now jobID workerID claimToken (now + leaseDuration)) s of
       (Inr _, s') \<Rightarrow> (None, s')
     | (Inl e, s') \<Rightarrow>
         (Some (if errors_is e ErrOwnershipLost then ErrOwnershipLost
                else Errorf (error_text ErrLeaseRenewFailed @ '': '' @ error_text e) [ErrLeaseRenewFailed, e]), s'))"

definition cancel_poll_tick ::
  "schedule \<Rightarrow> int \<Rightarrow> string \<Rightarrow> string \<Rightarrow> world \<Rightarrow> go_error option \<times> world" where
  "cancel_poll_tick sch jobID workerID claimToken s =
    (case store_call sch (\<lambda>now d. (IsCancelRequested jobID workerID claimToken d, d)) s of
       (Inl e, s') \<Rightarrow>
         (Some (if errors_is e ErrOwnershipLost then ErrOwnershipLost
                else Errorf (error_text ErrCancelPollFailed @ '': '' @ error_text e) [ErrCancelPollFailed, e]), s')
     | (Inr requested, s') \<Rightarrow> (if requested then Some ErrUserCancellation else None, s'))"

end
