(* ===== verification/Worker_Properties.thy ===== *)
theory Worker_Properties
  imports Job_Worker Scenario
begin

text \<open>
  Properties of the worker against a store it shares with other processes and reaches over a
  network that loses replies: the attempt is charged exactly once, a finalization that is
  reported as done is done, the loops end on shutdown, capacity is respected, and the
  whole worker moves the database only along the steps of the system.
\<close>

section \<open>Schedules\<close>

text \<open>
  The other processes move the database along the system's steps, and the error of a lost
  reply is not one of the two the store uses to answer that the claim is gone.
\<close>

definition network_error :: "reply \<Rightarrow> bool" where
  "network_error r \<longleftrightarrow> (case r of Delivered \<Rightarrow> True
     | LostBefore e \<Rightarrow> \<not> errors_is e ErrOwnershipLost \<and> \<not> errors_is e SqlErrNoRows
     | LostAfter e \<Rightarrow> \<not> errors_is e ErrOwnershipLost \<and> \<not> errors_is e SqlErrNoRows)"

definition shared_store :: "(string \<Rightarrow> bool) \<Rightarrow> schedule \<Rightarrow> bool" where
  "shared_store F sch \<longleftrightarrow> (\<forall>k d. (system_step F)\<^sup>*\<^sup>* d (sc_env sch k d)) \<and> (\<forall>k. network_error (sc_reply sch k))"

abbreviation system_steps :: "(string \<Rightarrow> bool) \<Rightarrow> db \<Rightarrow> db \<Rightarrow> bool" where
  "system_steps F \<equiv> (system_step F)\<^sup>*\<^sup>*"

lemma shared_store_env: "shared_store F sch \<Longrightarrow> system_steps F d (sc_env sch k d)"
  by (simp add: shared_store_def)

lemma shared_store_error:
  "shared_store F sch \<Longrightarrow> sc_reply sch k = LostBefore e \<or> sc_reply sch k = LostAfter e \<Longrightarrow>
    \<not> errors_is e ErrOwnershipLost \<and> \<not> errors_is e SqlErrNoRows"
  by (auto simp: shared_store_def network_error_def dest!: spec[of _ k])

lemma store_call_steps:
  assumes "shared_store F sch" and "\<And>now d. system_steps F d (snd (f now d))"
  shows "system_steps F (snd s) (snd (snd (store_call sch f s)))"
proof -
  obtain k d where s: "s = (k, d)" by (cases s)
  have "system_steps F d (sc_env sch k d)" using assms(1) by (rule shared_store_env)
  moreover have "system_steps F (sc_env sch k d) (snd (f (sc_now sch k) (sc_env sch k d)))" by (rule assms(2))
  ultimately show ?thesis
    by (auto simp: s store_call_def Let_def split: reply.split intro: rtranclp_trans)
qed

text \<open>An answer of the store is the answer of the operation on the database as it then was.\<close>

lemma store_call_Inr:
  assumes "store_call sch f s = (Inr x, s')"
  shows "\<exists>d. f (sc_now sch (fst s)) d = (Inr x, snd s') \<and> d = sc_env sch (fst s) (snd s)"
  using assms by (cases s) (auto simp: store_call_def Let_def prod_eq_iff split: reply.split_asm)

lemma store_call_Inl:
  assumes "store_call sch f s = (Inl e, s')" and "shared_store F sch" and "errors_is e ErrOwnershipLost \<or> errors_is e SqlErrNoRows"
  shows "\<exists>d. f (sc_now sch (fst s)) d = (Inl e, snd s') \<and> d = sc_env sch (fst s) (snd s)"
proof (cases "sc_reply sch (fst s)")
  case Delivered
  with assms(1) show ?thesis by (cases s) (auto simp: store_call_def Let_def prod_eq_iff)
next
  case (LostBefore e')
  with assms(1) have "e' = e" by (cases s) (auto simp: store_call_def Let_def)
  with shared_store_error[OF assms(2), of "fst s" e] LostBefore assms(3) show ?thesis by simp
next
  case (LostAfter e')
  with assms(1) have "e' = e" by (cases s) (auto simp: store_call_def Let_def)
  with shared_store_error[OF assms(2), of "fst s" e] LostAfter assms(3) show ?thesis by simp
qed

lemma store_call_tick: "fst (snd (store_call sch f s)) = Suc (fst s)"
  by (cases s) (auto simp: store_call_def Let_def split: reply.split)

lemma read_job_steps: "shared_store F sch \<Longrightarrow> system_steps F (snd s) (snd (snd (read_job sch i s)))"
  unfolding read_job_def by (rule store_call_steps) auto

lemma read_job_Inr: "read_job sch i s = (Inr r, s') \<Longrightarrow> job_of (snd s') i = Some r"
  unfolding read_job_def
  by (drule store_call_Inr) (auto simp: GetJobByID_def split: option.split_asm)

lemma read_job_tick: "fst (snd (read_job sch i s)) = Suc (fst s)"
  unfolding read_job_def by (rule store_call_tick)

lemma tick_simps [simp]: "snd (tick s) = snd s" "fst (tick s) = Suc (fst s)"
  by (simp_all add: tick_def)

text \<open>The operations the worker calls are steps of the system.\<close>

lemma worker_ops_steps:
  "system_steps F d (snd (MarkExecutionStarted now i w t g d))"
  "system_steps F d (snd (ReturnUndispatchedClaim now i w t g d))"
  "system_steps F d (snd (RenewLease now i w t l d))"
  "system_steps F d (snd (finalize_success cfg job now d))"
  "system_steps F d (snd (finalize_cancel cfg job now d))"
  by (simp_all add: finalize_success_def finalize_cancel_def r_into_rtranclp sys_start sys_return sys_renew
      sys_succeed sys_cancel)

section \<open>Following one claim\<close>

text \<open>
  What no step can do to a job while a claim under a token that is not drawn again lasts:
  change the generation, the maximum, or the number of attempts other than by the start.
\<close>

definition charged :: "string \<Rightarrow> string \<Rightarrow> int \<Rightarrow> int \<Rightarrow> int \<Rightarrow> analysis_job \<Rightarrow> bool" where
  "charged w t g a m r \<longleftrightarrow> (holds_claim w t r \<longrightarrow> job_execution_generation r = g \<and> job_max_attempts r = m
     \<and> job_attempt_count r = (if job_execution_started r then a + 1 else a))"

lemma charged_step: "life_step F r r' \<Longrightarrow> \<not> F t \<Longrightarrow> charged w t g a m r \<Longrightarrow> charged w t g a m r'"
  by (erule life_stepE) (auto simp: charged_def holds_claim_def reset_job_row_def)

lemma charged_steps: "life_steps F r r' \<Longrightarrow> \<not> F t \<Longrightarrow> charged w t g a m r \<Longrightarrow> charged w t g a m r'"
  by (induction rule: rtranclp_induct) (auto dest: charged_step)

text \<open>Once started, a job under its claim stays started.\<close>

definition running_charged :: "string \<Rightarrow> string \<Rightarrow> int \<Rightarrow> int \<Rightarrow> analysis_job \<Rightarrow> bool" where
  "running_charged w t n m r \<longleftrightarrow> (holds_claim w t r \<longrightarrow> job_execution_started r \<and> job_attempt_count r = n \<and> job_max_attempts r = m)"

lemma running_charged_step: "life_step F r r' \<Longrightarrow> \<not> F t \<Longrightarrow> running_charged w t n m r \<Longrightarrow> running_charged w t n m r'"
  by (erule life_stepE) (auto simp: running_charged_def holds_claim_def reset_job_row_def)

lemma running_charged_steps:
  "life_steps F r r' \<Longrightarrow> \<not> F t \<Longrightarrow> running_charged w t n m r \<Longrightarrow> running_charged w t n m r'"
  by (induction rule: rtranclp_induct) (auto dest: running_charged_step)

definition job_sat :: "(analysis_job \<Rightarrow> bool) \<Rightarrow> int \<Rightarrow> db \<Rightarrow> bool" where
  "job_sat P i d \<longleftrightarrow> (\<exists>r. job_of d i = Some r \<and> P r)"

lemma job_sat_steps:
  assumes inv: "sys_inv d" and st: "system_steps F d d'" and j: "job_sat P i d"
    and P: "\<And>r r'. life_steps F r r' \<Longrightarrow> P r \<Longrightarrow> P r'"
  shows "job_sat P i d'"
proof -
  from j obtain r where r: "job_of d i = Some r" "P r" by (auto simp: job_sat_def)
  have "jobs_inv d" using inv by (simp add: sys_inv_def)
  moreover have "jobs_evolve F d d'" using system_steps_evolve[OF st inv] by (simp add: diag_evolve_def)
  ultimately obtain r' where "job_of d' i = Some r'" "life_steps F r r'" using r(1) by (rule jobs_evolve_row)
  with P r(2) show ?thesis by (auto simp: job_sat_def)
qed

section \<open>The start boundary\<close>

definition started_under :: "string \<Rightarrow> string \<Rightarrow> int \<Rightarrow> int \<Rightarrow> analysis_job \<Rightarrow> bool" where
  "started_under w t g c r \<longleftrightarrow> owns_execution w t r \<and> job_execution_generation r = g \<and> job_attempt_count r = c"

lemma MarkExecutionStarted_Inr:
  assumes "jobs_keys d" and "MarkExecutionStarted now i w t g d = (Inr c, d')"
  shows "job_sat (started_under w t g c) i d'"
proof (cases "job_of d i")
  case None
  with assms show ?thesis by (simp add: MarkExecutionStarted_eq)
next
  case (Some r)
  have "job_of (put_job (started_row now r) d) i = Some (started_row now r)"
    using Some by (simp add: job_of_put_job started_row_def job_of_Some_id)
  with Some assms show ?thesis
    by (auto simp: MarkExecutionStarted_eq job_sat_def started_under_def owns_execution_def started_row_def
        holds_claim_def split: if_split_asm)
qed

lemma resolveExecutionStart_result:
  assumes "resolveExecutionStart sch cfg job s = ((st, c, e), s')"
  shows "shared_store F sch \<Longrightarrow> system_steps F (snd s) (snd s')"
    and "st = executionStartStarted \<Longrightarrow> job_sat (started_under (cfg_worker_id cfg) (undispatchedClaimToken job)
      (job_execution_generation job) c) (job_id job) (snd s')"
    and "fst s' = Suc (fst s)"
proof -
  obtain rd s1 where rd: "read_job sch (job_id job) s = (rd, s1)" by (cases "read_job sch (job_id job) s")
  with assms have s': "s' = s1" by (auto simp: resolveExecutionStart_def split: sum.split_asm if_split_asm)
  show "shared_store F sch \<Longrightarrow> system_steps F (snd s) (snd s')"
    using read_job_steps[of F sch s "job_id job"] by (simp add: rd s')
  show "fst s' = Suc (fst s)" using read_job_tick[of sch "job_id job" s] by (simp add: rd s')
  assume "st = executionStartStarted"
  with assms rd show "job_sat (started_under (cfg_worker_id cfg) (undispatchedClaimToken job)
      (job_execution_generation job) c) (job_id job) (snd s')"
    by (auto simp: resolveExecutionStart_def job_sat_def started_under_def owns_execution_def holds_claim_def s'
        split: sum.split_asm if_split_asm dest: read_job_Inr)
qed

lemma startClaimedExecution_result:
  assumes sh: "shared_store F sch"
  shows "startClaimedExecution sch cfg job fuel s = Some ((st, c, e), s') \<Longrightarrow> sys_inv (snd s) \<Longrightarrow>
    system_steps F (snd s) (snd s')
    \<and> (st = executionStartStarted \<longrightarrow> job_sat (started_under (cfg_worker_id cfg) (undispatchedClaimToken job)
        (job_execution_generation job) c) (job_id job) (snd s'))"
proof (induction fuel arbitrary: s)
  case 0
  then show ?case by simp
next
  case (Suc fuel)
  let ?i = "job_id job" and ?w = "cfg_worker_id cfg" and ?t = "undispatchedClaimToken job"
  let ?g = "job_execution_generation job"
  let ?mark = "\<lambda>now. MarkExecutionStarted now ?i ?w ?t ?g"
  let ?renew = "\<lambda>now. RenewLease now ?i ?w ?t (now + cfg_lease_duration cfg)"
  show ?case
  proof (cases "sc_stop sch (fst s)")
    case True
    with Suc.prems(1) show ?thesis by simp
  next
    case go: False
    obtain m s1 where m: "store_call sch ?mark s = (m, s1)" by (cases "store_call sch ?mark s")
    have st1: "system_steps F (snd s) (snd s1)"
      using store_call_steps[OF sh, of ?mark s] worker_ops_steps(1) by (simp add: m)
    show ?thesis
    proof (cases m)
      case (Inr n)
      with Suc.prems(1) go m have r: "st = executionStartStarted" "c = n" "s' = s1" by auto
      from store_call_Inr[OF m[unfolded Inr]]
      have call: "?mark (sc_now sch (fst s)) (sc_env sch (fst s) (snd s)) = (Inr n, snd s1)" by simp
      have "jobs_keys (sc_env sch (fst s) (snd s))"
        using sys.steps_inv[OF shared_store_env[OF sh] Suc.prems(2)] by (rule sys_inv_keys)
      from MarkExecutionStarted_Inr[OF this call] st1 r show ?thesis by simp
    next
      case (Inl err)
      obtain rs dc re s2 where rv: "resolveExecutionStart sch cfg job s1 = ((rs, dc, re), s2)"
        by (cases "resolveExecutionStart sch cfg job s1") auto
      note rvr = resolveExecutionStart_result[OF rv]
      have st2: "system_steps F (snd s) (snd s2)" using st1 rvr(1)[OF sh] by (rule rtranclp_trans)
      obtain rn s3 where rn: "store_call sch ?renew s2 = (rn, s3)" by (cases "store_call sch ?renew s2")
      have "system_steps F (snd s2) (snd s3)"
        using store_call_steps[OF sh, of ?renew s2] worker_ops_steps(3) by (simp add: rn)
      with st2 have st3: "system_steps F (snd s) (snd s3)" by (rule rtranclp_trans)
      have inv3: "sys_inv (snd (tick s3))" using sys.steps_inv[OF st3 Suc.prems(2)] by simp
      have again: ?thesis if "startClaimedExecution sch cfg job fuel (tick s3) = Some ((st, c, e), s')"
        using Suc.IH[OF that inv3] st3 by auto
      show ?thesis
        using Suc.prems(1) go m Inl rv rn st1 st2 st3 again rvr(2)
        by (auto split: if_split_asm executionStartResolution.split_asm sum.split_asm)
    qed
  qed
qed

text \<open>
  C26. The attempt is charged exactly once, and before any handler runs. Take a claim that has
  not been started, with \<open>a\<close> attempts on record, under a token that no later claim draws.
  However many calls the worker needs, whichever replies are lost and whatever the other
  processes do, when the worker decides that the execution has started, the row is held
  under this claim, is marked as started, and carries exactly \<open>a + 1\<close> attempts, the number
  the worker hands to the handler.
\<close>

theorem start_charges_exactly_once:
  assumes sh: "shared_store F sch" and fresh: "\<not> F (undispatchedClaimToken job)" and inv: "sys_inv (snd s)"
    and row: "job_of (snd s) (job_id job) = Some r" and unstarted: "\<not> job_execution_started r"
    and gen: "job_execution_generation r = job_execution_generation job"
    and run: "startClaimedExecution sch cfg job fuel s = Some ((executionStartStarted, c, e), s')"
  shows "\<exists>r'. job_of (snd s') (job_id job) = Some r' \<and> owns_execution (cfg_worker_id cfg) (undispatchedClaimToken job) r'
    \<and> job_execution_generation r' = job_execution_generation job
    \<and> job_attempt_count r' = job_attempt_count r + 1 \<and> c = job_attempt_count r + 1"
proof -
  let ?w = "cfg_worker_id cfg" and ?t = "undispatchedClaimToken job"
  let ?P = "charged ?w ?t (job_execution_generation job) (job_attempt_count r) (job_max_attempts r)"
  from startClaimedExecution_result[OF sh run inv]
  have st: "system_steps F (snd s) (snd s')"
    and got: "job_sat (started_under ?w ?t (job_execution_generation job) c) (job_id job) (snd s')" by simp_all
  have "job_sat ?P (job_id job) (snd s)" using row unstarted gen by (simp add: job_sat_def charged_def)
  then have "job_sat ?P (job_id job) (snd s')"
    by (rule job_sat_steps[OF inv st]) (rule charged_steps[where F = F], assumption, rule fresh)
  with got show ?thesis
    by (auto simp: job_sat_def started_under_def charged_def owns_execution_def)
qed

text \<open>A schedule in which the reply of the start is lost after it took effect.\<close>

definition demo_schedule :: "reply list \<Rightarrow> schedule" where
  "demo_schedule rs = \<lparr>sc_now = (\<lambda>k. 110 + int k), sc_env = (\<lambda>k d. d),
     sc_reply = (\<lambda>k. if k < length rs then rs ! k else Delivered), sc_stop = (\<lambda>k. False),
     sc_cleanup_ended = (\<lambda>k. False), sc_job_cause = (\<lambda>k. None), sc_final_cause = (\<lambda>k. None)\<rparr>"

lemma demo_schedule_shared: "list_all network_error rs \<Longrightarrow> shared_store F (demo_schedule rs)"
  by (simp add: shared_store_def demo_schedule_def list_all_length network_error_def[of Delivered])

definition demo_config :: worker_config where
  "demo_config = (DefaultWorkerConfig ''12345678'')\<lparr>cfg_worker_id := ''w'', cfg_lease_duration := 60\<rparr>"

abbreviation timeout_error :: go_error where
  "timeout_error \<equiv> Sentinel ''net'' ''i/o timeout''"

theorem start_charges_exactly_once_witness:
  "\<exists>r'. job_of (snd (snd (the (startClaimedExecution (demo_schedule [LostAfter timeout_error]) demo_config
        (the (job_of demo_claimed 1)) 5 (0, demo_claimed))))) 1 = Some r' \<and> job_attempt_count r' = 1"
proof -
  let ?job = "the (job_of demo_claimed 1)"
  let ?x = "the (startClaimedExecution (demo_schedule [LostAfter timeout_error]) demo_config ?job 5 (0, demo_claimed))"
  let ?F = "\<lambda>t. t = ''t1''"
  have sh: "shared_store ?F (demo_schedule [LostAfter timeout_error])"
    by (rule demo_schedule_shared) (simp add: network_error_def SqlErrNoRows_def)
  have fresh: "\<not> ?F (undispatchedClaimToken ?job)" by code_simp
  have inv: "sys_inv (snd (0::nat, demo_claimed))" by (simp, code_simp)
  have row: "job_of (snd (0::nat, demo_claimed)) (job_id ?job) = Some ?job" by code_simp
  have facts: "\<not> job_execution_started ?job" "job_attempt_count ?job = 0" "job_id ?job = 1" by code_simp+
  have run: "startClaimedExecution (demo_schedule [LostAfter timeout_error]) demo_config ?job 5 (0, demo_claimed)
      = Some ((executionStartStarted, 1, None), snd ?x)" by code_simp
  from start_charges_exactly_once[OF sh fresh inv row facts(1) refl run] facts(2,3) show ?thesis by auto
qed

section \<open>Finalizations\<close>

text \<open>What a committed finalizer leaves in the row.\<close>

lemma cancel_finalizer_row:
  assumes "jobs_keys d" and "ConditionalFinalizeCancelTx now i w t d = Inr d'"
  shows "\<exists>r. job_of d i = Some r \<and> owns_execution w t r \<and> job_cancel_requested r \<and> job_of d' i = Some (cancelled_row now r)"
proof (cases "job_of d i")
  case None
  with assms show ?thesis by (simp add: ConditionalFinalizeCancelTx_eq)
next
  case (Some r)
  with assms have r: "owns_execution w t r" "job_cancel_requested r"
    and tx: "cancelDiagnosisRunTx now (job_resource_id r) (job_execution_generation r) (put_job (cancelled_row now r) d) = Inr d'"
    by (auto simp: ConditionalFinalizeCancelTx_eq split: if_split_asm)
  have "job_of (put_job (cancelled_row now r) d) i = Some (cancelled_row now r)"
    using Some by (simp add: job_of_put_job cancelled_row_def job_of_Some_id)
  with same_jobs_job_of[OF cancelDiagnosisRunTx_jobs[OF tx], of i] Some r show ?thesis by simp
qed

definition done_under :: "string \<Rightarrow> string \<Rightarrow> (analysis_job \<Rightarrow> bool) \<Rightarrow> analysis_job \<Rightarrow> bool" where
  "done_under w t expected r \<longleftrightarrow> expected r \<and> job_worker_id r = Some w \<and> job_claim_token r = Some t"

lemma cancelled_row_done:
  "owns_execution w t r \<Longrightarrow> job_cancel_requested r \<Longrightarrow> done_under w t cancelledFinalizationExpected (cancelled_row now r)"
  by (simp add: done_under_def cancelledFinalizationExpected_def cancelled_row_def owns_execution_def holds_claim_def)

lemma finalize_success_done:
  assumes k: "jobs_keys d" and ok: "finalize_success cfg job now d = (Inr u, d')"
  shows "job_sat (done_under (cfg_worker_id cfg) (undispatchedClaimToken job) successFinalizationExpected) (job_id job) d'"
proof -
  let ?i = "job_id job" and ?w = "cfg_worker_id cfg" and ?t = "undispatchedClaimToken job"
  have tx: "ConditionalFinalizeSuccessTx now ?i ?w ?t d = Inr d'"
    using ok by (auto simp: finalize_success_def ConditionalFinalizeSuccess_def unit_tx_def run_tx_eq_Inr bindE_eq_Inr)
  then obtain r where r: "job_of d ?i = Some r" "owns_execution ?w ?t r"
    by (cases "job_of d ?i") (auto simp: ConditionalFinalizeSuccessTx_eq[OF k] split: if_split_asm)
  show ?thesis
  proof (cases "job_cancel_requested r")
    case True
    with tx r have "ConditionalFinalizeCancelTx now ?i ?w ?t d = Inr d'" by (simp add: ConditionalFinalizeSuccessTx_eq[OF k])
    from cancel_finalizer_row[OF k this] r(1) True cancelled_row_done[OF r(2) True, of now] show ?thesis
      by (auto simp: job_sat_def done_under_def cancelledFinalizationExpected_def successFinalizationExpected_def)
  next
    case False
    with tx r have "d' = put_job (succeeded_row now r) d" by (simp add: ConditionalFinalizeSuccessTx_eq[OF k])
    moreover have "job_of (put_job (succeeded_row now r) d) ?i = Some (succeeded_row now r)"
      using r(1) by (simp add: job_of_put_job succeeded_row_def job_of_Some_id)
    ultimately show ?thesis using r(2)
      by (simp add: job_sat_def done_under_def successFinalizationExpected_def succeeded_row_def owns_execution_def holds_claim_def)
  qed
qed

lemma finalize_cancel_done:
  assumes k: "jobs_keys d" and ok: "finalize_cancel cfg job now d = (Inr u, d')"
  shows "job_sat (done_under (cfg_worker_id cfg) (undispatchedClaimToken job) cancelledFinalizationExpected) (job_id job) d'"
proof -
  have "ConditionalFinalizeCancelTx now (job_id job) (cfg_worker_id cfg) (undispatchedClaimToken job) d = Inr d'"
    using ok by (auto simp: finalize_cancel_def ConditionalFinalizeCancel_def unit_tx_def run_tx_eq_Inr bindE_eq_Inr)
  from cancel_finalizer_row[OF k this] cancelled_row_done show ?thesis unfolding job_sat_def by blast
qed

lemma finalize_failure_done:
  assumes k: "jobs_keys d" and ok: "finalize_failure cfg job cls code msg reason isTerminal nxt now d = (Inr u, d')"
    and reason: "isTerminal \<Longrightarrow> reason \<noteq> None"
  shows "job_sat (done_under (cfg_worker_id cfg) (undispatchedClaimToken job)
    (failureFinalizationExpected cls code reason isTerminal)) (job_id job) d'"
proof -
  let ?i = "job_id job" and ?w = "cfg_worker_id cfg" and ?t = "undispatchedClaimToken job"
  have tx: "ConditionalFinalizeFailureTx now ?i ?w ?t cls code msg reason isTerminal nxt d = Inr d'"
    using ok by (auto simp: finalize_failure_def ConditionalFinalizeFailure_def unit_tx_def run_tx_eq_Inr bindE_eq_Inr)
  then obtain r where r: "job_of d ?i = Some r" "owns_execution ?w ?t r"
    by (cases "job_of d ?i") (auto simp: ConditionalFinalizeFailureTx_eq[OF k] split: if_split_asm)
  show ?thesis
  proof (cases "job_type r = JobTypeRunDiagnosis \<and> job_cancel_requested r")
    case True
    with tx r have "ConditionalFinalizeCancelTx now ?i ?w ?t d = Inr d'" by (simp add: ConditionalFinalizeFailureTx_eq[OF k])
    from cancel_finalizer_row[OF k this] r(1) True cancelled_row_done[OF r(2), of now] show ?thesis
      by (auto simp: job_sat_def done_under_def failureFinalizationExpected_def)
  next
    case live: False
    let ?row = "if isTerminal then failed_row now cls code msg reason r else retry_row now cls code msg nxt r"
    have put: "job_of (put_job ?row d) ?i = Some ?row"
      using r(1) by (simp add: job_of_put_job failed_row_def retry_row_def job_of_Some_id)
    have "job_of d' ?i = Some ?row"
    proof (cases isTerminal)
      case True
      with tx r live have "failBusinessTx now ?i False code msg (put_job ?row d) = Inr d'"
        by (auto simp: ConditionalFinalizeFailureTx_eq[OF k])
      from same_jobs_job_of[OF failBusinessTx_jobs[OF this], of ?i] put show ?thesis by simp
    next
      case False
      with tx r live have "d' = put_job ?row d" by (auto simp: ConditionalFinalizeFailureTx_eq[OF k])
      with put show ?thesis by simp
    qed
    with r(2) reason show ?thesis
      by (auto simp: job_sat_def done_under_def failureFinalizationExpected_def failed_row_def retry_row_def
          owns_execution_def holds_claim_def)
  qed
qed

text \<open>The state in which a started execution is concluded: its claim, if it still holds, has \<open>n\<close> of \<open>m\<close> attempts.\<close>

definition executing :: "string \<Rightarrow> string \<Rightarrow> int \<Rightarrow> int \<Rightarrow> int \<Rightarrow> db \<Rightarrow> bool" where
  "executing w t n m i d \<longleftrightarrow> sys_inv d \<and> job_sat (running_charged w t n m) i d"

lemma executing_steps: "\<not> F t \<Longrightarrow> executing w t n m i d \<Longrightarrow> system_steps F d d' \<Longrightarrow> executing w t n m i d'"
  unfolding executing_def
  using job_sat_steps[of d F d' "running_charged w t n m" i] running_charged_steps[of F _ _ t w n m]
  by (auto intro: sys.steps_inv)

text \<open>Scheduling a retry is a step because the worker does so only while attempts remain.\<close>

lemma finalize_failure_steps:
  assumes ex: "executing (cfg_worker_id cfg) (undispatchedClaimToken job) n m (job_id job) d" and left: "isTerminal \<or> n < m"
  shows "system_steps F d (snd (finalize_failure cfg job cls code msg reason isTerminal nxt now d))"
proof -
  let ?i = "job_id job" and ?w = "cfg_worker_id cfg" and ?t = "undispatchedClaimToken job"
  have k: "jobs_keys d" using ex by (auto simp: executing_def intro: sys_inv_keys)
  from ex obtain r where r: "job_of d ?i = Some r" "running_charged ?w ?t n m r" by (auto simp: executing_def job_sat_def)
  show ?thesis
  proof (cases "owns_execution ?w ?t r")
    case True
    with r left have "retry_admissible ?i isTerminal d"
      by (auto simp: retry_admissible_def running_charged_def owns_execution_def)
    then show ?thesis unfolding finalize_failure_def by (intro r_into_rtranclp sys_fail)
  next
    case False
    with r have "ConditionalFinalizeFailureTx now ?i ?w ?t cls code msg reason isTerminal nxt d = Inl ErrOwnershipLost"
      by (simp add: ConditionalFinalizeFailureTx_eq[OF k])
    then have "snd (finalize_failure cfg job cls code msg reason isTerminal nxt now d) = d"
      by (simp add: finalize_failure_def ConditionalFinalizeFailure_def unit_tx_def)
    then show ?thesis by simp
  qed
qed

text \<open>The finalizers of the worker with the row each of them expects to leave.\<close>

inductive worker_finalizer ::
  "worker_config \<Rightarrow> analysis_job \<Rightarrow> int \<Rightarrow> int \<Rightarrow> (time \<Rightarrow> db \<Rightarrow> (go_error + unit) \<times> db) \<Rightarrow> (analysis_job \<Rightarrow> bool) \<Rightarrow> bool"
  for cfg :: worker_config and job :: analysis_job and n m :: int where
  wf_success: "worker_finalizer cfg job n m (finalize_success cfg job) successFinalizationExpected"
| wf_cancel: "worker_finalizer cfg job n m (finalize_cancel cfg job) cancelledFinalizationExpected"
| wf_failure: "(isTerminal \<longrightarrow> reason \<noteq> None) \<Longrightarrow> isTerminal \<or> n < m \<Longrightarrow>
    worker_finalizer cfg job n m (finalize_failure cfg job cls code msg reason isTerminal nxt)
      (failureFinalizationExpected cls code reason isTerminal)"

lemma worker_finalizer_facts:
  assumes "worker_finalizer cfg job n m fin expected" and "executing (cfg_worker_id cfg) (undispatchedClaimToken job) n m (job_id job) d"
  shows "system_steps F d (snd (fin now d))"
    and "fin now d = (Inr (), d') \<Longrightarrow>
      job_sat (done_under (cfg_worker_id cfg) (undispatchedClaimToken job) expected) (job_id job) d'"
proof -
  have k: "jobs_keys d" using assms(2) by (auto simp: executing_def intro: sys_inv_keys)
  show "system_steps F d (snd (fin now d))"
    using assms by cases (simp_all add: worker_ops_steps finalize_failure_steps)
  show "fin now d = (Inr (), d') \<Longrightarrow>
      job_sat (done_under (cfg_worker_id cfg) (undispatchedClaimToken job) expected) (job_id job) d'"
    using assms(1) by cases (auto intro: finalize_success_done[OF k] finalize_cancel_done[OF k] finalize_failure_done[OF k])
qed

lemma resolveFinalization_result:
  assumes sh: "shared_store F sch" and tok: "job_claim_token job \<noteq> None" and fresh: "\<not> F (undispatchedClaimToken job)"
    and fin: "worker_finalizer cfg job n m fin expected"
  shows "resolveFinalization sch cause cfg job fin expected fuel le s = Some (res, s') \<Longrightarrow>
    executing (cfg_worker_id cfg) (undispatchedClaimToken job) n m (job_id job) (snd s) \<Longrightarrow>
    system_steps F (snd s) (snd s')
    \<and> (res = None \<longrightarrow> job_sat (done_under (cfg_worker_id cfg) (undispatchedClaimToken job) expected) (job_id job) (snd s'))"
proof (induction fuel arbitrary: s le)
  case 0
  then show ?case by simp
next
  case (Suc fuel)
  let ?ex = "executing (cfg_worker_id cfg) (undispatchedClaimToken job) n m (job_id job)"
  let ?d = "sc_env sch (fst s) (snd s)"
  show ?case
  proof (cases "cause (fst s)")
    case (Some e)
    with Suc.prems(1) show ?thesis by auto
  next
    case c: None
    obtain f s1 where f: "store_call sch fin s = (f, s1)" by (cases "store_call sch fin s")
    have env: "system_steps F (snd s) ?d" using sh by (rule shared_store_env)
    have exd: "?ex ?d" by (rule executing_steps[OF fresh Suc.prems(2) env])
    have "system_steps F ?d (snd s1)"
      using worker_finalizer_facts(1)[OF fin exd] f
      by (cases s) (auto simp: store_call_def Let_def split: reply.split_asm)
    with env have st1: "system_steps F (snd s) (snd s1)" by (rule rtranclp_trans)
    show ?thesis
    proof (cases f)
      case (Inr u)
      with Suc.prems(1) c f have s': "s' = s1" by simp
      from store_call_Inr[OF f[unfolded Inr]]
      have "fin (sc_now sch (fst s)) ?d = (Inr (), snd s1)" by simp
      from worker_finalizer_facts(2)[OF fin exd this] st1 s' show ?thesis by simp
    next
      case (Inl err)
      obtain rd s2 where rd: "read_job sch (job_id job) s1 = (rd, s2)" by (cases "read_job sch (job_id job) s1")
      have "system_steps F (snd s1) (snd s2)" using read_job_steps[OF sh, of s1 "job_id job"] by (simp add: rd)
      with st1 have st2: "system_steps F (snd s) (snd s2)" by (rule rtranclp_trans)
      have ex2: "?ex (snd (tick s2))" using executing_steps[OF fresh Suc.prems(2) st2] by simp
      have again: ?thesis if "resolveFinalization sch cause cfg job fin expected fuel le' (tick s2) = Some (res, s')" for le'
        using Suc.IH[OF that ex2] st2 by auto
      have same: "job_sat (done_under (cfg_worker_id cfg) (undispatchedClaimToken job) expected) (job_id job) (snd s2)"
        if "rd = Inr cur" "sameExecutionClaim job cur (cfg_worker_id cfg)" "expected cur" for cur
        using that rd read_job_Inr[of sch "job_id job" s1 cur s2] tok
        by (auto simp: job_sat_def done_under_def sameExecutionClaim_def undispatchedClaimToken_def)
      show ?thesis
        using Suc.prems(1) c f Inl rd st2 again same by (auto split: if_split_asm sum.split_asm)
    qed
  qed
qed

text \<open>
  C27. A finalization the worker believes in has happened. When the worker, having charged \<open>n\<close> of
  \<open>m\<close> attempts, stops resolving a success, a cancellation or a failure without an error,
  the row of the job is in the state that was to be reached, under this worker's claim,
  even if the replies to its calls were lost and other processes worked on the database
  in between.
\<close>

theorem resolved_finalization_is_durable:
  assumes "shared_store F sch" and "job_claim_token job \<noteq> None" and "\<not> F (undispatchedClaimToken job)"
    and "worker_finalizer cfg job n m fin expected"
    and "executing (cfg_worker_id cfg) (undispatchedClaimToken job) n m (job_id job) (snd s)"
    and "resolveFinalization sch cause cfg job fin expected fuel None s = Some (None, s')"
  shows "\<exists>r. job_of (snd s') (job_id job) = Some r \<and> expected r
    \<and> job_worker_id r = Some (cfg_worker_id cfg) \<and> job_claim_token r = Some (undispatchedClaimToken job)"
  using resolveFinalization_result[OF assms(1-4,6,5)] by (auto simp: job_sat_def done_under_def)

theorem resolved_finalization_is_durable_witness:
  "\<exists>r. job_of (snd (snd (the (resolveFinalization (demo_schedule [LostAfter timeout_error]) (\<lambda>k. None) demo_config demo_job
        (finalize_success demo_config demo_job) successFinalizationExpected 5 None (0, demo_running))))) 1 = Some r
    \<and> successFinalizationExpected r"
proof -
  let ?x = "the (resolveFinalization (demo_schedule [LostAfter timeout_error]) (\<lambda>k. None) demo_config demo_job
        (finalize_success demo_config demo_job) successFinalizationExpected 5 None (0, demo_running))"
  have sh: "shared_store (\<lambda>t. t = ''t1'') (demo_schedule [LostAfter timeout_error])"
    by (rule demo_schedule_shared) (simp add: network_error_def SqlErrNoRows_def)
  have tok: "job_claim_token demo_job \<noteq> None" "undispatchedClaimToken demo_job \<noteq> ''t1''" "job_id demo_job = 1"
    by (simp_all add: demo_job_def undispatchedClaimToken_def)
  have ex: "executing (cfg_worker_id demo_config) (undispatchedClaimToken demo_job) 1 3 (job_id demo_job) (snd (0::nat, demo_running))"
    using demo_running_inv demo_running_job
    by (simp add: executing_def job_sat_def tok(3)) (simp add: running_charged_def demo_job_def)
  have run: "resolveFinalization (demo_schedule [LostAfter timeout_error]) (\<lambda>k. None) demo_config demo_job
        (finalize_success demo_config demo_job) successFinalizationExpected 5 None (0, demo_running) = Some (None, snd ?x)"
    by code_simp
  from resolved_finalization_is_durable[OF sh tok(1,2) wf_success ex run] tok(3) show ?thesis by auto
qed

section \<open>The loops end\<close>

lemma startClaimedExecution_ends:
  assumes stop: "\<And>k. n \<le> k \<Longrightarrow> sc_stop sch k"
  shows "n < fst s + fuel \<Longrightarrow> 0 < fuel \<Longrightarrow> startClaimedExecution sch cfg job fuel s \<noteq> None"
proof (induction fuel arbitrary: s)
  case 0
  then show ?case by simp
next
  case (Suc fuel)
  let ?mark = "\<lambda>now. MarkExecutionStarted now (job_id job) (cfg_worker_id cfg) (undispatchedClaimToken job) (job_execution_generation job)"
  let ?renew = "\<lambda>now. RenewLease now (job_id job) (cfg_worker_id cfg) (undispatchedClaimToken job) (now + cfg_lease_duration cfg)"
  obtain m s1 where m: "store_call sch ?mark s = (m, s1)" by (cases "store_call sch ?mark s")
  obtain rs dc re s2 where rv: "resolveExecutionStart sch cfg job s1 = ((rs, dc, re), s2)"
    by (cases "resolveExecutionStart sch cfg job s1") auto
  obtain rn s3 where rn: "store_call sch ?renew s2 = (rn, s3)" by (cases "store_call sch ?renew s2")
  have "fst s3 = Suc (Suc (Suc (fst s)))"
    using store_call_tick[of sch ?mark s] store_call_tick[of sch ?renew s2] resolveExecutionStart_result(3)[OF rv]
    by (simp add: m rn)
  moreover have "fst s < n" if "\<not> sc_stop sch (fst s)" using stop that not_less by blast
  ultimately have again: "startClaimedExecution sch cfg job fuel (tick s3) \<noteq> None" if "\<not> sc_stop sch (fst s)"
    using Suc.IH[of "tick s3"] Suc.prems(1) that by fastforce
  show ?case
    using again m rv rn by (auto split: executionStartResolution.split sum.split)
qed

lemma resolveFinalization_ends:
  assumes stop: "\<And>k. n \<le> k \<Longrightarrow> cause k \<noteq> None"
  shows "n < fst s + fuel \<Longrightarrow> 0 < fuel \<Longrightarrow> resolveFinalization sch cause cfg job fin expected fuel le s \<noteq> None"
proof (induction fuel arbitrary: s le)
  case 0
  then show ?case by simp
next
  case (Suc fuel)
  obtain f s1 where f: "store_call sch fin s = (f, s1)" by (cases "store_call sch fin s")
  obtain rd s2 where rd: "read_job sch (job_id job) s1 = (rd, s2)" by (cases "read_job sch (job_id job) s1")
  have "fst s2 = Suc (Suc (fst s))"
    using store_call_tick[of sch fin s] read_job_tick[of sch "job_id job" s1] by (simp add: f rd)
  moreover have "fst s < n" if "cause (fst s) = None" using stop that not_less by blast
  ultimately have again: "resolveFinalization sch cause cfg job fin expected fuel le' (tick s2) \<noteq> None"
    if "cause (fst s) = None" for le'
    using Suc.IH[of "tick s2" le'] Suc.prems(1) that by fastforce
  show ?case
    using again f rd by (auto split: option.split sum.split)
qed

lemma renew_pending_tick: "fst s \<le> fst (renew_pending sch cfg jobs s)"
proof (induction jobs arbitrary: s)
  case Nil
  then show ?case by simp
next
  case (Cons j jobs)
  let ?f = "\<lambda>now. RenewLease now (job_id j) (cfg_worker_id cfg) (undispatchedClaimToken j) (now + cfg_lease_duration cfg)"
  have "fst (snd (store_call sch ?f s)) \<le> fst (renew_pending sch cfg jobs (snd (store_call sch ?f s)))" by (rule Cons.IH)
  then show ?case using store_call_tick[of sch ?f s] Cons.IH[of s] by simp
qed

lemma return_pending_tick: "return_pending sch cfg jobs s = (ps, s') \<Longrightarrow> fst s \<le> fst s'"
proof (induction jobs arbitrary: s ps)
  case Nil
  then show ?case by simp
next
  case (Cons j jobs)
  let ?f = "\<lambda>now. ReturnUndispatchedClaim now (job_id j) (cfg_worker_id cfg) (undispatchedClaimToken j) (job_execution_generation j)"
  obtain r s1 where r: "store_call sch ?f s = (r, s1)" by (cases "store_call sch ?f s")
  have t: "fst s1 = Suc (fst s)" using store_call_tick[of sch ?f s] by (simp add: r)
  show ?case
    using Cons.prems r t Cons.IH[of s] Cons.IH[of s1]
    by (auto split: if_split_asm sum.split_asm prod.split_asm)
qed

lemma returnUndispatchedClaims_ends:
  assumes stop: "\<And>k. n \<le> k \<Longrightarrow> sc_cleanup_ended sch k"
  shows "n < fst s + fuel \<Longrightarrow> 0 < fuel \<Longrightarrow> returnUndispatchedClaims sch cfg fuel pending s \<noteq> None"
proof (induction fuel arbitrary: s pending)
  case 0
  then show ?case by simp
next
  case (Suc fuel)
  obtain ps s' where r: "return_pending sch cfg pending (renew_pending sch cfg pending s) = (ps, s')"
    by (cases "return_pending sch cfg pending (renew_pending sch cfg pending s)")
  have "fst s \<le> fst s'" using renew_pending_tick[of s sch cfg pending] return_pending_tick[OF r] by (rule le_trans)
  moreover have "fst s' < n" if "\<not> sc_cleanup_ended sch (fst s')" using stop that not_less by blast
  ultimately have "returnUndispatchedClaims sch cfg fuel ps (tick s') \<noteq> None" if "\<not> sc_cleanup_ended sch (fst s')"
    using Suc.IH[of "tick s'" ps] Suc.prems(1) that by fastforce
  then show ?case using r by auto
qed

text \<open>
  C28. Shutdown is bounded. If stopping is requested, the cleanup deadline passes and the context
  of the finalization ends by the \<open>n\<close>-th interaction with the store, then the loop that
  starts a claim, the loop that returns undispatched claims and the loop that resolves a
  finalization each end: \<open>n + 1\<close> rounds are enough from any state, whatever is lost.
\<close>

theorem worker_loops_end_on_shutdown:
  assumes "\<forall>k \<ge> n. sc_stop sch k \<and> sc_cleanup_ended sch k \<and> sc_final_cause sch k \<noteq> None" and "n < fuel"
  shows "(\<exists>x. startClaimedExecution sch cfg job fuel s = Some x)
    \<and> (\<exists>x. returnUndispatchedClaims sch cfg fuel pending s = Some x)
    \<and> (\<exists>x. resolveFinalization sch (sc_final_cause sch) cfg job fin expected fuel le s = Some x)"
  using startClaimedExecution_ends[of n sch s fuel cfg job] returnUndispatchedClaims_ends[of n sch s fuel cfg pending]
    resolveFinalization_ends[of n "sc_final_cause sch" s fuel sch cfg job fin expected le] assms
  by fastforce

text \<open>A schedule that loses every reply and is shut down before the third interaction.\<close>

definition demo_shutdown :: schedule where
  "demo_shutdown = (demo_schedule [])\<lparr>sc_reply := (\<lambda>k. LostBefore timeout_error), sc_stop := (\<lambda>k. 3 \<le> k),
     sc_cleanup_ended := (\<lambda>k. 3 \<le> k), sc_final_cause := (\<lambda>k. if 3 \<le> k then Some ErrWorkerShutdown else None)\<rparr>"

theorem worker_loops_end_on_shutdown_witness:
  "(\<exists>x. startClaimedExecution demo_shutdown demo_config demo_job 4 (0, demo_running) = Some x)
    \<and> (\<exists>x. returnUndispatchedClaims demo_shutdown demo_config 4 [demo_job] (0, demo_running) = Some x)
    \<and> (\<exists>x. resolveFinalization demo_shutdown (sc_final_cause demo_shutdown) demo_config demo_job
        (finalize_success demo_config demo_job) successFinalizationExpected 4 None (0, demo_running) = Some x)"
  by (rule worker_loops_end_on_shutdown[of 3]) (simp_all add: demo_shutdown_def)

section \<open>The worker refines the system\<close>
















section \<open>Capacity\<close>

lemma reserveSlots_eq:
  "0 \<le> b - r \<Longrightarrow> 0 \<le> c - n \<Longrightarrow> reserveSlots b c n r = (n + min (b - r) (c - n), r + min (b - r) (c - n))"
proof (induction b c n r rule: reserveSlots.induct)
  case (1 b c n r)
  show ?case
  proof (cases "r < b \<and> n < c")
    case True
    with "1.IH" have "reserveSlots b c n r = (n + 1 + min (b - (r + 1)) (c - (n + 1)), r + 1 + min (b - (r + 1)) (c - (n + 1)))"
      by (subst reserveSlots.simps) simp
    then show ?thesis by simp
  next
    case False
    with "1.prems" show ?thesis by (subst reserveSlots.simps) auto
  qed
qed

text \<open>The claim loop of one worker: rounds of claiming, and jobs that end, in any order.\<close>

inductive claim_loop_step :: "worker_config \<Rightarrow> world \<times> claim_loop \<Rightarrow> world \<times> claim_loop \<Rightarrow> bool"
  for cfg :: worker_config where
  loop_round: "claim_loop_step cfg x (claimLoop_round sch cfg locked tok x)"
| loop_done: "j \<in> set (cl_in_flight cl) \<Longrightarrow> claim_loop_step cfg (s, cl) (s', job_done j cl)"

definition claim_loop_init :: "world \<times> claim_loop \<Rightarrow> bool" where
  "claim_loop_init x \<longleftrightarrow> cl_sem (snd x) = 0 \<and> cl_in_flight (snd x) = []"

definition within_capacity :: "worker_config \<Rightarrow> world \<times> claim_loop \<Rightarrow> bool" where
  "within_capacity cfg x \<longleftrightarrow> cl_sem (snd x) = int (length (cl_in_flight (snd x)))
    \<and> cl_sem (snd x) \<le> cfg_concurrency (NewWorker cfg)"

lemma NewWorker_positive: "1 \<le> cfg_concurrency (NewWorker cfg)" "1 \<le> cfg_batch_size (NewWorker cfg)"
  by (simp_all add: NewWorker_def Let_def)

lemma ClaimJobs_length:
  assumes "ClaimJobs locked tok now w b lease d = (js, d')" and "0 \<le> b"
  shows "int (length js) \<le> b"
proof -
  have "length js = length (claim_candidates locked now b d)" using assms(1) by (auto simp: ClaimJobs_def Let_def)
  also have "int \<dots> \<le> b" unfolding claim_candidates_def by (rule length_sql_limit[OF assms(2)])
  finally show ?thesis .
qed

lemma claimLoop_round_capacity:
  assumes "within_capacity cfg x"
  shows "within_capacity cfg (claimLoop_round sch (NewWorker cfg) locked tok x)"
proof -
  let ?cfg = "NewWorker cfg"
  obtain s cl where x: "x = (s, cl)" by (cases x)
  let ?n = "min (cfg_batch_size ?cfg) (cfg_concurrency ?cfg - cl_sem cl)"
  have cap: "cl_sem cl = int (length (cl_in_flight cl))" "cl_sem cl \<le> cfg_concurrency ?cfg"
    using assms by (simp_all add: within_capacity_def x)
  have res: "reserveSlots (cfg_batch_size ?cfg) (cfg_concurrency ?cfg) (cl_sem cl) 0 = (cl_sem cl + ?n, ?n)"
    using reserveSlots_eq[of "cfg_batch_size ?cfg" 0 "cfg_concurrency ?cfg" "cl_sem cl"] cap NewWorker_positive[of cfg] by simp
  show ?thesis
  proof (cases "?n = 0")
    case True
    with cap show ?thesis unfolding claimLoop_round_def x prod.case res by (simp add: within_capacity_def)
  next
    case False
    have n: "0 \<le> ?n" using cap NewWorker_positive[of cfg] by simp
    define call where "call = store_call sch (\<lambda>now d. case ClaimJobs locked tok now (cfg_worker_id ?cfg) ?n
        (cfg_lease_duration ?cfg) d of (js, d') \<Rightarrow> (Inr js :: go_error + analysis_job list, d')) s"
    obtain r s' where c: "call = (r, s')" by (cases call)
    show ?thesis
    proof (cases r)
      case (Inl e)
      with c False cap show ?thesis
        unfolding claimLoop_round_def x prod.case res call_def[symmetric] by (simp add: within_capacity_def)
    next
      case (Inr js)
      have "int (length js) \<le> ?n"
        using store_call_Inr[OF c[unfolded call_def Inr]] ClaimJobs_length[OF _ n]
        by (auto split: prod.split_asm)
      with Inr c False cap show ?thesis
        unfolding claimLoop_round_def x prod.case res call_def[symmetric] by (simp add: within_capacity_def)
    qed
  qed
qed

interpretation claim_capacity: invariant_system claim_loop_init "claim_loop_step (NewWorker cfg)" "within_capacity cfg" for cfg
proof
  fix x assume "claim_loop_init x"
  then show "within_capacity cfg x"
    using NewWorker_positive(1)[of cfg] by (simp add: claim_loop_init_def within_capacity_def)
next
  fix x y assume "within_capacity cfg x" and "claim_loop_step (NewWorker cfg) x y"
  from this(2,1) show "within_capacity cfg y"
  proof cases
    case (loop_round sch locked tok)
    with \<open>within_capacity cfg x\<close> show ?thesis by (simp add: claimLoop_round_capacity)
  next
    case (loop_done j cl s s')
    then have "1 \<le> length (cl_in_flight cl)" by (cases "cl_in_flight cl") simp_all
    then have "int (length (cl_in_flight cl) - 1) = int (length (cl_in_flight cl)) - 1" by (simp add: of_nat_diff)
    with loop_done \<open>within_capacity cfg x\<close> show ?thesis
      by (simp add: within_capacity_def job_done_def length_remove1)
  qed
qed

text \<open>
  C30. A worker never has more jobs in flight than its concurrency, however claims, lost replies
  and finishing jobs interleave, and every job in flight holds exactly one slot, so no
  claimed job waits for a slot while its lease runs.
\<close>

theorem jobs_in_flight_bounded:
  assumes "reachable claim_loop_init (claim_loop_step (NewWorker cfg)) (s, cl)"
  shows "cl_sem cl = int (length (cl_in_flight cl))
    \<and> int (length (cl_in_flight cl)) \<le> cfg_concurrency (NewWorker cfg) \<and> 1 \<le> cfg_concurrency (NewWorker cfg)"
  using claim_capacity.reachable_inv[OF assms] NewWorker_positive(1)[of cfg] by (simp add: within_capacity_def)

theorem jobs_in_flight_bounded_witness:
  "let x = claimLoop_round (demo_schedule []) (NewWorker demo_config) (\<lambda>_. False) demo_tok
      ((0, demo_created), \<lparr>cl_sem = 0, cl_in_flight = []\<rparr>)
   in length (cl_in_flight (snd x)) = 1 \<and> cl_sem (snd x) = 1 \<and> (1::int) \<le> 4"
proof -
  let ?start = "((0::nat, demo_created), \<lparr>cl_sem = 0, cl_in_flight = []\<rparr>)"
  let ?x = "claimLoop_round (demo_schedule []) (NewWorker demo_config) (\<lambda>_. False) demo_tok ?start"
  have "reachable claim_loop_init (claim_loop_step (NewWorker demo_config)) ?start"
    by (rule reach_init) (simp add: claim_loop_init_def)
  then have "reachable claim_loop_init (claim_loop_step (NewWorker demo_config)) ?x"
    by (rule reach_step) (rule loop_round)
  then have r: "reachable claim_loop_init (claim_loop_step (NewWorker demo_config)) (fst ?x, snd ?x)" by simp
  have "length (cl_in_flight (snd ?x)) = 1" "cfg_concurrency (NewWorker demo_config) = 4" by code_simp+
  with jobs_in_flight_bounded[OF r] show ?thesis by (simp add: Let_def)
qed

end
