(* ===== verification/Build_Model.thy ===== *)
theory Build_Model
  imports Job_Store "HOL-Library.Char_ord" "HOL-Library.List_Lexorder" "HOL-Library.Product_Lexorder"
begin

text \<open>
  The identities of the derived artifacts (\<open>internal/codeintel/model/build.go\<close> and
  \<open>model.go\<close>, \<open>internal/revision/pipeline.go\<close>) and the insertions the pipeline stores
  share. The digest \<open>sha256_hex\<close> and \<open>json.Marshal\<close> are arguments of the functions that
  call them. A row is inserted only when it violates no unique index of its table.
\<close>

section \<open>Versions\<close>

definition CurrentParserVersion :: string where "CurrentParserVersion = ''v2.2.2''"
definition CurrentAnalyzerVersion :: string where "CurrentAnalyzerVersion = ''v2.2.4''"
definition CurrentSymbolSchemaVersion :: string where "CurrentSymbolSchemaVersion = ''v2.1.2''"
definition CurrentRetrievalVersion :: string where "CurrentRetrievalVersion = ''v2.2.1''"
definition CurrentTokenizerVersion :: string where "CurrentTokenizerVersion = ''v2.1.0''"

definition PipelineVersion :: string where "PipelineVersion = ''v2.2.0''"

definition StrategyBM25 :: string where "StrategyBM25 = ''BM25''"
definition StrategyBM25Structural :: string where "StrategyBM25Structural = ''BM25_STRUCTURAL''"
definition StrategyBM25StructuralV2 :: string where "StrategyBM25StructuralV2 = ''BM25_STRUCTURAL_V2''"
definition ProductionRetrievalStrategy :: string where "ProductionRetrievalStrategy = StrategyBM25"

section \<open>Build contexts\<close>

record build_context =
  bc_goos :: string
  bc_goarch :: string
  bc_build_tags :: "string list"

definition DefaultBuildContext :: build_context where
  "DefaultBuildContext = \<lparr>bc_goos = ''linux'', bc_goarch = ''amd64'', bc_build_tags = []\<rparr>"

definition normalizedBuildTags :: "string list \<Rightarrow> string list" where
  "normalizedBuildTags tags = sort (filter (\<lambda>tag. tag \<noteq> '''') (map trim_space tags))"

text \<open>\<open>strings.Join\<close>.\<close>

definition str_join :: "string \<Rightarrow> string list \<Rightarrow> string" where
  "str_join sep xs = (case xs of [] \<Rightarrow> '''' | x # ys \<Rightarrow> x @ concat (map (\<lambda>y. sep @ y) ys))"

definition BuildContextHash :: "(string \<Rightarrow> string) \<Rightarrow> build_context \<Rightarrow> string" where
  "BuildContextHash sha256_hex bc =
    sha256_hex (trim_space (bc_goos bc) @ ''|'' @ trim_space (bc_goarch bc) @ ''|'' @
      str_join '','' (normalizedBuildTags (bc_build_tags bc)))"

definition BuildTagsHash :: "(string \<Rightarrow> string) \<Rightarrow> build_context \<Rightarrow> string" where
  "BuildTagsHash sha256_hex bc = sha256_hex (str_join '','' (normalizedBuildTags (bc_build_tags bc)))"

section \<open>Retrieval configurations\<close>

text \<open>The budgets of the structural expansion (\<open>internal/codeintel/model/expansion.go\<close>).\<close>

definition StructuralV2SeedBudget :: int where "StructuralV2SeedBudget = 8"
definition StructuralV2PerSeedBudget :: int where "StructuralV2PerSeedBudget = 1"
definition StructuralV2ExpansionBudget :: int where "StructuralV2ExpansionBudget = 4"
definition StructuralV2Depth :: int where "StructuralV2Depth = 1"
definition StructuralV2MinConfidence :: rat where "StructuralV2MinConfidence = 19 / 20"
definition StructuralV2RelationLimit :: int where "StructuralV2RelationLimit = 8"

definition RetrievalConfigHash :: "(string \<Rightarrow> string) \<Rightarrow> string \<Rightarrow> string" where
  "RetrievalConfigHash sha256_hex strategy =
    (if strategy = StrategyBM25StructuralV2 then
       sha256_hex (strategy @ ''|k1=1.2|b=0.75|structural=semantic-onehop-v2|base=2*topK|seeds='' @
         itoa StructuralV2SeedBudget @ ''|per_seed='' @ itoa StructuralV2PerSeedBudget @
         ''|max_expanded='' @ itoa StructuralV2ExpansionBudget @ ''|depth='' @ itoa StructuralV2Depth @
         ''|min_confidence=0.95|rows_per_direction='' @ itoa StructuralV2RelationLimit @
         ''|call=forward-semantic|test=reverse-direct-semantic|order=effective-rank,base-first,call-first,seed-rank,symbol-hash|targets=hash-asc,confidence-desc,reason-asc|base-neighbors=skip'')
     else
       let structural = (if strategy = StrategyBM25Structural then ''symbol-expansion-v1'' else ''none'')
       in sha256_hex (strategy @ ''|k1=1.2|b=0.75|structural='' @ structural))"

section \<open>The pipeline fingerprint\<close>

record pipeline_fingerprint_input =
  pfi_pipeline_version :: string
  pfi_parser_version :: string
  pfi_analyzer_version :: string
  pfi_symbol_schema_version :: string
  pfi_retrieval_version :: string
  pfi_tokenizer_version :: string
  pfi_retrieval_strategy :: string
  pfi_bm25_k1 :: string
  pfi_bm25_b :: string
  pfi_structural_parameters :: string
  pfi_file_filter_version :: string

definition ComputePipelineFingerprint ::
  "(pipeline_fingerprint_input \<Rightarrow> string) \<Rightarrow> (string \<Rightarrow> string) \<Rightarrow> string" where
  "ComputePipelineFingerprint marshal sha256_hex =
    sha256_hex (marshal \<lparr>pfi_pipeline_version = PipelineVersion,
      pfi_parser_version = CurrentParserVersion, pfi_analyzer_version = CurrentAnalyzerVersion,
      pfi_symbol_schema_version = CurrentSymbolSchemaVersion,
      pfi_retrieval_version = CurrentRetrievalVersion, pfi_tokenizer_version = CurrentTokenizerVersion,
      pfi_retrieval_strategy = ProductionRetrievalStrategy, pfi_bm25_k1 = ''1.2'', pfi_bm25_b = ''0.75'',
      pfi_structural_parameters = ''none'', pfi_file_filter_version = ''filter-v2.2''\<rparr>)"

section \<open>Insertion\<close>

text \<open>
  \<open>pending_job\<close> is the literal \<open>jobs.AnalysisJob\<close> the pipeline creates. GORM fills the zero
  fields that have a default and the two time stamps, with the instant of the operation.
\<close>

definition pending_job :: "job_type \<Rightarrow> string \<Rightarrow> int \<Rightarrow> time \<Rightarrow> analysis_job" where
  "pending_job jobType resourceID generation nextRunAt = \<lparr>
     job_id = 0, job_type = jobType, job_resource_id = resourceID, job_status = StatusPending,
     job_execution_generation = generation, job_terminal_reason = None, job_attempt_count = 0,
     job_execution_started = False, job_max_attempts = 3, job_next_run_at = nextRunAt,
     job_worker_id = None, job_claim_token = None, job_lease_until = None,
     job_cancel_requested = False, job_last_error_class = None, job_last_error_code = None,
     job_last_error_message = None, job_created_at = 0, job_updated_at = 0, job_finished_at = None\<rparr>"

definition createJobGorm :: "time \<Rightarrow> analysis_job \<Rightarrow> db \<Rightarrow> go_error + db" where
  "createJobGorm now job d =
    (if list_ex (\<lambda>r. job_type r = job_type job \<and> job_resource_id r = job_resource_id job) (analysis_jobs d)
     then Inl DuplicateKey
     else Inr (d\<lparr>analysis_jobs := analysis_jobs d @ [job\<lparr>job_id := next_job_id d,
         job_execution_generation := (if job_execution_generation job = 0 then 1 else job_execution_generation job),
         job_created_at := now, job_updated_at := now\<rparr>],
       next_job_id := next_job_id d + 1\<rparr>))"

text \<open>\<open>uq_repo_commit_revision\<close> and the primary key of the snapshots.\<close>

definition snapshot_identity :: "repository_snapshot \<Rightarrow> string \<times> string \<times> string" where
  "snapshot_identity s = (snap_repository_id s, snap_commit_sha s, snap_analysis_revision_id s)"

definition insert_snapshot :: "time \<Rightarrow> repository_snapshot \<Rightarrow> db \<Rightarrow> go_error + db" where
  "insert_snapshot now s d =
    (if list_ex (\<lambda>r. snap_id r = snap_id s \<or> snapshot_identity r = snapshot_identity s) (repository_snapshots d)
     then Inl DuplicateKey
     else Inr (d\<lparr>repository_snapshots := repository_snapshots d @
       [s\<lparr>snap_created_at := (if snap_created_at s = 0 then now else snap_created_at s)\<rparr>]\<rparr>))"

text \<open>\<open>uq_revision_identity\<close> and the primary key of the revisions.\<close>

definition revision_identity :: "analysis_revision \<Rightarrow> string \<times> string \<times> string" where
  "revision_identity v = (rev_repository_id v, rev_commit_sha v, rev_pipeline_fingerprint v)"

definition insert_revision :: "analysis_revision \<Rightarrow> db \<Rightarrow> go_error + db" where
  "insert_revision v d =
    (if list_ex (\<lambda>r. rev_id r = rev_id v \<or> revision_identity r = revision_identity v) (analysis_revisions d)
     then Inl DuplicateKey
     else Inr (d\<lparr>analysis_revisions := analysis_revisions d @ [v]\<rparr>))"

text \<open>\<open>uq_code_index_build\<close>; the primary key is the \<open>AUTO_INCREMENT\<close> counter.\<close>

definition code_build_identity :: "code_index_build \<Rightarrow> string \<times> string \<times> string \<times> string \<times> string" where
  "code_build_identity b = (cib_snapshot_id b, cib_parser_version b, cib_analyzer_version b,
     cib_symbol_schema_version b, cib_build_context_hash b)"

definition insert_code_build :: "code_index_build \<Rightarrow> db \<Rightarrow> go_error + code_index_build \<times> db" where
  "insert_code_build b0 d =
    (if list_ex (\<lambda>r. code_build_identity r = code_build_identity b0) (code_index_builds d)
     then Inl DuplicateKey
     else let b = b0\<lparr>cib_id := next_code_index_build_id d\<rparr> in
       Inr (b, d\<lparr>code_index_builds := code_index_builds d @ [b],
         next_code_index_build_id := next_code_index_build_id d + 1\<rparr>))"

text \<open>\<open>uq_retrieval_build\<close>.\<close>

definition retrieval_build_identity :: "retrieval_build \<Rightarrow> int \<times> string \<times> string \<times> string \<times> string" where
  "retrieval_build_identity b = (rb_code_index_build_id b, rb_strategy b, rb_retrieval_version b,
     rb_tokenizer_version b, rb_config_hash b)"

definition insert_retrieval_build :: "retrieval_build \<Rightarrow> db \<Rightarrow> go_error + retrieval_build \<times> db" where
  "insert_retrieval_build b0 d =
    (if list_ex (\<lambda>r. retrieval_build_identity r = retrieval_build_identity b0) (retrieval_builds d)
     then Inl DuplicateKey
     else let b = b0\<lparr>rb_id := next_retrieval_build_id d\<rparr> in
       Inr (b, d\<lparr>retrieval_builds := retrieval_builds d @ [b],
         next_retrieval_build_id := next_retrieval_build_id d + 1\<rparr>))"

text \<open>The struct literals, with every column the code leaves out at its zero value.\<close>

definition new_code_build ::
  "(string \<Rightarrow> string) \<Rightarrow> string \<Rightarrow> string \<Rightarrow> string \<Rightarrow> build_context \<Rightarrow> string \<Rightarrow> time \<Rightarrow> code_index_build" where
  "new_code_build sha256_hex revisionID snapshotID modulePath bc tagsJSON createdAt = \<lparr>
     cib_id = 0, cib_snapshot_id = snapshotID, cib_analysis_revision_id = revisionID,
     cib_parser_version = CurrentParserVersion, cib_analyzer_version = CurrentAnalyzerVersion,
     cib_symbol_schema_version = CurrentSymbolSchemaVersion,
     cib_build_context_hash = BuildContextHash sha256_hex bc, cib_module_path = modulePath,
     cib_goos = bc_goos bc, cib_goarch = bc_goarch bc,
     cib_build_tags_hash = BuildTagsHash sha256_hex bc, cib_build_tags_json = tagsJSON,
     cib_status = BuildStatusCreated, cib_files_total = 0, cib_files_parsed = 0, cib_files_failed = 0,
     cib_packages_total = 0, cib_packages_typechecked = 0, cib_packages_failed = 0,
     cib_symbol_count = 0, cib_semantic_relation_count = 0, cib_syntactic_relation_count = 0,
     cib_heuristic_relation_count = 0, cib_unresolved_relation_count = 0, cib_symlinks_skipped = 0,
     cib_quality_warnings_json = '''', cib_error_code = '''', cib_created_at = createdAt,
     cib_ready_at = None\<rparr>"

definition new_retrieval_build ::
  "(string \<Rightarrow> string) \<Rightarrow> string \<Rightarrow> int \<Rightarrow> string \<Rightarrow> time \<Rightarrow> retrieval_build" where
  "new_retrieval_build sha256_hex revisionID codeIndexBuildID strategy createdAt = \<lparr>
     rb_id = 0, rb_code_index_build_id = codeIndexBuildID, rb_analysis_revision_id = revisionID,
     rb_strategy = strategy, rb_retrieval_version = CurrentRetrievalVersion,
     rb_tokenizer_version = CurrentTokenizerVersion,
     rb_config_hash = RetrievalConfigHash sha256_hex strategy, rb_artifact_path = '''',
     rb_artifact_hash = '''', rb_document_count = 0, rb_status = BuildStatusCreated,
     rb_error_code = '''', rb_created_at = createdAt, rb_ready_at = None\<rparr>"

section \<open>Claims of the stage transactions\<close>

text \<open>The condition the stage transactions put on the job they complete.\<close>

definition owned_started :: "int \<Rightarrow> string \<Rightarrow> string \<Rightarrow> analysis_job \<Rightarrow> bool" where
  "owned_started jobID workerID claimToken r \<longleftrightarrow>
    claimed_by jobID workerID claimToken r \<and> job_execution_started r \<and> \<not> job_cancel_requested r"

definition requireOwnedJob :: "int \<Rightarrow> string \<Rightarrow> string \<Rightarrow> db \<Rightarrow> go_error + analysis_job" where
  "requireOwnedJob jobID workerID claimToken d =
    (case find (owned_started jobID workerID claimToken) (analysis_jobs d) of
       None \<Rightarrow> Inl ErrOwnershipLost | Some job \<Rightarrow> Inr job)"

definition requireOwnedPipelineJobTx ::
  "int \<Rightarrow> string \<Rightarrow> string \<Rightarrow> job_type \<Rightarrow> string \<Rightarrow> db \<Rightarrow> go_error + analysis_job" where
  "requireOwnedPipelineJobTx jobID workerID claimToken jobType resourceID d =
    (case find (\<lambda>r. owned_started jobID workerID claimToken r \<and> job_type r = jobType
                    \<and> job_resource_id r = resourceID) (analysis_jobs d) of
       None \<Rightarrow> Inl ErrOwnershipLost | Some job \<Rightarrow> Inr job)"

definition finalizeOwnedJob :: "time \<Rightarrow> int \<Rightarrow> string \<Rightarrow> string \<Rightarrow> db \<Rightarrow> go_error + db" where
  "finalizeOwnedJob now jobID workerID claimToken d =
    (let P = owned_started jobID workerID claimToken
     in if sql_count P (analysis_jobs d) \<noteq> 1 then Inl ErrOwnershipLost
        else Inr (set_jobs P (\<lambda>r. r\<lparr>job_status := StatusSucceeded, job_finished_at := Some now,
               job_updated_at := now\<rparr>) d))"

end
