(* ===== verification/Snapshot_Store.thy ===== *)
theory Snapshot_Store
  imports Build_Model
begin

text \<open>
  The snapshot store (\<open>internal/snapshot/store.go\<close>): creation, lookups, the conditional
  status transitions and the claim-fenced publication of a materialized snapshot, with and
  without an analysis revision to advance.
\<close>

section \<open>Creation and lookup\<close>

definition snapshot_Create :: "(nat \<Rightarrow> string) \<Rightarrow> time \<Rightarrow> repository_snapshot \<Rightarrow> db \<Rightarrow> (go_error + unit) \<times> db" where
  "snapshot_Create uuid now snap =
    unit_tx (insert_snapshot now (snap\<lparr>snap_id := (if snap_id snap = '''' then uuid 0 else snap_id snap)\<rparr>))"

definition first_row :: "'r list \<Rightarrow> go_error + 'r" where
  "first_row rows = (case rows of [] \<Rightarrow> Inl GormErrRecordNotFound | r # _ \<Rightarrow> Inr r)"

definition snapshot_GetByID :: "string \<Rightarrow> db \<Rightarrow> go_error + repository_snapshot" where
  "snapshot_GetByID i d =
    (case by_key snap_id i (repository_snapshots d) of
       None \<Rightarrow> Inl GormErrRecordNotFound | Some s \<Rightarrow> Inr s)"

text \<open>\<open>First\<close> orders by the primary key behind the columns of \<open>Order\<close>.\<close>

definition GetLatestReady :: "string \<Rightarrow> db \<Rightarrow> go_error + repository_snapshot" where
  "GetLatestReady repoID d =
    first_row (sort_key (\<lambda>s. (- snap_created_at s, snap_id s))
      (filter (\<lambda>s. snap_repository_id s = repoID \<and> snap_status s = SnapReady) (repository_snapshots d)))"

definition GetByCommit :: "string \<Rightarrow> string \<Rightarrow> db \<Rightarrow> go_error + repository_snapshot" where
  "GetByCommit repoID commitSHA d =
    first_row (rev (sort_key (\<lambda>s. (snap_created_at s, snap_id s))
      (filter (\<lambda>s. snap_repository_id s = repoID \<and> snap_commit_sha s = commitSHA) (repository_snapshots d))))"

definition GetLegacyByCommit :: "string \<Rightarrow> string \<Rightarrow> db \<Rightarrow> go_error + repository_snapshot" where
  "GetLegacyByCommit repoID commitSHA d =
    first_row (rev (sort_key (\<lambda>s. (snap_created_at s, snap_id s))
      (filter (\<lambda>s. snap_repository_id s = repoID \<and> snap_commit_sha s = commitSHA
                  \<and> snap_analysis_revision_id s = '''') (repository_snapshots d))))"

section \<open>Status transitions\<close>

definition UpdateStatus ::
  "string \<Rightarrow> snapshot_status \<Rightarrow> snapshot_status \<Rightarrow> time option \<Rightarrow> db \<Rightarrow> (go_error + unit) \<times> db" where
  "UpdateStatus i expectedOldStatus newStatus readyAt d =
    (if expectedOldStatus = SnapReady \<or> (expectedOldStatus \<noteq> SnapCreated \<and> expectedOldStatus \<noteq> SnapMaterializing)
     then (Inl (Errorf (''snapshot '' @ i @ '' has immutable or invalid source state '' @
             snapshot_status_text expectedOldStatus) []), d)
     else if (expectedOldStatus = SnapCreated \<and> newStatus \<noteq> SnapMaterializing)
          \<or> (expectedOldStatus = SnapMaterializing \<and> newStatus \<noteq> SnapReady \<and> newStatus \<noteq> SnapFailed)
     then (Inl (Errorf (''invalid snapshot transition '' @ snapshot_status_text expectedOldStatus @
             '' -> '' @ snapshot_status_text newStatus) []), d)
     else
       let P = (\<lambda>s. snap_id s = i \<and> snap_status s = expectedOldStatus);
           f = (\<lambda>s. s\<lparr>snap_status := newStatus,
                 snap_ready_at := (case readyAt of None \<Rightarrow> snap_ready_at s | Some t \<Rightarrow> Some t)\<rparr>)
       in if sql_count P (repository_snapshots d) = 0
          then (Inl (Errorf (''snapshot '' @ i @ '' status transition conflict: expected '' @
                  snapshot_status_text expectedOldStatus) []), d)
          else (Inr (), set_snapshots P f d))"

definition FailMaterialization :: "string \<Rightarrow> string \<Rightarrow> db \<Rightarrow> (go_error + unit) \<times> db" where
  "FailMaterialization i errorCode d =
    (let P = (\<lambda>s. snap_id s = i \<and> snap_status s = SnapMaterializing);
         d' = set_snapshots P (\<lambda>s. s\<lparr>snap_status := SnapFailed, snap_error_code := errorCode\<rparr>) d
     in if sql_count P (repository_snapshots d) \<noteq> 1
        then (Inl (Errorf (''snapshot '' @ i @ '' failure transition conflict'') []), d')
        else (Inr (), d'))"

section \<open>Publication\<close>

text \<open>What materialization found.\<close>

record materialization =
  mat_path :: string
  mat_commit_sha :: string
  mat_content_hash :: string
  mat_file_count :: int
  mat_total_bytes :: int
  mat_ready_at :: time

definition materialization_incomplete :: "materialization \<Rightarrow> bool" where
  "materialization_incomplete m \<longleftrightarrow>
    mat_path m = '''' \<or> mat_commit_sha m = '''' \<or> mat_commit_sha m = ''pending'' \<or> mat_content_hash m = ''''"

definition incomplete_error :: "string \<Rightarrow> go_error" where
  "incomplete_error i = Errorf (''snapshot '' @ i @ '' cannot become READY without exact commit and content hash'') []"

definition publish_row :: "materialization \<Rightarrow> repository_snapshot \<Rightarrow> repository_snapshot" where
  "publish_row m s = s\<lparr>snap_materialized_path := mat_path m, snap_commit_sha := mat_commit_sha m,
     snap_content_hash := mat_content_hash m, snap_file_count := mat_file_count m,
     snap_total_bytes := mat_total_bytes m, snap_status := SnapReady, snap_ready_at := Some (mat_ready_at m)\<rparr>"

text \<open>The update fails when the commit it writes gives two snapshots one identity.\<close>

definition publish_snapshots ::
  "(repository_snapshot \<Rightarrow> bool) \<Rightarrow> materialization \<Rightarrow> go_error \<Rightarrow> db \<Rightarrow> go_error + db" where
  "publish_snapshots P m conflict d =
    (if \<not> distinct (map snapshot_identity (sql_set P (publish_row m) (repository_snapshots d)))
     then Inl DuplicateKey
     else if sql_count P (repository_snapshots d) \<noteq> 1 then Inl conflict
     else Inr (set_snapshots P (publish_row m) d))"

definition materialization_conflict :: "string \<Rightarrow> go_error" where
  "materialization_conflict i = Errorf (''snapshot '' @ i @ '' materialization finalize conflict'') []"

definition FinalizeMaterialization :: "string \<Rightarrow> materialization \<Rightarrow> db \<Rightarrow> (go_error + unit) \<times> db" where
  "FinalizeMaterialization i m d =
    (if materialization_incomplete m then (Inl (incomplete_error i), d)
     else unit_tx (publish_snapshots (\<lambda>s. snap_id s = i \<and> snap_status s = SnapMaterializing) m
            (materialization_conflict i)) d)"

definition FinalizeSnapshotSuccessTx ::
  "int \<Rightarrow> string \<Rightarrow> string \<Rightarrow> string \<Rightarrow> materialization \<Rightarrow> db \<Rightarrow> go_error + db" where
  "FinalizeSnapshotSuccessTx jobID workerID claimToken snapshotID m d =
    bindE (requireOwnedJob jobID workerID claimToken d) (\<lambda>_.
    bindE (publish_snapshots (\<lambda>s. snap_id s = snapshotID \<and> snap_status s = SnapMaterializing) m
             (materialization_conflict snapshotID) d) (\<lambda>d1.
    finalizeOwnedJob (mat_ready_at m) jobID workerID claimToken d1))"

definition FinalizeSnapshotSuccess ::
  "int \<Rightarrow> string \<Rightarrow> string \<Rightarrow> string \<Rightarrow> materialization \<Rightarrow> db \<Rightarrow> (go_error + unit) \<times> db" where
  "FinalizeSnapshotSuccess jobID workerID claimToken snapshotID m d =
    (if materialization_incomplete m then (Inl (incomplete_error snapshotID), d)
     else unit_tx (FinalizeSnapshotSuccessTx jobID workerID claimToken snapshotID m) d)"

text \<open>
  The stage transaction of a revision: the snapshot, its code index build and the job of that
  build, the revision and the claimed job, in one transaction.
\<close>

definition existing_code_index_id :: "string \<Rightarrow> string \<Rightarrow> db \<Rightarrow> int" where
  "existing_code_index_id revisionID snapshotID d =
    (case find (\<lambda>v. rev_id v = revisionID \<and> rev_status v = RevPreparing \<and> rev_snapshot_id v = snapshotID)
            (analysis_revisions d) of
       None \<Rightarrow> 0 | Some v \<Rightarrow> rev_code_index_build_id v)"

definition next_code_build ::
  "(string \<Rightarrow> string) \<Rightarrow> string \<Rightarrow> string \<Rightarrow> string \<Rightarrow> time \<Rightarrow> db \<Rightarrow> go_error + int \<times> db" where
  "next_code_build sha256_hex revisionID snapshotID modulePath readyAt d =
    (let codeIndexID = existing_code_index_id revisionID snapshotID d in
     if codeIndexID \<noteq> 0 then
       (case by_key cib_id codeIndexID (code_index_builds d) of
          None \<Rightarrow> Inl GormErrRecordNotFound
        | Some b \<Rightarrow>
            if cib_analysis_revision_id b \<noteq> revisionID \<or> cib_snapshot_id b \<noteq> snapshotID
            then Inl (Errorf ''analysis revision lineage is incomplete or inconsistent'' [])
            else Inr (codeIndexID, d))
     else
       bindE (insert_code_build (new_code_build sha256_hex revisionID snapshotID modulePath
                DefaultBuildContext '''' readyAt) d) (\<lambda>(b, d'). Inr (cib_id b, d')))"

text \<open>A job for a resource that has none.\<close>

definition handoff_job :: "job_type \<Rightarrow> string \<Rightarrow> int \<Rightarrow> time \<Rightarrow> db \<Rightarrow> go_error + db" where
  "handoff_job jobType resourceID generation readyAt d =
    (case find (\<lambda>r. job_type r = jobType \<and> job_resource_id r = resourceID) (analysis_jobs d) of
       Some _ \<Rightarrow> Inr d
     | None \<Rightarrow> createJobGorm readyAt (pending_job jobType resourceID generation readyAt) d)"

definition FinalizeSnapshotSuccessWithRevisionTx ::
  "(string \<Rightarrow> string) \<Rightarrow> int \<Rightarrow> string \<Rightarrow> string \<Rightarrow> string \<Rightarrow> string \<Rightarrow> string \<Rightarrow> materialization \<Rightarrow> db \<Rightarrow>
    go_error + db" where
  "FinalizeSnapshotSuccessWithRevisionTx sha256_hex jobID workerID claimToken snapshotID revisionID modulePath m d =
    bindE (requireOwnedJob jobID workerID claimToken d) (\<lambda>job.
    bindE (publish_snapshots (\<lambda>s. snap_id s = snapshotID \<and> snap_status s = SnapMaterializing
              \<and> snap_analysis_revision_id s = revisionID) m (materialization_conflict snapshotID) d) (\<lambda>d1.
    bindE (next_code_build sha256_hex revisionID snapshotID modulePath (mat_ready_at m) d1) (\<lambda>(codeIndexID, d2).
    bindE (handoff_job JobTypeBuildCodeIndex (itoa codeIndexID) (job_execution_generation job)
             (mat_ready_at m) d2) (\<lambda>d3.
      let P = (\<lambda>v. rev_id v = revisionID \<and> rev_status v = RevPreparing \<and> rev_snapshot_id v = snapshotID)
      in if sql_count P (analysis_revisions d3) \<noteq> 1
         then Inl (Errorf (''analysis revision '' @ revisionID @ '' lineage transition conflict'') [])
         else finalizeOwnedJob (mat_ready_at m) jobID workerID claimToken
           (set_revisions P (\<lambda>v. v\<lparr>rev_stage := StageBuildingCode, rev_code_index_build_id := codeIndexID,
              rev_version := rev_version v + 1, rev_updated_at := mat_ready_at m\<rparr>) d3)))))"

definition FinalizeSnapshotSuccessWithRevision ::
  "(string \<Rightarrow> string) \<Rightarrow> int \<Rightarrow> string \<Rightarrow> string \<Rightarrow> string \<Rightarrow> string \<Rightarrow> string \<Rightarrow> materialization \<Rightarrow> db \<Rightarrow>
    (go_error + unit) \<times> db" where
  "FinalizeSnapshotSuccessWithRevision sha256_hex jobID workerID claimToken snapshotID revisionID modulePath m d =
    (if materialization_incomplete m then (Inl (incomplete_error snapshotID), d)
     else unit_tx (FinalizeSnapshotSuccessWithRevisionTx sha256_hex jobID workerID claimToken snapshotID
            revisionID modulePath m) d)"

section \<open>The service\<close>

definition snapshot_service_Create ::
  "(nat \<Rightarrow> string) \<Rightarrow> time \<Rightarrow> string \<Rightarrow> string \<Rightarrow> string \<Rightarrow> string \<Rightarrow> db \<Rightarrow> (go_error + repository_snapshot) \<times> db" where
  "snapshot_service_Create uuid now repoID commitSHA ref materializedPath d =
    (let snap = \<lparr>snap_id = uuid 0, snap_repository_id = repoID, snap_analysis_revision_id = '''',
           snap_commit_sha = commitSHA, snap_ref = ref, snap_requested_ref = '''',
           snap_materialized_path = materializedPath, snap_content_hash = '''', snap_status = SnapCreated,
           snap_file_count = 0, snap_total_bytes = 0, snap_error_code = '''', snap_created_at = now,
           snap_ready_at = None\<rparr>
     in case snapshot_Create uuid now snap d of
          (Inl e, d') \<Rightarrow> (Inl e, d') | (Inr _, d') \<Rightarrow> (Inr snap, d'))"

definition snapshot_service_Get :: "string \<Rightarrow> db \<Rightarrow> go_error + repository_snapshot" where
  "snapshot_service_Get i d =
    (case snapshot_GetByID i d of
       Inl e \<Rightarrow> if errors_is e GormErrRecordNotFound then Inl (Errorf ''snapshot not found'' []) else Inl e
     | Inr s \<Rightarrow> Inr s)"

end
