(* ===== verification/Code_Intel_Store.thy ===== *)
theory Code_Intel_Store
  imports Snapshot_Store
begin

text \<open>
  The store of code index and retrieval builds (\<open>internal/codeintel/store/store.go\<close>):
  creation and reuse of builds with their jobs, the persistence of an analysis result, the
  stage transactions that publish a build, and the validation of a lineage. An operation
  reads the clock once (\<open>now\<close>); \<open>sha256_hex\<close> and the JSON encoding \<open>marshal\<close> of a list of
  strings are arguments.
\<close>

section \<open>Errors and results\<close>

definition ErrBuildNotFound :: go_error where
  "ErrBuildNotFound = Sentinel ''codeintel.ErrBuildNotFound'' ''code index build not found''"

definition ErrBuildLineageMismatch :: go_error where
  "ErrBuildLineageMismatch = Sentinel ''codeintel.ErrBuildLineageMismatch''
     ''build lineage mismatch: artifacts do not belong to the same snapshot chain''"

definition ErrSymbolNotFound :: go_error where
  "ErrSymbolNotFound = Sentinel ''codeintel.ErrSymbolNotFound'' ''code symbol not found''"

text \<open>\<open>revision.ErrLineage\<close>, which the stage transactions return.\<close>

definition ErrLineage :: go_error where
  "ErrLineage = Sentinel ''revision.ErrLineage'' ''analysis revision lineage is incomplete or inconsistent''"

record related_test_discovery =
  rtd_target_symbol_key_hash :: string
  rtd_target_symbol_name :: string
  rtd_test_symbol_key_hash :: string
  rtd_test_symbol_name :: string
  rtd_test_file_path :: string
  rtd_reason_code :: test_relation_reason
  rtd_resolution_kind :: resolution_kind
  rtd_confidence :: rat
  rtd_explanation :: string
  rtd_test_line :: int

record analysis_quality =
  q_files_total :: int
  q_files_parsed :: int
  q_files_failed :: int
  q_packages_total :: int
  q_packages_typechecked :: int
  q_packages_failed :: int
  q_semantic_relations_count :: int
  q_syntactic_relations_count :: int
  q_heuristic_relations_count :: int
  q_unresolved_relations_count :: int
  q_symlinks_skipped :: int
  q_warnings :: "string list"

record analysis_result =
  ar_module_path :: string
  ar_build_context :: build_context
  ar_files :: "code_file list"
  ar_symbols :: "symbol list"
  ar_relations :: "symbol_relation list"
  ar_related_tests :: "related_test_discovery list"
  ar_quality :: analysis_quality

section \<open>Builds and their jobs\<close>

definition ensureAnalysisJobTx :: "time \<Rightarrow> job_type \<Rightarrow> string \<Rightarrow> int \<Rightarrow> time \<Rightarrow> db \<Rightarrow> go_error + db" where
  "ensureAnalysisJobTx now jobType resourceID generation nextRunAt d =
    (case find (\<lambda>r. job_type r = jobType \<and> job_resource_id r = resourceID) (analysis_jobs d) of
       Some _ \<Rightarrow> Inr d
     | None \<Rightarrow> createJobGorm now
         (pending_job jobType resourceID (if generation < 1 then 1 else generation) nextRunAt) d)"

definition ensureAnalysisJob :: "time \<Rightarrow> job_type \<Rightarrow> string \<Rightarrow> int \<Rightarrow> time \<Rightarrow> db \<Rightarrow> (go_error + unit) \<times> db" where
  "ensureAnalysisJob now jobType resourceID generation nextRunAt =
    unit_tx (ensureAnalysisJobTx now jobType resourceID generation nextRunAt)"

definition getBuildByIdentity :: "string \<Rightarrow> string \<Rightarrow> db \<Rightarrow> go_error + code_index_build" where
  "getBuildByIdentity snapshotID contextHash d =
    (case find (\<lambda>b. code_build_identity b = (snapshotID, CurrentParserVersion, CurrentAnalyzerVersion,
              CurrentSymbolSchemaVersion, contextHash)) (code_index_builds d) of
       None \<Rightarrow> Inl GormErrRecordNotFound | Some b \<Rightarrow> Inr b)"

definition createBuildTx ::
  "(string \<Rightarrow> string) \<Rightarrow> (string list \<Rightarrow> string) \<Rightarrow> string \<Rightarrow> string \<Rightarrow> build_context \<Rightarrow> int \<Rightarrow> time \<Rightarrow> db \<Rightarrow>
    go_error + (code_index_build \<times> bool) \<times> db" where
  "createBuildTx sha256_hex marshal snapshotID modulePath bc generation createdAt d =
    bindE (insert_code_build (new_code_build sha256_hex '''' snapshotID modulePath bc
             (marshal (bc_build_tags bc)) createdAt) d) (\<lambda>(b, d1).
    bindE (ensureAnalysisJobTx createdAt JobTypeBuildCodeIndex (itoa (cib_id b)) generation createdAt d1) (\<lambda>d2.
    Inr ((b, True), d2)))"

definition getOrCreateBuildTx ::
  "(string \<Rightarrow> string) \<Rightarrow> (string list \<Rightarrow> string) \<Rightarrow> string \<Rightarrow> string \<Rightarrow> build_context \<Rightarrow> int \<Rightarrow> time \<Rightarrow> db \<Rightarrow>
    go_error + (code_index_build \<times> bool) \<times> db" where
  "getOrCreateBuildTx sha256_hex marshal snapshotID modulePath bc generation createdAt d =
    (case getBuildByIdentity snapshotID (BuildContextHash sha256_hex bc) d of
       Inr b \<Rightarrow> bindE (ensureAnalysisJobTx createdAt JobTypeBuildCodeIndex (itoa (cib_id b)) generation createdAt d)
                 (\<lambda>d1. Inr ((b, False), d1))
     | Inl e \<Rightarrow>
         if \<not> errors_is e GormErrRecordNotFound then Inl e
         else createBuildTx sha256_hex marshal snapshotID modulePath bc generation createdAt d)"

definition GetOrCreateBuild ::
  "(string \<Rightarrow> string) \<Rightarrow> (string list \<Rightarrow> string) \<Rightarrow> time \<Rightarrow> string \<Rightarrow> string \<Rightarrow> build_context \<Rightarrow> db \<Rightarrow>
    (go_error + code_index_build \<times> bool) \<times> db" where
  "GetOrCreateBuild sha256_hex marshal now snapshotID modulePath bc d =
    (let ensured = (\<lambda>b d. case ensureAnalysisJob now JobTypeBuildCodeIndex (itoa (cib_id b)) 1 now d of
                     (Inl e, d') \<Rightarrow> (Inl e, d') | (Inr _, d') \<Rightarrow> (Inr (b, False), d'))
     in case getBuildByIdentity snapshotID (BuildContextHash sha256_hex bc) d of
          Inr b \<Rightarrow> ensured b d
        | Inl e \<Rightarrow>
            if \<not> errors_is e GormErrRecordNotFound then (Inl e, d)
            else
              (case run_tx (createBuildTx sha256_hex marshal snapshotID modulePath bc 1 now) d of
                 (Inr r, d1) \<Rightarrow> (Inr r, d1)
               | (Inl err, d1) \<Rightarrow>
                   (case getBuildByIdentity snapshotID (BuildContextHash sha256_hex bc) d1 of
                      Inl _ \<Rightarrow> (Inl err, d1)
                    | Inr winner \<Rightarrow> ensured winner d1)))"

definition codeintel_GetByID :: "int \<Rightarrow> db \<Rightarrow> go_error + code_index_build" where
  "codeintel_GetByID i d =
    (case by_key cib_id i (code_index_builds d) of None \<Rightarrow> Inl ErrBuildNotFound | Some b \<Rightarrow> Inr b)"

definition GetBySnapshot :: "string \<Rightarrow> db \<Rightarrow> go_error + code_index_build" where
  "GetBySnapshot snapshotID d =
    (case rev (sort_key cib_id (filter (\<lambda>b. cib_snapshot_id b = snapshotID) (code_index_builds d))) of
       [] \<Rightarrow> Inl ErrBuildNotFound | b # _ \<Rightarrow> Inr b)"

definition MarkBuildBuilding :: "int \<Rightarrow> db \<Rightarrow> (go_error + unit) \<times> db" where
  "MarkBuildBuilding buildID d =
    (let P = (\<lambda>b. cib_id b = buildID \<and> (cib_status b = BuildStatusCreated \<or> cib_status b = BuildStatusBuilding))
     in if sql_count P (code_index_builds d) = 0
        then (Inl (Errorf (''code index build '' @ itoa buildID @ '' is not claimable'') []), d)
        else (Inr (), set_code_builds P (\<lambda>b. b\<lparr>cib_status := BuildStatusBuilding\<rparr>) d))"

section \<open>The analysis result\<close>

definition relatedTestKey :: "string \<Rightarrow> string \<Rightarrow> string" where
  "relatedTestKey targetHash testHash = targetHash @ [char_of (0::nat)] @ testHash"

definition insert_code_file :: "code_file \<Rightarrow> db \<Rightarrow> int \<times> db" where
  "insert_code_file f d = (next_code_file_id d,
     d\<lparr>code_files := code_files d @ [f\<lparr>cf_id := next_code_file_id d\<rparr>],
       next_code_file_id := next_code_file_id d + 1\<rparr>)"

definition insert_symbol :: "symbol \<Rightarrow> db \<Rightarrow> int \<times> db" where
  "insert_symbol s d = (next_symbol_id d,
     d\<lparr>symbols := symbols d @ [s\<lparr>sym_id := next_symbol_id d\<rparr>], next_symbol_id := next_symbol_id d + 1\<rparr>)"

definition insert_relation :: "symbol_relation \<Rightarrow> db \<Rightarrow> db" where
  "insert_relation r d =
     d\<lparr>symbol_relations := symbol_relations d @ [r\<lparr>rel_id := next_symbol_relation_id d\<rparr>],
       next_symbol_relation_id := next_symbol_relation_id d + 1\<rparr>"

text \<open>The loops of \<open>saveAnalysisResultTx\<close>, with the maps they build.\<close>

fun save_files :: "time \<Rightarrow> int \<Rightarrow> code_file list \<Rightarrow> (string \<rightharpoonup> int) \<Rightarrow> db \<Rightarrow> (string \<rightharpoonup> int) \<times> db" where
  "save_files now buildID [] fileMap d = (fileMap, d)"
| "save_files now buildID (f # fs) fileMap d =
    (let (i, d1) = insert_code_file (f\<lparr>cf_code_index_build_id := buildID, cf_created_at := now\<rparr>) d
     in save_files now buildID fs (fileMap(cf_path f \<mapsto> i)) d1)"

fun save_symbols ::
  "int \<Rightarrow> (string \<rightharpoonup> int) \<Rightarrow> symbol list \<Rightarrow> (string \<rightharpoonup> int) \<Rightarrow> db \<Rightarrow> go_error + (string \<rightharpoonup> int) \<times> db" where
  "save_symbols buildID fileMap [] symbolMap d = Inr (symbolMap, d)"
| "save_symbols buildID fileMap (s # ss) symbolMap d =
    (if symbolMap (sym_key_hash s) \<noteq> None
     then Inl (Errorf (''symbol identity collision: hash='' @ sym_key_hash s @ '' declaration='' @
            sym_file_path s @ '':'' @ itoa (sym_start_line s) @ '':'' @ itoa (sym_start_col s)) [])
     else
       let (i, d1) = insert_symbol (s\<lparr>sym_code_index_build_id := buildID,
             sym_file_id := (case fileMap (sym_file_path s) of Some f \<Rightarrow> f | None \<Rightarrow> sym_file_id s)\<rparr>) d
       in save_symbols buildID fileMap ss (symbolMap(sym_key_hash s \<mapsto> i)) d1)"

definition endpoint_id :: "(string \<rightharpoonup> int) \<Rightarrow> string \<Rightarrow> int option \<Rightarrow> int option" where
  "endpoint_id symbolMap hash given =
    (if hash \<noteq> '''' then (case symbolMap hash of Some i \<Rightarrow> Some i | None \<Rightarrow> given) else given)"

fun save_relations ::
  "int \<Rightarrow> (string \<rightharpoonup> int) \<Rightarrow> (string \<rightharpoonup> int) \<Rightarrow> symbol_relation list \<Rightarrow> string set \<Rightarrow> db \<Rightarrow> string set \<times> db" where
  "save_relations buildID fileMap symbolMap [] testRelationKeys d = (testRelationKeys, d)"
| "save_relations buildID fileMap symbolMap (r # rs) testRelationKeys d =
    (let r' = r\<lparr>rel_code_index_build_id := buildID,
           rel_from_symbol_id := endpoint_id symbolMap (rel_from_symbol_key_hash r) (rel_from_symbol_id r),
           rel_to_symbol_id := endpoint_id symbolMap (rel_to_symbol_key_hash r) (rel_to_symbol_id r),
           rel_file_id := (case fileMap (rel_file_path r) of Some f \<Rightarrow> f | None \<Rightarrow> rel_file_id r)\<rparr>;
         keys = (if rel_type r = RelationTypeTestRelation
                 then insert (relatedTestKey (rel_from_symbol_key_hash r) (rel_to_symbol_key_hash r)) testRelationKeys
                 else testRelationKeys)
     in save_relations buildID fileMap symbolMap rs keys (insert_relation r' d))"

definition related_test_relation ::
  "int \<Rightarrow> int \<Rightarrow> int \<Rightarrow> int \<Rightarrow> related_test_discovery \<Rightarrow> symbol_relation" where
  "related_test_relation buildID fromID toID fileID t = \<lparr>
     rel_id = 0, rel_code_index_build_id = buildID, rel_from_symbol_id = Some fromID,
     rel_from_symbol_key_hash = rtd_target_symbol_key_hash t, rel_to_symbol_id = Some toID,
     rel_to_symbol_key_hash = rtd_test_symbol_key_hash t, rel_type = RelationTypeTestRelation,
     rel_resolution_kind = rtd_resolution_kind t, rel_confidence = rtd_confidence t,
     rel_reason_code = test_relation_reason_text (rtd_reason_code t), rel_reason_detail = rtd_explanation t,
     rel_target_name = rtd_test_symbol_name t, rel_target_package_path = '''',
     rel_target_qualified_name = '''', rel_file_path = rtd_test_file_path t, rel_file_id = fileID,
     rel_line = rtd_test_line t, rel_column = 1\<rparr>"

fun save_related_tests ::
  "int \<Rightarrow> (string \<rightharpoonup> int) \<Rightarrow> (string \<rightharpoonup> int) \<Rightarrow> related_test_discovery list \<Rightarrow> string set \<Rightarrow> db \<Rightarrow> go_error + db" where
  "save_related_tests buildID fileMap symbolMap [] testRelationKeys d = Inr d"
| "save_related_tests buildID fileMap symbolMap (t # ts) testRelationKeys d =
    (let key = relatedTestKey (rtd_target_symbol_key_hash t) (rtd_test_symbol_key_hash t) in
     if key \<in> testRelationKeys then save_related_tests buildID fileMap symbolMap ts testRelationKeys d
     else
       case (symbolMap (rtd_target_symbol_key_hash t), symbolMap (rtd_test_symbol_key_hash t),
             fileMap (rtd_test_file_path t)) of
         (Some fromID, Some toID, Some fileID) \<Rightarrow>
           save_related_tests buildID fileMap symbolMap ts (insert key testRelationKeys)
             (insert_relation (related_test_relation buildID fromID toID fileID t) d)
       | _ \<Rightarrow> Inl (Errorf (''related test discovery references missing target, test, or file: target='' @
                rtd_target_symbol_key_hash t @ '' test='' @ rtd_test_symbol_key_hash t @ '' file='' @
                rtd_test_file_path t) []))"

definition ready_code_build ::
  "(string \<Rightarrow> string) \<Rightarrow> (string list \<Rightarrow> string) \<Rightarrow> time \<Rightarrow> analysis_result \<Rightarrow> code_index_build \<Rightarrow> code_index_build" where
  "ready_code_build sha256_hex marshal now res b = (let q = ar_quality res in b\<lparr>
     cib_module_path := ar_module_path res, cib_build_tags_hash := BuildTagsHash sha256_hex (ar_build_context res),
     cib_status := BuildStatusReady, cib_files_total := q_files_total q, cib_files_parsed := q_files_parsed q,
     cib_files_failed := q_files_failed q, cib_packages_total := q_packages_total q,
     cib_packages_typechecked := q_packages_typechecked q, cib_packages_failed := q_packages_failed q,
     cib_symbol_count := int (length (ar_symbols res)),
     cib_semantic_relation_count := q_semantic_relations_count q,
     cib_syntactic_relation_count := q_syntactic_relations_count q,
     cib_heuristic_relation_count := q_heuristic_relations_count q,
     cib_unresolved_relation_count := q_unresolved_relations_count q,
     cib_symlinks_skipped := q_symlinks_skipped q, cib_quality_warnings_json := marshal (q_warnings q),
     cib_ready_at := Some now\<rparr>)"

definition saveAnalysisResultTx ::
  "(string \<Rightarrow> string) \<Rightarrow> (string list \<Rightarrow> string) \<Rightarrow> time \<Rightarrow> int \<Rightarrow> analysis_result \<Rightarrow> db \<Rightarrow> go_error + db" where
  "saveAnalysisResultTx sha256_hex marshal now buildID res d =
    (let (fileMap, d1) = save_files now buildID (ar_files res) Map.empty d in
     bindE (save_symbols buildID fileMap (ar_symbols res) Map.empty d1) (\<lambda>(symbolMap, d2).
     let (testRelationKeys, d3) = save_relations buildID fileMap symbolMap (ar_relations res) {} d2 in
     bindE (save_related_tests buildID fileMap symbolMap (ar_related_tests res) testRelationKeys d3) (\<lambda>d4.
       let P = (\<lambda>b. cib_id b = buildID \<and> cib_status b = BuildStatusBuilding)
       in if sql_count P (code_index_builds d4) \<noteq> 1
          then Inl (Errorf (''code index build '' @ itoa buildID @ '' finalize conflict'') [])
          else Inr (set_code_builds P (ready_code_build sha256_hex marshal now res) d4))))"

definition SaveAnalysisResult ::
  "(string \<Rightarrow> string) \<Rightarrow> (string list \<Rightarrow> string) \<Rightarrow> time \<Rightarrow> int \<Rightarrow> analysis_result \<Rightarrow> db \<Rightarrow> (go_error + unit) \<times> db" where
  "SaveAnalysisResult sha256_hex marshal now buildID res =
    unit_tx (saveAnalysisResultTx sha256_hex marshal now buildID res)"

section \<open>Symbols and relations\<close>

text \<open>
  \<open>LIKE '%q%'\<close> is a substring test. The wildcards of a query and the collation of the column
  are the engine's: the test is the argument \<open>like\<close>.
\<close>

definition ListSymbols :: "(string \<Rightarrow> string \<Rightarrow> bool) \<Rightarrow> int \<Rightarrow> string \<Rightarrow> int \<Rightarrow> db \<Rightarrow> symbol list" where
  "ListSymbols like buildID query limit0 d =
    (let limit = (if limit0 \<le> 0 \<or> limit0 > 100 then 30 else limit0)
     in sql_limit limit (sort_key sym_id (filter (\<lambda>s. sym_code_index_build_id s = buildID
          \<and> (query \<noteq> '''' \<longrightarrow> like query (sym_name s) \<or> like query (sym_qualified_name s))) (symbols d))))"

definition ListAllSymbols :: "int \<Rightarrow> db \<Rightarrow> symbol list" where
  "ListAllSymbols buildID d = sort_key sym_id (filter (\<lambda>s. sym_code_index_build_id s = buildID) (symbols d))"

definition GetSymbolByID :: "int \<Rightarrow> db \<Rightarrow> go_error + symbol" where
  "GetSymbolByID i d =
    (case by_key sym_id i (symbols d) of None \<Rightarrow> Inl ErrSymbolNotFound | Some s \<Rightarrow> Inr s)"

definition GetSymbolByHash :: "int \<Rightarrow> string \<Rightarrow> db \<Rightarrow> go_error + symbol" where
  "GetSymbolByHash buildID symbolKeyHash d =
    (case find (\<lambda>s. sym_code_index_build_id s = buildID \<and> sym_key_hash s = symbolKeyHash) (symbols d) of
       None \<Rightarrow> Inl GormErrRecordNotFound | Some s \<Rightarrow> Inr s)"

definition ListRelationsForSymbol :: "int \<Rightarrow> int \<Rightarrow> db \<Rightarrow> symbol_relation list" where
  "ListRelationsForSymbol buildID symbolID d =
    filter (\<lambda>r. rel_code_index_build_id r = buildID
      \<and> (rel_from_symbol_id r = Some symbolID \<or> rel_to_symbol_id r = Some symbolID)) (symbol_relations d)"

definition ListRelatedTests :: "int \<Rightarrow> string \<Rightarrow> db \<Rightarrow> symbol_relation list" where
  "ListRelatedTests buildID symbolKeyHash d =
    filter (\<lambda>r. rel_code_index_build_id r = buildID \<and> rel_type r = RelationTypeTestRelation
      \<and> rel_from_symbol_key_hash r = symbolKeyHash) (symbol_relations d)"

section \<open>Retrieval builds\<close>

definition getRetrievalBuildByIdentity ::
  "(string \<Rightarrow> string) \<Rightarrow> int \<Rightarrow> string \<Rightarrow> db \<Rightarrow> retrieval_build option" where
  "getRetrievalBuildByIdentity sha256_hex codeIndexBuildID strategy d =
    find (\<lambda>b. retrieval_build_identity b = (codeIndexBuildID, strategy, CurrentRetrievalVersion,
      CurrentTokenizerVersion, RetrievalConfigHash sha256_hex strategy)) (retrieval_builds d)"

definition createRetrievalBuildTx ::
  "(string \<Rightarrow> string) \<Rightarrow> int \<Rightarrow> string \<Rightarrow> int \<Rightarrow> time \<Rightarrow> db \<Rightarrow> go_error + (retrieval_build \<times> bool) \<times> db" where
  "createRetrievalBuildTx sha256_hex codeIndexBuildID strategy generation createdAt d =
    bindE (insert_retrieval_build (new_retrieval_build sha256_hex '''' codeIndexBuildID strategy createdAt) d)
      (\<lambda>(b, d1).
    bindE (ensureAnalysisJobTx createdAt JobTypeBuildRetrieval (itoa (rb_id b)) generation createdAt d1) (\<lambda>d2.
    Inr ((b, True), d2)))"

definition getOrCreateRetrievalBuildTx ::
  "(string \<Rightarrow> string) \<Rightarrow> int \<Rightarrow> string \<Rightarrow> int \<Rightarrow> time \<Rightarrow> db \<Rightarrow> go_error + (retrieval_build \<times> bool) \<times> db" where
  "getOrCreateRetrievalBuildTx sha256_hex codeIndexBuildID strategy generation createdAt d =
    (case getRetrievalBuildByIdentity sha256_hex codeIndexBuildID strategy d of
       Some b \<Rightarrow> bindE (ensureAnalysisJobTx createdAt JobTypeBuildRetrieval (itoa (rb_id b)) generation createdAt d)
                  (\<lambda>d1. Inr ((b, False), d1))
     | None \<Rightarrow> createRetrievalBuildTx sha256_hex codeIndexBuildID strategy generation createdAt d)"

definition GetOrCreateRetrievalBuild ::
  "(string \<Rightarrow> string) \<Rightarrow> time \<Rightarrow> int \<Rightarrow> string \<Rightarrow> db \<Rightarrow> (go_error + retrieval_build \<times> bool) \<times> db" where
  "GetOrCreateRetrievalBuild sha256_hex now codeIndexBuildID strategy d =
    (if strategy \<noteq> StrategyBM25 \<and> strategy \<noteq> StrategyBM25Structural \<and> strategy \<noteq> StrategyBM25StructuralV2
     then (Inl (Errorf (''unsupported retrieval strategy '' @ quoted strategy) []), d)
     else
       let ensured = (\<lambda>b d. case ensureAnalysisJob now JobTypeBuildRetrieval (itoa (rb_id b)) 1 now d of
                       (Inl e, d') \<Rightarrow> (Inl e, d') | (Inr _, d') \<Rightarrow> (Inr (b, False), d'))
       in case getRetrievalBuildByIdentity sha256_hex codeIndexBuildID strategy d of
            Some b \<Rightarrow> ensured b d
          | None \<Rightarrow>
              (case run_tx (createRetrievalBuildTx sha256_hex codeIndexBuildID strategy 1 now) d of
                 (Inr r, d1) \<Rightarrow> (Inr r, d1)
               | (Inl err, d1) \<Rightarrow>
                   (case getRetrievalBuildByIdentity sha256_hex codeIndexBuildID strategy d1 of
                      None \<Rightarrow> (Inl err, d1)
                    | Some winner \<Rightarrow> ensured winner d1)))"

definition GetRetrievalBuildByID :: "int \<Rightarrow> db \<Rightarrow> go_error + retrieval_build" where
  "GetRetrievalBuildByID i d =
    (case by_key rb_id i (retrieval_builds d) of None \<Rightarrow> Inl GormErrRecordNotFound | Some b \<Rightarrow> Inr b)"

definition GetRetrievalBuildByCodeIndexBuild :: "int \<Rightarrow> db \<Rightarrow> go_error + retrieval_build" where
  "GetRetrievalBuildByCodeIndexBuild codeIndexBuildID d =
    first_row (rev (sort_key rb_id (filter (\<lambda>b. rb_code_index_build_id b = codeIndexBuildID) (retrieval_builds d))))"

definition MarkRetrievalBuilding :: "int \<Rightarrow> db \<Rightarrow> (go_error + unit) \<times> db" where
  "MarkRetrievalBuilding i d =
    (let P = (\<lambda>b. rb_id b = i \<and> (rb_status b = BuildStatusCreated \<or> rb_status b = BuildStatusBuilding))
     in if sql_count P (retrieval_builds d) = 0
        then (Inl (Errorf (''retrieval build '' @ itoa i @ '' is not claimable'') []), d)
        else (Inr (), set_retrieval_builds P (\<lambda>b. b\<lparr>rb_status := BuildStatusBuilding\<rparr>) d))"

text \<open>The artifact of a retrieval build.\<close>

record retrieval_artifact =
  art_path :: string
  art_hash :: string
  art_doc_count :: int

definition artifact_incomplete :: "retrieval_artifact \<Rightarrow> bool" where
  "artifact_incomplete a \<longleftrightarrow> art_path a = '''' \<or> art_hash a = ''''"

definition artifact_error :: "int \<Rightarrow> go_error" where
  "artifact_error i = Errorf (''retrieval build '' @ itoa i @ '' cannot become READY without an artifact and hash'') []"

definition publish_retrieval_build :: "time \<Rightarrow> int \<Rightarrow> retrieval_artifact \<Rightarrow> db \<Rightarrow> go_error + db" where
  "publish_retrieval_build now buildID a d =
    (let P = (\<lambda>b. rb_id b = buildID \<and> rb_status b = BuildStatusBuilding)
     in if sql_count P (retrieval_builds d) \<noteq> 1
        then Inl (Errorf (''retrieval build '' @ itoa buildID @ '' finalize conflict'') [])
        else Inr (set_retrieval_builds P (\<lambda>b. b\<lparr>rb_status := BuildStatusReady, rb_artifact_path := art_path a,
               rb_artifact_hash := art_hash a, rb_document_count := art_doc_count a,
               rb_ready_at := Some now\<rparr>) d))"

definition CompleteRetrievalBuild :: "time \<Rightarrow> int \<Rightarrow> retrieval_artifact \<Rightarrow> db \<Rightarrow> (go_error + unit) \<times> db" where
  "CompleteRetrievalBuild now i a d =
    (if artifact_incomplete a then (Inl (artifact_error i), d)
     else unit_tx (publish_retrieval_build now i a) d)"

section \<open>Stage transactions\<close>

definition FinalizeLegacySnapshotSuccessWithCodeIndexHandoffTx ::
  "(string \<Rightarrow> string) \<Rightarrow> (string list \<Rightarrow> string) \<Rightarrow> int \<Rightarrow> string \<Rightarrow> string \<Rightarrow> string \<Rightarrow> string \<Rightarrow> time \<Rightarrow>
    materialization \<Rightarrow> db \<Rightarrow> go_error + db" where
  "FinalizeLegacySnapshotSuccessWithCodeIndexHandoffTx sha256_hex marshal jobID workerID claimToken
      snapshotID modulePath now m d =
    bindE (requireOwnedPipelineJobTx jobID workerID claimToken JobTypeMaterializeSnapshot snapshotID d) (\<lambda>owned.
    bindE (publish_snapshots (\<lambda>s. snap_id s = snapshotID \<and> snap_status s = SnapMaterializing
              \<and> snap_analysis_revision_id s = '''') m
             (Errorf (''legacy snapshot '' @ snapshotID @ '' materialization finalize conflict'') []) d) (\<lambda>d1.
    case getOrCreateBuildTx sha256_hex marshal snapshotID modulePath DefaultBuildContext
           (job_execution_generation owned) (mat_ready_at m) d1 of
      Inl e \<Rightarrow> Inl (errorf_w ''create legacy CodeIndexBuild handoff'' e)
    | Inr (_, d2) \<Rightarrow> finalizeOwnedJob now jobID workerID claimToken d2))"

definition FinalizeLegacySnapshotSuccessWithCodeIndexHandoff ::
  "(string \<Rightarrow> string) \<Rightarrow> (string list \<Rightarrow> string) \<Rightarrow> int \<Rightarrow> string \<Rightarrow> string \<Rightarrow> string \<Rightarrow> string \<Rightarrow> time \<Rightarrow>
    materialization \<Rightarrow> db \<Rightarrow> (go_error + unit) \<times> db" where
  "FinalizeLegacySnapshotSuccessWithCodeIndexHandoff sha256_hex marshal jobID workerID claimToken
      snapshotID modulePath now m d =
    (if materialization_incomplete m then (Inl (incomplete_error snapshotID), d)
     else unit_tx (FinalizeLegacySnapshotSuccessWithCodeIndexHandoffTx sha256_hex marshal jobID workerID
            claimToken snapshotID modulePath now m) d)"

definition FinalizeCodeIndexSuccess ::
  "(string \<Rightarrow> string) \<Rightarrow> (string list \<Rightarrow> string) \<Rightarrow> time \<Rightarrow> int \<Rightarrow> string \<Rightarrow> string \<Rightarrow> int \<Rightarrow> analysis_result \<Rightarrow>
    db \<Rightarrow> (go_error + unit) \<times> db" where
  "FinalizeCodeIndexSuccess sha256_hex marshal now jobID workerID claimToken buildID res =
    unit_tx (\<lambda>d.
      bindE (requireOwnedJob jobID workerID claimToken d) (\<lambda>_.
      bindE (saveAnalysisResultTx sha256_hex marshal now buildID res d) (\<lambda>d1.
      finalizeOwnedJob now jobID workerID claimToken d1)))"

definition FinalizeLegacyCodeIndexSuccessWithRetrievalHandoff ::
  "(string \<Rightarrow> string) \<Rightarrow> (string list \<Rightarrow> string) \<Rightarrow> time \<Rightarrow> int \<Rightarrow> string \<Rightarrow> string \<Rightarrow> int \<Rightarrow> analysis_result \<Rightarrow>
    db \<Rightarrow> (go_error + unit) \<times> db" where
  "FinalizeLegacyCodeIndexSuccessWithRetrievalHandoff sha256_hex marshal now jobID workerID claimToken buildID res =
    unit_tx (\<lambda>d.
      bindE (requireOwnedPipelineJobTx jobID workerID claimToken JobTypeBuildCodeIndex (itoa buildID) d) (\<lambda>owned.
      case find (\<lambda>b. cib_id b = buildID \<and> cib_analysis_revision_id b = '''' \<and> cib_status b = BuildStatusBuilding)
             (code_index_builds d) of
        None \<Rightarrow> Inl (Errorf (''legacy code index build '' @ itoa buildID @ '' is not BUILDING'') [])
      | Some _ \<Rightarrow>
          bindE (saveAnalysisResultTx sha256_hex marshal now buildID res d) (\<lambda>d1.
          case getOrCreateRetrievalBuildTx sha256_hex buildID ProductionRetrievalStrategy
                 (job_execution_generation owned) now d1 of
            Inl e \<Rightarrow> Inl (errorf_w ''create legacy RetrievalBuild handoff'' e)
          | Inr (_, d2) \<Rightarrow> finalizeOwnedJob now jobID workerID claimToken d2)))"

text \<open>The retrieval build a revision moves on to: its own, or a new one.\<close>

definition next_retrieval_build ::
  "(string \<Rightarrow> string) \<Rightarrow> time \<Rightarrow> int \<Rightarrow> string \<Rightarrow> int \<Rightarrow> db \<Rightarrow> go_error + int \<times> db" where
  "next_retrieval_build sha256_hex now buildID revisionID retrievalBuildID d =
    (if retrievalBuildID = 0 then
       bindE (insert_retrieval_build (new_retrieval_build sha256_hex revisionID buildID
                ProductionRetrievalStrategy now) d) (\<lambda>(b, d'). Inr (rb_id b, d'))
     else
       case by_key rb_id retrievalBuildID (retrieval_builds d) of
         None \<Rightarrow> Inl GormErrRecordNotFound
       | Some b \<Rightarrow>
           if rb_code_index_build_id b \<noteq> buildID
              \<or> (rb_analysis_revision_id b \<noteq> '''' \<and> rb_analysis_revision_id b \<noteq> revisionID)
           then Inl ErrLineage
           else if rb_analysis_revision_id b = ''''
           then Inr (retrievalBuildID, set_retrieval_builds (\<lambda>r. rb_id r = retrievalBuildID)
                  (\<lambda>r. r\<lparr>rb_analysis_revision_id := revisionID\<rparr>) d)
           else Inr (retrievalBuildID, d))"

definition FinalizeCodeIndexSuccessWithRevisionTx ::
  "(string \<Rightarrow> string) \<Rightarrow> (string list \<Rightarrow> string) \<Rightarrow> time \<Rightarrow> int \<Rightarrow> string \<Rightarrow> string \<Rightarrow> int \<Rightarrow> string \<Rightarrow>
    analysis_result \<Rightarrow> db \<Rightarrow> go_error + db" where
  "FinalizeCodeIndexSuccessWithRevisionTx sha256_hex marshal now jobID workerID claimToken buildID revisionID res d =
    (let P = (\<lambda>v. rev_id v = revisionID \<and> rev_status v = RevPreparing \<and> rev_code_index_build_id v = buildID) in
     bindE (requireOwnedJob jobID workerID claimToken d) (\<lambda>_.
     case find P (analysis_revisions d) of
       None \<Rightarrow> Inl ErrLineage
     | Some productRevision \<Rightarrow>
       (case by_key cib_id buildID (code_index_builds d) of
          None \<Rightarrow> Inl GormErrRecordNotFound
        | Some codeBuild \<Rightarrow>
          if cib_analysis_revision_id codeBuild \<noteq> revisionID
             \<or> cib_snapshot_id codeBuild \<noteq> rev_snapshot_id productRevision
             \<or> cib_status codeBuild \<noteq> BuildStatusBuilding
          then Inl ErrLineage
          else
            bindE (saveAnalysisResultTx sha256_hex marshal now buildID res d) (\<lambda>d1.
            bindE (next_retrieval_build sha256_hex now buildID revisionID
                     (rev_retrieval_build_id productRevision) d1) (\<lambda>(retrievalBuildID, d2).
            bindE (handoff_job JobTypeBuildRetrieval (itoa retrievalBuildID)
                     (rev_execution_generation productRevision) now d2) (\<lambda>d3.
            if sql_count P (analysis_revisions d3) \<noteq> 1 then Inl ErrLineage
            else finalizeOwnedJob now jobID workerID claimToken
              (set_revisions P (\<lambda>v. v\<lparr>rev_stage := StageBuildingSearch,
                 rev_retrieval_build_id := retrievalBuildID, rev_version := rev_version v + 1,
                 rev_updated_at := now\<rparr>) d3)))))))"

definition FinalizeCodeIndexSuccessWithRevision ::
  "(string \<Rightarrow> string) \<Rightarrow> (string list \<Rightarrow> string) \<Rightarrow> time \<Rightarrow> int \<Rightarrow> string \<Rightarrow> string \<Rightarrow> int \<Rightarrow> string \<Rightarrow>
    analysis_result \<Rightarrow> db \<Rightarrow> (go_error + unit) \<times> db" where
  "FinalizeCodeIndexSuccessWithRevision sha256_hex marshal now jobID workerID claimToken buildID revisionID res =
    unit_tx (FinalizeCodeIndexSuccessWithRevisionTx sha256_hex marshal now jobID workerID claimToken buildID
      revisionID res)"

definition FinalizeRetrievalSuccess ::
  "time \<Rightarrow> int \<Rightarrow> string \<Rightarrow> string \<Rightarrow> int \<Rightarrow> retrieval_artifact \<Rightarrow> db \<Rightarrow> (go_error + unit) \<times> db" where
  "FinalizeRetrievalSuccess now jobID workerID claimToken buildID a d =
    (if artifact_incomplete a then (Inl (artifact_error buildID), d)
     else unit_tx (\<lambda>d.
       bindE (requireOwnedJob jobID workerID claimToken d) (\<lambda>_.
       bindE (publish_retrieval_build now buildID a d) (\<lambda>d1.
       finalizeOwnedJob now jobID workerID claimToken d1))) d)"

definition FinalizeRetrievalSuccessWithRevisionTx ::
  "time \<Rightarrow> int \<Rightarrow> string \<Rightarrow> string \<Rightarrow> int \<Rightarrow> string \<Rightarrow> retrieval_artifact \<Rightarrow> db \<Rightarrow> go_error + db" where
  "FinalizeRetrievalSuccessWithRevisionTx now jobID workerID claimToken buildID revisionID a d =
    (let P = (\<lambda>v. rev_id v = revisionID \<and> rev_status v = RevPreparing \<and> rev_retrieval_build_id v = buildID) in
     bindE (requireOwnedJob jobID workerID claimToken d) (\<lambda>_.
     case find P (analysis_revisions d) of
       None \<Rightarrow> Inl ErrLineage
     | Some productRevision \<Rightarrow>
       (case by_key rb_id buildID (retrieval_builds d) of
          None \<Rightarrow> Inl GormErrRecordNotFound
        | Some retrievalBuild \<Rightarrow>
          if rb_analysis_revision_id retrievalBuild \<noteq> revisionID
             \<or> rb_code_index_build_id retrievalBuild \<noteq> rev_code_index_build_id productRevision
             \<or> rb_status retrievalBuild \<noteq> BuildStatusBuilding
          then Inl ErrLineage
          else
          (case by_key cib_id (rev_code_index_build_id productRevision) (code_index_builds d) of
             None \<Rightarrow> Inl GormErrRecordNotFound
           | Some codeBuild \<Rightarrow>
             if cib_analysis_revision_id codeBuild \<noteq> revisionID
                \<or> cib_snapshot_id codeBuild \<noteq> rev_snapshot_id productRevision
                \<or> cib_status codeBuild \<noteq> BuildStatusReady
             then Inl ErrLineage
             else
               bindE (publish_retrieval_build now buildID a d) (\<lambda>d1.
               if sql_count P (analysis_revisions d1) \<noteq> 1 then Inl ErrLineage
               else finalizeOwnedJob now jobID workerID claimToken
                 (set_revisions P (\<lambda>v. v\<lparr>rev_status := RevReady, rev_stage := StageReady,
                    rev_ready_at := Some now, rev_version := rev_version v + 1, rev_updated_at := now\<rparr>) d1))))))"

definition FinalizeRetrievalSuccessWithRevision ::
  "time \<Rightarrow> int \<Rightarrow> string \<Rightarrow> string \<Rightarrow> int \<Rightarrow> string \<Rightarrow> retrieval_artifact \<Rightarrow> db \<Rightarrow> (go_error + unit) \<times> db" where
  "FinalizeRetrievalSuccessWithRevision now jobID workerID claimToken buildID revisionID a d =
    (if artifact_incomplete a then (Inl (artifact_error buildID), d)
     else unit_tx (FinalizeRetrievalSuccessWithRevisionTx now jobID workerID claimToken buildID revisionID a) d)"

section \<open>Lineage validation\<close>

definition lineage_error :: "string \<Rightarrow> go_error" where
  "lineage_error detail = Errorf (error_text ErrBuildLineageMismatch @ '': '' @ detail) [ErrBuildLineageMismatch]"

definition ValidateLineage :: "string \<Rightarrow> string \<Rightarrow> int \<Rightarrow> int \<Rightarrow> db \<Rightarrow> go_error + unit" where
  "ValidateLineage repoID snapshotID codeIndexBuildID retrievalBuildID d =
    bindE (case by_key snap_id snapshotID (repository_snapshots d) of
             Some s \<Rightarrow> if snap_repository_id s \<noteq> repoID \<or> snap_status s \<noteq> SnapReady
                then Inl (lineage_error ''snapshot is missing, not READY, or belongs to another repository'')
                else Inr ()
           | None \<Rightarrow> Inl (lineage_error ''snapshot is missing, not READY, or belongs to another repository'')) (\<lambda>_.
    bindE (if codeIndexBuildID > 0 then
             (case by_key cib_id codeIndexBuildID (code_index_builds d) of
                None \<Rightarrow> Inl (lineage_error ''code_index_build not found'')
              | Some b \<Rightarrow> if cib_snapshot_id b \<noteq> snapshotID
                  then Inl (lineage_error (''code_index_build.snapshot_id ('' @ cib_snapshot_id b @
                         '') != requested snapshot_id ('' @ snapshotID @ '')''))
                  else Inr ())
           else Inr ()) (\<lambda>_.
    if retrievalBuildID > 0 then
      (case by_key rb_id retrievalBuildID (retrieval_builds d) of
         None \<Rightarrow> Inl (lineage_error ''retrieval_build not found'')
       | Some b \<Rightarrow> if codeIndexBuildID > 0 \<and> rb_code_index_build_id b \<noteq> codeIndexBuildID
           then Inl (lineage_error (''retrieval_build.code_index_build_id ('' @ itoa (rb_code_index_build_id b) @
                  '') != code_index_build_id ('' @ itoa codeIndexBuildID @ '')''))
           else Inr ())
    else Inr ()))"

end
