(* ===== verification/Analysis_Pipeline.thy ===== *)
theory Analysis_Pipeline
  imports Code_Intel_Store
begin

text \<open>
  Analysis revisions and the pipeline that prepares them: the revision store
  (\<open>internal/revision/store.go\<close>, \<open>model.go\<close>, \<open>service.go\<close>), preparation and retry
  (\<open>internal/analysispipeline/store.go\<close>, \<open>service.go\<close>) and the resolution of a \<open>READY\<close>
  lineage (\<open>resolver.go\<close>). The resolution of a git ref is the argument \<open>resolve\<close>, and
  \<open>fingerprint\<close> is the value of \<open>ComputePipelineFingerprint\<close>.
\<close>

section \<open>Revisions\<close>

definition revision_ErrNotFound :: go_error where
  "revision_ErrNotFound = Sentinel ''revision.ErrNotFound'' ''analysis revision not found''"

definition ErrFailedRevision :: go_error where
  "ErrFailedRevision = Sentinel ''revision.ErrFailedRevision''
     ''analysis revision already failed; explicit retry is required''"

definition ErrInvalidState :: go_error where
  "ErrInvalidState = Sentinel ''revision.ErrInvalidState'' ''invalid analysis revision state transition''"

definition ErrRetryConflict :: go_error where
  "ErrRetryConflict = Sentinel ''revision.ErrRetryConflict'' ''analysis revision retry conflict''"

definition ErrRefResolution :: go_error where
  "ErrRefResolution = Sentinel ''revision.ErrRefResolution'' ''repository ref could not be resolved''"

fun IsValidTransition :: "revision_status \<Rightarrow> revision_status \<Rightarrow> bool" where
  "IsValidTransition RevPreparing to \<longleftrightarrow> to = RevReady \<or> to = RevFailed"
| "IsValidTransition RevFailed to \<longleftrightarrow> to = RevPreparing"
| "IsValidTransition RevReady to \<longleftrightarrow> False"

definition revision_GetByID :: "string \<Rightarrow> db \<Rightarrow> go_error + analysis_revision" where
  "revision_GetByID i d =
    (case by_key rev_id i (analysis_revisions d) of None \<Rightarrow> Inl revision_ErrNotFound | Some v \<Rightarrow> Inr v)"

definition GetByIDAndRepository :: "string \<Rightarrow> string \<Rightarrow> db \<Rightarrow> go_error + analysis_revision" where
  "GetByIDAndRepository i repositoryID d =
    (case find (\<lambda>v. rev_id v = i \<and> rev_repository_id v = repositoryID) (analysis_revisions d) of
       None \<Rightarrow> Inl revision_ErrNotFound | Some v \<Rightarrow> Inr v)"

definition GetByIdentity :: "string \<Rightarrow> string \<Rightarrow> string \<Rightarrow> db \<Rightarrow> go_error + analysis_revision" where
  "GetByIdentity repositoryID commitSHA pipelineFingerprint d =
    (case find (\<lambda>v. revision_identity v = (repositoryID, commitSHA, pipelineFingerprint)) (analysis_revisions d) of
       None \<Rightarrow> Inl revision_ErrNotFound | Some v \<Rightarrow> Inr v)"

definition ListByRepository ::
  "(analysis_revision list \<Rightarrow> analysis_revision list) \<Rightarrow> string \<Rightarrow> int \<Rightarrow> db \<Rightarrow> analysis_revision list" where
  "ListByRepository scan repositoryID limit0 d =
    (let limit = (if limit0 \<le> 0 \<or> limit0 > 100 then 20 else limit0)
     in sql_limit limit (sort_key (\<lambda>v. - rev_created_at v)
          (scan (filter (\<lambda>v. rev_repository_id v = repositoryID) (analysis_revisions d)))))"

text \<open>The snapshot of a revision is \<open>READY\<close> and belongs to it.\<close>

definition snapshot_in_lineage :: "string \<Rightarrow> analysis_revision \<Rightarrow> repository_snapshot option \<Rightarrow> bool" where
  "snapshot_in_lineage i v snap =
    (case snap of None \<Rightarrow> False | Some s \<Rightarrow> snap_status s = SnapReady \<and> snap_analysis_revision_id s = i
       \<and> snap_repository_id s = rev_repository_id v \<and> snap_commit_sha s = rev_commit_sha v)"

definition MarkSnapshotReady :: "time \<Rightarrow> string \<Rightarrow> string \<Rightarrow> db \<Rightarrow> (go_error + unit) \<times> db" where
  "MarkSnapshotReady now i snapshotID d =
    (case by_key rev_id i (analysis_revisions d) of
       None \<Rightarrow> (Inl GormErrRecordNotFound, d)
     | Some v \<Rightarrow>
       if \<not> snapshot_in_lineage i v (by_key snap_id snapshotID (repository_snapshots d)) then (Inl ErrLineage, d)
       else
         let P = (\<lambda>v. rev_id v = i \<and> rev_status v = RevPreparing \<and> rev_snapshot_id v = snapshotID);
             d' = set_revisions P (\<lambda>v. v\<lparr>rev_stage := StageBuildingCode, rev_version := rev_version v + 1,
                    rev_updated_at := now\<rparr>) d
         in (if sql_count P (analysis_revisions d) \<noteq> 1 then Inl ErrLineage else Inr (), d'))"

definition MarkCodeIndexReady :: "time \<Rightarrow> string \<Rightarrow> int \<Rightarrow> db \<Rightarrow> (go_error + unit) \<times> db" where
  "MarkCodeIndexReady now i buildID d =
    (case by_key rev_id i (analysis_revisions d) of
       None \<Rightarrow> (Inl GormErrRecordNotFound, d)
     | Some v \<Rightarrow>
       (case by_key cib_id buildID (code_index_builds d) of
          None \<Rightarrow> (Inl ErrLineage, d)
        | Some b \<Rightarrow>
          if cib_status b \<noteq> BuildStatusReady \<or> cib_snapshot_id b \<noteq> rev_snapshot_id v
             \<or> cib_analysis_revision_id b \<noteq> i then (Inl ErrLineage, d)
          else if \<not> snapshot_in_lineage i v (by_key snap_id (cib_snapshot_id b) (repository_snapshots d))
          then (Inl ErrLineage, d)
          else
            let P = (\<lambda>v. rev_id v = i \<and> rev_status v = RevPreparing \<and> rev_code_index_build_id v = buildID);
                d' = set_revisions P (\<lambda>v. v\<lparr>rev_stage := StageBuildingSearch, rev_version := rev_version v + 1,
                       rev_updated_at := now\<rparr>) d
            in (if sql_count P (analysis_revisions d) \<noteq> 1 then Inl ErrLineage else Inr (), d')))"

definition MarkRetrievalReady :: "time \<Rightarrow> string \<Rightarrow> int \<Rightarrow> db \<Rightarrow> (go_error + unit) \<times> db" where
  "MarkRetrievalReady now i buildID d =
    (case by_key rev_id i (analysis_revisions d) of
       None \<Rightarrow> (Inl GormErrRecordNotFound, d)
     | Some v \<Rightarrow>
       (case by_key rb_id buildID (retrieval_builds d) of
          None \<Rightarrow> (Inl ErrLineage, d)
        | Some rb \<Rightarrow>
          if rb_status rb \<noteq> BuildStatusReady \<or> rb_analysis_revision_id rb \<noteq> i
             \<or> rb_code_index_build_id rb \<noteq> rev_code_index_build_id v then (Inl ErrLineage, d)
          else
          (case by_key cib_id (rev_code_index_build_id v) (code_index_builds d) of
             None \<Rightarrow> (Inl ErrLineage, d)
           | Some b \<Rightarrow>
             if cib_status b \<noteq> BuildStatusReady \<or> cib_snapshot_id b \<noteq> rev_snapshot_id v then (Inl ErrLineage, d)
             else if cib_analysis_revision_id b \<noteq> i then (Inl ErrLineage, d)
             else if \<not> snapshot_in_lineage i v (by_key snap_id (cib_snapshot_id b) (repository_snapshots d))
             then (Inl ErrLineage, d)
             else
               let P = (\<lambda>v. rev_id v = i \<and> rev_status v = RevPreparing \<and> rev_retrieval_build_id v = buildID);
                   d' = set_revisions P (\<lambda>v. v\<lparr>rev_status := RevReady, rev_stage := StageReady,
                          rev_ready_at := Some now, rev_version := rev_version v + 1, rev_updated_at := now\<rparr>) d
               in (if sql_count P (analysis_revisions d) \<noteq> 1 then Inl ErrLineage else Inr (), d'))))"

section \<open>Stage submission\<close>

text \<open>\<open>internal/analysispipeline/finalizer.go\<close> hands the result of a stage to its store.\<close>

record job_ownership =
  own_job_id :: int
  own_worker_id :: string
  own_claim_token :: string

record snapshot_stage_result =
  ssr_ownership :: job_ownership
  ssr_revision_id :: string
  ssr_snapshot_id :: string
  ssr_module_path :: string
  ssr_materialization :: materialization

record code_index_stage_result =
  csr_ownership :: job_ownership
  csr_revision_id :: string
  csr_code_index_build_id :: int
  csr_analysis_result :: analysis_result

record retrieval_stage_result =
  rsr_ownership :: job_ownership
  rsr_revision_id :: string
  rsr_retrieval_build_id :: int
  rsr_artifact :: retrieval_artifact

definition FinalizeSnapshot ::
  "(string \<Rightarrow> string) \<Rightarrow> snapshot_stage_result \<Rightarrow> db \<Rightarrow> (go_error + unit) \<times> db" where
  "FinalizeSnapshot sha256_hex result =
    FinalizeSnapshotSuccessWithRevision sha256_hex (own_job_id (ssr_ownership result))
      (own_worker_id (ssr_ownership result)) (own_claim_token (ssr_ownership result))
      (ssr_snapshot_id result) (ssr_revision_id result) (ssr_module_path result) (ssr_materialization result)"

definition FinalizeCodeIndex ::
  "(string \<Rightarrow> string) \<Rightarrow> (string list \<Rightarrow> string) \<Rightarrow> time \<Rightarrow> code_index_stage_result \<Rightarrow> db \<Rightarrow> (go_error + unit) \<times> db" where
  "FinalizeCodeIndex sha256_hex marshal now result =
    FinalizeCodeIndexSuccessWithRevision sha256_hex marshal now (own_job_id (csr_ownership result))
      (own_worker_id (csr_ownership result)) (own_claim_token (csr_ownership result))
      (csr_code_index_build_id result) (csr_revision_id result) (csr_analysis_result result)"

definition FinalizeRetrieval ::
  "time \<Rightarrow> retrieval_stage_result \<Rightarrow> db \<Rightarrow> (go_error + unit) \<times> db" where
  "FinalizeRetrieval now result =
    FinalizeRetrievalSuccessWithRevision now (own_job_id (rsr_ownership result))
      (own_worker_id (rsr_ownership result)) (own_claim_token (rsr_ownership result))
      (rsr_retrieval_build_id result) (rsr_revision_id result) (rsr_artifact result)"

section \<open>Preparation\<close>

record prepare_spec =
  ps_repository_id :: string
  ps_source_ref :: string
  ps_commit_sha :: string
  ps_pipeline_version :: string
  ps_pipeline_fingerprint :: string
  ps_snapshot_base_path :: string
  ps_module_path :: string

text \<open>\<open>path_join\<close> is \<open>filepath.Join\<close>; \<open>uuid k\<close> is the \<open>k\<close>-th identifier drawn.\<close>

definition prepared_revision :: "(nat \<Rightarrow> string) \<Rightarrow> time \<Rightarrow> prepare_spec \<Rightarrow> analysis_revision" where
  "prepared_revision uuid now spec = \<lparr>
     rev_id = uuid 0, rev_repository_id = ps_repository_id spec, rev_source_ref = ps_source_ref spec,
     rev_commit_sha = ps_commit_sha spec, rev_pipeline_version = ps_pipeline_version spec,
     rev_pipeline_fingerprint = ps_pipeline_fingerprint spec, rev_snapshot_id = uuid 1,
     rev_code_index_build_id = 0, rev_retrieval_build_id = 0, rev_status = RevPreparing,
     rev_stage = StageMaterializing, rev_error_code = '''', rev_error_message = '''',
     rev_execution_generation = 1, rev_version = 1, rev_created_at = now, rev_updated_at = now,
     rev_ready_at = None\<rparr>"

definition prepared_snapshot ::
  "(string list \<Rightarrow> string) \<Rightarrow> (nat \<Rightarrow> string) \<Rightarrow> time \<Rightarrow> prepare_spec \<Rightarrow> repository_snapshot" where
  "prepared_snapshot path_join uuid now spec = \<lparr>
     snap_id = uuid 1, snap_repository_id = ps_repository_id spec, snap_analysis_revision_id = uuid 0,
     snap_commit_sha = ps_commit_sha spec, snap_ref = ps_source_ref spec,
     snap_requested_ref = ps_source_ref spec,
     snap_materialized_path = path_join [ps_snapshot_base_path spec, ps_repository_id spec, uuid 1, ''source''],
     snap_content_hash = '''', snap_status = SnapMaterializing, snap_file_count = 0, snap_total_bytes = 0,
     snap_error_code = '''', snap_created_at = now, snap_ready_at = None\<rparr>"

definition CreatePreparation ::
  "(string list \<Rightarrow> string) \<Rightarrow> (nat \<Rightarrow> string) \<Rightarrow> time \<Rightarrow> prepare_spec \<Rightarrow> db \<Rightarrow>
    (go_error + analysis_revision) \<times> db" where
  "CreatePreparation path_join uuid now spec d =
    (if ps_repository_id spec = '''' \<or> length (ps_commit_sha spec) \<noteq> 40 \<or> ps_pipeline_fingerprint spec = ''''
     then (Inl (Errorf ''invalid analysis revision preparation identity'' []), d)
     else
       let prepared = prepared_revision uuid now spec;
           snap = prepared_snapshot path_join uuid now spec
       in run_tx (\<lambda>d.
            bindE (insert_revision prepared d) (\<lambda>d1.
            bindE (insert_snapshot now snap d1) (\<lambda>d2.
            bindE (createJobGorm now (pending_job JobTypeMaterializeSnapshot (snap_id snap) 1 now) d2) (\<lambda>d3.
            Inr (prepared, d3))))) d)"

section \<open>Retry\<close>

definition reset_pipeline_job :: "int \<Rightarrow> time \<Rightarrow> analysis_job \<Rightarrow> analysis_job" where
  "reset_pipeline_job generation now r = r\<lparr>
     job_status := StatusPending, job_execution_generation := generation, job_attempt_count := 0,
     job_execution_started := False, job_next_run_at := now, job_worker_id := None, job_claim_token := None,
     job_lease_until := None, job_cancel_requested := False, job_terminal_reason := None,
     job_last_error_class := None, job_last_error_code := None, job_last_error_message := None,
     job_finished_at := None, job_updated_at := now\<rparr>"

definition resetJobTx :: "job_type \<Rightarrow> string \<Rightarrow> int \<Rightarrow> time \<Rightarrow> db \<Rightarrow> go_error + db" where
  "resetJobTx jobType resourceID generation now d =
    (let P = (\<lambda>r. job_type r = jobType \<and> job_resource_id r = resourceID)
     in if sql_count P (analysis_jobs d) = 0
        then createJobGorm now (pending_job jobType resourceID generation now) d
        else Inr (set_jobs P (reset_pipeline_job generation now) d))"

definition resetCodeBuildTx :: "int \<Rightarrow> db \<Rightarrow> db" where
  "resetCodeBuildTx buildID = set_code_builds (\<lambda>b. cib_id b = buildID)
     (\<lambda>b. b\<lparr>cib_status := BuildStatusCreated, cib_error_code := '''', cib_ready_at := None\<rparr>)"

definition resetRetrievalBuildTx :: "int \<Rightarrow> db \<Rightarrow> db" where
  "resetRetrievalBuildTx buildID = set_retrieval_builds (\<lambda>b. rb_id b = buildID)
     (\<lambda>b. b\<lparr>rb_status := BuildStatusCreated, rb_error_code := '''', rb_artifact_path := '''',
        rb_artifact_hash := '''', rb_ready_at := None\<rparr>)"

definition repositoryModulePathTx :: "string \<Rightarrow> db \<Rightarrow> string" where
  "repositoryModulePathTx repositoryID d =
    (let modulePath = (case by_key repo_id repositoryID (repositories d) of None \<Rightarrow> '''' | Some r \<Rightarrow> repo_name r)
     in if modulePath = '''' then repositoryID else modulePath)"

definition ensureCodeIndexBuildTx ::
  "(string \<Rightarrow> string) \<Rightarrow> string \<Rightarrow> string \<Rightarrow> string \<Rightarrow> time \<Rightarrow> db \<Rightarrow> go_error + code_index_build \<times> db" where
  "ensureCodeIndexBuildTx sha256_hex revisionID snapshotID modulePath now d =
    (case getBuildByIdentity snapshotID (BuildContextHash sha256_hex DefaultBuildContext) d of
       Inr b \<Rightarrow>
         if cib_analysis_revision_id b \<noteq> '''' \<and> cib_analysis_revision_id b \<noteq> revisionID then Inl ErrLineage
         else if cib_analysis_revision_id b = ''''
         then Inr (b\<lparr>cib_analysis_revision_id := revisionID\<rparr>,
                set_code_builds (\<lambda>r. cib_id r = cib_id b) (\<lambda>r. r\<lparr>cib_analysis_revision_id := revisionID\<rparr>) d)
         else Inr (b, d)
     | Inl _ \<Rightarrow> insert_code_build (new_code_build sha256_hex revisionID snapshotID modulePath
                  DefaultBuildContext '''' now) d)"

definition ensureRetrievalBuildTx ::
  "(string \<Rightarrow> string) \<Rightarrow> string \<Rightarrow> int \<Rightarrow> time \<Rightarrow> db \<Rightarrow> go_error + retrieval_build \<times> db" where
  "ensureRetrievalBuildTx sha256_hex revisionID codeIndexBuildID now d =
    (case getRetrievalBuildByIdentity sha256_hex codeIndexBuildID ProductionRetrievalStrategy d of
       Some b \<Rightarrow>
         if rb_analysis_revision_id b \<noteq> '''' \<and> rb_analysis_revision_id b \<noteq> revisionID then Inl ErrLineage
         else if rb_analysis_revision_id b = ''''
         then Inr (b\<lparr>rb_analysis_revision_id := revisionID\<rparr>,
                set_retrieval_builds (\<lambda>r. rb_id r = rb_id b) (\<lambda>r. r\<lparr>rb_analysis_revision_id := revisionID\<rparr>) d)
         else Inr (b, d)
     | None \<Rightarrow> insert_retrieval_build (new_retrieval_build sha256_hex revisionID codeIndexBuildID
                  ProductionRetrievalStrategy now) d)"

text \<open>
  \<open>retryPreparationOnce\<close>, in the parts its early returns make: the revision is reopened,
  and work resumes at the first stage of the lineage that is not \<open>READY\<close>.
\<close>

definition reopened_revision :: "time \<Rightarrow> analysis_revision \<Rightarrow> analysis_revision" where
  "reopened_revision now v = v\<lparr>rev_status := RevPreparing, rev_stage := StageMaterializing,
     rev_error_code := '''', rev_error_message := '''', rev_ready_at := None,
     rev_execution_generation := rev_execution_generation v + 1, rev_version := rev_version v + 1,
     rev_updated_at := now\<rparr>"

definition set_revision :: "string \<Rightarrow> (analysis_revision \<Rightarrow> analysis_revision) \<Rightarrow> db \<Rightarrow> db" where
  "set_revision i f = set_revisions (\<lambda>v. rev_id v = i) f"

definition retry_materialization ::
  "time \<Rightarrow> analysis_revision \<Rightarrow> repository_snapshot \<Rightarrow> db \<Rightarrow> go_error + analysis_revision \<times> db" where
  "retry_materialization now v snap d =
    (let d1 = set_snapshots (\<lambda>s. snap_id s = snap_id snap)
           (\<lambda>s. s\<lparr>snap_status := SnapMaterializing, snap_error_code := '''', snap_ready_at := None\<rparr>) d;
         d2 = (if rev_code_index_build_id v > 0 then resetCodeBuildTx (rev_code_index_build_id v) d1 else d1);
         d3 = (if rev_retrieval_build_id v > 0 then resetRetrievalBuildTx (rev_retrieval_build_id v) d2 else d2)
     in bindE (resetJobTx JobTypeMaterializeSnapshot (snap_id snap) (rev_execution_generation v) now d3)
          (\<lambda>d4. Inr (v, d4)))"

definition retry_new_code_index ::
  "(string \<Rightarrow> string) \<Rightarrow> time \<Rightarrow> analysis_revision \<Rightarrow> repository_snapshot \<Rightarrow> db \<Rightarrow> go_error + analysis_revision \<times> db" where
  "retry_new_code_index sha256_hex now v snap d =
    bindE (ensureCodeIndexBuildTx sha256_hex (rev_id v) (snap_id snap)
             (repositoryModulePathTx (rev_repository_id v) d) now d) (\<lambda>(b, d1).
    let d2 = set_revision (rev_id v) (\<lambda>r. r\<lparr>rev_stage := StageBuildingCode,
               rev_code_index_build_id := cib_id b, rev_updated_at := now\<rparr>) d1
    in bindE (resetJobTx JobTypeBuildCodeIndex (itoa (cib_id b)) (rev_execution_generation v) now d2)
         (\<lambda>d3. Inr (v\<lparr>rev_code_index_build_id := cib_id b, rev_stage := StageBuildingCode\<rparr>, d3)))"

definition retry_code_index ::
  "time \<Rightarrow> analysis_revision \<Rightarrow> code_index_build \<Rightarrow> db \<Rightarrow> go_error + analysis_revision \<times> db" where
  "retry_code_index now v b d =
    (let d1 = resetCodeBuildTx (cib_id b) d;
         d2 = set_revision (rev_id v) (\<lambda>r. r\<lparr>rev_stage := StageBuildingCode, rev_updated_at := now\<rparr>) d1
     in bindE (resetJobTx JobTypeBuildCodeIndex (itoa (cib_id b)) (rev_execution_generation v) now d2)
          (\<lambda>d3. Inr (v\<lparr>rev_stage := StageBuildingCode\<rparr>, d3)))"

definition retry_new_retrieval ::
  "(string \<Rightarrow> string) \<Rightarrow> time \<Rightarrow> analysis_revision \<Rightarrow> code_index_build \<Rightarrow> db \<Rightarrow> go_error + analysis_revision \<times> db" where
  "retry_new_retrieval sha256_hex now v b d =
    bindE (ensureRetrievalBuildTx sha256_hex (rev_id v) (cib_id b) now d) (\<lambda>(rb, d1).
    let d2 = set_revision (rev_id v) (\<lambda>r. r\<lparr>rev_stage := StageBuildingSearch,
               rev_retrieval_build_id := rb_id rb, rev_updated_at := now\<rparr>) d1
    in bindE (resetJobTx JobTypeBuildRetrieval (itoa (rb_id rb)) (rev_execution_generation v) now d2)
         (\<lambda>d3. Inr (v\<lparr>rev_retrieval_build_id := rb_id rb, rev_stage := StageBuildingSearch\<rparr>, d3)))"

definition retry_retrieval ::
  "time \<Rightarrow> analysis_revision \<Rightarrow> retrieval_build \<Rightarrow> db \<Rightarrow> go_error + analysis_revision \<times> db" where
  "retry_retrieval now v rb d =
    (let d1 = resetRetrievalBuildTx (rb_id rb) d;
         d2 = set_revision (rev_id v) (\<lambda>r. r\<lparr>rev_stage := StageBuildingSearch, rev_updated_at := now\<rparr>) d1
     in bindE (resetJobTx JobTypeBuildRetrieval (itoa (rb_id rb)) (rev_execution_generation v) now d2)
          (\<lambda>d3. Inr (v\<lparr>rev_stage := StageBuildingSearch\<rparr>, d3)))"

definition retry_complete :: "time \<Rightarrow> analysis_revision \<Rightarrow> db \<Rightarrow> go_error + analysis_revision \<times> db" where
  "retry_complete now v d =
    Inr (v\<lparr>rev_status := RevReady, rev_stage := StageReady, rev_ready_at := Some now\<rparr>,
      set_revision (rev_id v) (\<lambda>r. r\<lparr>rev_status := RevReady, rev_stage := StageReady,
        rev_ready_at := Some now, rev_updated_at := now\<rparr>) d)"

definition resume_stage ::
  "(string \<Rightarrow> string) \<Rightarrow> time \<Rightarrow> analysis_revision \<Rightarrow> db \<Rightarrow> go_error + analysis_revision \<times> db" where
  "resume_stage sha256_hex now v d =
    (case by_key snap_id (rev_snapshot_id v) (repository_snapshots d) of
       None \<Rightarrow> Inl GormErrRecordNotFound
     | Some snap \<Rightarrow>
       if snap_analysis_revision_id snap \<noteq> rev_id v \<or> snap_repository_id snap \<noteq> rev_repository_id v
          \<or> snap_commit_sha snap \<noteq> rev_commit_sha v then Inl ErrLineage
       else if snap_status snap \<noteq> SnapReady then retry_materialization now v snap d
       else if rev_code_index_build_id v = 0 then retry_new_code_index sha256_hex now v snap d
       else
       (case by_key cib_id (rev_code_index_build_id v) (code_index_builds d) of
          None \<Rightarrow> Inl GormErrRecordNotFound
        | Some b \<Rightarrow>
          if cib_snapshot_id b \<noteq> rev_snapshot_id v \<or> cib_analysis_revision_id b \<noteq> rev_id v then Inl ErrLineage
          else if cib_status b \<noteq> BuildStatusReady then retry_code_index now v b d
          else if rev_retrieval_build_id v = 0 then retry_new_retrieval sha256_hex now v b d
          else
          (case by_key rb_id (rev_retrieval_build_id v) (retrieval_builds d) of
             None \<Rightarrow> Inl GormErrRecordNotFound
           | Some rb \<Rightarrow>
             if rb_code_index_build_id rb \<noteq> rev_code_index_build_id v
                \<or> rb_analysis_revision_id rb \<noteq> rev_id v then Inl ErrLineage
             else if rb_status rb \<noteq> BuildStatusReady then retry_retrieval now v rb d
             else retry_complete now v d)))"

definition retryPreparationTx ::
  "(string \<Rightarrow> string) \<Rightarrow> time \<Rightarrow> string \<Rightarrow> db \<Rightarrow> go_error + analysis_revision \<times> db" where
  "retryPreparationTx sha256_hex now i d =
    (case by_key rev_id i (analysis_revisions d) of
       None \<Rightarrow> Inl revision_ErrNotFound
     | Some value \<Rightarrow>
       if rev_status value \<noteq> RevFailed
       then Inl (if rev_status value = RevPreparing then ErrRetryConflict else ErrInvalidState)
       else
         let P = (\<lambda>v. rev_id v = i \<and> rev_status v = RevFailed \<and> rev_version v = rev_version value
                   \<and> rev_execution_generation v = rev_execution_generation value)
         in if sql_count P (analysis_revisions d) \<noteq> 1 then Inl ErrRetryConflict
            else resume_stage sha256_hex now (reopened_revision now value)
                   (set_revisions P (reopened_revision now) d))"

definition retryPreparationOnce ::
  "(string \<Rightarrow> string) \<Rightarrow> time \<Rightarrow> string \<Rightarrow> db \<Rightarrow> (go_error + analysis_revision) \<times> db" where
  "retryPreparationOnce sha256_hex now i = run_tx (retryPreparationTx sha256_hex now i)"

section \<open>The service\<close>

definition MaxGitRefLength :: nat where "MaxGitRefLength = 255"

definition ErrRefTooLong :: go_error where
  "ErrRefTooLong = Sentinel ''repo.ErrRefTooLong'' ''git ref exceeds 255 characters''"

text \<open>\<open>utf8.RuneCountInString\<close> counts the runes of a string.\<close>

definition ValidateRefLength :: "string \<Rightarrow> go_error + unit" where
  "ValidateRefLength ref = (if length (runes ref) > MaxGitRefLength then Inl ErrRefTooLong else Inr ())"

definition repo_GetByIDAndUser :: "string \<Rightarrow> string \<Rightarrow> db \<Rightarrow> go_error + repository" where
  "repo_GetByIDAndUser i userID d =
    (case find (\<lambda>r. repo_id r = i \<and> repo_user_id r = userID) (repositories d) of
       None \<Rightarrow> Inl GormErrRecordNotFound | Some r \<Rightarrow> Inr r)"

definition existing_revision :: "analysis_revision \<Rightarrow> (analysis_revision option \<times> bool) \<times> go_error option" where
  "existing_revision v =
    ((Some v, False), if rev_status v = RevFailed then Some ErrFailedRevision else None)"

text \<open>
  The result of \<open>RevisionService.Prepare\<close> is a revision or nil, whether it was created, and an
  error or nil: a failed revision is returned together with an error.
\<close>

definition Prepare ::
  "(string \<Rightarrow> string \<Rightarrow> go_error + string) \<Rightarrow> string \<Rightarrow> string \<Rightarrow> (string list \<Rightarrow> string) \<Rightarrow> (nat \<Rightarrow> string) \<Rightarrow> time \<Rightarrow>
    string \<Rightarrow> string \<Rightarrow> string \<Rightarrow> db \<Rightarrow> ((analysis_revision option \<times> bool) \<times> go_error option) \<times> db" where
  "Prepare resolve fingerprint basePath path_join uuid now userID repositoryID requestedRef0 d =
    (let failed = (\<lambda>e. (((None, False), Some e), d)) in
     case (if trim_space requestedRef0 = '''' then
             (case repo_GetByIDAndUser repositoryID userID d of Inl e \<Rightarrow> Inl e | Inr r \<Rightarrow> Inr (repo_default_ref r))
           else Inr requestedRef0) of
       Inl e \<Rightarrow> failed e
     | Inr requestedRef \<Rightarrow>
       (case ValidateRefLength requestedRef of
          Inl e \<Rightarrow> failed e
        | Inr _ \<Rightarrow>
          (case repo_GetByIDAndUser repositoryID userID d of
             Inl e \<Rightarrow> failed e
           | Inr repository \<Rightarrow>
             (case resolve (repo_git_url repository) requestedRef of
                Inl e \<Rightarrow> failed (Errorf (error_text ErrRefResolution @ '': '' @ error_text e) [ErrRefResolution])
              | Inr commitSHA \<Rightarrow>
                (case GetByIdentity repositoryID commitSHA fingerprint d of
                   Inr v \<Rightarrow> (existing_revision v, d)
                 | Inl lookupErr \<Rightarrow>
                   if \<not> errors_is lookupErr revision_ErrNotFound then failed lookupErr
                   else
                     (case CreatePreparation path_join uuid now
                             \<lparr>ps_repository_id = repositoryID, ps_source_ref = requestedRef,
                              ps_commit_sha = commitSHA, ps_pipeline_version = PipelineVersion,
                              ps_pipeline_fingerprint = fingerprint, ps_snapshot_base_path = basePath,
                              ps_module_path = repo_name repository\<rparr> d of
                        (Inr created, d') \<Rightarrow> (((Some created, True), None), d')
                      | (Inl err, d') \<Rightarrow>
                          (case GetByIdentity repositoryID commitSHA fingerprint d' of
                             Inr winner \<Rightarrow> (existing_revision winner, d')
                           | Inl _ \<Rightarrow> (((None, False), Some err), d'))))))))"

definition revision_service_Get :: "string \<Rightarrow> string \<Rightarrow> db \<Rightarrow> go_error + analysis_revision" where
  "revision_service_Get userID i d =
    bindE (revision_GetByID i d) (\<lambda>v.
    case repo_GetByIDAndUser (rev_repository_id v) userID d of
      Inl _ \<Rightarrow> Inl revision_ErrNotFound | Inr _ \<Rightarrow> Inr v)"

definition revision_service_List ::
  "(analysis_revision list \<Rightarrow> analysis_revision list) \<Rightarrow> string \<Rightarrow> string \<Rightarrow> int \<Rightarrow> db \<Rightarrow>
    go_error + analysis_revision list" where
  "revision_service_List scan userID repositoryID limit d =
    (case repo_GetByIDAndUser repositoryID userID d of
       Inl _ \<Rightarrow> Inl revision_ErrNotFound | Inr _ \<Rightarrow> Inr (ListByRepository scan repositoryID limit d))"

definition revision_service_Retry ::
  "(string \<Rightarrow> string) \<Rightarrow> time \<Rightarrow> string \<Rightarrow> string \<Rightarrow> db \<Rightarrow> (go_error + analysis_revision) \<times> db" where
  "revision_service_Retry sha256_hex now userID i d =
    (case revision_service_Get userID i d of
       Inl e \<Rightarrow> (Inl e, d)
     | Inr v \<Rightarrow>
         if rev_status v \<noteq> RevFailed
         then (Inl (if rev_status v = RevPreparing then ErrRetryConflict else ErrInvalidState), d)
         else retryPreparationOnce sha256_hex now i d)"

section \<open>Resolution of a ready lineage\<close>

record resolved_lineage =
  rl_repository_id :: string
  rl_revision_id :: string
  rl_commit_sha :: string
  rl_snapshot_id :: string
  rl_code_index_build_id :: int
  rl_retrieval_build_id :: int
  rl_pipeline_version :: string
  rl_pipeline_fingerprint :: string

definition ErrRevisionNotReady :: go_error where
  "ErrRevisionNotReady = Sentinel ''analysispipeline.ErrRevisionNotReady'' ''analysis revision is not ready''"

definition ErrBuildNotReady :: go_error where
  "ErrBuildNotReady = Sentinel ''analysispipeline.ErrBuildNotReady'' ''diagnosis build is not ready''"

definition build_not_ready :: "string \<Rightarrow> go_error" where
  "build_not_ready detail = Errorf (error_text ErrBuildNotReady @ '': '' @ detail) [ErrBuildNotReady]"

definition RepositoryForRevision :: "string \<Rightarrow> db \<Rightarrow> go_error + string" where
  "RepositoryForRevision revisionID d = bindE (revision_GetByID revisionID d) (\<lambda>v. Inr (rev_repository_id v))"

text \<open>The loading of the three artifacts, with the errors the resolver reports for each.\<close>

definition load_ready_snapshot :: "string \<Rightarrow> db \<Rightarrow> go_error + repository_snapshot" where
  "load_ready_snapshot snapshotID d =
    (case snapshot_GetByID snapshotID d of
       Inl e \<Rightarrow> if errors_is e GormErrRecordNotFound
                then Inl (Errorf (''snapshot '' @ snapshotID @ '' not found'') []) else Inl e
     | Inr snap \<Rightarrow> if snap_status snap \<noteq> SnapReady
         then Inl (Errorf (''snapshot '' @ snapshotID @ '' is not READY (current status: '' @
                snapshot_status_text (snap_status snap) @ '')'') [])
         else Inr snap)"

definition load_code_build :: "int \<Rightarrow> db \<Rightarrow> go_error + code_index_build" where
  "load_code_build i d =
    (case codeintel_GetByID i d of
       Inl e \<Rightarrow> if errors_is e GormErrRecordNotFound then Inl (build_not_ready (''code index build '' @ itoa i))
                else Inl (errorf_w (''failed to load code index build '' @ itoa i) e)
     | Inr b \<Rightarrow> Inr b)"

definition load_retrieval_build :: "int \<Rightarrow> db \<Rightarrow> go_error + retrieval_build" where
  "load_retrieval_build i d =
    (case GetRetrievalBuildByID i d of
       Inl e \<Rightarrow> if errors_is e GormErrRecordNotFound then Inl (build_not_ready (''retrieval build '' @ itoa i))
                else Inl (errorf_w (''failed to load retrieval build '' @ itoa i) e)
     | Inr b \<Rightarrow> Inr b)"

definition require_ready_code :: "code_index_build \<Rightarrow> go_error + unit" where
  "require_ready_code b =
    (if cib_status b \<noteq> BuildStatusReady
     then Inl (build_not_ready (''code index build '' @ itoa (cib_id b) @ '' is '' @ build_status_text (cib_status b)))
     else Inr ())"

definition require_ready_retrieval :: "retrieval_build \<Rightarrow> go_error + unit" where
  "require_ready_retrieval b =
    (if rb_status b \<noteq> BuildStatusReady
     then Inl (build_not_ready (''retrieval build '' @ itoa (rb_id b) @ '' is '' @ build_status_text (rb_status b)))
     else Inr ())"

definition ResolveLegacyReady :: "string \<Rightarrow> string \<Rightarrow> int \<Rightarrow> int \<Rightarrow> db \<Rightarrow> go_error + resolved_lineage" where
  "ResolveLegacyReady repositoryID snapshotID codeIndexBuildID retrievalBuildID d =
    (if repositoryID = '''' \<or> snapshotID = '''' \<or> codeIndexBuildID \<le> 0 \<or> retrievalBuildID \<le> 0
     then Inl ErrBuildLineageMismatch
     else
       bindE (load_ready_snapshot snapshotID d) (\<lambda>snap.
       if snap_repository_id snap \<noteq> repositoryID then Inl ErrBuildLineageMismatch
       else
         bindE (ValidateLineage repositoryID snapshotID codeIndexBuildID retrievalBuildID d) (\<lambda>_.
         bindE (load_code_build codeIndexBuildID d) (\<lambda>b.
         bindE (require_ready_code b) (\<lambda>_.
         bindE (load_retrieval_build retrievalBuildID d) (\<lambda>rb.
         bindE (require_ready_retrieval rb) (\<lambda>_.
         Inr \<lparr>rl_repository_id = repositoryID, rl_revision_id = '''', rl_commit_sha = snap_commit_sha snap,
           rl_snapshot_id = snap_id snap, rl_code_index_build_id = cib_id b, rl_retrieval_build_id = rb_id rb,
           rl_pipeline_version = '''', rl_pipeline_fingerprint = ''''\<rparr>)))))))"

definition ResolveReadyLineage :: "string \<Rightarrow> db \<Rightarrow> go_error + resolved_lineage" where
  "ResolveReadyLineage revisionID d =
    bindE (revision_GetByID revisionID d) (\<lambda>v.
    if rev_status v \<noteq> RevReady \<or> rev_stage v \<noteq> StageReady then Inl ErrRevisionNotReady
    else if rev_id v = '''' \<or> rev_repository_id v = '''' \<or> rev_commit_sha v = '''' \<or> rev_snapshot_id v = ''''
         \<or> rev_code_index_build_id v \<le> 0 \<or> rev_retrieval_build_id v \<le> 0 \<or> rev_pipeline_version v = ''''
         \<or> rev_pipeline_fingerprint v = ''''
    then Inl (lineage_error (''revision '' @ rev_id v @ '' has incomplete READY identity''))
    else
      bindE (load_ready_snapshot (rev_snapshot_id v) d) (\<lambda>snap.
      if snap_repository_id snap \<noteq> rev_repository_id v \<or> snap_analysis_revision_id snap \<noteq> rev_id v
         \<or> snap_commit_sha snap \<noteq> rev_commit_sha v
      then Inl ErrBuildLineageMismatch
      else
        bindE (load_code_build (rev_code_index_build_id v) d) (\<lambda>b.
        if cib_snapshot_id b \<noteq> snap_id snap \<or> cib_analysis_revision_id b \<noteq> rev_id v
        then Inl ErrBuildLineageMismatch
        else
          bindE (require_ready_code b) (\<lambda>_.
          bindE (load_retrieval_build (rev_retrieval_build_id v) d) (\<lambda>rb.
          if rb_code_index_build_id rb \<noteq> cib_id b \<or> rb_analysis_revision_id rb \<noteq> rev_id v
          then Inl ErrBuildLineageMismatch
          else
            bindE (require_ready_retrieval rb) (\<lambda>_.
            bindE (ValidateLineage (rev_repository_id v) (snap_id snap) (cib_id b) (rb_id rb) d) (\<lambda>_.
            Inr \<lparr>rl_repository_id = rev_repository_id v, rl_revision_id = rev_id v,
              rl_commit_sha = rev_commit_sha v, rl_snapshot_id = snap_id snap,
              rl_code_index_build_id = cib_id b, rl_retrieval_build_id = rb_id rb,
              rl_pipeline_version = rev_pipeline_version v,
              rl_pipeline_fingerprint = rev_pipeline_fingerprint v\<rparr>)))))))"

end
