(* ===== verification/Pipeline_Frame.thy ===== *)
theory Pipeline_Frame
  imports Analysis_Pipeline Diagnosis_System
begin

text \<open>
  What the job store and the diagnosis store do to the artifacts of the pipeline. They
  never touch the identity of a snapshot, build or revision, never change one that is
  \<open>READY\<close>, never make a revision \<open>READY\<close> and add none: the artifacts are \<open>quiet\<close>. The
  stage transactions of the pipeline are the only other writers.
\<close>

section \<open>Quiet steps\<close>

definition snap_quiet :: "repository_snapshot \<Rightarrow> repository_snapshot \<Rightarrow> bool" where
  "snap_quiet s s' \<longleftrightarrow> snap_id s' = snap_id s \<and> snapshot_identity s' = snapshot_identity s
    \<and> (snap_status s = SnapReady \<longrightarrow> s' = s)"

definition code_quiet :: "code_index_build \<Rightarrow> code_index_build \<Rightarrow> bool" where
  "code_quiet b b' \<longleftrightarrow> cib_id b' = cib_id b \<and> code_build_identity b' = code_build_identity b
    \<and> cib_analysis_revision_id b' = cib_analysis_revision_id b \<and> (cib_status b = BuildStatusReady \<longrightarrow> b' = b)"

definition retrieval_quiet :: "retrieval_build \<Rightarrow> retrieval_build \<Rightarrow> bool" where
  "retrieval_quiet b b' \<longleftrightarrow> rb_id b' = rb_id b \<and> retrieval_build_identity b' = retrieval_build_identity b
    \<and> rb_analysis_revision_id b' = rb_analysis_revision_id b \<and> (rb_status b = BuildStatusReady \<longrightarrow> b' = b)"

definition same_lineage :: "analysis_revision \<Rightarrow> analysis_revision \<Rightarrow> bool" where
  "same_lineage v v' \<longleftrightarrow> rev_id v' = rev_id v \<and> revision_identity v' = revision_identity v
    \<and> rev_pipeline_version v' = rev_pipeline_version v \<and> rev_snapshot_id v' = rev_snapshot_id v
    \<and> rev_code_index_build_id v' = rev_code_index_build_id v
    \<and> rev_retrieval_build_id v' = rev_retrieval_build_id v"

definition revision_quiet :: "analysis_revision \<Rightarrow> analysis_revision \<Rightarrow> bool" where
  "revision_quiet v v' \<longleftrightarrow> same_lineage v v' \<and> (rev_status v = RevReady \<longrightarrow> v' = v)
    \<and> (rev_status v' = RevReady \<longrightarrow> v' = v)"

text \<open>Issued evidence only grows, under fresh ids.\<close>

definition items_grow :: "attempt_evidence_item list \<Rightarrow> attempt_evidence_item list \<Rightarrow> bool" where
  "items_grow xs ys \<longleftrightarrow> prefix xs ys \<and> (distinct (map ev_id xs) \<longrightarrow> distinct (map ev_id ys))"

lemma items_grow_refl [simp]: "items_grow xs xs" by (simp add: items_grow_def)

lemma items_grow_trans: "items_grow xs ys \<Longrightarrow> items_grow ys zs \<Longrightarrow> items_grow xs zs"
  unfolding items_grow_def using prefix_order.trans by blast

definition quiet :: "db \<Rightarrow> db \<Rightarrow> bool" where
  "quiet d d' \<longleftrightarrow> list_all2 snap_quiet (repository_snapshots d) (repository_snapshots d')
    \<and> list_all2 code_quiet (code_index_builds d) (code_index_builds d')
    \<and> list_all2 retrieval_quiet (retrieval_builds d) (retrieval_builds d')
    \<and> list_all2 revision_quiet (analysis_revisions d) (analysis_revisions d')
    \<and> next_code_index_build_id d' = next_code_index_build_id d
    \<and> next_retrieval_build_id d' = next_retrieval_build_id d
    \<and> items_grow (attempt_evidence_items d) (attempt_evidence_items d')"

lemma snap_quiet_refl [simp]: "snap_quiet s s" by (simp add: snap_quiet_def)
lemma code_quiet_refl [simp]: "code_quiet b b" by (simp add: code_quiet_def)
lemma retrieval_quiet_refl [simp]: "retrieval_quiet b b" by (simp add: retrieval_quiet_def)
lemma revision_quiet_refl [simp]: "revision_quiet v v" by (simp add: revision_quiet_def same_lineage_def)

lemma quiet_rows_trans:
  "snap_quiet s s' \<Longrightarrow> snap_quiet s' s'' \<Longrightarrow> snap_quiet s s''"
  "code_quiet b b' \<Longrightarrow> code_quiet b' b'' \<Longrightarrow> code_quiet b b''"
  "retrieval_quiet c c' \<Longrightarrow> retrieval_quiet c' c'' \<Longrightarrow> retrieval_quiet c c''"
  "revision_quiet v v' \<Longrightarrow> revision_quiet v' v'' \<Longrightarrow> revision_quiet v v''"
  unfolding snap_quiet_def code_quiet_def retrieval_quiet_def revision_quiet_def same_lineage_def by metis+

lemma quiet_trans: "quiet a b \<Longrightarrow> quiet b c \<Longrightarrow> quiet a c"
  unfolding quiet_def
  by (elim conjE, intro conjI)
    (erule (1) list_all2_comp, erule (1) quiet_rows_trans | erule (1) items_grow_trans | simp)+

lemma quiet_refl [simp]: "quiet d d"
  by (simp add: quiet_def list_all2_refl)

text \<open>A write to a table outside the pipeline is quiet.\<close>

lemma quiet_other_tables [simp]:
  "quiet d (set_jobs P f e) \<longleftrightarrow> quiet d e" "quiet d (set_runs P1 f1 e) \<longleftrightarrow> quiet d e"
  "quiet d (set_attempts P2 f2 e) \<longleftrightarrow> quiet d e" "quiet d (put_job r e) \<longleftrightarrow> quiet d e"
  by (simp_all add: quiet_def set_table_defs put_job_def)

lemma quiet_record [simp]:
  "quiet d (e\<lparr>analysis_jobs := js, next_job_id := n\<rparr>) \<longleftrightarrow> quiet d e"
  "quiet d (e\<lparr>analysis_jobs := js\<rparr>) \<longleftrightarrow> quiet d e"
  "quiet d (e\<lparr>diagnosis_runs := rs, analysis_jobs := js, next_job_id := n\<rparr>) \<longleftrightarrow> quiet d e"
  "quiet d (e\<lparr>diagnosis_runs := rs\<rparr>) \<longleftrightarrow> quiet d e"
  "quiet d (e\<lparr>diagnosis_attempts := as\<rparr>) \<longleftrightarrow> quiet d e"
  "quiet d (e\<lparr>reports := rp\<rparr>) \<longleftrightarrow> quiet d e"
  "quiet d (e\<lparr>citations := ci\<rparr>) \<longleftrightarrow> quiet d e"
  by (simp_all add: quiet_def)

lemma quiet_from_other_tables [simp]:
  "quiet (set_jobs P f d) e \<longleftrightarrow> quiet d e" "quiet (set_runs P1 f1 d) e \<longleftrightarrow> quiet d e"
  "quiet (set_attempts P2 f2 d) e \<longleftrightarrow> quiet d e" "quiet (put_job r d) e \<longleftrightarrow> quiet d e"
  "quiet (d\<lparr>reports := rp\<rparr>) e \<longleftrightarrow> quiet d e" "quiet (d\<lparr>citations := ci\<rparr>) e \<longleftrightarrow> quiet d e"
  by (simp_all add: quiet_def set_table_defs put_job_def)

lemma quiet_set_tables:
  "(\<And>s. P s \<Longrightarrow> snap_quiet s (f s)) \<Longrightarrow> quiet d (set_snapshots P f d)"
  "(\<And>b. P1 b \<Longrightarrow> code_quiet b (f1 b)) \<Longrightarrow> quiet d (set_code_builds P1 f1 d)"
  "(\<And>b. P2 b \<Longrightarrow> retrieval_quiet b (f2 b)) \<Longrightarrow> quiet d (set_retrieval_builds P2 f2 d)"
  "(\<And>v. P3 v \<Longrightarrow> revision_quiet v (f3 v)) \<Longrightarrow> quiet d (set_revisions P3 f3 d)"
  by (simp_all add: quiet_def set_table_defs list_all2_refl list_all2_sql_set)

lemmas quiet_row_defs = snap_quiet_def code_quiet_def retrieval_quiet_def revision_quiet_def
  same_lineage_def snapshot_identity_def code_build_identity_def retrieval_build_identity_def
  revision_identity_def

section \<open>Transactions of the job store\<close>

lemma fail_business_update_quiet: "quiet d (snd (fail_business_update ty code res d))"
  unfolding fail_business_update_def Let_def
  by (cases ty) (auto intro!: quiet_set_tables simp: quiet_row_defs)

lemma restore_business_quiet: "quiet d (snd (restore_business ty res d))"
  unfolding restore_business_def Let_def
  by (cases ty) (auto intro!: quiet_set_tables simp: quiet_row_defs)

lemma failAnalysisRevisionTx_quiet:
  assumes "failAnalysisRevisionTx now ty res code msg d = Inr d'"
  shows "quiet d d'"
proof -
  have "quiet d (set_revisions (\<lambda>r. rev_id r = i \<and> rev_status r = RevPreparing \<and> rev_stage r = stage)
      (\<lambda>r. r\<lparr>rev_status := RevFailed, rev_stage := stage, rev_error_code := code,
        rev_error_message := msg, rev_version := rev_version r + 1, rev_updated_at := now\<rparr>) d)" for i stage
    by (rule quiet_set_tables(4)) (auto simp: quiet_row_defs)
  with assms show ?thesis
    by (auto simp: failAnalysisRevisionTx_def Let_def bindE_eq_Inr split: option.splits if_splits sum.splits)
qed

lemma fail_diagnosis_attempts_quiet [simp]: "quiet d (fail_diagnosis_attempts now reaped res g e) \<longleftrightarrow> quiet d e"
  by (simp add: fail_diagnosis_attempts_def Let_def)

lemma failBusinessTx_quiet:
  assumes "failBusinessTx now i reaped code msg d = Inr d'"
  shows "quiet d d'"
proof -
  obtain job where job: "job_of d i = Some job"
    using assms by (auto simp: failBusinessTx_def split: option.splits)
  obtain n d1 where up: "fail_business_update (job_type job)
      (if reaped then ''LEASE_EXPIRED_EXHAUSTED'' else if code \<noteq> '''' then code else ''JOB_FAILED'')
      (job_resource_id job) d = (n, d1)"
    by (metis surj_pair)
  let ?d2 = "if job_type job = JobTypeRunDiagnosis
    then fail_diagnosis_attempts now reaped (job_resource_id job) (job_execution_generation job) d1 else d1"
  have "quiet d d1"
    using fail_business_update_quiet[of d "job_type job" _ "job_resource_id job"] up by (metis snd_conv)
  then have "quiet d ?d2" by simp
  moreover have "quiet ?d2 d'"
    using assms job up
    by (auto simp: failBusinessTx_def Let_def intro!: failAnalysisRevisionTx_quiet
        split: job_type.splits if_splits prod.splits)
  ultimately show ?thesis by (rule quiet_trans)
qed

lemma cancelDiagnosisRunTx_quiet: "cancelDiagnosisRunTx now res g d = Inr d' \<Longrightarrow> quiet d d'"
  by (auto simp: cancelDiagnosisRunTx_def Let_def split: if_splits option.splits)

lemma ConditionalFinalizeCancelTx_quiet: "ConditionalFinalizeCancelTx now i w t d = Inr d' \<Longrightarrow> quiet d d'"
  by (auto simp: ConditionalFinalizeCancelTx_def Let_def bindE_eq_Inr split: if_splits
      dest!: cancelDiagnosisRunTx_quiet)

lemma ConditionalFinalizeSuccessTx_quiet: "ConditionalFinalizeSuccessTx now i w t d = Inr d' \<Longrightarrow> quiet d d'"
  by (auto simp: ConditionalFinalizeSuccessTx_def Let_def bindE_eq_Inr split: if_splits sum.splits
      dest!: ConditionalFinalizeCancelTx_quiet)

lemma ConditionalFinalizeFailureTx_quiet:
  "ConditionalFinalizeFailureTx now i w t cls code msg reason isTerminal nxt d = Inr d' \<Longrightarrow> quiet d d'"
  by (auto simp: ConditionalFinalizeFailureTx_def Let_def bindE_eq_Inr split: if_splits sum.splits
      dest!: ConditionalFinalizeCancelTx_quiet failBusinessTx_quiet)

lemma cancelExpiredDiagnosisTx_quiet: "cancelExpiredDiagnosisTx ej now d = Inr d' \<Longrightarrow> quiet d d'"
  unfolding cancelExpiredDiagnosisTx_def Let_def by (auto split: if_split_asm option.split_asm)

lemma failExpiredDiagnosisOutcomeUnknownTx_quiet:
  "failExpiredDiagnosisOutcomeUnknownTx ej aid m now d = Inr d' \<Longrightarrow> quiet d d'"
  unfolding failExpiredDiagnosisOutcomeUnknownTx_def Let_def by (auto split: if_split_asm)

lemma schedule_reaped_retry_quiet: "schedule_reaped_retry rnd ej now d = Inr d' \<Longrightarrow> quiet d d'"
  unfolding schedule_reaped_retry_def Let_def by (auto split: if_split_asm option.split_asm)

lemma reap_one_quiet: "reap_one rnd now ej d = Inr d' \<Longrightarrow> quiet d d'"
  unfolding reap_one_def
  by (auto simp: requeue_never_started_def fail_reaped_def bindE_eq_Inr Let_def
      split: if_split_asm option.split_asm
      intro: cancelExpiredDiagnosisTx_quiet failExpiredDiagnosisOutcomeUnknownTx_quiet
        schedule_reaped_retry_quiet
      dest!: failBusinessTx_quiet)

lemma reap_all_quiet: "reap_all rnd now ejs d = Inr d' \<Longrightarrow> quiet d d'"
  by (induction ejs arbitrary: d) (auto simp: bindE_eq_Inr dest!: reap_one_quiet intro: quiet_trans)

lemma ManualRequeueTx_quiet:
  assumes "ManualRequeueTx now ty res d = Inr d'"
  shows "quiet d d'"
proof -
  obtain n d1 where rb: "restore_business ty res d = (n, d1)" by (metis surj_pair)
  then have "quiet d d1" using restore_business_quiet[of d ty res] by simp
  moreover from assms rb obtain P where "d' = set_jobs P (reset_job_row now) d1"
    by (auto simp: ManualRequeueTx_def Let_def split: job_type.splits if_splits)
  ultimately show ?thesis by simp
qed

lemma RetryDiagnosisTx_quiet: "RetryDiagnosisTx now res d = Inr d' \<Longrightarrow> quiet d d'"
  by (auto simp: RetryDiagnosisTx_def Let_def split: option.splits if_splits)

lemma CreateJobTx_quiet: "CreateJobTx now job d = Inr (j, d') \<Longrightarrow> quiet d d'"
  by (auto simp: CreateJobTx_def Let_def split: if_splits)

section \<open>Transactions of the diagnosis store\<close>

lemma StartAttemptTx_quiet: "StartAttemptTx now run att d = Inr d' \<Longrightarrow> quiet d d'"
  by (auto simp: StartAttemptTx_def create_attempt_def Let_def bindE_eq_Inr split: option.splits if_splits)

lemma create_attempt_quiet: "create_attempt now a d = Inr d' \<Longrightarrow> quiet d d'"
  by (auto simp: create_attempt_def Let_def split: if_splits)

lemma StartAttemptWithClaimTx_quiet:
  assumes "StartAttemptWithClaimTx now i w t g run att d = Inr d'"
  shows "quiet d d'"
proof (cases att)
  case (Some a)
  show ?thesis
    using assms Some
    by (cases "run_of d run") (auto simp: StartAttemptWithClaimTx_def Let_def bindE_eq_Inr split: if_splits
        dest!: create_attempt_quiet)
qed (use assms in \<open>auto simp: StartAttemptWithClaimTx_def Let_def bindE_eq_Inr\<close>)

lemma dispatch_quiet:
  "BeginProviderDispatchTx now i w t g run att n d = Inr d' \<Longrightarrow> quiet d d'"
  "ProviderDispatchSucceededTx now i w t g run att n d = Inr d' \<Longrightarrow> quiet d d'"
  "ProviderDispatchFailedDefinitelyTx now i w t g run att n d = Inr (x, d') \<Longrightarrow> quiet d d'"
  by (auto simp: BeginProviderDispatchTx_def ProviderDispatchSucceededTx_def
      ProviderDispatchFailedDefinitelyTx_def Let_def bindE_eq_Inr split: option.splits if_splits)

lemma CreateRunTx_quiet: "CreateRunTx uuid now run d = Inr (r, d') \<Longrightarrow> quiet d d'"
  by (auto simp: CreateRunTx_def Let_def split: if_splits)

lemma FinalizeDiagnosisFailureTx_quiet:
  "FinalizeDiagnosisFailureTx now i w t g run att cls code msg pt ct tc d = Inr d' \<Longrightarrow> quiet d d'"
  by (auto simp: FinalizeDiagnosisFailureTx_def Let_def bindE_eq_Inr split: option.splits if_splits)

lemma FinalizeRetryableAttemptTx_quiet:
  "FinalizeRetryableAttemptTx now i w t g run att code msg pt ct tc d = Inr d' \<Longrightarrow> quiet d d'"
  by (auto simp: FinalizeRetryableAttemptTx_def Let_def bindE_eq_Inr split: option.splits if_splits)

lemma FinalizeCancellationTx_quiet: "FinalizeCancellationTx now i w t run att d = Inr d' \<Longrightarrow> quiet d d'"
  by (auto simp: FinalizeCancellationTx_def Let_def bindE_eq_Inr split: option.splits if_splits)

lemma RequestCancellationTx_quiet: "RequestCancellationTx now run user d = Inr d' \<Longrightarrow> quiet d d'"
  by (auto simp: RequestCancellationTx_def Let_def bindE_eq_Inr split: option.splits if_splits)

lemma RecoverStaleAttemptTx_quiet: "RecoverStaleAttemptTx now att run d = Inr d' \<Longrightarrow> quiet d d'"
  by (auto simp: RecoverStaleAttemptTx_def Let_def bindE_eq_Inr split: option.splits if_splits)

lemma create_report_quiet: "create_report now rep d = Inr d' \<Longrightarrow> quiet d d'"
  by (auto simp: create_report_def Let_def split: if_splits)

lemma create_citations_quiet: "create_citations uuid k cits d = Inr d' \<Longrightarrow> quiet d d'"
proof (induction cits arbitrary: k d)
  case (Cons c cs)
  then show ?case
    by (auto simp: Let_def split: if_splits dest!: Cons.IH intro: quiet_trans)
qed simp

lemma wrapE_eq_Inr: "wrapE m x = Inr y \<longleftrightarrow> x = Inr y"
  by (auto simp: wrapE_def split: sum.splits)

lemma FinalizeSuccessTx_quiet:
  "FinalizeSuccessTx order uuid now i w t run att rep cits pt ct tc d = Inr d' \<Longrightarrow> quiet d d'"
  by (cases rep) (auto simp: FinalizeSuccessTx_def Let_def bindE_eq_Inr wrapE_eq_Inr split: if_splits
      dest!: create_report_quiet create_citations_quiet intro: quiet_trans)

lemma FinalizeInvalidStructuredReportTx_quiet:
  "FinalizeInvalidStructuredReportTx order uuid now i w t run att rep pt ct tc code msg d = Inr d' \<Longrightarrow> quiet d d'"
  by (cases rep) (auto simp: FinalizeInvalidStructuredReportTx_def Let_def bindE_eq_Inr wrapE_eq_Inr
      split: if_splits dest!: create_report_quiet intro: quiet_trans)

lemma UpdateAttemptCheckpointWithClaimTx_quiet:
  "UpdateAttemptCheckpointWithClaimTx order now i w t g n run att cp draft d = Inr d' \<Longrightarrow> quiet d d'"
  by (auto simp: UpdateAttemptCheckpointWithClaimTx_def Let_def bindE_eq_Inr split: option.splits if_splits)

section \<open>Every step of the job and diagnosis stores is quiet\<close>

lemma unit_tx_quiet: "(\<And>d'. f d = Inr d' \<Longrightarrow> quiet d d') \<Longrightarrow> quiet d (snd (unit_tx f d))"
  by (auto simp: unit_tx_def run_tx_def bindE_eq_Inr split: sum.split)

lemma run_tx_quiet: "(\<And>x d'. f d = Inr (x, d') \<Longrightarrow> quiet d d') \<Longrightarrow> quiet d (snd (run_tx f d))"
  by (auto simp: run_tx_def split: sum.split)

lemma MarkExecutionStartedTx_quiet: "MarkExecutionStartedTx now i w t g d = Inr (n, d') \<Longrightarrow> quiet d d'"
  by (auto simp: MarkExecutionStartedTx_def Let_def bindE_eq_Inr split: if_splits option.splits)

lemma ReapExpiredJobsTx_quiet: "ReapExpiredJobsTx rnd scan locked now b d = Inr (n, d') \<Longrightarrow> quiet d d'"
  by (auto simp: ReapExpiredJobsTx_def Let_def bindE_eq_Inr dest!: reap_all_quiet)

lemma row_writes_quiet:
  "quiet d (snd (ReturnUndispatchedClaim now i w t g d))"
  "quiet d (snd (RenewLease now i w t l d))"
  "quiet d (snd (RequestCancel now ty res d))"
  "quiet d (snd (UpdateAttemptHeartbeat att h d))"
  "quiet d (snd (CloseAttempt now run att g st code msg retryable d))"
  by (auto simp: ReturnUndispatchedClaim_def RenewLease_def RequestCancel_def UpdateAttemptHeartbeat_def
      CloseAttempt_def Let_def)

lemma claim_updates_quiet: "quiet d (claim_updates tok k w lease now cs d)"
proof (induction cs arbitrary: k d)
  case (Cons c cs)
  let ?e = "set_jobs (\<lambda>r. job_id r = job_id c) (claim_row w (tok k) lease now) d"
  have "quiet ?e (claim_updates tok (Suc k) w lease now cs ?e)" by (rule Cons.IH)
  then show ?case by (simp del: quiet_other_tables)
qed simp

lemma ClaimJobs_quiet: "quiet d (snd (ClaimJobs locked tok now w b lease d))"
  by (simp add: ClaimJobs_def Let_def claim_updates_quiet)

lemma EvidenceCreate_quiet: "quiet d (snd (EvidenceCreate uuid item d))"
  by (auto simp: EvidenceCreate_def Let_def quiet_def list_all2_same items_grow_def evidence_named_def list_ex_iff)

lemmas store_quiet = CreateJobTx_quiet MarkExecutionStartedTx_quiet ReapExpiredJobsTx_quiet
  ConditionalFinalizeSuccessTx_quiet ConditionalFinalizeFailureTx_quiet ConditionalFinalizeCancelTx_quiet
  ManualRequeueTx_quiet RetryDiagnosisTx_quiet CreateRunTx_quiet StartAttemptWithClaimTx_quiet dispatch_quiet
  UpdateAttemptCheckpointWithClaimTx_quiet FinalizeSuccessTx_quiet FinalizeInvalidStructuredReportTx_quiet
  FinalizeDiagnosisFailureTx_quiet FinalizeRetryableAttemptTx_quiet FinalizeCancellationTx_quiet
  RequestCancellationTx_quiet RecoverStaleAttemptTx_quiet

lemmas store_transactions = CreateJob_def MarkExecutionStarted_def ReapExpiredJobs_def
  ConditionalFinalizeSuccess_def ConditionalFinalizeFailure_def ConditionalFinalizeCancel_def
  ManualRequeue_def RetryDiagnosis_def CreateRun_def StartAttemptWithClaim_def BeginProviderDispatch_def
  ProviderDispatchSucceeded_def ProviderDispatchFailedDefinitely_def UpdateAttemptCheckpointWithClaim_def
  FinalizeSuccess_def FinalizeInvalidStructuredReport_def FinalizeDiagnosisFailure_def
  FinalizeRetryableAttempt_def FinalizeCancellation_def RequestCancellation_def RecoverStaleAttempt_def

lemma system_step_quiet: "system_step F d d' \<Longrightarrow> quiet d d'"
  by (induction rule: system_step.cases)
    (auto simp: store_transactions row_writes_quiet ClaimJobs_quiet EvidenceCreate_quiet
      intro!: unit_tx_quiet run_tx_quiet dest: store_quiet)

end
