(* ===== verification/Pipeline_Invariants.thy ===== *)
theory Pipeline_Invariants
  imports Pipeline_Frame
begin

text \<open>
  The lineage invariant of the analysis pipeline. A revision owns its snapshot; its code
  index build belongs to it and to that snapshot; its retrieval build belongs to it and to
  that code index build, which is then \<open>READY\<close>; and a \<open>READY\<close> revision has a complete
  \<open>READY\<close> chain. Artifacts only move forward: identities stay, and an artifact that is
  \<open>READY\<close> no longer changes (a build without a revision may still be adopted by one).
\<close>

section \<open>Lookups\<close>

definition snap_of :: "db \<Rightarrow> string \<Rightarrow> repository_snapshot option" where
  "snap_of d i = by_key snap_id i (repository_snapshots d)"

definition code_of :: "db \<Rightarrow> int \<Rightarrow> code_index_build option" where
  "code_of d i = by_key cib_id i (code_index_builds d)"

definition retrieval_of :: "db \<Rightarrow> int \<Rightarrow> retrieval_build option" where
  "retrieval_of d i = by_key rb_id i (retrieval_builds d)"

definition revision_of :: "db \<Rightarrow> string \<Rightarrow> analysis_revision option" where
  "revision_of d i = by_key rev_id i (analysis_revisions d)"

lemmas artifact_lookups = snap_of_def code_of_def retrieval_of_def revision_of_def

section \<open>Forward movement\<close>

definition snap_le :: "repository_snapshot \<Rightarrow> repository_snapshot \<Rightarrow> bool" where
  "snap_le s s' \<longleftrightarrow> snap_id s' = snap_id s \<and> snap_repository_id s' = snap_repository_id s
    \<and> snap_analysis_revision_id s' = snap_analysis_revision_id s
    \<and> (snap_analysis_revision_id s \<noteq> '''' \<longrightarrow> snap_commit_sha s' = snap_commit_sha s)
    \<and> (snap_status s = SnapReady \<longrightarrow> s' = s)"

definition code_le :: "code_index_build \<Rightarrow> code_index_build \<Rightarrow> bool" where
  "code_le b b' \<longleftrightarrow> cib_id b' = cib_id b \<and> cib_snapshot_id b' = cib_snapshot_id b
    \<and> (cib_analysis_revision_id b \<noteq> '''' \<longrightarrow> cib_analysis_revision_id b' = cib_analysis_revision_id b)
    \<and> (cib_status b = BuildStatusReady \<longrightarrow>
         b' = b\<lparr>cib_analysis_revision_id := cib_analysis_revision_id b'\<rparr>)"

definition retrieval_le :: "retrieval_build \<Rightarrow> retrieval_build \<Rightarrow> bool" where
  "retrieval_le b b' \<longleftrightarrow> rb_id b' = rb_id b \<and> rb_code_index_build_id b' = rb_code_index_build_id b
    \<and> (rb_analysis_revision_id b \<noteq> '''' \<longrightarrow> rb_analysis_revision_id b' = rb_analysis_revision_id b)
    \<and> (rb_status b = BuildStatusReady \<longrightarrow>
         b' = b\<lparr>rb_analysis_revision_id := rb_analysis_revision_id b'\<rparr>)"

definition revision_le :: "analysis_revision \<Rightarrow> analysis_revision \<Rightarrow> bool" where
  "revision_le v v' \<longleftrightarrow> rev_id v' = rev_id v \<and> revision_identity v' = revision_identity v
    \<and> rev_pipeline_version v' = rev_pipeline_version v \<and> rev_snapshot_id v' = rev_snapshot_id v
    \<and> (rev_status v = RevReady \<longrightarrow> v' = v)"

definition opt_le :: "('a \<Rightarrow> 'a \<Rightarrow> bool) \<Rightarrow> 'a option \<Rightarrow> 'a option \<Rightarrow> bool" where
  "opt_le R x y \<longleftrightarrow> (\<forall>a. x = Some a \<longrightarrow> (\<exists>b. y = Some b \<and> R a b))"

definition artifacts_le :: "db \<Rightarrow> db \<Rightarrow> bool" where
  "artifacts_le d d' \<longleftrightarrow> (\<forall>i. opt_le snap_le (snap_of d i) (snap_of d' i))
    \<and> (\<forall>i. opt_le code_le (code_of d i) (code_of d' i))
    \<and> (\<forall>i. opt_le retrieval_le (retrieval_of d i) (retrieval_of d' i))
    \<and> (\<forall>i. opt_le revision_le (revision_of d i) (revision_of d' i))"

lemma opt_le_refl: "(\<And>a. R a a) \<Longrightarrow> opt_le R x x"
  by (simp add: opt_le_def)

lemma opt_le_trans:
  assumes "opt_le R x y" and "opt_le R y z" and tr: "\<And>a b c. R a b \<Longrightarrow> R b c \<Longrightarrow> R a c"
  shows "opt_le R x z"
  unfolding opt_le_def
proof (intro allI impI)
  fix a assume "x = Some a"
  with assms(1) obtain b where b: "y = Some b" "R a b" by (auto simp: opt_le_def)
  with assms(2) obtain c where "z = Some c" "R b c" by (auto simp: opt_le_def)
  with b tr show "\<exists>c. z = Some c \<and> R a c" by blast
qed

lemma row_le_refl [simp]: "snap_le s s" "code_le b b" "retrieval_le c c" "revision_le v v"
  by (simp_all add: snap_le_def code_le_def retrieval_le_def revision_le_def)

lemma row_le_trans:
  "snap_le s s' \<Longrightarrow> snap_le s' s'' \<Longrightarrow> snap_le s s''"
  "retrieval_le c c' \<Longrightarrow> retrieval_le c' c'' \<Longrightarrow> retrieval_le c c''"
  "revision_le v v' \<Longrightarrow> revision_le v' v'' \<Longrightarrow> revision_le v v''"
  "code_le b b' \<Longrightarrow> code_le b' b'' \<Longrightarrow> code_le b b''"
  subgoal unfolding snap_le_def by metis
  subgoal unfolding retrieval_le_def
    by (cases c; cases c'; cases c'') auto
  subgoal unfolding revision_le_def by metis
  subgoal unfolding code_le_def
    by (cases b; cases b'; cases b'') auto
  done

lemma artifacts_le_refl [simp]: "artifacts_le d d"
  by (simp add: artifacts_le_def opt_le_refl)

lemma artifacts_le_trans: "artifacts_le a b \<Longrightarrow> artifacts_le b c \<Longrightarrow> artifacts_le a c"
  unfolding artifacts_le_def
  by (elim conjE, intro conjI allI)
    (rule opt_le_trans, erule spec, erule spec, erule (1) row_le_trans)+

section \<open>The invariant\<close>

definition snapshot_linked :: "db \<Rightarrow> analysis_revision \<Rightarrow> bool" where
  "snapshot_linked d v \<longleftrightarrow> (\<exists>s. snap_of d (rev_snapshot_id v) = Some s
    \<and> snap_analysis_revision_id s = rev_id v \<and> snap_repository_id s = rev_repository_id v
    \<and> snap_commit_sha s = rev_commit_sha v)"

definition code_linked :: "db \<Rightarrow> analysis_revision \<Rightarrow> bool" where
  "code_linked d v \<longleftrightarrow> rev_code_index_build_id v = 0
    \<or> (0 < rev_code_index_build_id v \<and> (\<exists>b. code_of d (rev_code_index_build_id v) = Some b
        \<and> cib_snapshot_id b = rev_snapshot_id v \<and> cib_analysis_revision_id b = rev_id v))"

definition retrieval_linked :: "db \<Rightarrow> analysis_revision \<Rightarrow> bool" where
  "retrieval_linked d v \<longleftrightarrow> rev_retrieval_build_id v = 0
    \<or> (0 < rev_retrieval_build_id v \<and> 0 < rev_code_index_build_id v
      \<and> (\<exists>b. code_of d (rev_code_index_build_id v) = Some b \<and> cib_status b = BuildStatusReady)
      \<and> (\<exists>r. retrieval_of d (rev_retrieval_build_id v) = Some r
          \<and> rb_code_index_build_id r = rev_code_index_build_id v \<and> rb_analysis_revision_id r = rev_id v))"

definition lineage_complete :: "db \<Rightarrow> analysis_revision \<Rightarrow> bool" where
  "lineage_complete d v \<longleftrightarrow> rev_stage v = StageReady \<and> 0 < rev_retrieval_build_id v
    \<and> (\<exists>r. retrieval_of d (rev_retrieval_build_id v) = Some r \<and> rb_status r = BuildStatusReady)"

definition named_revision :: "analysis_revision \<Rightarrow> bool" where
  "named_revision v \<longleftrightarrow> rev_id v \<noteq> '''' \<and> rev_repository_id v \<noteq> '''' \<and> rev_commit_sha v \<noteq> ''''
    \<and> rev_snapshot_id v \<noteq> '''' \<and> rev_pipeline_version v \<noteq> '''' \<and> rev_pipeline_fingerprint v \<noteq> ''''"

definition revision_ok :: "db \<Rightarrow> analysis_revision \<Rightarrow> bool" where
  "revision_ok d v \<longleftrightarrow> named_revision v \<and> snapshot_linked d v \<and> code_linked d v \<and> retrieval_linked d v
    \<and> (rev_status v = RevReady \<longrightarrow> lineage_complete d v)"

text \<open>
  A build that names a revision belongs to it: a code index build to a \<open>READY\<close> snapshot of the
  revision, a retrieval build to a code index build of the revision.
\<close>

definition snapshot_owned :: "db \<Rightarrow> string \<Rightarrow> string \<Rightarrow> bool" where
  "snapshot_owned d i rid \<longleftrightarrow> (\<exists>s. snap_of d i = Some s \<and> snap_status s = SnapReady \<and> snap_analysis_revision_id s = rid)"

definition code_owned :: "db \<Rightarrow> int \<Rightarrow> string \<Rightarrow> bool" where
  "code_owned d i rid \<longleftrightarrow> (\<exists>b. code_of d i = Some b \<and> cib_analysis_revision_id b = rid)"

definition code_build_ok :: "db \<Rightarrow> code_index_build \<Rightarrow> bool" where
  "code_build_ok d b \<longleftrightarrow> (cib_analysis_revision_id b \<noteq> '''' \<longrightarrow>
     snapshot_owned d (cib_snapshot_id b) (cib_analysis_revision_id b))"

definition retrieval_build_ok :: "db \<Rightarrow> retrieval_build \<Rightarrow> bool" where
  "retrieval_build_ok d b \<longleftrightarrow> (rb_analysis_revision_id b \<noteq> '''' \<longrightarrow>
     code_owned d (rb_code_index_build_id b) (rb_analysis_revision_id b))"

definition builds_ok :: "db \<Rightarrow> bool" where
  "builds_ok d \<longleftrightarrow> (\<forall>b \<in> set (code_index_builds d). code_build_ok d b)
    \<and> (\<forall>b \<in> set (retrieval_builds d). retrieval_build_ok d b)"

definition pipeline_keys :: "db \<Rightarrow> bool" where
  "pipeline_keys d \<longleftrightarrow> distinct (map snap_id (repository_snapshots d))
    \<and> distinct (map cib_id (code_index_builds d)) \<and> distinct (map rb_id (retrieval_builds d))
    \<and> distinct (map rev_id (analysis_revisions d)) \<and> distinct (map revision_identity (analysis_revisions d))
    \<and> 0 < next_code_index_build_id d \<and> 0 < next_retrieval_build_id d
    \<and> (\<forall>b \<in> set (code_index_builds d). 0 < cib_id b \<and> cib_id b < next_code_index_build_id d)
    \<and> (\<forall>b \<in> set (retrieval_builds d). 0 < rb_id b \<and> rb_id b < next_retrieval_build_id d)"

definition lineage_inv :: "db \<Rightarrow> bool" where
  "lineage_inv d \<longleftrightarrow> pipeline_keys d \<and> builds_ok d \<and> (\<forall>v \<in> set (analysis_revisions d). revision_ok d v)"

text \<open>The invariant and the forward movement together compose.\<close>

definition advance :: "db \<Rightarrow> db \<Rightarrow> bool" where
  "advance d d' \<longleftrightarrow> (lineage_inv d \<longrightarrow> lineage_inv d' \<and> artifacts_le d d')"

lemma advance_refl [simp]: "advance d d"
  by (simp add: advance_def)

lemma advance_trans: "advance a b \<Longrightarrow> advance b c \<Longrightarrow> advance a c"
  unfolding advance_def by (blast intro: artifacts_le_trans)

text \<open>What forward movement keeps of a row.\<close>

lemma ready_stays:
  "snap_le s s' \<Longrightarrow> snap_status s = SnapReady \<Longrightarrow> snap_status s' = SnapReady"
  "code_le b b' \<Longrightarrow> cib_status b = BuildStatusReady \<Longrightarrow> cib_status b' = BuildStatusReady"
  "retrieval_le c c' \<Longrightarrow> rb_status c = BuildStatusReady \<Longrightarrow> rb_status c' = BuildStatusReady"
  by (cases b; cases b'; cases c; cases c'; auto simp: snap_le_def code_le_def retrieval_le_def)+

lemma artifacts_leD:
  assumes "artifacts_le d d'"
  shows "snap_of d i = Some s \<Longrightarrow> \<exists>s'. snap_of d' i = Some s' \<and> snap_le s s'"
    and "code_of d j = Some b \<Longrightarrow> \<exists>b'. code_of d' j = Some b' \<and> code_le b b'"
    and "retrieval_of d k = Some c \<Longrightarrow> \<exists>c'. retrieval_of d' k = Some c' \<and> retrieval_le c c'"
    and "revision_of d l = Some v \<Longrightarrow> \<exists>v'. revision_of d' l = Some v' \<and> revision_le v v'"
  using assms by (auto simp: artifacts_le_def opt_le_def)

lemma snapshot_owned_mono: "artifacts_le d d' \<Longrightarrow> snapshot_owned d i rid \<Longrightarrow> snapshot_owned d' i rid"
  unfolding snapshot_owned_def by (fastforce dest: artifacts_leD(1) simp: snap_le_def)

lemma code_owned_mono: "artifacts_le d d' \<Longrightarrow> rid \<noteq> '''' \<Longrightarrow> code_owned d i rid \<Longrightarrow> code_owned d' i rid"
  unfolding code_owned_def by (fastforce dest: artifacts_leD(2) simp: code_le_def)

lemma build_ok_mono:
  "artifacts_le d d' \<Longrightarrow> code_build_ok d b \<Longrightarrow> code_build_ok d' b"
  "artifacts_le d d' \<Longrightarrow> retrieval_build_ok d c \<Longrightarrow> retrieval_build_ok d' c"
  by (auto simp: code_build_ok_def retrieval_build_ok_def intro: snapshot_owned_mono code_owned_mono)

lemma revision_ok_mono:
  assumes le: "artifacts_le d d'" and ok: "revision_ok d v"
  shows "revision_ok d' v"
proof -
  note [dest] = artifacts_leD[OF le]
  have named: "named_revision v" using ok by (simp add: revision_ok_def)
  then have id: "rev_id v \<noteq> ''''" by (simp add: named_revision_def)
  have "snapshot_linked d' v"
    using ok id unfolding revision_ok_def snapshot_linked_def by (fastforce simp: snap_le_def)
  moreover have "code_linked d' v"
    using ok id unfolding revision_ok_def code_linked_def by (fastforce simp: code_le_def)
  moreover have "retrieval_linked d' v"
  proof (cases "rev_retrieval_build_id v = 0")
    case False
    with ok obtain b r where b: "code_of d (rev_code_index_build_id v) = Some b" "cib_status b = BuildStatusReady"
      and r: "retrieval_of d (rev_retrieval_build_id v) = Some r"
        "rb_code_index_build_id r = rev_code_index_build_id v" "rb_analysis_revision_id r = rev_id v"
      and pos: "0 < rev_retrieval_build_id v" "0 < rev_code_index_build_id v"
      by (auto simp: revision_ok_def retrieval_linked_def)
    obtain b' where "code_of d' (rev_code_index_build_id v) = Some b'" "code_le b b'" using b(1) by blast
    moreover obtain r' where "retrieval_of d' (rev_retrieval_build_id v) = Some r'" "retrieval_le r r'"
      using r(1) by blast
    ultimately show ?thesis
      using b(2) r(2,3) pos id ready_stays(2) unfolding retrieval_linked_def by (auto simp: retrieval_le_def)
  qed (simp add: retrieval_linked_def)
  moreover have "rev_status v = RevReady \<longrightarrow> lineage_complete d' v"
    using ok ready_stays(3) unfolding revision_ok_def lineage_complete_def by blast
  ultimately show ?thesis using named by (simp add: revision_ok_def)
qed

lemma revision_ok_same_lineage:
  assumes "revision_ok d v" and "same_lineage v v'" and "rev_status v' = RevReady \<Longrightarrow> lineage_complete d v'"
  shows "revision_ok d v'"
proof -
  have "named_revision v' = named_revision v" "snapshot_linked d v' = snapshot_linked d v"
    "code_linked d v' = code_linked d v" "retrieval_linked d v' = retrieval_linked d v"
    using assms(2) by (simp_all add: same_lineage_def revision_identity_def named_revision_def
        snapshot_linked_def code_linked_def retrieval_linked_def)
  with assms(1,3) show ?thesis by (simp add: revision_ok_def)
qed

text \<open>How a write keeps the invariant.\<close>

lemma advanceI:
  assumes inv: "lineage_inv d" and le: "artifacts_le d d'" and keys: "pipeline_keys d'"
    and code: "\<And>b'. b' \<in> set (code_index_builds d') \<Longrightarrow> code_build_ok d b' \<or> code_build_ok d' b'"
    and retrieval: "\<And>b'. b' \<in> set (retrieval_builds d') \<Longrightarrow> retrieval_build_ok d b' \<or> retrieval_build_ok d' b'"
    and revs: "\<And>v'. v' \<in> set (analysis_revisions d') \<Longrightarrow> revision_ok d v' \<or> revision_ok d' v'"
  shows "lineage_inv d' \<and> artifacts_le d d'"
  using assms build_ok_mono[OF le] revision_ok_mono[OF le]
  unfolding lineage_inv_def builds_ok_def by blast

section \<open>Writes\<close>

lemma opt_le_sql_set:
  assumes "\<And>r. P r \<Longrightarrow> k (f r) = k r" and "\<And>r. r \<in> set t \<Longrightarrow> P r \<Longrightarrow> R r (f r)" and "\<And>r. R r r"
  shows "opt_le R (by_key k i t) (by_key k i (sql_set P f t))"
  using assms(2,3) by (auto simp: by_key_sql_set[where k = k and P = P and f = f, OF assms(1)] opt_le_def dest: by_key_Some_in)

lemma opt_le_append: "(\<And>r. R r r) \<Longrightarrow> opt_le R (by_key k i t) (by_key k i (t @ us))"
  by (induction t) (auto simp: by_key_def opt_le_def)

lemma opt_le_list_all2:
  "list_all2 Q t t' \<Longrightarrow> (\<And>x y. Q x y \<Longrightarrow> k y = k x \<and> R x y) \<Longrightarrow> opt_le R (by_key k i t) (by_key k i t')"
  by (induction rule: list_all2_induct) (auto simp: by_key_def opt_le_def)

lemma list_all2_map_key: "list_all2 Q t t' \<Longrightarrow> (\<And>x y. Q x y \<Longrightarrow> k y = k x) \<Longrightarrow> map k t' = map k t"
  by (induction rule: list_all2_induct) auto

lemma by_key_append:
  "by_key k i (t @ [r]) = (case by_key k i t of Some x \<Rightarrow> Some x | None \<Rightarrow> if k r = i then Some r else None)"
  by (induction t) (auto simp: by_key_def)

text \<open>Only the six fields of the pipeline matter.\<close>

definition same_artifacts :: "db \<Rightarrow> db \<Rightarrow> bool" where
  "same_artifacts d d' \<longleftrightarrow> repository_snapshots d' = repository_snapshots d
    \<and> code_index_builds d' = code_index_builds d \<and> retrieval_builds d' = retrieval_builds d
    \<and> analysis_revisions d' = analysis_revisions d
    \<and> next_code_index_build_id d' = next_code_index_build_id d
    \<and> next_retrieval_build_id d' = next_retrieval_build_id d"

lemma same_artifacts_lookups:
  assumes "same_artifacts d d'"
  shows "snap_of d' = snap_of d" "code_of d' = code_of d" "retrieval_of d' = retrieval_of d"
    "revision_of d' = revision_of d"
  using assms by (simp_all add: same_artifacts_def artifact_lookups fun_eq_iff)

lemma same_artifacts_advance: "same_artifacts d d' \<Longrightarrow> advance d d'"
  using same_artifacts_lookups[of d d']
  by (simp add: advance_def lineage_inv_def pipeline_keys_def builds_ok_def code_build_ok_def retrieval_build_ok_def
      snapshot_owned_def code_owned_def revision_ok_def snapshot_linked_def code_linked_def retrieval_linked_def lineage_complete_def
      artifacts_le_def opt_le_refl) (simp add: same_artifacts_def)

lemma same_artifacts_trans: "same_artifacts a b \<Longrightarrow> same_artifacts b c \<Longrightarrow> same_artifacts a c"
  by (simp add: same_artifacts_def)

lemma same_artifacts_set_jobs [simp]: "same_artifacts d (set_jobs P f d)"
  by (simp add: same_artifacts_def set_jobs_def)

lemma lookups_other_writes [simp]:
  "snap_of (set_code_builds P f d) = snap_of d" "snap_of (set_retrieval_builds P1 f1 d) = snap_of d"
  "snap_of (set_revisions P2 f2 d) = snap_of d" "snap_of (set_jobs P3 f3 d) = snap_of d"
  "code_of (set_snapshots P4 f4 d) = code_of d" "code_of (set_retrieval_builds P1 f1 d) = code_of d"
  "code_of (set_revisions P2 f2 d) = code_of d" "code_of (set_jobs P3 f3 d) = code_of d"
  "retrieval_of (set_snapshots P4 f4 d) = retrieval_of d" "retrieval_of (set_code_builds P f d) = retrieval_of d"
  "retrieval_of (set_revisions P2 f2 d) = retrieval_of d" "retrieval_of (set_jobs P3 f3 d) = retrieval_of d"
  "revision_of (set_snapshots P4 f4 d) = revision_of d" "revision_of (set_code_builds P f d) = revision_of d"
  "revision_of (set_retrieval_builds P1 f1 d) = revision_of d" "revision_of (set_jobs P3 f3 d) = revision_of d"
  by (simp_all add: artifact_lookups fun_eq_iff)

lemma counters_writes [simp]:
  "next_code_index_build_id (set_code_builds P f d) = next_code_index_build_id d"
  "next_code_index_build_id (set_retrieval_builds P1 f1 d) = next_code_index_build_id d"
  "next_code_index_build_id (set_revisions P2 f2 d) = next_code_index_build_id d"
  "next_code_index_build_id (set_snapshots P3 f3 d) = next_code_index_build_id d"
  "next_retrieval_build_id (set_code_builds P f d) = next_retrieval_build_id d"
  "next_retrieval_build_id (set_retrieval_builds P1 f1 d) = next_retrieval_build_id d"
  "next_retrieval_build_id (set_revisions P2 f2 d) = next_retrieval_build_id d"
  "next_retrieval_build_id (set_snapshots P3 f3 d) = next_retrieval_build_id d"
  by (simp_all add: set_table_defs)

lemma advance_set_snapshots:
  assumes inv: "lineage_inv d" and key: "\<And>s. P s \<Longrightarrow> snap_id (f s) = snap_id s"
    and row: "\<And>s. s \<in> set (repository_snapshots d) \<Longrightarrow> P s \<Longrightarrow> snap_le s (f s)"
  shows "lineage_inv (set_snapshots P f d) \<and> artifacts_le d (set_snapshots P f d)"
proof (rule advanceI[OF inv])
  show "artifacts_le d (set_snapshots P f d)"
    using row by (auto simp: artifacts_le_def artifact_lookups opt_le_refl intro!: opt_le_sql_set key)
  show "pipeline_keys (set_snapshots P f d)"
    using inv by (simp add: lineage_inv_def pipeline_keys_def map_key_sql_set key)
qed (use inv in \<open>auto simp: lineage_inv_def builds_ok_def\<close>)

lemma advance_set_revisions:
  assumes inv: "lineage_inv d" and key: "\<And>v. P v \<Longrightarrow> rev_id (f v) = rev_id v"
    and row: "\<And>v. v \<in> set (analysis_revisions d) \<Longrightarrow> P v \<Longrightarrow> revision_le v (f v) \<and> revision_ok d (f v)"
  shows "lineage_inv (set_revisions P f d) \<and> artifacts_le d (set_revisions P f d)"
proof (rule advanceI[OF inv])
  show "artifacts_le d (set_revisions P f d)"
    using row by (auto simp: artifacts_le_def artifact_lookups opt_le_refl intro!: opt_le_sql_set key)
  have "map revision_identity (sql_set P f (analysis_revisions d)) = map revision_identity (analysis_revisions d)"
    using row by (auto simp: sql_set_def revision_le_def)
  then show "pipeline_keys (set_revisions P f d)"
    using inv by (simp add: lineage_inv_def pipeline_keys_def map_key_sql_set key)
next
  fix v' assume "v' \<in> set (analysis_revisions (set_revisions P f d))"
  with row inv have "revision_ok d v'" by (auto simp: set_sql_set lineage_inv_def)
  then show "revision_ok d v' \<or> revision_ok (set_revisions P f d) v'" ..
qed (use inv in \<open>auto simp: lineage_inv_def builds_ok_def\<close>)

lemma advance_set_code_builds:
  assumes inv: "lineage_inv d" and key: "\<And>b. P b \<Longrightarrow> cib_id (f b) = cib_id b"
    and row: "\<And>b. b \<in> set (code_index_builds d) \<Longrightarrow> P b \<Longrightarrow> code_le b (f b)
      \<and> (cib_analysis_revision_id (f b) \<noteq> '''' \<longrightarrow> snapshot_owned d (cib_snapshot_id b) (cib_analysis_revision_id (f b)))"
  shows "lineage_inv (set_code_builds P f d) \<and> artifacts_le d (set_code_builds P f d)"
proof (rule advanceI[OF inv])
  show "artifacts_le d (set_code_builds P f d)"
    using row by (auto simp: artifacts_le_def artifact_lookups opt_le_refl intro!: opt_le_sql_set key)
  have "cib_id x \<in> set (map cib_id (code_index_builds d))" if "x \<in> set (code_index_builds (set_code_builds P f d))" for x
    using that key by (auto simp: set_sql_set)
  then show "pipeline_keys (set_code_builds P f d)"
    using inv by (fastforce simp add: lineage_inv_def pipeline_keys_def map_key_sql_set key)
next
  fix b' assume "b' \<in> set (code_index_builds (set_code_builds P f d))"
  with row inv have "code_build_ok d b'"
    by (auto simp: set_sql_set lineage_inv_def builds_ok_def code_build_ok_def code_le_def)
  then show "code_build_ok d b' \<or> code_build_ok (set_code_builds P f d) b'" ..
qed (use inv in \<open>auto simp: lineage_inv_def builds_ok_def\<close>)

lemma advance_set_retrieval_builds:
  assumes inv: "lineage_inv d" and key: "\<And>b. P b \<Longrightarrow> rb_id (f b) = rb_id b"
    and row: "\<And>b. b \<in> set (retrieval_builds d) \<Longrightarrow> P b \<Longrightarrow> retrieval_le b (f b)
      \<and> (rb_analysis_revision_id (f b) \<noteq> '''' \<longrightarrow> code_owned d (rb_code_index_build_id b) (rb_analysis_revision_id (f b)))"
  shows "lineage_inv (set_retrieval_builds P f d) \<and> artifacts_le d (set_retrieval_builds P f d)"
proof (rule advanceI[OF inv])
  show "artifacts_le d (set_retrieval_builds P f d)"
    using row by (auto simp: artifacts_le_def artifact_lookups opt_le_refl intro!: opt_le_sql_set key)
  have "rb_id x \<in> set (map rb_id (retrieval_builds d))" if "x \<in> set (retrieval_builds (set_retrieval_builds P f d))" for x
    using that key by (auto simp: set_sql_set)
  then show "pipeline_keys (set_retrieval_builds P f d)"
    using inv by (fastforce simp add: lineage_inv_def pipeline_keys_def map_key_sql_set key)
next
  fix b' assume "b' \<in> set (retrieval_builds (set_retrieval_builds P f d))"
  with row inv have "retrieval_build_ok d b'"
    by (auto simp: set_sql_set lineage_inv_def builds_ok_def retrieval_build_ok_def retrieval_le_def)
  then show "retrieval_build_ok d b' \<or> retrieval_build_ok (set_retrieval_builds P f d) b'" ..
qed (use inv in \<open>auto simp: lineage_inv_def builds_ok_def\<close>)

text \<open>Insertions.\<close>

lemma insert_code_build_advance:
  assumes inv: "lineage_inv d" and ins: "insert_code_build b0 d = Inr (b, d')"
    and link: "cib_analysis_revision_id b0 \<noteq> '''' \<Longrightarrow> snapshot_owned d (cib_snapshot_id b0) (cib_analysis_revision_id b0)"
  shows "lineage_inv d' \<and> artifacts_le d d'"
    and "code_of d' (cib_id b) = Some b" and "0 < cib_id b"
    and "cib_snapshot_id b = cib_snapshot_id b0"
    and "cib_analysis_revision_id b = cib_analysis_revision_id b0"
    and "analysis_revisions d' = analysis_revisions d"
proof -
  have b: "b = b0\<lparr>cib_id := next_code_index_build_id d\<rparr>"
    and d': "d' = d\<lparr>code_index_builds := code_index_builds d @ [b],
      next_code_index_build_id := next_code_index_build_id d + 1\<rparr>"
    using ins by (auto simp: insert_code_build_def Let_def split: if_splits)
  have keys: "pipeline_keys d" using inv by (simp add: lineage_inv_def)
  have fresh: "cib_id b \<notin> cib_id ` set (code_index_builds d)"
    using keys by (auto simp: pipeline_keys_def b)
  show "lineage_inv d' \<and> artifacts_le d d'"
  proof (rule advanceI[OF inv])
    show "artifacts_le d d'"
      by (auto simp: artifacts_le_def artifact_lookups d' opt_le_refl intro!: opt_le_append)
    show "pipeline_keys d'"
      using keys fresh by (auto simp: pipeline_keys_def d' b)
  next
    fix b' assume "b' \<in> set (code_index_builds d')"
    with inv link have "code_build_ok d b'"
      by (auto simp: d' b lineage_inv_def builds_ok_def code_build_ok_def)
    then show "code_build_ok d b' \<or> code_build_ok d' b'" ..
  qed (use inv in \<open>auto simp: lineage_inv_def builds_ok_def d'\<close>)
  show "code_of d' (cib_id b) = Some b"
    using fresh by (simp add: code_of_def d' by_key_append by_key_None[THEN iffD2])
  show "0 < cib_id b" using keys by (simp add: pipeline_keys_def b)
qed (use ins in \<open>auto simp: insert_code_build_def Let_def split: if_splits\<close>)

lemma insert_retrieval_build_advance:
  assumes inv: "lineage_inv d" and ins: "insert_retrieval_build b0 d = Inr (b, d')"
    and link: "rb_analysis_revision_id b0 \<noteq> '''' \<Longrightarrow> code_owned d (rb_code_index_build_id b0) (rb_analysis_revision_id b0)"
  shows "lineage_inv d' \<and> artifacts_le d d'"
    and "retrieval_of d' (rb_id b) = Some b" and "0 < rb_id b"
    and "rb_code_index_build_id b = rb_code_index_build_id b0"
    and "rb_analysis_revision_id b = rb_analysis_revision_id b0"
    and "analysis_revisions d' = analysis_revisions d" and "code_of d' = code_of d"
proof -
  have b: "b = b0\<lparr>rb_id := next_retrieval_build_id d\<rparr>"
    and d': "d' = d\<lparr>retrieval_builds := retrieval_builds d @ [b],
      next_retrieval_build_id := next_retrieval_build_id d + 1\<rparr>"
    using ins by (auto simp: insert_retrieval_build_def Let_def split: if_splits)
  have keys: "pipeline_keys d" using inv by (simp add: lineage_inv_def)
  have fresh: "rb_id b \<notin> rb_id ` set (retrieval_builds d)"
    using keys by (auto simp: pipeline_keys_def b)
  show "lineage_inv d' \<and> artifacts_le d d'"
  proof (rule advanceI[OF inv])
    show "artifacts_le d d'"
      by (auto simp: artifacts_le_def artifact_lookups d' opt_le_refl intro!: opt_le_append)
    show "pipeline_keys d'"
      using keys fresh by (auto simp: pipeline_keys_def d' b)
  next
    fix b' assume "b' \<in> set (retrieval_builds d')"
    with inv link have "retrieval_build_ok d b'"
      by (auto simp: d' b lineage_inv_def builds_ok_def retrieval_build_ok_def)
    then show "retrieval_build_ok d b' \<or> retrieval_build_ok d' b'" ..
  qed (use inv in \<open>auto simp: lineage_inv_def builds_ok_def d'\<close>)
  show "retrieval_of d' (rb_id b) = Some b"
    using fresh by (simp add: retrieval_of_def d' by_key_append by_key_None[THEN iffD2])
  show "0 < rb_id b" using keys by (simp add: pipeline_keys_def b)
  show "code_of d' = code_of d" by (simp add: code_of_def d' fun_eq_iff)
qed (use ins in \<open>auto simp: insert_retrieval_build_def Let_def split: if_splits\<close>)

lemma insert_snapshot_advance:
  assumes inv: "lineage_inv d" and ins: "insert_snapshot now s d = Inr d'"
  shows "lineage_inv d' \<and> artifacts_le d d'"
proof (rule advanceI[OF inv])
  define s' where "s' = s\<lparr>snap_created_at := (if snap_created_at s = 0 then now else snap_created_at s)\<rparr>"
  have d': "d' = d\<lparr>repository_snapshots := repository_snapshots d @ [s']\<rparr>"
    and fresh: "snap_id s' \<notin> snap_id ` set (repository_snapshots d)"
    using ins unfolding s'_def insert_snapshot_def list_ex_iff by (simp_all split: if_split_asm) force+
  show "artifacts_le d d'"
    by (auto simp: artifacts_le_def artifact_lookups d' opt_le_refl intro!: opt_le_append)
  show "pipeline_keys d'" using inv fresh by (auto simp: lineage_inv_def pipeline_keys_def d')
qed (use inv ins in \<open>auto simp: lineage_inv_def builds_ok_def insert_snapshot_def split: if_splits\<close>)

lemma createJobGorm_same: "createJobGorm now job d = Inr d' \<Longrightarrow> same_artifacts d d'"
  by (auto simp: createJobGorm_def same_artifacts_def split: if_splits)

text \<open>A quiet step advances.\<close>

lemma self_update [simp]:
  "b\<lparr>cib_analysis_revision_id := cib_analysis_revision_id b\<rparr> = b"
  "c\<lparr>rb_analysis_revision_id := rb_analysis_revision_id c\<rparr> = c"
  by (cases b, simp) (cases c, simp)

lemma quiet_row_le:
  "snap_quiet s s' \<Longrightarrow> snap_id s' = snap_id s \<and> snap_le s s'"
  "code_quiet b b' \<Longrightarrow> cib_id b' = cib_id b \<and> code_le b b'"
  "retrieval_quiet c c' \<Longrightarrow> rb_id c' = rb_id c \<and> retrieval_le c c'"
  "revision_quiet v v' \<Longrightarrow> rev_id v' = rev_id v \<and> revision_le v v'"
  unfolding snap_quiet_def snap_le_def snapshot_identity_def code_quiet_def code_le_def
    code_build_identity_def retrieval_quiet_def retrieval_le_def retrieval_build_identity_def
    revision_quiet_def same_lineage_def revision_le_def prod.inject
  by (blast, metis self_update(1), metis self_update(2), blast)

lemma quiet_advance: "quiet d d' \<Longrightarrow> advance d d'"
  unfolding advance_def
proof (intro impI)
  assume q: "quiet d d'" and inv: "lineage_inv d"
  have rows: "list_all2 snap_quiet (repository_snapshots d) (repository_snapshots d')"
    "list_all2 code_quiet (code_index_builds d) (code_index_builds d')"
    "list_all2 retrieval_quiet (retrieval_builds d) (retrieval_builds d')"
    "list_all2 revision_quiet (analysis_revisions d) (analysis_revisions d')"
    using q by (simp_all add: quiet_def)
  have ids: "map snap_id (repository_snapshots d') = map snap_id (repository_snapshots d)"
    "map cib_id (code_index_builds d') = map cib_id (code_index_builds d)"
    "map rb_id (retrieval_builds d') = map rb_id (retrieval_builds d)"
    "map rev_id (analysis_revisions d') = map rev_id (analysis_revisions d)"
    "map revision_identity (analysis_revisions d') = map revision_identity (analysis_revisions d)"
    by (rule rows[THEN list_all2_map_key], simp add: quiet_row_defs same_lineage_def)+
  show "lineage_inv d' \<and> artifacts_le d d'"
  proof (rule advanceI[OF inv])
    show "artifacts_le d d'"
      unfolding artifacts_le_def artifact_lookups
      by (intro conjI allI) (rule rows[THEN opt_le_list_all2], erule quiet_row_le)+
    show "pipeline_keys d'"
    proof -
      have ball: "(\<forall>b \<in> set (code_index_builds d'). P (cib_id b)) \<longleftrightarrow> (\<forall>b \<in> set (code_index_builds d). P (cib_id b))"
        "(\<forall>b \<in> set (retrieval_builds d'). P (rb_id b)) \<longleftrightarrow> (\<forall>b \<in> set (retrieval_builds d). P (rb_id b))" for P
        using arg_cong[OF ids(2), of "\<lambda>xs. Ball (set xs) P"] arg_cong[OF ids(3), of "\<lambda>xs. Ball (set xs) P"]
        by simp_all
      have counters: "next_code_index_build_id d' = next_code_index_build_id d"
        "next_retrieval_build_id d' = next_retrieval_build_id d" using q by (simp_all add: quiet_def)
      show ?thesis
        using inv unfolding lineage_inv_def pipeline_keys_def ids counters
          ball(1)[of "\<lambda>i. 0 < i \<and> i < next_code_index_build_id d"]
          ball(2)[of "\<lambda>i. 0 < i \<and> i < next_retrieval_build_id d"] by blast
    qed
  next
    fix b' assume "b' \<in> set (code_index_builds d')"
    with rows(2) obtain b where "b \<in> set (code_index_builds d)" "code_quiet b b'"
      by (auto simp: list_all2_conv_all_nth in_set_conv_nth) (metis nth_mem)
    then have "code_build_ok d b'"
      using inv by (auto simp: lineage_inv_def builds_ok_def code_build_ok_def code_quiet_def code_build_identity_def)
    then show "code_build_ok d b' \<or> code_build_ok d' b'" ..
  next
    fix b' assume "b' \<in> set (retrieval_builds d')"
    with rows(3) obtain b where "b \<in> set (retrieval_builds d)" "retrieval_quiet b b'"
      by (auto simp: list_all2_conv_all_nth in_set_conv_nth) (metis nth_mem)
    then have "retrieval_build_ok d b'"
      using inv by (auto simp: lineage_inv_def builds_ok_def retrieval_build_ok_def retrieval_quiet_def
          retrieval_build_identity_def)
    then show "retrieval_build_ok d b' \<or> retrieval_build_ok d' b'" ..
  next
    fix v' assume "v' \<in> set (analysis_revisions d')"
    with rows(4) obtain v where v: "v \<in> set (analysis_revisions d)" "revision_quiet v v'"
      by (auto simp: list_all2_conv_all_nth in_set_conv_nth) (metis nth_mem)
    have "revision_ok d v" using inv v(1) by (simp add: lineage_inv_def)
    moreover have "same_lineage v v'" using v(2) by (simp add: revision_quiet_def)
    moreover have "lineage_complete d v'" if "rev_status v' = RevReady"
    proof -
      from that v(2) have "v' = v" unfolding revision_quiet_def by blast
      with that \<open>revision_ok d v\<close> show ?thesis by (simp add: revision_ok_def)
    qed
    ultimately have "revision_ok d v'" by (rule revision_ok_same_lineage)
    then show "revision_ok d v' \<or> revision_ok d' v'" ..
  qed
qed

end
