(* ===== verification/Pipeline_Stores.thy ===== *)
theory Pipeline_Stores
  imports Pipeline_Invariants
begin

text \<open>
  The operations of the snapshot, code index and retrieval stores keep the lineage invariant
  and move artifacts forward only.
\<close>

lemma advanceD: "advance d d' \<Longrightarrow> lineage_inv d \<Longrightarrow> lineage_inv d'"
  "advance d d' \<Longrightarrow> lineage_inv d \<Longrightarrow> artifacts_le d d'"
  by (simp_all add: advance_def)

lemma advance_intro: "(lineage_inv d \<Longrightarrow> lineage_inv d' \<and> artifacts_le d d') \<Longrightarrow> advance d d'"
  by (simp add: advance_def)

lemma unit_tx_advance: "(\<And>d'. f d = Inr d' \<Longrightarrow> advance d d') \<Longrightarrow> advance d (snd (unit_tx f d))"
  by (auto simp: unit_tx_def run_tx_def bindE_eq_Inr split: sum.split)

lemma run_tx_advance: "(\<And>x d'. f d = Inr (x, d') \<Longrightarrow> advance d d') \<Longrightarrow> advance d (snd (run_tx f d))"
  by (auto simp: run_tx_def split: sum.split)

lemma revision_row:
  "lineage_inv d \<Longrightarrow> v \<in> set (analysis_revisions d) \<Longrightarrow> revision_ok d v"
  by (simp add: lineage_inv_def)

lemma unique_rows:
  assumes "lineage_inv d"
  shows "v \<in> set (analysis_revisions d) \<Longrightarrow> by_key rev_id (rev_id v) (analysis_revisions d) = Some v"
    and "s \<in> set (repository_snapshots d) \<Longrightarrow> by_key snap_id (snap_id s) (repository_snapshots d) = Some s"
    and "b \<in> set (code_index_builds d) \<Longrightarrow> by_key cib_id (cib_id b) (code_index_builds d) = Some b"
    and "c \<in> set (retrieval_builds d) \<Longrightarrow> by_key rb_id (rb_id c) (retrieval_builds d) = Some c"
  using assms by (simp_all add: lineage_inv_def pipeline_keys_def by_key_unique)

lemma build_ids_positive:
  assumes "lineage_inv d"
  shows "by_key cib_id i (code_index_builds d) = Some b \<Longrightarrow> 0 < i"
    and "by_key rb_id j (retrieval_builds d) = Some c \<Longrightarrow> 0 < j"
  using assms by (auto simp: lineage_inv_def pipeline_keys_def dest!: by_key_Some_in)

section \<open>Jobs\<close>

lemma same_artifacts_refl [simp]: "same_artifacts d d"
  by (simp add: same_artifacts_def)

lemma finalizeOwnedJob_same: "finalizeOwnedJob now i w t d = Inr d' \<Longrightarrow> same_artifacts d d'"
  by (auto simp: finalizeOwnedJob_def Let_def split: if_splits)

lemma handoff_job_same: "handoff_job ty res g now d = Inr d' \<Longrightarrow> same_artifacts d d'"
  by (auto simp: handoff_job_def split: option.splits dest: createJobGorm_same)

lemma ensureAnalysisJobTx_same: "ensureAnalysisJobTx now ty res g nxt d = Inr d' \<Longrightarrow> same_artifacts d d'"
  by (auto simp: ensureAnalysisJobTx_def split: option.splits dest: createJobGorm_same)

lemma resetJobTx_same: "resetJobTx ty res g now d = Inr d' \<Longrightarrow> same_artifacts d d'"
  by (auto simp: resetJobTx_def Let_def split: if_splits dest: createJobGorm_same)

lemma same_artifacts_tables:
  "same_artifacts d d' \<Longrightarrow> analysis_revisions d' = analysis_revisions d"
  "same_artifacts d d' \<Longrightarrow> repository_snapshots d' = repository_snapshots d"
  "same_artifacts d d' \<Longrightarrow> code_index_builds d' = code_index_builds d"
  "same_artifacts d d' \<Longrightarrow> retrieval_builds d' = retrieval_builds d"
  by (simp_all add: same_artifacts_def)

section \<open>Snapshots\<close>

lemma set_snapshots_advance:
  "(\<And>s. P s \<Longrightarrow> snap_id (f s) = snap_id s) \<Longrightarrow>
    (\<And>s. s \<in> set (repository_snapshots d) \<Longrightarrow> P s \<Longrightarrow> snap_le s (f s)) \<Longrightarrow> advance d (set_snapshots P f d)"
  unfolding advance_def by (intro impI, rule advance_set_snapshots) simp_all

lemma UpdateStatus_advance: "advance d (snd (UpdateStatus i old new readyAt d))"
proof -
  have "advance d (set_snapshots (\<lambda>s. snap_id s = i \<and> snap_status s = old) (\<lambda>s. s\<lparr>snap_status := new,
      snap_ready_at := r s\<rparr>) d)" if "old \<noteq> SnapReady" for r
    using that by (intro set_snapshots_advance) (auto simp: snap_le_def)
  then show ?thesis by (simp add: UpdateStatus_def Let_def)
qed

lemma FailMaterialization_advance: "advance d (snd (FailMaterialization i code d))"
proof -
  have "advance d (set_snapshots (\<lambda>s. snap_id s = i \<and> snap_status s = SnapMaterializing)
      (\<lambda>s. s\<lparr>snap_status := SnapFailed, snap_error_code := code\<rparr>) d)"
    by (intro set_snapshots_advance) (auto simp: snap_le_def)
  then show ?thesis by (simp add: FailMaterialization_def Let_def)
qed

lemma snapshot_Create_advance: "advance d (snd (snapshot_Create uuid now snap d))"
  unfolding snapshot_Create_def
  by (rule unit_tx_advance, rule advance_intro, erule insert_snapshot_advance)

text \<open>A snapshot of a revision is published with the commit of the revision.\<close>

definition keeps_commit :: "string \<Rightarrow> materialization \<Rightarrow> db \<Rightarrow> bool" where
  "keeps_commit snapshotID m d \<longleftrightarrow> (\<forall>s \<in> set (repository_snapshots d).
     snap_id s = snapshotID \<longrightarrow> snap_analysis_revision_id s \<noteq> '''' \<longrightarrow> mat_commit_sha m = snap_commit_sha s)"

lemma publish_snapshots_advance:
  assumes pub: "publish_snapshots P m e d = Inr d'" and inv: "lineage_inv d"
    and row: "\<And>s. s \<in> set (repository_snapshots d) \<Longrightarrow> P s \<Longrightarrow> snap_id s = i \<and> snap_status s = SnapMaterializing
      \<and> (snap_analysis_revision_id s \<noteq> '''' \<longrightarrow> mat_commit_sha m = snap_commit_sha s)"
  shows "lineage_inv d' \<and> artifacts_le d d'"
    and "(\<And>s. P s \<Longrightarrow> snap_analysis_revision_id s = rid) \<Longrightarrow> snapshot_owned d' i rid"
    and "analysis_revisions d' = analysis_revisions d" and "code_index_builds d' = code_index_builds d"
proof -
  have d': "d' = set_snapshots P (publish_row m) d" and one: "sql_count P (repository_snapshots d) = 1"
    using pub by (auto simp: publish_snapshots_def split: if_splits)
  show "lineage_inv d' \<and> artifacts_le d d'"
    unfolding d' by (rule advance_set_snapshots[OF inv]) (auto simp: publish_row_def snap_le_def dest!: row)
  from one obtain s where s: "s \<in> set (repository_snapshots d)" "P s"
    using sql_count_0_iff[of P "repository_snapshots d"] by auto
  have "snap_of d' i = Some (publish_row m s)"
    unfolding snap_of_def d' pipeline_tables
    by (subst by_key_sql_set) (use s row[OF s] unique_rows(2)[OF inv s(1)] in \<open>auto simp: publish_row_def\<close>)
  then show "snapshot_owned d' i rid" if "\<And>s. P s \<Longrightarrow> snap_analysis_revision_id s = rid"
    using that[OF s(2)] by (simp add: snapshot_owned_def publish_row_def)
qed (use pub in \<open>auto simp: publish_snapshots_def split: if_splits\<close>)

lemma publish_advance:
  assumes pub: "publish_snapshots P m e d = Inr d'" and keep: "keeps_commit i m d"
    and P: "\<And>s. P s \<Longrightarrow> snap_id s = i \<and> snap_status s = SnapMaterializing"
  shows "advance d d'"
proof (rule advance_intro)
  assume "lineage_inv d"
  with pub show "lineage_inv d' \<and> artifacts_le d d'"
    by (rule publish_snapshots_advance(1)[where i = i]) (use keep P in \<open>simp add: keeps_commit_def\<close>)
qed

lemma FinalizeMaterialization_advance:
  assumes "keeps_commit i m d"
  shows "advance d (snd (FinalizeMaterialization i m d))"
proof -
  have "advance d (snd (unit_tx (publish_snapshots (\<lambda>s. snap_id s = i \<and> snap_status s = SnapMaterializing) m
      (materialization_conflict i)) d))"
    by (rule unit_tx_advance, erule publish_advance[OF _ assms]) simp
  then show ?thesis by (simp add: FinalizeMaterialization_def)
qed

lemma FinalizeSnapshotSuccess_advance:
  assumes "keeps_commit sid m d"
  shows "advance d (snd (FinalizeSnapshotSuccess i w t sid m d))"
proof -
  have "advance d d'" if tx: "FinalizeSnapshotSuccessTx i w t sid m d = Inr d'" for d'
  proof -
    from tx obtain d1 where pub: "publish_snapshots (\<lambda>s. snap_id s = sid \<and> snap_status s = SnapMaterializing) m
        (materialization_conflict sid) d = Inr d1" and fin: "finalizeOwnedJob (mat_ready_at m) i w t d1 = Inr d'"
      by (auto simp: FinalizeSnapshotSuccessTx_def bindE_eq_Inr)
    have "advance d d1" by (rule publish_advance[OF pub assms]) simp
    then show ?thesis
      using same_artifacts_advance[OF finalizeOwnedJob_same[OF fin]] by (rule advance_trans)
  qed
  then have "advance d (snd (unit_tx (FinalizeSnapshotSuccessTx i w t sid m) d))" by (rule unit_tx_advance)
  then show ?thesis by (simp add: FinalizeSnapshotSuccess_def)
qed

text \<open>The code index build a revision moves on to.\<close>

lemma existing_code_index_id:
  assumes "lineage_inv d" and "v \<in> set (analysis_revisions d)"
    and "rev_status v = RevPreparing"
  shows "existing_code_index_id (rev_id v) (rev_snapshot_id v) d = rev_code_index_build_id v"
  using assms unique_rows(1)[OF assms(1,2)]
  by (simp add: existing_code_index_id_def find_key lineage_inv_def pipeline_keys_def)

lemma next_code_build_advance:
  assumes inv: "lineage_inv d" and ready: "snapshot_owned d sid rid"
    and nxt: "next_code_build sha rid sid mp now d = Inr (c, d')"
  shows "lineage_inv d' \<and> artifacts_le d d'" and "0 < c"
    and "\<exists>b. code_of d' c = Some b \<and> cib_snapshot_id b = sid \<and> cib_analysis_revision_id b = rid"
    and "analysis_revisions d' = analysis_revisions d"
    and "existing_code_index_id rid sid d \<noteq> 0 \<Longrightarrow> c = existing_code_index_id rid sid d"
proof -
  have "(lineage_inv d' \<and> artifacts_le d d') \<and> 0 < c
    \<and> (\<exists>b. code_of d' c = Some b \<and> cib_snapshot_id b = sid \<and> cib_analysis_revision_id b = rid)
    \<and> analysis_revisions d' = analysis_revisions d
    \<and> (existing_code_index_id rid sid d \<noteq> 0 \<longrightarrow> c = existing_code_index_id rid sid d)"
  proof (cases "existing_code_index_id rid sid d = 0")
    case False
    with nxt have "c = existing_code_index_id rid sid d \<and> d' = d \<and> (\<exists>b. by_key cib_id c (code_index_builds d) = Some b
        \<and> cib_snapshot_id b = sid \<and> cib_analysis_revision_id b = rid)"
      unfolding next_code_build_def Let_def
      by (cases "by_key cib_id (existing_code_index_id rid sid d) (code_index_builds d)") (auto split: if_split_asm)
    then show ?thesis using inv build_ids_positive(1)[OF inv] by (auto simp: code_of_def)
  next
    case True
    then obtain b where c: "c = cib_id b"
      and new: "insert_code_build (new_code_build sha rid sid mp DefaultBuildContext '''' now) d = Inr (b, d')"
      using nxt unfolding next_code_build_def Let_def by (auto simp: bindE_eq_Inr)
    note ins = insert_code_build_advance[OF inv new]
    have "lineage_inv d' \<and> artifacts_le d d'" by (rule ins(1)) (simp add: new_code_build_def ready)
    moreover have "code_of d' (cib_id b) = Some b" "0 < cib_id b" "analysis_revisions d' = analysis_revisions d"
      by (rule ins; simp add: new_code_build_def ready)+
    moreover have "cib_snapshot_id b = sid" "cib_analysis_revision_id b = rid"
      using ins(4,5) ready by (simp_all add: new_code_build_def)
    ultimately show ?thesis using True c by simp
  qed
  then show "lineage_inv d' \<and> artifacts_le d d'" and "0 < c"
    and "\<exists>b. code_of d' c = Some b \<and> cib_snapshot_id b = sid \<and> cib_analysis_revision_id b = rid"
    and "analysis_revisions d' = analysis_revisions d"
    and "existing_code_index_id rid sid d \<noteq> 0 \<Longrightarrow> c = existing_code_index_id rid sid d"
    by blast+
qed

text \<open>A revision that names a code index build or a retrieval build of its own.\<close>

lemma revision_ok_link_code:
  assumes ok: "revision_ok d v" and v: "rev_status v' \<noteq> RevReady" "rev_id v' = rev_id v"
      "revision_identity v' = revision_identity v" "rev_pipeline_version v' = rev_pipeline_version v"
      "rev_snapshot_id v' = rev_snapshot_id v" "rev_retrieval_build_id v' = rev_retrieval_build_id v"
    and c: "0 < rev_code_index_build_id v'" "rev_code_index_build_id v \<in> {0, rev_code_index_build_id v'}"
    and b: "code_of d (rev_code_index_build_id v') = Some b" "cib_snapshot_id b = rev_snapshot_id v"
      "cib_analysis_revision_id b = rev_id v"
  shows "revision_ok d v'"
  using assms by (auto simp: revision_ok_def named_revision_def revision_identity_def snapshot_linked_def
      code_linked_def retrieval_linked_def)

lemma revision_ok_link_retrieval:
  assumes ok: "revision_ok d v" and v: "rev_id v' = rev_id v"
      "revision_identity v' = revision_identity v" "rev_pipeline_version v' = rev_pipeline_version v"
      "rev_snapshot_id v' = rev_snapshot_id v" "rev_code_index_build_id v' = rev_code_index_build_id v"
    and st: "rev_status v' = RevReady \<Longrightarrow> rev_stage v' = StageReady \<and> rb_status r = BuildStatusReady"
    and c: "0 < rev_code_index_build_id v" "0 < rev_retrieval_build_id v'"
    and b: "code_of d (rev_code_index_build_id v) = Some b" "cib_status b = BuildStatusReady"
    and r: "retrieval_of d (rev_retrieval_build_id v') = Some r" "rb_analysis_revision_id r = rev_id v"
      "rb_code_index_build_id r = rev_code_index_build_id v"
  shows "revision_ok d v'"
  using assms by (auto simp: revision_ok_def named_revision_def revision_identity_def snapshot_linked_def
      code_linked_def retrieval_linked_def lineage_complete_def)

lemma FinalizeSnapshotSuccessWithRevision_advance:
  assumes keep: "keeps_commit sid m d"
  shows "advance d (snd (FinalizeSnapshotSuccessWithRevision sha i w t sid rid mp m d))"
proof -
  let ?P = "\<lambda>v. rev_id v = rid \<and> rev_status v = RevPreparing \<and> rev_snapshot_id v = sid"
  have "advance d d'" if tx: "FinalizeSnapshotSuccessWithRevisionTx sha i w t sid rid mp m d = Inr d'" for d'
  proof (rule advance_intro)
    assume inv: "lineage_inv d"
    from tx obtain d1 c d2 d3 g where
      pub: "publish_snapshots (\<lambda>s. snap_id s = sid \<and> snap_status s = SnapMaterializing
        \<and> snap_analysis_revision_id s = rid) m (materialization_conflict sid) d = Inr d1"
      and nxt: "next_code_build sha rid sid mp (mat_ready_at m) d1 = Inr (c, d2)"
      and job: "handoff_job JobTypeBuildCodeIndex (itoa c) g (mat_ready_at m) d2 = Inr d3"
      and fin: "finalizeOwnedJob (mat_ready_at m) i w t (set_revisions ?P (\<lambda>v. v\<lparr>rev_stage := StageBuildingCode,
        rev_code_index_build_id := c, rev_version := rev_version v + 1, rev_updated_at := mat_ready_at m\<rparr>) d3) = Inr d'"
      by (auto simp: FinalizeSnapshotSuccessWithRevisionTx_def bindE_eq_Inr Let_def split: if_splits)
    note P1 = publish_snapshots_advance[OF pub inv, where i = sid]
    have d1: "lineage_inv d1 \<and> artifacts_le d d1" "snapshot_owned d1 sid rid" "analysis_revisions d1 = analysis_revisions d"
      using keep by (auto intro!: P1 simp: keeps_commit_def)
    note d2 = next_code_build_advance[OF conjunct1[OF d1(1)] d1(2) nxt]
    have s3: "same_artifacts d2 d3" using job by (rule handoff_job_same)
    have a: "advance d d3"
      using d1(1) d2(1) same_artifacts_advance[OF s3] unfolding advance_def by (blast intro: artifacts_le_trans)
    then have inv3: "lineage_inv d3" using inv by (rule advanceD)
    obtain b where b: "code_of d3 c = Some b" "cib_snapshot_id b = sid" "cib_analysis_revision_id b = rid"
      using d2(3) same_artifacts_lookups(2)[OF s3] by auto
    have row: "revision_ok d3 (v\<lparr>rev_stage := StageBuildingCode, rev_code_index_build_id := c,
        rev_version := rev_version v + 1, rev_updated_at := mat_ready_at m\<rparr>)"
      if v: "v \<in> set (analysis_revisions d3)" "?P v" for v
    proof (rule revision_ok_link_code[OF revision_row[OF inv3 v(1)]])
      have "v \<in> set (analysis_revisions d1)"
        using v(1) d2(4) same_artifacts_tables(1)[OF s3] by simp
      then have "existing_code_index_id rid sid d1 = rev_code_index_build_id v"
        using existing_code_index_id[OF conjunct1[OF d1(1)]] v(2) by auto
      then show "rev_code_index_build_id v \<in> {0, rev_code_index_build_id (v\<lparr>rev_stage := StageBuildingCode,
          rev_code_index_build_id := c, rev_version := rev_version v + 1, rev_updated_at := mat_ready_at m\<rparr>)}"
        using d2(5) by auto
    qed (use v b d2(2) in \<open>simp_all add: revision_identity_def\<close>)
    have "lineage_inv (set_revisions ?P (\<lambda>v. v\<lparr>rev_stage := StageBuildingCode, rev_code_index_build_id := c,
        rev_version := rev_version v + 1, rev_updated_at := mat_ready_at m\<rparr>) d3) \<and> artifacts_le d3 (set_revisions ?P
        (\<lambda>v. v\<lparr>rev_stage := StageBuildingCode, rev_code_index_build_id := c,
        rev_version := rev_version v + 1, rev_updated_at := mat_ready_at m\<rparr>) d3)"
      by (rule advance_set_revisions[OF inv3]) (use row in \<open>simp_all add: revision_le_def revision_identity_def\<close>)
    then show "lineage_inv d' \<and> artifacts_le d d'"
      using advanceD(2)[OF a inv] same_artifacts_advance[OF finalizeOwnedJob_same[OF fin]]
      unfolding advance_def by (blast intro: artifacts_le_trans)
  qed
  then have "advance d (snd (unit_tx (FinalizeSnapshotSuccessWithRevisionTx sha i w t sid rid mp m) d))"
    by (rule unit_tx_advance)
  then show ?thesis by (simp add: FinalizeSnapshotSuccessWithRevision_def)
qed

section \<open>Code index builds\<close>

lemma set_code_builds_advance:
  "(\<And>b. P b \<Longrightarrow> cib_id (f b) = cib_id b) \<Longrightarrow>
    (\<And>b. b \<in> set (code_index_builds d) \<Longrightarrow> P b \<Longrightarrow>
      code_le b (f b) \<and> cib_analysis_revision_id (f b) = cib_analysis_revision_id b) \<Longrightarrow>
    advance d (set_code_builds P f d)"
  by (rule advance_intro, rule advance_set_code_builds) (auto simp: lineage_inv_def builds_ok_def code_build_ok_def)

lemma set_retrieval_builds_advance:
  "(\<And>b. P b \<Longrightarrow> rb_id (f b) = rb_id b) \<Longrightarrow>
    (\<And>b. b \<in> set (retrieval_builds d) \<Longrightarrow> P b \<Longrightarrow>
      retrieval_le b (f b) \<and> rb_analysis_revision_id (f b) = rb_analysis_revision_id b) \<Longrightarrow>
    advance d (set_retrieval_builds P f d)"
  by (rule advance_intro, rule advance_set_retrieval_builds)
    (auto simp: lineage_inv_def builds_ok_def retrieval_build_ok_def)

lemma MarkBuildBuilding_advance: "advance d (snd (MarkBuildBuilding i d))"
proof -
  have "advance d (set_code_builds (\<lambda>b. cib_id b = i \<and> (cib_status b = BuildStatusCreated \<or> cib_status b = BuildStatusBuilding))
      (\<lambda>b. b\<lparr>cib_status := BuildStatusBuilding\<rparr>) d)"
    by (intro set_code_builds_advance) (auto simp: code_le_def)
  then show ?thesis by (simp add: MarkBuildBuilding_def Let_def)
qed

lemma MarkRetrievalBuilding_advance: "advance d (snd (MarkRetrievalBuilding i d))"
proof -
  have "advance d (set_retrieval_builds (\<lambda>b. rb_id b = i \<and> (rb_status b = BuildStatusCreated \<or> rb_status b = BuildStatusBuilding))
      (\<lambda>b. b\<lparr>rb_status := BuildStatusBuilding\<rparr>) d)"
    by (intro set_retrieval_builds_advance) (auto simp: retrieval_le_def)
  then show ?thesis by (simp add: MarkRetrievalBuilding_def Let_def)
qed

lemma ensureAnalysisJob_advance: "advance d (snd (ensureAnalysisJob now ty res g nxt d))"
  unfolding ensureAnalysisJob_def
  by (rule unit_tx_advance, rule same_artifacts_advance, erule ensureAnalysisJobTx_same)

lemma insert_legacy_code_build_advance:
  assumes "insert_code_build (new_code_build sha '''' sid mp bc tags now) d = Inr (b, d')"
  shows "advance d d'"
proof (rule advance_intro)
  assume "lineage_inv d"
  from this assms show "lineage_inv d' \<and> artifacts_le d d'"
    by (rule insert_code_build_advance(1)) (simp add: new_code_build_def)
qed

lemma createBuildTx_advance:
  assumes "createBuildTx sha marshal sid mp bc g now d = Inr (r, d')"
  shows "advance d d'"
proof -
  obtain b d1 where "insert_code_build (new_code_build sha '''' sid mp bc (marshal (bc_build_tags bc)) now) d = Inr (b, d1)"
    "ensureAnalysisJobTx now JobTypeBuildCodeIndex (itoa (cib_id b)) g now d1 = Inr d'"
    using assms by (auto simp: createBuildTx_def bindE_eq_Inr)
  then show ?thesis
    by (blast intro: advance_trans insert_legacy_code_build_advance same_artifacts_advance ensureAnalysisJobTx_same)
qed

lemma getOrCreateBuildTx_advance:
  assumes "getOrCreateBuildTx sha marshal sid mp bc g now d = Inr (r, d')"
  shows "advance d d'"
proof (cases "getBuildByIdentity sid (BuildContextHash sha bc) d")
  case (Inl e)
  then have "createBuildTx sha marshal sid mp bc g now d = Inr (r, d')"
    using assms by (simp add: getOrCreateBuildTx_def split: if_split_asm)
  then show ?thesis by (rule createBuildTx_advance)
next
  case (Inr b)
  then have "ensureAnalysisJobTx now JobTypeBuildCodeIndex (itoa (cib_id b)) g now d = Inr d'"
    using assms by (auto simp: getOrCreateBuildTx_def bindE_eq_Inr)
  then show ?thesis by (intro same_artifacts_advance ensureAnalysisJobTx_same)
qed

text \<open>The body the two creations share.\<close>

lemma create_or_ensure_advance:
  assumes "\<And>d. advance d (snd (ensured d))"
  shows "advance d (snd (case ensured d of (Inl e, d') \<Rightarrow> (Inl e, d') | (Inr _, d') \<Rightarrow> (Inr y, d')))"
  using assms[of d] by (auto split: prod.split sum.split)

lemma branch_advance: "advance d (snd x) \<Longrightarrow> advance d (snd y) \<Longrightarrow> advance d (snd (if c then x else y))"
  by simp

lemma handoff_eq_Inr:
  "(case x of Inl e \<Rightarrow> Inl (h e) | Inr (_, d2) \<Rightarrow> f d2) = Inr y \<longleftrightarrow> (\<exists>r d2. x = Inr (r, d2) \<and> f d2 = Inr y)"
  by (auto split: sum.split)

lemma GetOrCreateBuild_advance: "advance d (snd (GetOrCreateBuild sha marshal now sid mp bc d))"
proof -
  let ?tx = "run_tx (createBuildTx sha marshal sid mp bc 1 now) d"
  have tx: "advance d (snd ?tx)" by (rule run_tx_advance, erule createBuildTx_advance)
  note ens = create_or_ensure_advance[of "ensureAnalysisJob now JobTypeBuildCodeIndex (itoa (cib_id b)) 1 now" for b,
      OF ensureAnalysisJob_advance]
  obtain r d1 where r: "?tx = (r, d1)" by fastforce
  then have d1: "advance d d1" using tx by simp
  show ?thesis
    unfolding GetOrCreateBuild_def Let_def
    by (auto simp: r ens d1 intro: advance_trans[OF d1] split: sum.split)
qed

lemma saves_same:
  "same_artifacts d (snd (save_files now bid fs m d))"
  "save_symbols bid fm ss m d = Inr (m', d') \<Longrightarrow> same_artifacts d d'"
  "same_artifacts d (snd (save_relations bid fm sm rs ks d))"
  "save_related_tests bid fm sm ts ks d = Inr d' \<Longrightarrow> same_artifacts d d'"
proof -
  show "same_artifacts d (snd (save_files now bid fs m d))"
    by (induction fs arbitrary: m d) (simp_all add: insert_code_file_def same_artifacts_def)
  show "save_symbols bid fm ss m d = Inr (m', d') \<Longrightarrow> same_artifacts d d'"
    by (induction ss arbitrary: m d) (auto simp: insert_symbol_def same_artifacts_def split: if_splits)
  show "same_artifacts d (snd (save_relations bid fm sm rs ks d))"
    by (induction rs arbitrary: ks d) (simp_all add: insert_relation_def same_artifacts_def Let_def)
  show "save_related_tests bid fm sm ts ks d = Inr d' \<Longrightarrow> same_artifacts d d'"
  proof (induction ts arbitrary: ks d)
    case (Cons t ts)
    show ?case
      using Cons.prems Cons.IH
      by (auto simp: insert_relation_def same_artifacts_def Let_def split: if_split_asm option.split_asm)
  qed simp
qed

lemma saveAnalysisResultTx_cases:
  assumes "saveAnalysisResultTx sha marshal now bid res d = Inr d'"
  obtains d4 where "same_artifacts d d4" and "d' = set_code_builds
    (\<lambda>b. cib_id b = bid \<and> cib_status b = BuildStatusBuilding) (ready_code_build sha marshal now res) d4"
proof -
  obtain fm d1 where fs: "save_files now bid (ar_files res) Map.empty d = (fm, d1)" by fastforce
  with assms obtain sm d2 where ss: "save_symbols bid fm (ar_symbols res) Map.empty d1 = Inr (sm, d2)"
    by (auto simp: saveAnalysisResultTx_def bindE_eq_Inr)
  obtain ks d3 where rs: "save_relations bid fm sm (ar_relations res) {} d2 = (ks, d3)" by fastforce
  with assms fs ss obtain d4 where ts: "save_related_tests bid fm sm (ar_related_tests res) ks d3 = Inr d4"
    and d': "d' = set_code_builds (\<lambda>b. cib_id b = bid \<and> cib_status b = BuildStatusBuilding)
      (ready_code_build sha marshal now res) d4"
    by (auto simp: saveAnalysisResultTx_def bindE_eq_Inr Let_def split: if_split_asm)
  have "same_artifacts d d4"
    using saves_same(1)[of d now bid "ar_files res" Map.empty] saves_same(2)[OF ss]
      saves_same(3)[of d2 bid fm sm "ar_relations res" "{}"] saves_same(4)[OF ts]
    by (simp add: fs rs same_artifacts_def)
  then show thesis using d' by (rule that)
qed

lemma ready_code_build_row [simp]:
  "cib_id (ready_code_build sha marshal now res b) = cib_id b"
  "cib_snapshot_id (ready_code_build sha marshal now res b) = cib_snapshot_id b"
  "cib_analysis_revision_id (ready_code_build sha marshal now res b) = cib_analysis_revision_id b"
  "cib_status (ready_code_build sha marshal now res b) = BuildStatusReady"
  by (simp_all add: ready_code_build_def Let_def)

lemma saveAnalysisResultTx_advance:
  assumes "saveAnalysisResultTx sha marshal now bid res d = Inr d'"
  shows "advance d d'"
proof -
  obtain d4 where s: "same_artifacts d d4" and d': "d' = set_code_builds
    (\<lambda>b. cib_id b = bid \<and> cib_status b = BuildStatusBuilding) (ready_code_build sha marshal now res) d4"
    using assms by (rule saveAnalysisResultTx_cases)
  have "advance d4 d'" unfolding d' by (rule set_code_builds_advance) (auto simp: code_le_def)
  then show ?thesis by (rule advance_trans[OF same_artifacts_advance[OF s]])
qed

lemma saveAnalysisResultTx_ready:
  assumes "saveAnalysisResultTx sha marshal now bid res d = Inr d'"
    and "code_of d bid = Some b" and "cib_status b = BuildStatusBuilding"
  shows "code_of d' bid = Some (ready_code_build sha marshal now res b)"
    and "analysis_revisions d' = analysis_revisions d" and "retrieval_builds d' = retrieval_builds d"
proof -
  obtain d4 where s: "same_artifacts d d4" and d': "d' = set_code_builds
    (\<lambda>b. cib_id b = bid \<and> cib_status b = BuildStatusBuilding) (ready_code_build sha marshal now res) d4"
    using assms(1) by (rule saveAnalysisResultTx_cases)
  have "by_key cib_id bid (code_index_builds d4) = Some b"
    using assms(2) same_artifacts_tables(3)[OF s] by (simp add: code_of_def)
  then show "code_of d' bid = Some (ready_code_build sha marshal now res b)"
    using assms(3) by_key_Some_in[of cib_id bid "code_index_builds d4" b]
    by (simp add: d' code_of_def by_key_sql_set)
  show "analysis_revisions d' = analysis_revisions d" "retrieval_builds d' = retrieval_builds d"
    using same_artifacts_tables[OF s] by (simp_all add: d')
qed

lemma SaveAnalysisResult_advance: "advance d (snd (SaveAnalysisResult sha marshal now bid res d))"
  unfolding SaveAnalysisResult_def by (rule unit_tx_advance, erule saveAnalysisResultTx_advance)

lemma FinalizeCodeIndexSuccess_advance:
  "advance d (snd (FinalizeCodeIndexSuccess sha marshal now i w t bid res d))"
  unfolding FinalizeCodeIndexSuccess_def
proof (rule unit_tx_advance)
  fix d' assume "bindE (requireOwnedJob i w t d) (\<lambda>_. bindE (saveAnalysisResultTx sha marshal now bid res d)
    (\<lambda>d1. finalizeOwnedJob now i w t d1)) = Inr d'"
  then obtain d1 where "saveAnalysisResultTx sha marshal now bid res d = Inr d1" "finalizeOwnedJob now i w t d1 = Inr d'"
    by (auto simp: bindE_eq_Inr)
  then show "advance d d'"
    by (blast intro: advance_trans saveAnalysisResultTx_advance same_artifacts_advance finalizeOwnedJob_same)
qed

section \<open>Retrieval builds\<close>

lemma createRetrievalBuildTx_advance:
  assumes "createRetrievalBuildTx sha bid strategy g now d = Inr (r, d')"
  shows "advance d d'"
proof -
  obtain b d1 where ins: "insert_retrieval_build (new_retrieval_build sha '''' bid strategy now) d = Inr (b, d1)"
    and job: "ensureAnalysisJobTx now JobTypeBuildRetrieval (itoa (rb_id b)) g now d1 = Inr d'"
    using assms by (auto simp: createRetrievalBuildTx_def bindE_eq_Inr)
  have "advance d d1" by (rule advance_intro, rule insert_retrieval_build_advance(1)[OF _ ins])
    (simp_all add: new_retrieval_build_def)
  then show ?thesis using same_artifacts_advance[OF ensureAnalysisJobTx_same[OF job]] by (rule advance_trans)
qed

lemma getOrCreateRetrievalBuildTx_advance:
  assumes "getOrCreateRetrievalBuildTx sha bid strategy g now d = Inr (r, d')"
  shows "advance d d'"
proof (cases "getRetrievalBuildByIdentity sha bid strategy d")
  case None
  then have "createRetrievalBuildTx sha bid strategy g now d = Inr (r, d')"
    using assms by (simp add: getOrCreateRetrievalBuildTx_def)
  then show ?thesis by (rule createRetrievalBuildTx_advance)
next
  case (Some b)
  then have "ensureAnalysisJobTx now JobTypeBuildRetrieval (itoa (rb_id b)) g now d = Inr d'"
    using assms by (auto simp: getOrCreateRetrievalBuildTx_def bindE_eq_Inr)
  then show ?thesis by (intro same_artifacts_advance ensureAnalysisJobTx_same)
qed

lemma GetOrCreateRetrievalBuild_advance: "advance d (snd (GetOrCreateRetrievalBuild sha now bid strategy d))"
proof -
  let ?tx = "run_tx (createRetrievalBuildTx sha bid strategy 1 now) d"
  have tx: "advance d (snd ?tx)" by (rule run_tx_advance, erule createRetrievalBuildTx_advance)
  note ens = create_or_ensure_advance[of "ensureAnalysisJob now JobTypeBuildRetrieval (itoa (rb_id b)) 1 now" for b,
      OF ensureAnalysisJob_advance]
  obtain r d1 where r: "?tx = (r, d1)" by fastforce
  then have d1: "advance d d1" using tx by simp
  show ?thesis
    unfolding GetOrCreateRetrievalBuild_def Let_def r
    by (rule branch_advance) (auto simp: ens d1 intro: advance_trans[OF d1] split: sum.split option.split)
qed

lemma publish_retrieval_build_advance:
  assumes pub: "publish_retrieval_build now bid a d = Inr d'"
  shows "advance d d'"
    and "retrieval_of d bid = Some b \<Longrightarrow> rb_status b = BuildStatusBuilding \<Longrightarrow> \<exists>b'. retrieval_of d' bid = Some b'
      \<and> rb_status b' = BuildStatusReady \<and> rb_analysis_revision_id b' = rb_analysis_revision_id b
      \<and> rb_code_index_build_id b' = rb_code_index_build_id b"
    and "analysis_revisions d' = analysis_revisions d" and "code_index_builds d' = code_index_builds d"
proof -
  let ?P = "\<lambda>b. rb_id b = bid \<and> rb_status b = BuildStatusBuilding"
  let ?f = "\<lambda>b. b\<lparr>rb_status := BuildStatusReady, rb_artifact_path := art_path a,
    rb_artifact_hash := art_hash a, rb_document_count := art_doc_count a, rb_ready_at := Some now\<rparr>"
  have d': "d' = set_retrieval_builds ?P ?f d"
    using pub by (simp add: publish_retrieval_build_def Let_def split: if_split_asm)
  show "advance d d'" unfolding d' by (rule set_retrieval_builds_advance) (auto simp: retrieval_le_def)
  show "\<exists>b'. retrieval_of d' bid = Some b'
      \<and> rb_status b' = BuildStatusReady \<and> rb_analysis_revision_id b' = rb_analysis_revision_id b
      \<and> rb_code_index_build_id b' = rb_code_index_build_id b"
    if "retrieval_of d bid = Some b" "rb_status b = BuildStatusBuilding"
    using that by_key_Some_in[of rb_id bid "retrieval_builds d" b]
    by (simp add: d' retrieval_of_def by_key_sql_set)
qed (use pub in \<open>auto simp: publish_retrieval_build_def Let_def split: if_split_asm\<close>)

lemma CompleteRetrievalBuild_advance: "advance d (snd (CompleteRetrievalBuild now i a d))"
proof -
  have "advance d (snd (unit_tx (publish_retrieval_build now i a) d))"
    by (rule unit_tx_advance, erule publish_retrieval_build_advance(1))
  then show ?thesis by (simp add: CompleteRetrievalBuild_def)
qed

lemma FinalizeRetrievalSuccess_advance: "advance d (snd (FinalizeRetrievalSuccess now i w t bid a d))"
proof -
  have "advance d (snd (unit_tx (\<lambda>d. bindE (requireOwnedJob i w t d) (\<lambda>_. bindE (publish_retrieval_build now bid a d)
      (\<lambda>d1. finalizeOwnedJob now i w t d1))) d))"
  proof (rule unit_tx_advance)
    fix d' assume "bindE (requireOwnedJob i w t d) (\<lambda>_. bindE (publish_retrieval_build now bid a d)
      (\<lambda>d1. finalizeOwnedJob now i w t d1)) = Inr d'"
    then obtain d1 where "publish_retrieval_build now bid a d = Inr d1" "finalizeOwnedJob now i w t d1 = Inr d'"
      by (auto simp: bindE_eq_Inr)
    then show "advance d d'"
      by (blast intro: advance_trans publish_retrieval_build_advance(1) same_artifacts_advance finalizeOwnedJob_same)
  qed
  then show ?thesis by (simp add: FinalizeRetrievalSuccess_def)
qed

text \<open>The legacy handoffs create builds that belong to no revision.\<close>

lemma FinalizeLegacySnapshot_advance:
  assumes "keeps_commit sid m d"
  shows "advance d (snd (FinalizeLegacySnapshotSuccessWithCodeIndexHandoff sha marshal i w t sid mp now m d))"
proof -
  have "advance d d'" if "FinalizeLegacySnapshotSuccessWithCodeIndexHandoffTx sha marshal i w t sid mp now m d = Inr d'" for d'
  proof -
    from that obtain e d1 r d2 g where pub: "publish_snapshots (\<lambda>s. snap_id s = sid \<and> snap_status s = SnapMaterializing
        \<and> snap_analysis_revision_id s = '''') m e d = Inr d1"
      and bld: "getOrCreateBuildTx sha marshal sid mp DefaultBuildContext g (mat_ready_at m) d1 = Inr (r, d2)"
      and fin: "finalizeOwnedJob now i w t d2 = Inr d'"
      by (auto simp: FinalizeLegacySnapshotSuccessWithCodeIndexHandoffTx_def bindE_eq_Inr handoff_eq_Inr)
    have "advance d d1" by (rule publish_advance[OF pub assms]) simp
    then show ?thesis
      using getOrCreateBuildTx_advance[OF bld] same_artifacts_advance[OF finalizeOwnedJob_same[OF fin]]
      by (blast intro: advance_trans)
  qed
  then have "advance d (snd (unit_tx (FinalizeLegacySnapshotSuccessWithCodeIndexHandoffTx sha marshal i w t sid mp now m) d))"
    by (rule unit_tx_advance)
  then show ?thesis by (simp add: FinalizeLegacySnapshotSuccessWithCodeIndexHandoff_def)
qed

lemma FinalizeLegacyCodeIndex_advance:
  "advance d (snd (FinalizeLegacyCodeIndexSuccessWithRetrievalHandoff sha marshal now i w t bid res d))"
  unfolding FinalizeLegacyCodeIndexSuccessWithRetrievalHandoff_def
proof (rule unit_tx_advance, goal_cases)
  case (1 d')
  then obtain d1 r d2 g where "saveAnalysisResultTx sha marshal now bid res d = Inr d1"
    "getOrCreateRetrievalBuildTx sha bid ProductionRetrievalStrategy g now d1 = Inr (r, d2)"
    "finalizeOwnedJob now i w t d2 = Inr d'"
    by (auto simp: bindE_eq_Inr handoff_eq_Inr split: option.splits)
  then show ?case
    by (blast intro: advance_trans saveAnalysisResultTx_advance getOrCreateRetrievalBuildTx_advance
        same_artifacts_advance finalizeOwnedJob_same)
qed

end
