(* ===== verification/Pipeline_System.thy ===== *)
theory Pipeline_System
  imports Pipeline_Stores
begin

text \<open>
  The operations that move an analysis revision keep the lineage invariant too; with the job
  and diagnosis stores, whose steps are quiet, and with the artifact stores they make up the
  step relation of the whole program on its database.
\<close>

section \<open>Stage transactions of a revision\<close>

lemma next_retrieval_build_advance:
  assumes inv: "lineage_inv d" and nxt: "next_retrieval_build sha now bid rid old d = Inr (c, d')"
    and own: "code_owned d bid rid"
  shows "lineage_inv d' \<and> artifacts_le d d'" and "0 < c"
    and "\<exists>r. retrieval_of d' c = Some r \<and> rb_code_index_build_id r = bid \<and> rb_analysis_revision_id r = rid"
    and "analysis_revisions d' = analysis_revisions d" and "code_of d' = code_of d"
proof -
  have "(lineage_inv d' \<and> artifacts_le d d') \<and> 0 < c
    \<and> (\<exists>r. retrieval_of d' c = Some r \<and> rb_code_index_build_id r = bid \<and> rb_analysis_revision_id r = rid)
    \<and> analysis_revisions d' = analysis_revisions d \<and> code_of d' = code_of d"
  proof (cases "old = 0")
    case True
    then obtain b where c: "c = rb_id b"
      and new: "insert_retrieval_build (new_retrieval_build sha rid bid ProductionRetrievalStrategy now) d = Inr (b, d')"
      using nxt by (auto simp: next_retrieval_build_def bindE_eq_Inr)
    have link: "code_owned d (rb_code_index_build_id (new_retrieval_build sha rid bid ProductionRetrievalStrategy now))
        (rb_analysis_revision_id (new_retrieval_build sha rid bid ProductionRetrievalStrategy now))"
      using own by (simp add: new_retrieval_build_def)
    show ?thesis using insert_retrieval_build_advance[OF inv new link] c by (simp add: new_retrieval_build_def)
  next
    case False
    then obtain b where b: "by_key rb_id old (retrieval_builds d) = Some b" "rb_code_index_build_id b = bid"
        "rb_analysis_revision_id b = '''' \<or> rb_analysis_revision_id b = rid" and c: "c = old"
      and d': "d' = (if rb_analysis_revision_id b = '''' then set_retrieval_builds (\<lambda>r. rb_id r = old)
        (\<lambda>r. r\<lparr>rb_analysis_revision_id := rid\<rparr>) d else d)"
      using nxt by (cases "by_key rb_id old (retrieval_builds d)")
        (auto simp: next_retrieval_build_def split: if_split_asm)
    have uniq: "r = b" if "r \<in> set (retrieval_builds d)" "rb_id r = old" for r
      using unique_rows(4)[OF inv that(1)] that(2) b(1) by simp
    have pos: "0 < old" using build_ids_positive(2)[OF inv b(1)] .
    show ?thesis
    proof (cases "rb_analysis_revision_id b = ''''")
      case True
      then have d': "d' = set_retrieval_builds (\<lambda>r. rb_id r = old) (\<lambda>r. r\<lparr>rb_analysis_revision_id := rid\<rparr>) d"
        by (simp add: d')
      have "lineage_inv d' \<and> artifacts_le d d'"
        unfolding d' by (rule advance_set_retrieval_builds[OF inv]) (auto simp: retrieval_le_def True own b(2) dest!: uniq)
      moreover have "retrieval_of d' c = Some (b\<lparr>rb_analysis_revision_id := rid\<rparr>)"
        using b(1) by_key_Some_in[OF b(1)] by (simp add: d' c retrieval_of_def by_key_sql_set)
      ultimately show ?thesis using b(2) pos by (simp add: c) (simp add: d')
    next
      case False
      then show ?thesis using b pos inv c d' by (simp add: retrieval_of_def)
    qed
  qed
  then show "lineage_inv d' \<and> artifacts_le d d'" and "0 < c"
    and "\<exists>r. retrieval_of d' c = Some r \<and> rb_code_index_build_id r = bid \<and> rb_analysis_revision_id r = rid"
    and "analysis_revisions d' = analysis_revisions d" and "code_of d' = code_of d"
    by blast+
qed

lemma find_revision:
  "find P (analysis_revisions d) = Some v \<Longrightarrow> v \<in> set (analysis_revisions d) \<and> P v"
  by (auto simp: find_Some_iff)

lemma FinalizeCodeIndexSuccessWithRevision_advance:
  "advance d (snd (FinalizeCodeIndexSuccessWithRevision sha marshal now i w t bid rid res d))"
  unfolding FinalizeCodeIndexSuccessWithRevision_def
proof (rule unit_tx_advance, rule advance_intro)
  let ?P = "\<lambda>v. rev_id v = rid \<and> rev_status v = RevPreparing \<and> rev_code_index_build_id v = bid"
  fix d' assume tx: "FinalizeCodeIndexSuccessWithRevisionTx sha marshal now i w t bid rid res d = Inr d'"
    and inv: "lineage_inv d"
  from tx obtain v b d1 c d2 d3 where v: "find ?P (analysis_revisions d) = Some v"
    and b: "by_key cib_id bid (code_index_builds d) = Some b" "cib_status b = BuildStatusBuilding"
      "cib_analysis_revision_id b = rid"
    and save: "saveAnalysisResultTx sha marshal now bid res d = Inr d1"
    and nxt: "next_retrieval_build sha now bid rid (rev_retrieval_build_id v) d1 = Inr (c, d2)"
    and job: "handoff_job JobTypeBuildRetrieval (itoa c) (rev_execution_generation v) now d2 = Inr d3"
    and fin: "finalizeOwnedJob now i w t (set_revisions ?P (\<lambda>v. v\<lparr>rev_stage := StageBuildingSearch,
      rev_retrieval_build_id := c, rev_version := rev_version v + 1, rev_updated_at := now\<rparr>) d3) = Inr d'"
    by (auto simp: FinalizeCodeIndexSuccessWithRevisionTx_def bindE_eq_Inr Let_def split: option.splits if_split_asm)
  have d1: "lineage_inv d1" "artifacts_le d d1" using advanceD[OF saveAnalysisResultTx_advance[OF save] inv] by auto
  note s1 = saveAnalysisResultTx_ready[OF save b(1,2)[folded code_of_def]]
  have "code_owned d1 bid rid" using s1(1) b(3) by (simp add: code_owned_def)
  note d2 = next_retrieval_build_advance[OF d1(1) nxt this]
  have s3: "same_artifacts d2 d3" using job by (rule handoff_job_same)
  have inv3: "lineage_inv d3" and le3: "artifacts_le d d3"
    using d2(1) d1(2) same_artifacts_advance[OF s3] unfolding advance_def by (blast intro: artifacts_le_trans)+
  obtain r where r: "retrieval_of d3 c = Some r" "rb_code_index_build_id r = bid" "rb_analysis_revision_id r = rid"
    using d2(3) same_artifacts_lookups(3)[OF s3] by auto
  have code: "code_of d3 bid = Some (ready_code_build sha marshal now res b)"
    using s1(1) d2(5) same_artifacts_lookups(2)[OF s3] by simp
  have bid: "0 < bid" using build_ids_positive(1)[OF inv b(1)] .
  have row: "revision_ok d3 (v\<lparr>rev_stage := StageBuildingSearch, rev_retrieval_build_id := c,
      rev_version := rev_version v + 1, rev_updated_at := now\<rparr>)"
    if v: "v \<in> set (analysis_revisions d3)" "?P v" for v
    by (rule revision_ok_link_retrieval[OF revision_row[OF inv3 v(1)],
        where r = r and b = "ready_code_build sha marshal now res b"])
      (use v code r d2(2) bid in \<open>simp_all add: revision_identity_def\<close>)
  have "lineage_inv (set_revisions ?P (\<lambda>v. v\<lparr>rev_stage := StageBuildingSearch, rev_retrieval_build_id := c,
      rev_version := rev_version v + 1, rev_updated_at := now\<rparr>) d3) \<and> artifacts_le d3 (set_revisions ?P
      (\<lambda>v. v\<lparr>rev_stage := StageBuildingSearch, rev_retrieval_build_id := c,
      rev_version := rev_version v + 1, rev_updated_at := now\<rparr>) d3)"
    by (rule advance_set_revisions[OF inv3]) (use row in \<open>simp_all add: revision_le_def revision_identity_def\<close>)
  then show "lineage_inv d' \<and> artifacts_le d d'"
    using le3 same_artifacts_advance[OF finalizeOwnedJob_same[OF fin]]
    unfolding advance_def by (blast intro: artifacts_le_trans)
qed

lemma FinalizeRetrievalSuccessWithRevision_advance:
  "advance d (snd (FinalizeRetrievalSuccessWithRevision now i w t bid rid a d))"
proof -
  let ?P = "\<lambda>v. rev_id v = rid \<and> rev_status v = RevPreparing \<and> rev_retrieval_build_id v = bid"
  let ?f = "\<lambda>v. v\<lparr>rev_status := RevReady, rev_stage := StageReady, rev_ready_at := Some now,
    rev_version := rev_version v + 1, rev_updated_at := now\<rparr>"
  have "advance d (snd (unit_tx (FinalizeRetrievalSuccessWithRevisionTx now i w t bid rid a) d))"
  proof (rule unit_tx_advance, rule advance_intro)
    fix d' assume tx: "FinalizeRetrievalSuccessWithRevisionTx now i w t bid rid a d = Inr d'" and inv: "lineage_inv d"
    from tx obtain v rb b d1 where v: "find ?P (analysis_revisions d) = Some v"
      and rb: "by_key rb_id bid (retrieval_builds d) = Some rb" "rb_status rb = BuildStatusBuilding"
        "rb_analysis_revision_id rb = rid" "rb_code_index_build_id rb = rev_code_index_build_id v"
      and b: "by_key cib_id (rev_code_index_build_id v) (code_index_builds d) = Some b" "cib_status b = BuildStatusReady"
      and pub: "publish_retrieval_build now bid a d = Inr d1"
      and fin: "finalizeOwnedJob now i w t (set_revisions ?P ?f d1) = Inr d'"
      by (auto simp: FinalizeRetrievalSuccessWithRevisionTx_def bindE_eq_Inr Let_def split: option.splits if_split_asm)
    note p = publish_retrieval_build_advance[OF pub]
    have d1: "lineage_inv d1" "artifacts_le d d1" using advanceD[OF p(1) inv] by auto
    obtain r where r: "retrieval_of d1 bid = Some r" "rb_status r = BuildStatusReady"
        "rb_analysis_revision_id r = rid" "rb_code_index_build_id r = rev_code_index_build_id v"
      using p(2)[of rb] rb by (auto simp: retrieval_of_def)
    have pos: "0 < bid" "0 < rev_code_index_build_id v"
      using build_ids_positive(2)[OF inv rb(1)] build_ids_positive(1)[OF inv b(1)] by auto
    have row: "revision_ok d1 (?f u)" if u: "u \<in> set (analysis_revisions d1)" "?P u" for u
    proof -
      have "u = v"
        using u v[THEN find_revision] unique_rows(1)[OF inv, of u] unique_rows(1)[OF inv, of v] p(3) by simp
      then show ?thesis
        by (intro revision_ok_link_retrieval[OF revision_row[OF d1(1) u(1)], of _ r b])
          (use u r pos b p(4) in \<open>simp_all add: revision_identity_def code_of_def\<close>)
    qed
    have "lineage_inv (set_revisions ?P ?f d1) \<and> artifacts_le d1 (set_revisions ?P ?f d1)"
      by (rule advance_set_revisions[OF d1(1)]) (use row in \<open>simp_all add: revision_le_def revision_identity_def\<close>)
    then show "lineage_inv d' \<and> artifacts_le d d'"
      using d1(2) same_artifacts_advance[OF finalizeOwnedJob_same[OF fin]]
      unfolding advance_def by (blast intro: artifacts_le_trans)
  qed
  then show ?thesis by (simp add: FinalizeRetrievalSuccessWithRevision_def)
qed

section \<open>Revisions\<close>

lemma set_revisions_advance:
  assumes key: "\<And>v. P v \<Longrightarrow> rev_id (f v) = rev_id v"
    and row: "\<And>v. v \<in> set (analysis_revisions d) \<Longrightarrow> P v \<Longrightarrow> rev_status v \<noteq> RevReady \<and> same_lineage v (f v)"
    and ready: "\<And>v. lineage_inv d \<Longrightarrow> v \<in> set (analysis_revisions d) \<Longrightarrow> P v \<Longrightarrow> rev_status (f v) = RevReady \<Longrightarrow>
      lineage_complete d (f v)"
  shows "advance d (set_revisions P f d)"
proof (rule advance_intro, rule advance_set_revisions)
  fix v assume inv: "lineage_inv d" and v: "v \<in> set (analysis_revisions d)" "P v"
  have "revision_le v (f v)" using row[OF v] by (auto simp: revision_le_def same_lineage_def)
  moreover have "revision_ok d (f v)"
    by (rule revision_ok_same_lineage[OF revision_row[OF inv v(1)]]) (use row[OF v] ready[OF inv v] in simp_all)
  ultimately show "revision_le v (f v) \<and> revision_ok d (f v)" ..
qed (simp_all add: key)

lemma Mark_advance:
  "advance d (snd (MarkSnapshotReady now i sid d))" "advance d (snd (MarkCodeIndexReady now i bid d))"
proof -
  have "advance d (set_revisions (\<lambda>v. rev_id v = i \<and> rev_status v = RevPreparing \<and> rev_snapshot_id v = sid)
      (\<lambda>v. v\<lparr>rev_stage := StageBuildingCode, rev_version := rev_version v + 1, rev_updated_at := now\<rparr>) d)"
    "advance d (set_revisions (\<lambda>v. rev_id v = i \<and> rev_status v = RevPreparing \<and> rev_code_index_build_id v = bid)
      (\<lambda>v. v\<lparr>rev_stage := StageBuildingSearch, rev_version := rev_version v + 1, rev_updated_at := now\<rparr>) d)"
    by (rule set_revisions_advance; simp add: same_lineage_def revision_identity_def)+
  then show "advance d (snd (MarkSnapshotReady now i sid d))" "advance d (snd (MarkCodeIndexReady now i bid d))"
    by (simp_all add: MarkSnapshotReady_def MarkCodeIndexReady_def Let_def split: option.split)
qed

lemma MarkRetrievalReady_advance: "advance d (snd (MarkRetrievalReady now i bid d))"
proof -
  have "advance d (set_revisions (\<lambda>v. rev_id v = i \<and> rev_status v = RevPreparing \<and> rev_retrieval_build_id v = bid)
      (\<lambda>v. v\<lparr>rev_status := RevReady, rev_stage := StageReady, rev_ready_at := Some now,
        rev_version := rev_version v + 1, rev_updated_at := now\<rparr>) d)"
    if rb: "by_key rb_id bid (retrieval_builds d) = Some rb" "rb_status rb = BuildStatusReady" for rb
    using rb build_ids_positive(2)[of d bid rb]
    by (intro set_revisions_advance)
      (auto simp: same_lineage_def revision_identity_def lineage_complete_def retrieval_of_def)
  then show ?thesis by (simp add: MarkRetrievalReady_def Let_def split: option.split)
qed

section \<open>Preparation\<close>

lemma insert_revision_advance:
  assumes inv: "lineage_inv d" and ins: "insert_revision v d = Inr d'" and ok: "revision_ok d v"
  shows "lineage_inv d' \<and> artifacts_le d d'"
proof (rule advanceI[OF inv])
  have d': "d' = d\<lparr>analysis_revisions := analysis_revisions d @ [v]\<rparr>"
    and fresh: "rev_id v \<notin> rev_id ` set (analysis_revisions d)"
      "revision_identity v \<notin> revision_identity ` set (analysis_revisions d)"
    using ins unfolding insert_revision_def list_ex_iff by (simp_all split: if_split_asm) force+
  show "artifacts_le d d'"
    by (auto simp: artifacts_le_def artifact_lookups d' opt_le_refl intro!: opt_le_append)
  show "pipeline_keys d'" using inv fresh by (auto simp: lineage_inv_def pipeline_keys_def d')
  show "revision_ok d v' \<or> revision_ok d' v'" if "v' \<in> set (analysis_revisions d')" for v'
    using that inv ok by (auto simp: d' lineage_inv_def)
qed (use inv ins in \<open>auto simp: lineage_inv_def builds_ok_def insert_revision_def split: if_splits\<close>)

lemma insert_snapshot_lookup:
  assumes "insert_snapshot now s d = Inr d'"
  shows "snap_of d' (snap_id s) = Some (s\<lparr>snap_created_at := (if snap_created_at s = 0 then now else snap_created_at s)\<rparr>)"
proof -
  have "by_key snap_id (snap_id s) (repository_snapshots d) = None"
    using assms unfolding insert_snapshot_def list_ex_iff by_key_None by (auto split: if_split_asm)
  then show ?thesis
    using assms by (auto simp: insert_snapshot_def snap_of_def by_key_append split: if_split_asm)
qed

text \<open>The two insertions of a preparation touch different tables.\<close>

lemma insert_revision_snapshot_swap:
  assumes "insert_revision v d = Inr d1" and "insert_snapshot now s d1 = Inr d2"
  obtains e where "insert_snapshot now s d = Inr e" and "insert_revision v e = Inr d2"
  using assms by (auto simp: insert_revision_def insert_snapshot_def split: if_split_asm)

lemma CreatePreparation_advance:
  assumes uuid: "uuid 0 \<noteq> ''''" "uuid 1 \<noteq> ''''" and ver: "ps_pipeline_version spec \<noteq> ''''"
  shows "advance d (snd (CreatePreparation path_join uuid now spec d))"
proof (cases "ps_repository_id spec = '''' \<or> length (ps_commit_sha spec) \<noteq> 40 \<or> ps_pipeline_fingerprint spec = ''''")
  case False
  let ?v = "prepared_revision uuid now spec" and ?s = "prepared_snapshot path_join uuid now spec"
  have "advance d (snd (run_tx (\<lambda>d. bindE (insert_revision ?v d) (\<lambda>d1. bindE (insert_snapshot now ?s d1) (\<lambda>d2.
      bindE (createJobGorm now (pending_job JobTypeMaterializeSnapshot (snap_id ?s) 1 now) d2) (\<lambda>d3.
      Inr (?v, d3))))) d))"
  proof (rule run_tx_advance, rule advance_intro, goal_cases)
    case (1 x d')
    then obtain d1 d2 where d1: "insert_revision ?v d = Inr d1" and d2: "insert_snapshot now ?s d1 = Inr d2"
      and job: "createJobGorm now (pending_job JobTypeMaterializeSnapshot (snap_id ?s) 1 now) d2 = Inr d'"
      by (auto simp: bindE_eq_Inr)
    from d1 d2 obtain e where e: "insert_snapshot now ?s d = Inr e" and rev: "insert_revision ?v e = Inr d2"
      by (rule insert_revision_snapshot_swap)
    have inve: "lineage_inv e \<and> artifacts_le d e" by (rule insert_snapshot_advance[OF 1(2) e])
    have "revision_ok e ?v"
      using insert_snapshot_lookup[OF e] False uuid ver
      by (auto simp: revision_ok_def named_revision_def snapshot_linked_def code_linked_def retrieval_linked_def
          prepared_revision_def prepared_snapshot_def)
    then have "lineage_inv d2 \<and> artifacts_le e d2" using insert_revision_advance[OF _ rev] inve by blast
    then show ?case
      using inve same_artifacts_advance[OF createJobGorm_same[OF job]] unfolding advance_def
      by (blast intro: artifacts_le_trans)
  qed
  then show ?thesis unfolding CreatePreparation_def Let_def if_not_P[OF False] .
qed (simp add: CreatePreparation_def)

lemma case_advance:
  "(\<And>a. x = Inl a \<Longrightarrow> advance d (snd (f a))) \<Longrightarrow> (\<And>b. x = Inr b \<Longrightarrow> advance d (snd (g b))) \<Longrightarrow>
    advance d (snd (case x of Inl a \<Rightarrow> f a | Inr b \<Rightarrow> g b))"
  "(\<And>a b. y = (a, b) \<Longrightarrow> advance d (snd (h a b))) \<Longrightarrow> advance d (snd (case y of (a, b) \<Rightarrow> h a b))"
  by (auto split: sum.split prod.split)

lemma Prepare_advance:
  assumes "uuid 0 \<noteq> ''''" "uuid 1 \<noteq> ''''"
  shows "advance d (snd (Prepare resolve fingerprint basePath path_join uuid now userID repositoryID ref d))"
proof -
  have "advance d d'" if "CreatePreparation path_join uuid now \<lparr>ps_repository_id = repositoryID, ps_source_ref = r,
      ps_commit_sha = c, ps_pipeline_version = PipelineVersion, ps_pipeline_fingerprint = fingerprint,
      ps_snapshot_base_path = basePath, ps_module_path = mp\<rparr> d = (x, d')" for r c mp x d'
  proof -
    have "advance d (snd (CreatePreparation path_join uuid now \<lparr>ps_repository_id = repositoryID, ps_source_ref = r,
      ps_commit_sha = c, ps_pipeline_version = PipelineVersion, ps_pipeline_fingerprint = fingerprint,
      ps_snapshot_base_path = basePath, ps_module_path = mp\<rparr> d))"
      using assms by (rule CreatePreparation_advance) (simp add: PipelineVersion_def)
    then show ?thesis by (simp add: that)
  qed
  then show ?thesis
    unfolding Prepare_def Let_def
    by (intro case_advance branch_advance) simp_all
qed

section \<open>Retry\<close>

lemma set_revision_row:
  assumes inv: "lineage_inv d" and v: "v \<in> set (analysis_revisions d)"
    and f: "\<And>r. rev_id (f r) = rev_id r" "revision_le v (f v)" "revision_ok d (f v)"
  shows "lineage_inv (set_revision (rev_id v) f d) \<and> artifacts_le d (set_revision (rev_id v) f d)"
  unfolding set_revision_def
proof (rule advance_set_revisions[OF inv])
  fix u assume "u \<in> set (analysis_revisions d)" "rev_id u = rev_id v"
  then have "u = v" using unique_rows(1)[OF inv] v by (metis option.inject)
  then show "revision_le u (f u) \<and> revision_ok d (f u)" using f by simp
qed (simp add: f)

lemma ensureCodeIndexBuildTx_advance:
  assumes inv: "lineage_inv d" and ready: "snapshot_owned d sid rid"
    and ens: "ensureCodeIndexBuildTx sha rid sid mp now d = Inr (b, d')"
  shows "lineage_inv d' \<and> artifacts_le d d' \<and> analysis_revisions d' = analysis_revisions d
    \<and> code_of d' (cib_id b) = Some b \<and> 0 < cib_id b \<and> cib_snapshot_id b = sid \<and> cib_analysis_revision_id b = rid"
proof (cases "getBuildByIdentity sid (BuildContextHash sha DefaultBuildContext) d")
  case (Inl e)
  then have new: "insert_code_build (new_code_build sha rid sid mp DefaultBuildContext '''' now) d = Inr (b, d')"
    using ens by (simp add: ensureCodeIndexBuildTx_def)
  have link: "cib_analysis_revision_id (new_code_build sha rid sid mp DefaultBuildContext '''' now) \<noteq> '''' \<Longrightarrow>
      snapshot_owned d (cib_snapshot_id (new_code_build sha rid sid mp DefaultBuildContext '''' now))
        (cib_analysis_revision_id (new_code_build sha rid sid mp DefaultBuildContext '''' now))"
    by (simp add: new_code_build_def ready)
  show ?thesis using insert_code_build_advance[OF inv new link] by (simp add: new_code_build_def)
next
  case (Inr b0)
  then have b0: "b0 \<in> set (code_index_builds d)" "cib_snapshot_id b0 = sid"
    by (auto simp: getBuildByIdentity_def code_build_identity_def find_Some_iff split: option.split_asm)
  note u = unique_rows(3)[OF inv b0(1)]
  have pos: "0 < cib_id b0" using build_ids_positive(1)[OF inv u] .
  show ?thesis
  proof (cases "cib_analysis_revision_id b0 = ''''")
    case True
    then have b: "b = b0\<lparr>cib_analysis_revision_id := rid\<rparr>"
      and d': "d' = set_code_builds (\<lambda>r. cib_id r = cib_id b0) (\<lambda>r. r\<lparr>cib_analysis_revision_id := rid\<rparr>) d"
      using ens Inr by (auto simp: ensureCodeIndexBuildTx_def)
    have row: "r = b0" if "r \<in> set (code_index_builds d)" "cib_id r = cib_id b0" for r
      using unique_rows(3)[OF inv that(1)] that(2) u by simp
    have "lineage_inv d' \<and> artifacts_le d d'"
      unfolding d' by (rule advance_set_code_builds[OF inv]) (auto simp: code_le_def True ready b0 dest!: row)
    moreover have "code_of d' (cib_id b0) = Some b"
      using u by (simp add: d' b code_of_def by_key_sql_set)
    ultimately show ?thesis using b0(2) pos by (simp add: b) (simp add: d')
  next
    case False
    then have "b = b0" "d' = d" "cib_analysis_revision_id b0 = rid"
      using ens Inr by (auto simp: ensureCodeIndexBuildTx_def split: if_split_asm)
    then show ?thesis using inv u pos b0(2) by (simp add: code_of_def)
  qed
qed

lemma ensureRetrievalBuildTx_advance:
  assumes inv: "lineage_inv d" and ens: "ensureRetrievalBuildTx sha rid bid now d = Inr (b, d')"
    and own: "code_owned d bid rid"
  shows "lineage_inv d' \<and> artifacts_le d d' \<and> analysis_revisions d' = analysis_revisions d \<and> code_of d' = code_of d
    \<and> retrieval_of d' (rb_id b) = Some b \<and> 0 < rb_id b \<and> rb_code_index_build_id b = bid \<and> rb_analysis_revision_id b = rid"
proof (cases "getRetrievalBuildByIdentity sha bid ProductionRetrievalStrategy d")
  case None
  then have new: "insert_retrieval_build (new_retrieval_build sha rid bid ProductionRetrievalStrategy now) d = Inr (b, d')"
    using ens by (simp add: ensureRetrievalBuildTx_def)
  have link: "code_owned d (rb_code_index_build_id (new_retrieval_build sha rid bid ProductionRetrievalStrategy now))
      (rb_analysis_revision_id (new_retrieval_build sha rid bid ProductionRetrievalStrategy now))"
    using own by (simp add: new_retrieval_build_def)
  show ?thesis using insert_retrieval_build_advance[OF inv new link] by (simp add: new_retrieval_build_def)
next
  case (Some b0)
  then have b0: "b0 \<in> set (retrieval_builds d)" "rb_code_index_build_id b0 = bid"
    by (auto simp: getRetrievalBuildByIdentity_def retrieval_build_identity_def find_Some_iff)
  note u = unique_rows(4)[OF inv b0(1)]
  have pos: "0 < rb_id b0" using build_ids_positive(2)[OF inv u] .
  show ?thesis
  proof (cases "rb_analysis_revision_id b0 = ''''")
    case True
    then have b: "b = b0\<lparr>rb_analysis_revision_id := rid\<rparr>"
      and d': "d' = set_retrieval_builds (\<lambda>r. rb_id r = rb_id b0) (\<lambda>r. r\<lparr>rb_analysis_revision_id := rid\<rparr>) d"
      using ens Some by (auto simp: ensureRetrievalBuildTx_def)
    have row: "r = b0" if "r \<in> set (retrieval_builds d)" "rb_id r = rb_id b0" for r
      using unique_rows(4)[OF inv that(1)] that(2) u by simp
    have "lineage_inv d' \<and> artifacts_le d d'"
      unfolding d' by (rule advance_set_retrieval_builds[OF inv]) (auto simp: retrieval_le_def True own b0 dest!: row)
    moreover have "retrieval_of d' (rb_id b0) = Some b"
      using u by (simp add: d' b retrieval_of_def by_key_sql_set)
    ultimately show ?thesis using b0(2) pos by (simp add: b) (simp add: d')
  next
    case False
    then have "b = b0" "d' = d" "rb_analysis_revision_id b0 = rid"
      using ens Some by (auto simp: ensureRetrievalBuildTx_def split: if_split_asm)
    then show ?thesis using inv u pos b0(2) by (simp add: retrieval_of_def)
  qed
qed

lemma reset_builds_advance:
  "(\<And>b. by_key cib_id i (code_index_builds d) = Some b \<Longrightarrow> cib_status b \<noteq> BuildStatusReady) \<Longrightarrow> advance d (resetCodeBuildTx i d)"
  "(\<And>b. by_key rb_id i (retrieval_builds d) = Some b \<Longrightarrow> rb_status b \<noteq> BuildStatusReady) \<Longrightarrow> advance d (resetRetrievalBuildTx i d)"
proof -
  assume h: "\<And>b. by_key cib_id i (code_index_builds d) = Some b \<Longrightarrow> cib_status b \<noteq> BuildStatusReady"
  show "advance d (resetCodeBuildTx i d)"
  proof (rule advance_intro)
    assume inv: "lineage_inv d"
    show "lineage_inv (resetCodeBuildTx i d) \<and> artifacts_le d (resetCodeBuildTx i d)"
      unfolding resetCodeBuildTx_def
    proof (rule advance_set_code_builds[OF inv])
      fix b assume b: "b \<in> set (code_index_builds d)" "cib_id b = i"
      then have "cib_status b \<noteq> BuildStatusReady" using h unique_rows(3)[OF inv b(1)] by simp
      then show "code_le b (b\<lparr>cib_status := BuildStatusCreated, cib_error_code := '''', cib_ready_at := None\<rparr>) \<and>
        (cib_analysis_revision_id (b\<lparr>cib_status := BuildStatusCreated, cib_error_code := '''', cib_ready_at := None\<rparr>) \<noteq> ''''
          \<longrightarrow> snapshot_owned d (cib_snapshot_id b)
            (cib_analysis_revision_id (b\<lparr>cib_status := BuildStatusCreated, cib_error_code := '''', cib_ready_at := None\<rparr>)))"
        using inv b(1) by (simp add: code_le_def lineage_inv_def builds_ok_def code_build_ok_def)
    qed simp
  qed
next
  assume h: "\<And>b. by_key rb_id i (retrieval_builds d) = Some b \<Longrightarrow> rb_status b \<noteq> BuildStatusReady"
  show "advance d (resetRetrievalBuildTx i d)"
  proof (rule advance_intro)
    assume inv: "lineage_inv d"
    show "lineage_inv (resetRetrievalBuildTx i d) \<and> artifacts_le d (resetRetrievalBuildTx i d)"
      unfolding resetRetrievalBuildTx_def
    proof (rule advance_set_retrieval_builds[OF inv])
      fix b assume b: "b \<in> set (retrieval_builds d)" "rb_id b = i"
      then have "rb_status b \<noteq> BuildStatusReady" using h unique_rows(4)[OF inv b(1)] by simp
      then show "retrieval_le b (b\<lparr>rb_status := BuildStatusCreated, rb_error_code := '''', rb_artifact_path := '''',
        rb_artifact_hash := '''', rb_ready_at := None\<rparr>) \<and>
        (rb_analysis_revision_id (b\<lparr>rb_status := BuildStatusCreated, rb_error_code := '''', rb_artifact_path := '''',
        rb_artifact_hash := '''', rb_ready_at := None\<rparr>) \<noteq> '''' \<longrightarrow> code_owned d (rb_code_index_build_id b)
          (rb_analysis_revision_id (b\<lparr>rb_status := BuildStatusCreated, rb_error_code := '''', rb_artifact_path := '''',
        rb_artifact_hash := '''', rb_ready_at := None\<rparr>)))"
        using inv b(1) by (simp add: retrieval_le_def lineage_inv_def builds_ok_def retrieval_build_ok_def)
    qed simp
  qed
qed

text \<open>
  Resumption of a reopened revision \<open>v\<close>, stage by stage. \<open>advancing d\<close> is the postcondition of
  a transaction body.
\<close>

definition advancing :: "db \<Rightarrow> go_error + 'a \<times> db \<Rightarrow> bool" where
  "advancing d r \<longleftrightarrow> (\<forall>x d'. r = Inr (x, d') \<longrightarrow> lineage_inv d' \<and> artifacts_le d d')"

lemma advancing_Inl [simp]: "advancing d (Inl e)"
  by (simp add: advancing_def)

lemma advancing_resetJob:
  assumes "lineage_inv e \<and> artifacts_le d e"
  shows "advancing d (bindE (resetJobTx ty res g now e) (\<lambda>e'. Inr (x, e')))"
  unfolding advancing_def bindE_eq_Inr
proof (intro allI impI)
  fix y d' assume "\<exists>e'. resetJobTx ty res g now e = Inr e' \<and> Inr (x, e') = Inr (y, d')"
  then have "advance e d'" by (auto intro: same_artifacts_advance resetJobTx_same)
  then show "lineage_inv d' \<and> artifacts_le d d'" using assms artifacts_le_trans by (auto simp: advance_def)
qed

lemma retry_materialization_advancing:
  assumes inv: "lineage_inv d" and v: "v \<in> set (analysis_revisions d)"
    and s: "by_key snap_id (rev_snapshot_id v) (repository_snapshots d) = Some snap" "snap_status snap \<noteq> SnapReady"
  shows "advancing d (retry_materialization now v snap d)"
proof -
  have ok: "revision_ok d v" using inv v by (rule revision_row)
  then have rid: "rev_id v \<noteq> ''''" by (simp add: revision_ok_def named_revision_def)
  have nr: "\<not> snapshot_owned d (rev_snapshot_id v) rid" for rid using s by (simp add: snapshot_owned_def snap_of_def)
  have code: "rev_code_index_build_id v = 0"
  proof (rule ccontr)
    assume "rev_code_index_build_id v \<noteq> 0"
    then obtain b where b: "by_key cib_id (rev_code_index_build_id v) (code_index_builds d) = Some b"
      "cib_snapshot_id b = rev_snapshot_id v" "cib_analysis_revision_id b = rev_id v"
      using ok by (auto simp: revision_ok_def code_linked_def code_of_def)
    have "code_build_ok d b"
      using inv by_key_Some_in[OF b(1)] by (simp add: lineage_inv_def builds_ok_def)
    then have "snapshot_owned d (cib_snapshot_id b) (rev_id v)" using rid b(3) by (simp add: code_build_ok_def)
    with nr b(2) show False by simp
  qed
  with ok have retr: "rev_retrieval_build_id v = 0" by (auto simp: revision_ok_def retrieval_linked_def)
  have row: "r = snap" if "r \<in> set (repository_snapshots d)" "snap_id r = snap_id snap" for r
    using unique_rows(2)[OF inv that(1)] that(2) s(1) by_key_Some_in[OF s(1)] by simp
  have "lineage_inv (set_snapshots (\<lambda>s. snap_id s = snap_id snap) (\<lambda>s. s\<lparr>snap_status := SnapMaterializing,
      snap_error_code := '''', snap_ready_at := None\<rparr>) d) \<and> artifacts_le d (set_snapshots (\<lambda>s. snap_id s = snap_id snap)
      (\<lambda>s. s\<lparr>snap_status := SnapMaterializing, snap_error_code := '''', snap_ready_at := None\<rparr>) d)"
    by (rule advance_set_snapshots[OF inv]) (use s(2) in \<open>auto simp: snap_le_def dest!: row\<close>)
  then show ?thesis
    unfolding retry_materialization_def Let_def by (simp add: code retr advancing_resetJob)
qed

lemma retry_new_code_index_advancing:
  assumes inv: "lineage_inv d" and v: "v \<in> set (analysis_revisions d)" "rev_status v = RevPreparing"
    and s: "by_key snap_id (rev_snapshot_id v) (repository_snapshots d) = Some snap" "snap_status snap = SnapReady"
    and code: "rev_code_index_build_id v = 0"
  shows "advancing d (retry_new_code_index sha now v snap d)"
proof -
  have sid: "snap_id snap = rev_snapshot_id v" using by_key_Some_in[OF s(1)] by simp
  have ready: "snapshot_owned d (snap_id snap) (rev_id v)"
    using s sid revision_row[OF inv v(1)] by (auto simp: snapshot_owned_def snap_of_def revision_ok_def snapshot_linked_def)
  show ?thesis
  proof (cases "ensureCodeIndexBuildTx sha (rev_id v) (snap_id snap) (repositoryModulePathTx (rev_repository_id v) d) now d")
    case (Inr r)
    obtain b e where r: "r = (b, e)" by fastforce
    note e = ensureCodeIndexBuildTx_advance[OF inv ready Inr[unfolded r]]
    let ?f = "\<lambda>r. r\<lparr>rev_stage := StageBuildingCode, rev_code_index_build_id := cib_id b, rev_updated_at := now\<rparr>"
    have inve: "lineage_inv e" and ve: "v \<in> set (analysis_revisions e)" using e v by auto
    have "lineage_inv (set_revision (rev_id v) ?f e) \<and> artifacts_le e (set_revision (rev_id v) ?f e)"
    proof (rule set_revision_row[OF inve ve])
      show "revision_le v (?f v)" using v(2) by (simp add: revision_le_def revision_identity_def)
      show "revision_ok e (?f v)"
        by (rule revision_ok_link_code[OF revision_row[OF inve ve], where b = b])
          (use e v(2) code sid in \<open>simp_all add: revision_identity_def\<close>)
    qed simp
    then have "lineage_inv (set_revision (rev_id v) ?f e) \<and> artifacts_le d (set_revision (rev_id v) ?f e)"
      using e by (blast intro: artifacts_le_trans)
    then show ?thesis
      by (simp add: retry_new_code_index_def Inr r Let_def advancing_resetJob)
  qed (simp add: retry_new_code_index_def)
qed

lemma stage_revision_row:
  assumes inv: "lineage_inv d" and v: "v \<in> set (analysis_revisions d)" "rev_status v = RevPreparing"
  shows "lineage_inv (set_revision (rev_id v) (\<lambda>r. r\<lparr>rev_stage := st, rev_updated_at := now\<rparr>) d)
    \<and> artifacts_le d (set_revision (rev_id v) (\<lambda>r. r\<lparr>rev_stage := st, rev_updated_at := now\<rparr>) d)"
proof (rule set_revision_row[OF inv v(1)])
  show "revision_ok d (v\<lparr>rev_stage := st, rev_updated_at := now\<rparr>)"
    by (rule revision_ok_same_lineage[OF revision_row[OF inv v(1)]])
      (use v(2) in \<open>simp_all add: same_lineage_def revision_identity_def\<close>)
qed (use v(2) in \<open>simp_all add: revision_le_def revision_identity_def\<close>)

lemma retry_code_index_advancing:
  assumes inv: "lineage_inv d" and v: "v \<in> set (analysis_revisions d)" "rev_status v = RevPreparing"
    and b: "by_key cib_id i (code_index_builds d) = Some b" "cib_status b \<noteq> BuildStatusReady"
  shows "advancing d (retry_code_index now v b d)"
proof -
  have "advance d (resetCodeBuildTx (cib_id b) d)"
    using b by_key_Some_in[OF b(1)] by (intro reset_builds_advance(1)) auto
  then have a: "lineage_inv (resetCodeBuildTx (cib_id b) d)" "artifacts_le d (resetCodeBuildTx (cib_id b) d)"
    using inv by (auto simp: advance_def)
  have "v \<in> set (analysis_revisions (resetCodeBuildTx (cib_id b) d))" using v(1) by (simp add: resetCodeBuildTx_def)
  from stage_revision_row[OF a(1) this v(2)] a(2) show ?thesis
    unfolding retry_code_index_def Let_def by (blast intro: advancing_resetJob artifacts_le_trans)
qed

lemma retry_new_retrieval_advancing:
  assumes inv: "lineage_inv d" and v: "v \<in> set (analysis_revisions d)" "rev_status v = RevPreparing"
    and b: "by_key cib_id (rev_code_index_build_id v) (code_index_builds d) = Some b" "cib_status b = BuildStatusReady"
  shows "advancing d (retry_new_retrieval sha now v b d)"
proof (cases "ensureRetrievalBuildTx sha (rev_id v) (cib_id b) now d")
  case (Inr r)
  obtain rb e where r: "r = (rb, e)" by fastforce
  have bid: "cib_id b = rev_code_index_build_id v" using by_key_Some_in[OF b(1)] by simp
  have "code_owned d (cib_id b) (rev_id v)"
    using revision_row[OF inv v(1)] build_ids_positive(1)[OF inv b(1)]
    by (auto simp: revision_ok_def code_linked_def code_owned_def bid)
  note e = ensureRetrievalBuildTx_advance[OF inv Inr[unfolded r] this]
  let ?f = "\<lambda>r. r\<lparr>rev_stage := StageBuildingSearch, rev_retrieval_build_id := rb_id rb, rev_updated_at := now\<rparr>"
  have inve: "lineage_inv e" and ve: "v \<in> set (analysis_revisions e)" using e v by auto
  have "lineage_inv (set_revision (rev_id v) ?f e) \<and> artifacts_le e (set_revision (rev_id v) ?f e)"
  proof (rule set_revision_row[OF inve ve])
    show "revision_le v (?f v)" using v(2) by (simp add: revision_le_def revision_identity_def)
    show "revision_ok e (?f v)"
      by (rule revision_ok_link_retrieval[OF revision_row[OF inve ve], where b = b and r = rb])
        (use e v(2) b bid build_ids_positive(1)[OF inv b(1)] in \<open>simp_all add: revision_identity_def code_of_def\<close>)
  qed simp
  then have "lineage_inv (set_revision (rev_id v) ?f e) \<and> artifacts_le d (set_revision (rev_id v) ?f e)"
    using e by (blast intro: artifacts_le_trans)
  then show ?thesis
    by (simp add: retry_new_retrieval_def Inr r Let_def advancing_resetJob)
qed (simp add: retry_new_retrieval_def)

lemma retry_retrieval_advancing:
  assumes inv: "lineage_inv d" and v: "v \<in> set (analysis_revisions d)" "rev_status v = RevPreparing"
    and b: "by_key rb_id i (retrieval_builds d) = Some rb" "rb_status rb \<noteq> BuildStatusReady"
  shows "advancing d (retry_retrieval now v rb d)"
proof -
  have "advance d (resetRetrievalBuildTx (rb_id rb) d)"
    using b by_key_Some_in[OF b(1)] by (intro reset_builds_advance(2)) auto
  then have a: "lineage_inv (resetRetrievalBuildTx (rb_id rb) d)" "artifacts_le d (resetRetrievalBuildTx (rb_id rb) d)"
    using inv by (auto simp: advance_def)
  have "v \<in> set (analysis_revisions (resetRetrievalBuildTx (rb_id rb) d))" using v(1) by (simp add: resetRetrievalBuildTx_def)
  from stage_revision_row[OF a(1) this v(2)] a(2) show ?thesis
    unfolding retry_retrieval_def Let_def by (blast intro: advancing_resetJob artifacts_le_trans)
qed

lemma retry_complete_advancing:
  assumes inv: "lineage_inv d" and v: "v \<in> set (analysis_revisions d)" "rev_status v = RevPreparing"
    and b: "by_key rb_id (rev_retrieval_build_id v) (retrieval_builds d) = Some rb" "rb_status rb = BuildStatusReady"
  shows "advancing d (retry_complete now v d)"
proof -
  let ?f = "\<lambda>r. r\<lparr>rev_status := RevReady, rev_stage := StageReady, rev_ready_at := Some now, rev_updated_at := now\<rparr>"
  have "lineage_inv (set_revision (rev_id v) ?f d) \<and> artifacts_le d (set_revision (rev_id v) ?f d)"
  proof (rule set_revision_row[OF inv v(1)])
    show "revision_le v (?f v)" using v(2) by (simp add: revision_le_def revision_identity_def)
    show "revision_ok d (?f v)"
      by (rule revision_ok_same_lineage[OF revision_row[OF inv v(1)]])
        (use b build_ids_positive(2)[OF inv b(1)] in \<open>simp_all add: same_lineage_def revision_identity_def
          lineage_complete_def retrieval_of_def\<close>)
  qed simp
  then show ?thesis by (simp add: advancing_def retry_complete_def)
qed

lemma resume_stage_advancing:
  assumes inv: "lineage_inv d" and v: "v \<in> set (analysis_revisions d)" "rev_status v = RevPreparing"
  shows "advancing d (resume_stage sha now v d)"
  unfolding resume_stage_def
  by (auto split: option.split intro: retry_materialization_advancing[OF inv v(1)]
      retry_new_code_index_advancing[OF inv v] retry_code_index_advancing[OF inv v]
      retry_new_retrieval_advancing[OF inv v] retry_retrieval_advancing[OF inv v] retry_complete_advancing[OF inv v])

lemma retryPreparationTx_advance:
  assumes "retryPreparationTx sha now i d = Inr (x, d')"
  shows "advance d d'"
proof (rule advance_intro)
  assume inv: "lineage_inv d"
  from assms obtain v where v: "by_key rev_id i (analysis_revisions d) = Some v"
    by (cases "by_key rev_id i (analysis_revisions d)") (auto simp: retryPreparationTx_def)
  let ?P = "\<lambda>u. rev_id u = i \<and> rev_status u = RevFailed \<and> rev_version u = rev_version v
    \<and> rev_execution_generation u = rev_execution_generation v"
  let ?e = "set_revisions ?P (reopened_revision now) d"
  from assms v have failed: "rev_status v = RevFailed"
    and res: "resume_stage sha now (reopened_revision now v) ?e = Inr (x, d')"
    by (auto simp: retryPreparationTx_def Let_def split: if_split_asm)
  have "advance d ?e"
    by (rule set_revisions_advance) (auto simp: reopened_revision_def same_lineage_def revision_identity_def)
  then have e: "lineage_inv ?e" "artifacts_le d ?e" using inv by (auto simp: advance_def)
  have "reopened_revision now v \<in> set (analysis_revisions ?e)"
    using by_key_Some_in[OF v] failed by (force simp: set_sql_set)
  then have "advancing ?e (resume_stage sha now (reopened_revision now v) ?e)"
    by (rule resume_stage_advancing[OF e(1)]) (simp add: reopened_revision_def)
  with res e(2) show "lineage_inv d' \<and> artifacts_le d d'"
    unfolding advancing_def by (blast intro: artifacts_le_trans)
qed

lemma Retry_advance:
  "advance d (snd (retryPreparationOnce sha now i d))" "advance d (snd (revision_service_Retry sha now userID i d))"
proof -
  show tx: "advance d (snd (retryPreparationOnce sha now i d))"
    unfolding retryPreparationOnce_def by (rule run_tx_advance, erule retryPreparationTx_advance)
  then show "advance d (snd (revision_service_Retry sha now userID i d))"
    by (simp add: revision_service_Retry_def split: sum.split)
qed

section \<open>The program on its database\<close>

text \<open>
  The steps of the whole program: those of the job and diagnosis stores, and every state
  changing operation of the snapshot, code index, retrieval and revision stores and of the
  preparation service, with arbitrary arguments. Identifiers drawn for a new row are not
  empty, and a snapshot of a revision is published with the commit the revision names, which
  \<open>SnapshotJobHandler.Execute\<close> checks before it publishes
  (\<open>internal/indexing/job_handler.go\<close>).
\<close>

inductive pipeline_step :: "(string \<Rightarrow> bool) \<Rightarrow> db \<Rightarrow> db \<Rightarrow> bool" for F :: "string \<Rightarrow> bool" where
  pipe_system: "system_step F d d' \<Longrightarrow> pipeline_step F d d'"
| pipe_create_snapshot: "pipeline_step F d (snd (snapshot_Create uuid now snap d))"
| pipe_update_status: "pipeline_step F d (snd (UpdateStatus sid old new readyAt d))"
| pipe_fail_materialization: "pipeline_step F d (snd (FailMaterialization sid code d))"
| pipe_finalize_materialization: "keeps_commit sid m d \<Longrightarrow> pipeline_step F d (snd (FinalizeMaterialization sid m d))"
| pipe_snapshot_success: "keeps_commit sid m d \<Longrightarrow> pipeline_step F d (snd (FinalizeSnapshotSuccess i w t sid m d))"
| pipe_snapshot_stage: "keeps_commit (ssr_snapshot_id r) (ssr_materialization r) d \<Longrightarrow>
    pipeline_step F d (snd (FinalizeSnapshot sha r d))"
| pipe_legacy_snapshot: "keeps_commit sid m d \<Longrightarrow>
    pipeline_step F d (snd (FinalizeLegacySnapshotSuccessWithCodeIndexHandoff sha marshal i w t sid mp now m d))"
| pipe_create_build: "pipeline_step F d (snd (GetOrCreateBuild sha marshal now sid mp bc d))"
| pipe_build_building: "pipeline_step F d (snd (MarkBuildBuilding bid d))"
| pipe_save_result: "pipeline_step F d (snd (SaveAnalysisResult sha marshal now bid res d))"
| pipe_code_success: "pipeline_step F d (snd (FinalizeCodeIndexSuccess sha marshal now i w t bid res d))"
| pipe_code_stage: "pipeline_step F d (snd (FinalizeCodeIndex sha marshal now c d))"
| pipe_legacy_code: "pipeline_step F d
    (snd (FinalizeLegacyCodeIndexSuccessWithRetrievalHandoff sha marshal now i w t bid res d))"
| pipe_create_retrieval: "pipeline_step F d (snd (GetOrCreateRetrievalBuild sha now bid strategy d))"
| pipe_retrieval_building: "pipeline_step F d (snd (MarkRetrievalBuilding bid d))"
| pipe_complete_retrieval: "pipeline_step F d (snd (CompleteRetrievalBuild now bid a d))"
| pipe_retrieval_success: "pipeline_step F d (snd (FinalizeRetrievalSuccess now i w t bid a d))"
| pipe_retrieval_stage: "pipeline_step F d (snd (FinalizeRetrieval now q d))"
| pipe_mark_snapshot: "pipeline_step F d (snd (MarkSnapshotReady now rid sid d))"
| pipe_mark_code: "pipeline_step F d (snd (MarkCodeIndexReady now rid bid d))"
| pipe_mark_retrieval: "pipeline_step F d (snd (MarkRetrievalReady now rid bid d))"
| pipe_prepare: "(\<And>n. uuid n \<noteq> '''') \<Longrightarrow>
    pipeline_step F d (snd (Prepare resolve fingerprint basePath path_join uuid now userID repositoryID ref d))"
| pipe_retry: "pipeline_step F d (snd (revision_service_Retry sha now userID rid d))"

lemmas store_advance =
  snapshot_Create_advance UpdateStatus_advance FailMaterialization_advance FinalizeMaterialization_advance
  FinalizeSnapshotSuccess_advance FinalizeSnapshotSuccessWithRevision_advance FinalizeLegacySnapshot_advance
  GetOrCreateBuild_advance MarkBuildBuilding_advance SaveAnalysisResult_advance FinalizeCodeIndexSuccess_advance
  FinalizeCodeIndexSuccessWithRevision_advance FinalizeLegacyCodeIndex_advance GetOrCreateRetrievalBuild_advance
  MarkRetrievalBuilding_advance CompleteRetrievalBuild_advance FinalizeRetrievalSuccess_advance
  FinalizeRetrievalSuccessWithRevision_advance Mark_advance MarkRetrievalReady_advance Prepare_advance Retry_advance

lemma pipeline_step_advance: "pipeline_step F d d' \<Longrightarrow> advance d d'"
  by (induction rule: pipeline_step.induct)
    (simp_all add: FinalizeSnapshot_def FinalizeCodeIndex_def FinalizeRetrieval_def store_advance
      quiet_advance system_step_quiet)

text \<open>An empty database; \<open>AUTO_INCREMENT\<close> starts above zero.\<close>

definition pipeline_init :: "db \<Rightarrow> bool" where
  "pipeline_init d \<longleftrightarrow> init_db d \<and> repository_snapshots d = [] \<and> code_index_builds d = [] \<and> retrieval_builds d = []
    \<and> analysis_revisions d = [] \<and> 0 < next_code_index_build_id d \<and> 0 < next_retrieval_build_id d"

lemma pipeline_init_inv: "pipeline_init d \<Longrightarrow> lineage_inv d"
  by (simp add: pipeline_init_def lineage_inv_def pipeline_keys_def builds_ok_def)

interpretation pipeline: invariant_system pipeline_init "pipeline_step F" lineage_inv for F
  by unfold_locales (auto intro: pipeline_init_inv dest: pipeline_step_advance advanceD(1))

lemma pipeline_steps_advance: "(pipeline_step F)\<^sup>*\<^sup>* d d' \<Longrightarrow> advance d d'"
  by (induction rule: rtranclp_induct) (auto intro: advance_trans pipeline_step_advance)

end
