(* ===== verification/Pipeline_Scenario.thy ===== *)
theory Pipeline_Scenario
  imports Pipeline_System Scenario
begin

text \<open>
  A preparation from an empty database to a \<open>READY\<close> revision: prepare, then claim, start and
  finalize each of the three stages. The digest and the encodings are simple functions.
\<close>

definition demo_commit :: string where
  "demo_commit = replicate 40 (CHR ''c'')"

definition demo_uuid :: "nat \<Rightarrow> string" where
  "demo_uuid n = (if n = 0 then ''rev'' else ''snap'')"

definition demo_repository :: repository where
  "demo_repository = \<lparr>repo_id = ''repo'', repo_user_id = ''user'', repo_name = ''demo'',
     repo_git_url = ''https://example.org/demo.git'', repo_default_ref = ''main''\<rparr>"

definition demo_repositories :: db where
  "demo_repositories = demo_empty\<lparr>repositories := [demo_repository]\<rparr>"

definition demo_prepare :: "db \<Rightarrow> ((analysis_revision option \<times> bool) \<times> go_error option) \<times> db" where
  "demo_prepare = Prepare (\<lambda>_ _. Inr demo_commit) ''fingerprint'' ''/data'' concat demo_uuid 100
     ''user'' ''repo'' ''main''"

definition demo_prepared :: db where
  "demo_prepared = snd (demo_prepare demo_repositories)"

definition demo_claim :: "int \<Rightarrow> db \<Rightarrow> db" where
  "demo_claim now d = snd (ClaimJobs (\<lambda>_. False) demo_tok now ''w'' 1 1000 d)"

definition demo_start :: "int \<Rightarrow> int \<Rightarrow> db \<Rightarrow> db" where
  "demo_start now i d = snd (MarkExecutionStarted now i ''w'' ''t0'' 1 d)"

definition demo_ownership :: "int \<Rightarrow> job_ownership" where
  "demo_ownership i = \<lparr>own_job_id = i, own_worker_id = ''w'', own_claim_token = ''t0''\<rparr>"

definition demo_materialization :: materialization where
  "demo_materialization = \<lparr>mat_path = ''/data/repo/snap/source'', mat_commit_sha = demo_commit,
     mat_content_hash = ''content'', mat_file_count = 1, mat_total_bytes = 20, mat_ready_at = 130\<rparr>"

definition demo_snapshot_result :: snapshot_stage_result where
  "demo_snapshot_result = \<lparr>ssr_ownership = demo_ownership 1, ssr_revision_id = ''rev'', ssr_snapshot_id = ''snap'',
     ssr_module_path = ''demo'', ssr_materialization = demo_materialization\<rparr>"

definition demo_materializing :: db where
  "demo_materializing = demo_start 120 1 (demo_claim 110 demo_prepared)"

definition demo_materialized :: db where
  "demo_materialized = snd (FinalizeSnapshot id demo_snapshot_result demo_materializing)"

definition demo_analysis :: analysis_result where
  "demo_analysis = \<lparr>ar_module_path = ''demo'', ar_build_context = DefaultBuildContext, ar_files = [],
     ar_symbols = [], ar_relations = [], ar_related_tests = [],
     ar_quality = \<lparr>q_files_total = 0, q_files_parsed = 0, q_files_failed = 0, q_packages_total = 0,
       q_packages_typechecked = 0, q_packages_failed = 0, q_semantic_relations_count = 0,
       q_syntactic_relations_count = 0, q_heuristic_relations_count = 0, q_unresolved_relations_count = 0,
       q_symlinks_skipped = 0, q_warnings = []\<rparr>\<rparr>"

definition demo_code_result :: code_index_stage_result where
  "demo_code_result = \<lparr>csr_ownership = demo_ownership 2, csr_revision_id = ''rev'', csr_code_index_build_id = 1,
     csr_analysis_result = demo_analysis\<rparr>"

definition demo_indexing :: db where
  "demo_indexing = snd (MarkBuildBuilding 1 (demo_start 150 2 (demo_claim 140 demo_materialized)))"

definition demo_indexed :: db where
  "demo_indexed = snd (FinalizeCodeIndex id concat 160 demo_code_result demo_indexing)"

definition demo_retrieval_result :: retrieval_stage_result where
  "demo_retrieval_result = \<lparr>rsr_ownership = demo_ownership 3, rsr_revision_id = ''rev'', rsr_retrieval_build_id = 1,
     rsr_artifact = \<lparr>art_path = ''/data/bm25/1'', art_hash = ''hash'', art_doc_count = 7\<rparr>\<rparr>"

definition demo_searching :: db where
  "demo_searching = snd (MarkRetrievalBuilding 1 (demo_start 180 3 (demo_claim 170 demo_indexed)))"

definition demo_ready :: db where
  "demo_ready = snd (FinalizeRetrieval 190 demo_retrieval_result demo_searching)"

definition demo_revision :: "db \<Rightarrow> analysis_revision" where
  "demo_revision d = hd (analysis_revisions d)"

text \<open>The results of the stages.\<close>

lemma demo_results:
  "fst (FinalizeSnapshot id demo_snapshot_result demo_materializing) = Inr ()"
  "fst (FinalizeCodeIndex id concat 160 demo_code_result demo_indexing) = Inr ()"
  "fst (FinalizeRetrieval 190 demo_retrieval_result demo_searching) = Inr ()"
  by code_simp+

lemma demo_revision_rows:
  "by_key rev_id ''rev'' (analysis_revisions demo_prepared) = Some (demo_revision demo_prepared)"
  "by_key rev_id ''rev'' (analysis_revisions demo_ready) = Some (demo_revision demo_ready)"
  "rev_status (demo_revision demo_prepared) = RevPreparing"
  "rev_status (demo_revision demo_ready) = RevReady"
  by code_simp+

lemma demo_keeps_commit: "keeps_commit ''snap'' demo_materialization demo_materializing"
  by code_simp

lemma demo_pipeline_reachable:
  "reachable pipeline_init (pipeline_step any_token) demo_repositories"
  "reachable pipeline_init (pipeline_step any_token) demo_prepared"
  "reachable pipeline_init (pipeline_step any_token) demo_materializing"
  "reachable pipeline_init (pipeline_step any_token) demo_indexing"
  "reachable pipeline_init (pipeline_step any_token) demo_searching"
  "reachable pipeline_init (pipeline_step any_token) demo_ready"
proof -
  let ?reach = "reachable pipeline_init (pipeline_step any_token)"
  have claim: "?reach (demo_claim now d)" if "?reach d" for now d
    using that unfolding demo_claim_def by (rule reach_step) (rule pipe_system, rule sys_claim, simp)
  have start: "?reach (demo_start now i d)" if "?reach d" for now i d
    using that unfolding demo_start_def by (rule reach_step) (rule pipe_system, rule sys_start)
  have "pipeline_init demo_repositories"
    by (simp add: pipeline_init_def init_db_def demo_repositories_def demo_empty_def)
  then show 0: "?reach demo_repositories" by (rule reach_init)
  show 1: "?reach demo_prepared"
    unfolding demo_prepared_def demo_prepare_def
    by (rule reach_step[OF 0]) (rule pipe_prepare, simp add: demo_uuid_def)
  show 2: "?reach demo_materializing" unfolding demo_materializing_def by (intro start claim 1)
  have 3: "?reach demo_materialized"
    unfolding demo_materialized_def using 2
    by (rule reach_step) (rule pipe_snapshot_stage, simp add: demo_snapshot_result_def demo_keeps_commit)
  have "?reach (demo_start 150 2 (demo_claim 140 demo_materialized))" by (intro start claim 3)
  then show 4: "?reach demo_indexing" unfolding demo_indexing_def by (rule reach_step) (rule pipe_build_building)
  have 5: "?reach demo_indexed"
    unfolding demo_indexed_def using 4 by (rule reach_step) (rule pipe_code_stage)
  have "?reach (demo_start 180 3 (demo_claim 170 demo_indexed))" by (intro start claim 5)
  then show 6: "?reach demo_searching" unfolding demo_searching_def by (rule reach_step) (rule pipe_retrieval_building)
  show "?reach demo_ready"
    unfolding demo_ready_def using 6 by (rule reach_step) (rule pipe_retrieval_stage)
qed

end
