(* ===== verification/Pipeline_Properties.thy ===== *)
theory Pipeline_Properties
  imports Pipeline_Scenario
begin

text \<open>
  What the pipeline promises: a \<open>READY\<close> revision resolves to its own lineage, for ever; each
  stage commits all its effects or none, for the holder of the claim only; a \<open>FAILED\<close> revision
  can always be retried; and preparation is idempotent.
\<close>

section \<open>Resolution\<close>

definition lineage_of :: "analysis_revision \<Rightarrow> resolved_lineage" where
  "lineage_of v = \<lparr>rl_repository_id = rev_repository_id v, rl_revision_id = rev_id v, rl_commit_sha = rev_commit_sha v,
     rl_snapshot_id = rev_snapshot_id v, rl_code_index_build_id = rev_code_index_build_id v,
     rl_retrieval_build_id = rev_retrieval_build_id v, rl_pipeline_version = rev_pipeline_version v,
     rl_pipeline_fingerprint = rev_pipeline_fingerprint v\<rparr>"

text \<open>The rows behind a \<open>READY\<close> revision.\<close>

lemma ready_rows:
  assumes inv: "lineage_inv d" and v: "v \<in> set (analysis_revisions d)" "rev_status v = RevReady"
  obtains s b r where "by_key snap_id (rev_snapshot_id v) (repository_snapshots d) = Some s"
    "snap_status s = SnapReady" "snap_analysis_revision_id s = rev_id v" "snap_repository_id s = rev_repository_id v"
    "snap_commit_sha s = rev_commit_sha v" "snap_id s = rev_snapshot_id v"
    "by_key cib_id (rev_code_index_build_id v) (code_index_builds d) = Some b" "cib_status b = BuildStatusReady"
    "cib_snapshot_id b = rev_snapshot_id v" "cib_analysis_revision_id b = rev_id v" "cib_id b = rev_code_index_build_id v"
    "by_key rb_id (rev_retrieval_build_id v) (retrieval_builds d) = Some r" "rb_status r = BuildStatusReady"
    "rb_code_index_build_id r = rev_code_index_build_id v" "rb_analysis_revision_id r = rev_id v"
    "rb_id r = rev_retrieval_build_id v"
    "0 < rev_code_index_build_id v" "0 < rev_retrieval_build_id v" "rev_stage v = StageReady" "named_revision v"
proof -
  have ok: "revision_ok d v" using inv v(1) by (rule revision_row)
  then have named: "named_revision v" and comp: "lineage_complete d v" using v(2) by (auto simp: revision_ok_def)
  then have pos: "0 < rev_retrieval_build_id v" and st: "rev_stage v = StageReady" by (auto simp: lineage_complete_def)
  obtain s where s: "snap_of d (rev_snapshot_id v) = Some s" "snap_analysis_revision_id s = rev_id v"
    "snap_repository_id s = rev_repository_id v" "snap_commit_sha s = rev_commit_sha v"
    using ok by (auto simp: revision_ok_def snapshot_linked_def)
  obtain b where b: "0 < rev_code_index_build_id v" "code_of d (rev_code_index_build_id v) = Some b"
    "cib_status b = BuildStatusReady" "cib_snapshot_id b = rev_snapshot_id v" "cib_analysis_revision_id b = rev_id v"
    using ok pos by (auto simp: revision_ok_def retrieval_linked_def code_linked_def)
  obtain r where r: "retrieval_of d (rev_retrieval_build_id v) = Some r" "rb_status r = BuildStatusReady"
    "rb_code_index_build_id r = rev_code_index_build_id v" "rb_analysis_revision_id r = rev_id v"
    using ok comp pos by (auto simp: revision_ok_def retrieval_linked_def lineage_complete_def)
  have "code_build_ok d b"
    using inv by_key_Some_in[OF b(2)[unfolded code_of_def]] by (simp add: lineage_inv_def builds_ok_def)
  then have "snap_status s = SnapReady"
    using s(1) b(4,5) named by (simp add: code_build_ok_def snapshot_owned_def named_revision_def)
  moreover have "snap_id s = rev_snapshot_id v" "cib_id b = rev_code_index_build_id v" "rb_id r = rev_retrieval_build_id v"
    using by_key_Some_in[OF s(1)[unfolded snap_of_def]] by_key_Some_in[OF b(2)[unfolded code_of_def]]
      by_key_Some_in[OF r(1)[unfolded retrieval_of_def]] by simp_all
  ultimately show thesis
    using that s b r pos st named by (simp add: artifact_lookups)
qed

lemma ready_lineage_resolves:
  assumes inv: "lineage_inv d" and v: "by_key rev_id i (analysis_revisions d) = Some v" "rev_status v = RevReady"
  shows "ResolveReadyLineage i d = Inr (lineage_of v)"
proof -
  have vin: "v \<in> set (analysis_revisions d)" using by_key_Some_in[OF v(1)] by simp
  show ?thesis
    by (rule ready_rows[OF inv vin v(2)])
      (simp add: ResolveReadyLineage_def revision_GetByID_def v named_revision_def load_ready_snapshot_def
        snapshot_GetByID_def load_code_build_def codeintel_GetByID_def load_retrieval_build_def
        GetRetrievalBuildByID_def require_ready_code_def require_ready_retrieval_def ValidateLineage_def lineage_of_def)
qed

lemma resolved_revision:
  assumes "ResolveReadyLineage i d = Inr l"
  obtains v where "by_key rev_id i (analysis_revisions d) = Some v" "rev_status v = RevReady"
proof (cases "by_key rev_id i (analysis_revisions d)")
  case None
  with assms show thesis by (simp add: ResolveReadyLineage_def revision_GetByID_def)
next
  case (Some v)
  with assms have "rev_status v = RevReady"
    by (simp add: ResolveReadyLineage_def revision_GetByID_def split: if_split_asm)
  with Some show thesis by (rule that)
qed

text \<open>
  C31. In every database the program can reach, a revision that is \<open>READY\<close> resolves: the resolver
  finds its snapshot, code index build and retrieval build \<open>READY\<close>, linked to each other and to
  the revision, and returns exactly the identities in the revision's row. Until then, resolving
  the revision is an error.
\<close>

theorem ready_revision_resolves:
  assumes "reachable pipeline_init (pipeline_step F) d"
    and "by_key rev_id i (analysis_revisions d) = Some v"
  shows "ResolveReadyLineage i d = (if rev_status v = RevReady then Inr (lineage_of v) else Inl ErrRevisionNotReady)"
proof (cases "rev_status v = RevReady")
  case True
  then show ?thesis using ready_lineage_resolves[OF pipeline.reachable_inv[OF assms(1)] assms(2)] by simp
next
  case False
  then show ?thesis using assms(2) by (simp add: ResolveReadyLineage_def revision_GetByID_def)
qed

theorem ready_revision_resolves_witness:
  "ResolveReadyLineage ''rev'' demo_ready = Inr \<lparr>rl_repository_id = ''repo'', rl_revision_id = ''rev'',
     rl_commit_sha = demo_commit, rl_snapshot_id = ''snap'', rl_code_index_build_id = 1, rl_retrieval_build_id = 1,
     rl_pipeline_version = PipelineVersion, rl_pipeline_fingerprint = ''fingerprint''\<rparr>"
proof -
  have "lineage_of (demo_revision demo_ready) = \<lparr>rl_repository_id = ''repo'', rl_revision_id = ''rev'',
     rl_commit_sha = demo_commit, rl_snapshot_id = ''snap'', rl_code_index_build_id = 1, rl_retrieval_build_id = 1,
     rl_pipeline_version = PipelineVersion, rl_pipeline_fingerprint = ''fingerprint''\<rparr>" by code_simp
  then show ?thesis
    using ready_revision_resolves[OF demo_pipeline_reachable(6) demo_revision_rows(2)] by (simp add: demo_revision_rows)
qed

text \<open>The rows behind a resolved revision are frozen.\<close>

lemma owned_ready_row_frozen:
  "code_le b b' \<Longrightarrow> cib_status b = BuildStatusReady \<Longrightarrow> cib_analysis_revision_id b \<noteq> '''' \<Longrightarrow> b' = b"
  "retrieval_le r r' \<Longrightarrow> rb_status r = BuildStatusReady \<Longrightarrow> rb_analysis_revision_id r \<noteq> '''' \<Longrightarrow> r' = r"
  unfolding code_le_def retrieval_le_def by (metis self_update(1), metis self_update(2))

lemma frozen_artifacts:
  assumes inv: "lineage_inv d" and le: "artifacts_le d d'"
    and v: "by_key rev_id i (analysis_revisions d) = Some v" "rev_status v = RevReady"
  shows "by_key rev_id i (analysis_revisions d') = Some v"
    and "by_key snap_id (rev_snapshot_id v) (repository_snapshots d') = by_key snap_id (rev_snapshot_id v) (repository_snapshots d)"
    and "by_key cib_id (rev_code_index_build_id v) (code_index_builds d') =
      by_key cib_id (rev_code_index_build_id v) (code_index_builds d)"
    and "by_key rb_id (rev_retrieval_build_id v) (retrieval_builds d') =
      by_key rb_id (rev_retrieval_build_id v) (retrieval_builds d)"
proof -
  have vin: "v \<in> set (analysis_revisions d)" using by_key_Some_in[OF v(1)] by simp
  obtain v' where "revision_of d' i = Some v'" "revision_le v v'"
    using artifacts_leD(4)[OF le] v(1) by (auto simp: revision_of_def)
  then show "by_key rev_id i (analysis_revisions d') = Some v" using v(2) by (simp add: revision_of_def revision_le_def)
  obtain s b r where rows: "snap_of d (rev_snapshot_id v) = Some s" "snap_status s = SnapReady"
    "code_of d (rev_code_index_build_id v) = Some b" "cib_status b = BuildStatusReady" "cib_analysis_revision_id b = rev_id v"
    "retrieval_of d (rev_retrieval_build_id v) = Some r" "rb_status r = BuildStatusReady" "rb_analysis_revision_id r = rev_id v"
    and id: "rev_id v \<noteq> ''''"
    by (rule ready_rows[OF inv vin v(2)]) (auto simp: artifact_lookups named_revision_def)
  have "snap_of d' (rev_snapshot_id v) = Some s"
    using artifacts_leD(1)[OF le rows(1)] rows(2) by (auto simp: snap_le_def)
  moreover have "code_of d' (rev_code_index_build_id v) = Some b"
    using artifacts_leD(2)[OF le rows(3)] owned_ready_row_frozen(1)[of b] rows(4,5) id by auto
  moreover have "retrieval_of d' (rev_retrieval_build_id v) = Some r"
    using artifacts_leD(3)[OF le rows(6)] owned_ready_row_frozen(2)[of r] rows(7,8) id by auto
  ultimately show
    "by_key snap_id (rev_snapshot_id v) (repository_snapshots d') = by_key snap_id (rev_snapshot_id v) (repository_snapshots d)"
    "by_key cib_id (rev_code_index_build_id v) (code_index_builds d') =
      by_key cib_id (rev_code_index_build_id v) (code_index_builds d)"
    "by_key rb_id (rev_retrieval_build_id v) (retrieval_builds d') =
      by_key rb_id (rev_retrieval_build_id v) (retrieval_builds d)"
    using rows by (simp_all add: artifact_lookups)
qed

text \<open>
  C32. What a revision resolves to never changes. Once it resolves, then after any further steps
  of the program, whichever they are, it resolves to the same lineage, and the rows of its
  snapshot, code index build and retrieval build are the very same.
\<close>

theorem resolved_lineage_is_permanent:
  assumes "reachable pipeline_init (pipeline_step F) d" and "(pipeline_step F)\<^sup>*\<^sup>* d d'"
    and "ResolveReadyLineage i d = Inr l"
  shows "ResolveReadyLineage i d' = Inr l
    \<and> by_key snap_id (rl_snapshot_id l) (repository_snapshots d') = by_key snap_id (rl_snapshot_id l) (repository_snapshots d)
    \<and> by_key cib_id (rl_code_index_build_id l) (code_index_builds d') =
        by_key cib_id (rl_code_index_build_id l) (code_index_builds d)
    \<and> by_key rb_id (rl_retrieval_build_id l) (retrieval_builds d') =
        by_key rb_id (rl_retrieval_build_id l) (retrieval_builds d)"
proof -
  have inv: "lineage_inv d" using assms(1) by (rule pipeline.reachable_inv)
  have adv: "lineage_inv d'" "artifacts_le d d'" using pipeline_steps_advance[OF assms(2)] inv by (auto simp: advance_def)
  obtain v where v: "by_key rev_id i (analysis_revisions d) = Some v" "rev_status v = RevReady"
    using assms(3) by (rule resolved_revision)
  have l: "l = lineage_of v" using ready_lineage_resolves[OF inv v] assms(3) by simp
  note frozen = frozen_artifacts[OF inv adv(2) v]
  show ?thesis
    using ready_lineage_resolves[OF adv(1) frozen(1) v(2)] frozen(2-4) by (simp add: l lineage_of_def)
qed

theorem resolved_lineage_is_permanent_witness:
  "\<exists>l. ResolveReadyLineage ''rev'' (snd (UpdateStatus ''snap'' SnapMaterializing SnapFailed None demo_ready)) = Inr l
    \<and> rl_commit_sha l = demo_commit"
proof -
  let ?l = "lineage_of (demo_revision demo_ready)"
  have "(pipeline_step any_token)\<^sup>*\<^sup>* demo_ready (snd (UpdateStatus ''snap'' SnapMaterializing SnapFailed None demo_ready))"
    by (rule r_into_rtranclp, rule pipe_update_status)
  moreover have "ResolveReadyLineage ''rev'' demo_ready = Inr ?l" by code_simp
  ultimately have "ResolveReadyLineage ''rev'' (snd (UpdateStatus ''snap'' SnapMaterializing SnapFailed None demo_ready)) = Inr ?l"
    using resolved_lineage_is_permanent[OF demo_pipeline_reachable(6)] by blast
  moreover have "rl_commit_sha ?l = demo_commit" by code_simp
  ultimately show ?thesis by blast
qed

section \<open>Stages\<close>

text \<open>What a stage transaction may do, given what it promises when it commits.\<close>

definition holds_claim :: "db \<Rightarrow> job_ownership \<Rightarrow> bool" where
  "holds_claim d own \<longleftrightarrow> list_ex (owned_started (own_job_id own) (own_worker_id own) (own_claim_token own)) (analysis_jobs d)"

definition job_succeeded :: "db \<Rightarrow> job_ownership \<Rightarrow> bool" where
  "job_succeeded d own \<longleftrightarrow> list_ex (\<lambda>r. job_id r = own_job_id own \<and> job_status r = StatusSucceeded
     \<and> job_worker_id r = Some (own_worker_id own) \<and> job_claim_token r = Some (own_claim_token own)) (analysis_jobs d)"

definition has_job :: "db \<Rightarrow> job_type \<Rightarrow> string \<Rightarrow> bool" where
  "has_job d ty res \<longleftrightarrow> list_ex (\<lambda>r. job_type r = ty \<and> job_resource_id r = res) (analysis_jobs d)"

definition all_or_nothing :: "job_ownership \<Rightarrow> db \<Rightarrow> (go_error + unit) \<times> db \<Rightarrow> (db \<Rightarrow> bool) \<Rightarrow> bool" where
  "all_or_nothing own d out done \<longleftrightarrow> (case out of
     (Inl e, d') \<Rightarrow> d' = d
   | (Inr _, d') \<Rightarrow> holds_claim d own \<and> job_succeeded d' own \<and> done d')"

definition snapshot_handed_over :: "snapshot_stage_result \<Rightarrow> db \<Rightarrow> db \<Rightarrow> bool" where
  "snapshot_handed_over r d d' \<longleftrightarrow> (\<exists>s v b. snap_of d (ssr_snapshot_id r) = Some s
    \<and> snap_of d' (ssr_snapshot_id r) = Some (publish_row (ssr_materialization r) s)
    \<and> revision_of d' (ssr_revision_id r) = Some v \<and> rev_status v = RevPreparing \<and> rev_stage v = StageBuildingCode
    \<and> code_of d' (rev_code_index_build_id v) = Some b \<and> cib_snapshot_id b = ssr_snapshot_id r
    \<and> cib_analysis_revision_id b = ssr_revision_id r
    \<and> has_job d' JobTypeBuildCodeIndex (itoa (rev_code_index_build_id v)))"

definition code_handed_over :: "code_index_stage_result \<Rightarrow> db \<Rightarrow> bool" where
  "code_handed_over r d' \<longleftrightarrow> (\<exists>b v c. code_of d' (csr_code_index_build_id r) = Some b \<and> cib_status b = BuildStatusReady
    \<and> cib_symbol_count b = int (length (ar_symbols (csr_analysis_result r)))
    \<and> revision_of d' (csr_revision_id r) = Some v \<and> rev_status v = RevPreparing \<and> rev_stage v = StageBuildingSearch
    \<and> rev_code_index_build_id v = csr_code_index_build_id r
    \<and> retrieval_of d' (rev_retrieval_build_id v) = Some c \<and> rb_code_index_build_id c = csr_code_index_build_id r
    \<and> rb_analysis_revision_id c = csr_revision_id r
    \<and> has_job d' JobTypeBuildRetrieval (itoa (rev_retrieval_build_id v)))"

definition retrieval_completed :: "retrieval_stage_result \<Rightarrow> db \<Rightarrow> bool" where
  "retrieval_completed r d' \<longleftrightarrow> (\<exists>l. ResolveReadyLineage (rsr_revision_id r) d' = Inr l
    \<and> rl_retrieval_build_id l = rsr_retrieval_build_id r)"

lemma all_or_nothing_tx:
  assumes "\<And>d'. f d = Inr d' \<Longrightarrow> holds_claim d own \<and> job_succeeded d' own \<and> done d'"
  shows "all_or_nothing own d (unit_tx f d) done"
  using assms by (cases "f d") (simp_all add: all_or_nothing_def unit_tx_def run_tx_def)

lemma requireOwnedJob_claim:
  "requireOwnedJob (own_job_id own) (own_worker_id own) (own_claim_token own) d = Inr job \<Longrightarrow> holds_claim d own"
  by (auto simp: requireOwnedJob_def holds_claim_def list_ex_iff find_Some_iff split: option.split_asm)

lemma list_ex_sql_set: "list_ex Q (sql_set P f t) \<longleftrightarrow> list_ex (\<lambda>r. Q (if P r then f r else r)) t"
  by (induction t) (simp_all add: sql_set_def)

lemma finalizeOwnedJob_succeeded:
  assumes "finalizeOwnedJob now (own_job_id own) (own_worker_id own) (own_claim_token own) d = Inr d'"
  shows "job_succeeded d' own"
proof -
  let ?P = "owned_started (own_job_id own) (own_worker_id own) (own_claim_token own)"
  have "sql_count ?P (analysis_jobs d) \<noteq> 0"
    and d': "d' = set_jobs ?P (\<lambda>r. r\<lparr>job_status := StatusSucceeded, job_finished_at := Some now, job_updated_at := now\<rparr>) d"
    using assms by (auto simp: finalizeOwnedJob_def Let_def split: if_split_asm)
  then obtain r where r: "r \<in> set (analysis_jobs d)" "?P r" by (auto simp: sql_count_0_iff)
  then show ?thesis
    unfolding job_succeeded_def d' tables_set_jobs list_ex_sql_set unfolding list_ex_iff
    by (intro bexI[of _ r]) (auto simp: owned_started_def claimed_by_def)
qed

lemma finalizeOwnedJob_has_job:
  "finalizeOwnedJob now i w t d = Inr d' \<Longrightarrow> has_job d ty res \<Longrightarrow> has_job d' ty res"
  by (auto simp: finalizeOwnedJob_def Let_def has_job_def set_jobs_def list_ex_sql_set if_distrib[of job_type]
      if_distrib[of job_resource_id] split: if_split_asm cong: if_cong)

lemma handoff_job_has_job: "handoff_job ty res g now d = Inr d' \<Longrightarrow> has_job d' ty res"
  by (auto simp: handoff_job_def has_job_def list_ex_iff createJobGorm_def pending_job_def find_Some_iff
      split: option.split_asm if_split_asm)

lemma has_job_set_revisions [simp]: "has_job (set_revisions P f d) ty res = has_job d ty res"
  by (simp add: has_job_def)

lemma revision_of_set:
  assumes "sql_count P (analysis_revisions d) \<noteq> 0" and "\<And>v. P v \<Longrightarrow> rev_id v = i" and "lineage_inv d"
    and "\<And>v. P v \<Longrightarrow> rev_id (f v) = rev_id v"
  obtains v where "v \<in> set (analysis_revisions d)" "P v" "revision_of (set_revisions P f d) i = Some (f v)"
proof -
  obtain v where v: "v \<in> set (analysis_revisions d)" "P v" using assms(1) by (auto simp: sql_count_0_iff)
  then have "by_key rev_id i (analysis_revisions d) = Some v"
    using unique_rows(1)[OF assms(3) v(1)] assms(2)[OF v(2)] by simp
  then have "revision_of (set_revisions P f d) i = Some (f v)"
    using v(2) by (simp add: revision_of_def by_key_sql_set[where P = P and f = f and k = rev_id, OF assms(4)])
  with v show thesis by (rule that)
qed

lemma published_row:
  assumes pub: "publish_snapshots P m e d = Inr d'" and inv: "lineage_inv d" and P: "\<And>s. P s \<Longrightarrow> snap_id s = i"
  shows "\<exists>s. snap_of d i = Some s \<and> P s \<and> snap_of d' i = Some (publish_row m s)"
proof -
  have d': "d' = set_snapshots P (publish_row m) d" and one: "sql_count P (repository_snapshots d) = 1"
    using pub by (auto simp: publish_snapshots_def split: if_splits)
  from one obtain s where s: "s \<in> set (repository_snapshots d)" "P s"
    using sql_count_0_iff[of P "repository_snapshots d"] by auto
  then have "snap_of d i = Some s" using unique_rows(2)[OF inv s(1)] P[OF s(2)] by (simp add: snap_of_def)
  moreover from this have "snap_of d' i = Some (publish_row m s)"
    using s(2) unfolding snap_of_def d' pipeline_tables by (subst by_key_sql_set) (auto simp: publish_row_def)
  ultimately show ?thesis using s(2) by blast
qed

lemma snapshot_stage:
  assumes inv: "lineage_inv d" and keep: "keeps_commit (ssr_snapshot_id r) (ssr_materialization r) d"
  shows "all_or_nothing (ssr_ownership r) d (FinalizeSnapshot sha r d) (snapshot_handed_over r d)"
proof (cases "materialization_incomplete (ssr_materialization r)")
  case True
  then show ?thesis
    by (simp add: FinalizeSnapshot_def FinalizeSnapshotSuccessWithRevision_def all_or_nothing_def)
next
  case False
  let ?own = "ssr_ownership r" and ?sid = "ssr_snapshot_id r" and ?rid = "ssr_revision_id r" and ?m = "ssr_materialization r"
  let ?P = "\<lambda>v. rev_id v = ?rid \<and> rev_status v = RevPreparing \<and> rev_snapshot_id v = ?sid"
  let ?f = "\<lambda>c v. v\<lparr>rev_stage := StageBuildingCode, rev_code_index_build_id := c,
    rev_version := rev_version v + 1, rev_updated_at := mat_ready_at ?m\<rparr>"
  let ?Q = "\<lambda>s. snap_id s = ?sid \<and> snap_status s = SnapMaterializing \<and> snap_analysis_revision_id s = ?rid"
  have "all_or_nothing ?own d (unit_tx (FinalizeSnapshotSuccessWithRevisionTx sha (own_job_id ?own) (own_worker_id ?own)
      (own_claim_token ?own) ?sid ?rid (ssr_module_path r) ?m) d) (snapshot_handed_over r d)"
  proof (rule all_or_nothing_tx)
    fix d' assume "FinalizeSnapshotSuccessWithRevisionTx sha (own_job_id ?own) (own_worker_id ?own) (own_claim_token ?own)
      ?sid ?rid (ssr_module_path r) ?m d = Inr d'"
    then obtain job d1 c d2 d3 where own: "requireOwnedJob (own_job_id ?own) (own_worker_id ?own) (own_claim_token ?own) d = Inr job"
      and pub: "publish_snapshots ?Q ?m (materialization_conflict ?sid) d = Inr d1"
      and nxt: "next_code_build sha ?rid ?sid (ssr_module_path r) (mat_ready_at ?m) d1 = Inr (c, d2)"
      and hand: "handoff_job JobTypeBuildCodeIndex (itoa c) (job_execution_generation job) (mat_ready_at ?m) d2 = Inr d3"
      and one: "sql_count ?P (analysis_revisions d3) = 1"
      and fin: "finalizeOwnedJob (mat_ready_at ?m) (own_job_id ?own) (own_worker_id ?own) (own_claim_token ?own)
        (set_revisions ?P (?f c) d3) = Inr d'"
      by (auto simp: FinalizeSnapshotSuccessWithRevisionTx_def bindE_eq_Inr Let_def split: if_splits)
    note P1 = publish_snapshots_advance[OF pub inv, where i = ?sid]
    have d1: "lineage_inv d1 \<and> artifacts_le d d1" "snapshot_owned d1 ?sid ?rid"
      using keep by (auto intro!: P1 simp: keeps_commit_def)
    note d2 = next_code_build_advance[OF conjunct1[OF d1(1)] d1(2) nxt]
    have s3: "same_artifacts d2 d3" using hand by (rule handoff_job_same)
    have inv3: "lineage_inv d3" "artifacts_le d1 d3"
      using d2(1) same_artifacts_advance[OF s3] unfolding advance_def by (blast intro: artifacts_le_trans)+
    obtain v where v: "?P v" "revision_of (set_revisions ?P (?f c) d3) ?rid =
        Some (?f c v)"
      by (rule revision_of_set[OF _ _ inv3(1), where P = ?P and i = ?rid and f = "?f c"]) (use one in auto)
    have same: "same_artifacts (set_revisions ?P (?f c) d3) d'"
      using fin by (rule finalizeOwnedJob_same)
    note look = same_artifacts_lookups[OF same, unfolded lookups_other_writes]
    have "has_job d' JobTypeBuildCodeIndex (itoa c)"
      using finalizeOwnedJob_has_job[OF fin] handoff_job_has_job[OF hand] by simp
    moreover obtain s where s: "snap_of d ?sid = Some s" "snap_of d1 ?sid = Some (publish_row ?m s)"
      using published_row[OF pub inv, of ?sid] by auto
    moreover have "snap_of d' ?sid = Some (publish_row ?m s)"
      using artifacts_leD(1)[OF inv3(2) s(2)] look(1) by (auto simp: snap_le_def publish_row_def)
    moreover obtain b where "code_of d' c = Some b" "cib_snapshot_id b = ?sid" "cib_analysis_revision_id b = ?rid"
      using d2(3) same_artifacts_lookups(2)[OF s3] look(2) by auto
    ultimately have "snapshot_handed_over r d d'"
      unfolding snapshot_handed_over_def look(4) using v by fastforce
    then show "holds_claim d ?own \<and> job_succeeded d' ?own \<and> snapshot_handed_over r d d'"
      using requireOwnedJob_claim[OF own] finalizeOwnedJob_succeeded[OF fin] by simp
  qed
  then show ?thesis
    using False by (simp add: FinalizeSnapshot_def FinalizeSnapshotSuccessWithRevision_def)
qed

lemma code_stage:
  assumes inv: "lineage_inv d"
  shows "all_or_nothing (csr_ownership r) d (FinalizeCodeIndex sha marshal now r d) (code_handed_over r)"
  unfolding FinalizeCodeIndex_def FinalizeCodeIndexSuccessWithRevision_def
proof (rule all_or_nothing_tx)
  let ?own = "csr_ownership r" and ?bid = "csr_code_index_build_id r" and ?rid = "csr_revision_id r"
  let ?res = "csr_analysis_result r"
  let ?P = "\<lambda>v. rev_id v = ?rid \<and> rev_status v = RevPreparing \<and> rev_code_index_build_id v = ?bid"
  let ?f = "\<lambda>c v. v\<lparr>rev_stage := StageBuildingSearch, rev_retrieval_build_id := c,
    rev_version := rev_version v + 1, rev_updated_at := now\<rparr>"
  fix d' assume "FinalizeCodeIndexSuccessWithRevisionTx sha marshal now (own_job_id ?own) (own_worker_id ?own)
    (own_claim_token ?own) ?bid ?rid ?res d = Inr d'"
  then obtain job u b d1 c d2 d3
    where own: "requireOwnedJob (own_job_id ?own) (own_worker_id ?own) (own_claim_token ?own) d = Inr job"
    and "find ?P (analysis_revisions d) = Some u" and b: "by_key cib_id ?bid (code_index_builds d) = Some b" "cib_status b = BuildStatusBuilding"
      "cib_analysis_revision_id b = ?rid"
    and save: "saveAnalysisResultTx sha marshal now ?bid ?res d = Inr d1"
    and nxt: "next_retrieval_build sha now ?bid ?rid (rev_retrieval_build_id u) d1 = Inr (c, d2)"
    and hand: "handoff_job JobTypeBuildRetrieval (itoa c) (rev_execution_generation u) now d2 = Inr d3"
    and one: "sql_count ?P (analysis_revisions d3) = 1"
    and fin: "finalizeOwnedJob now (own_job_id ?own) (own_worker_id ?own) (own_claim_token ?own)
      (set_revisions ?P (?f c) d3) = Inr d'"
    by (auto simp: FinalizeCodeIndexSuccessWithRevisionTx_def bindE_eq_Inr Let_def split: option.splits if_split_asm)
  have d1: "lineage_inv d1" using advanceD(1)[OF saveAnalysisResultTx_advance[OF save] inv] .
  note s1 = saveAnalysisResultTx_ready[OF save b(1,2)[folded code_of_def]]
  have "code_owned d1 ?bid ?rid" using s1(1) b(3) by (simp add: code_owned_def)
  note d2 = next_retrieval_build_advance[OF d1 nxt this]
  have s3: "same_artifacts d2 d3" using hand by (rule handoff_job_same)
  have inv3: "lineage_inv d3" using d2(1) same_artifacts_advance[OF s3] unfolding advance_def by blast
  obtain v where v: "?P v" "revision_of (set_revisions ?P (?f c) d3) ?rid = Some (?f c v)"
    by (rule revision_of_set[OF _ _ inv3, where P = ?P and i = ?rid and f = "?f c"]) (use one in auto)
  have same: "same_artifacts (set_revisions ?P (?f c) d3) d'" using fin by (rule finalizeOwnedJob_same)
  note look = same_artifacts_lookups[OF same, unfolded lookups_other_writes]
  have "has_job d' JobTypeBuildRetrieval (itoa c)"
    using finalizeOwnedJob_has_job[OF fin] handoff_job_has_job[OF hand] by simp
  moreover have "code_of d' ?bid = Some (ready_code_build sha marshal now ?res b)"
    using s1(1) d2(5) same_artifacts_lookups(2)[OF s3] look(2) by simp
  moreover have "cib_symbol_count (ready_code_build sha marshal now ?res b) = int (length (ar_symbols ?res))"
    by (simp add: ready_code_build_def Let_def)
  moreover obtain q where "retrieval_of d' c = Some q" "rb_code_index_build_id q = ?bid" "rb_analysis_revision_id q = ?rid"
    using d2(3) same_artifacts_lookups(3)[OF s3] look(3) by auto
  ultimately have "code_handed_over r d'"
    unfolding code_handed_over_def look(4) using v by fastforce
  then show "holds_claim d ?own \<and> job_succeeded d' ?own \<and> code_handed_over r d'"
    using requireOwnedJob_claim[OF own] finalizeOwnedJob_succeeded[OF fin] by simp
qed

lemma retrieval_stage:
  assumes inv: "lineage_inv d"
  shows "all_or_nothing (rsr_ownership r) d (FinalizeRetrieval now r d) (retrieval_completed r)"
proof (cases "artifact_incomplete (rsr_artifact r)")
  case True
  then show ?thesis
    by (simp add: FinalizeRetrieval_def FinalizeRetrievalSuccessWithRevision_def all_or_nothing_def)
next
  case False
  let ?own = "rsr_ownership r" and ?bid = "rsr_retrieval_build_id r" and ?rid = "rsr_revision_id r"
  let ?P = "\<lambda>v. rev_id v = ?rid \<and> rev_status v = RevPreparing \<and> rev_retrieval_build_id v = ?bid"
  let ?f = "\<lambda>v. v\<lparr>rev_status := RevReady, rev_stage := StageReady, rev_ready_at := Some now,
    rev_version := rev_version v + 1, rev_updated_at := now\<rparr>"
  let ?tx = "FinalizeRetrievalSuccessWithRevisionTx now (own_job_id ?own) (own_worker_id ?own)
    (own_claim_token ?own) ?bid ?rid (rsr_artifact r)"
  have "all_or_nothing ?own d (unit_tx ?tx d) (retrieval_completed r)"
  proof (rule all_or_nothing_tx)
    fix d' assume tx: "?tx d = Inr d'"
    then obtain job d1 where own: "requireOwnedJob (own_job_id ?own) (own_worker_id ?own) (own_claim_token ?own) d = Inr job"
      and pub: "publish_retrieval_build now ?bid (rsr_artifact r) d = Inr d1"
      and one: "sql_count ?P (analysis_revisions d1) = 1"
      and fin: "finalizeOwnedJob now (own_job_id ?own) (own_worker_id ?own) (own_claim_token ?own) (set_revisions ?P ?f d1) = Inr d'"
      by (auto simp: FinalizeRetrievalSuccessWithRevisionTx_def bindE_eq_Inr Let_def split: option.splits if_split_asm)
    have d1: "lineage_inv d1" using advanceD(1)[OF publish_retrieval_build_advance(1)[OF pub] inv] .
    have "advance d (snd (FinalizeRetrievalSuccessWithRevision now (own_job_id ?own) (own_worker_id ?own)
        (own_claim_token ?own) ?bid ?rid (rsr_artifact r) d))" by (rule FinalizeRetrievalSuccessWithRevision_advance)
    then have inv': "lineage_inv d'"
      using inv False tx by (simp add: FinalizeRetrievalSuccessWithRevision_def unit_tx_def run_tx_def advance_def)
    obtain v where v: "?P v" "revision_of (set_revisions ?P ?f d1) ?rid = Some (?f v)"
      by (rule revision_of_set[OF _ _ d1, where P = ?P and i = ?rid and f = ?f]) (use one in auto)
    then have "by_key rev_id ?rid (analysis_revisions d') = Some (?f v)"
      using same_artifacts_lookups(4)[OF finalizeOwnedJob_same[OF fin]] by (simp add: revision_of_def fun_eq_iff)
    then have "ResolveReadyLineage ?rid d' = Inr (lineage_of (?f v))" by (rule ready_lineage_resolves[OF inv']) simp
    moreover have "rl_retrieval_build_id (lineage_of (?f v)) = ?bid" using v(1) by (simp add: lineage_of_def)
    ultimately have "retrieval_completed r d'" unfolding retrieval_completed_def by blast
    then show "holds_claim d ?own \<and> job_succeeded d' ?own \<and> retrieval_completed r d'"
      using requireOwnedJob_claim[OF own] finalizeOwnedJob_succeeded[OF fin] by simp
  qed
  then show ?thesis
    using False by (simp add: FinalizeRetrieval_def FinalizeRetrievalSuccessWithRevision_def)
qed

text \<open>
  C33. Each stage of the pipeline commits everything or nothing, and only for the worker that
  holds a started, uncancelled claim on its job. A committed snapshot stage has published the
  snapshot and moved the revision to a code index build of its own, which has a job; a
  committed code index stage has made that build \<open>READY\<close> and moved the revision to a retrieval
  build of its own, which has a job; a committed retrieval stage leaves a revision that
  resolves. In each case the claimed job has succeeded. On any error the database is unchanged.
\<close>

theorem stages_commit_all_or_nothing:
  assumes "reachable pipeline_init (pipeline_step F) d"
    and "keeps_commit (ssr_snapshot_id s) (ssr_materialization s) d"
  shows "all_or_nothing (ssr_ownership s) d (FinalizeSnapshot sha s d) (snapshot_handed_over s d)
    \<and> all_or_nothing (csr_ownership c) d (FinalizeCodeIndex sha marshal now c d) (code_handed_over c)
    \<and> all_or_nothing (rsr_ownership r) d (FinalizeRetrieval now r d) (retrieval_completed r)"
  using pipeline.reachable_inv[OF assms(1)] assms(2) by (simp add: snapshot_stage code_stage retrieval_stage)

theorem stages_commit_all_or_nothing_witness:
  "snapshot_handed_over demo_snapshot_result demo_materializing demo_materialized
    \<and> job_succeeded demo_materialized (demo_ownership 1)"
proof -
  have "all_or_nothing (ssr_ownership demo_snapshot_result) demo_materializing
      (FinalizeSnapshot id demo_snapshot_result demo_materializing)
      (snapshot_handed_over demo_snapshot_result demo_materializing)"
    using stages_commit_all_or_nothing[OF demo_pipeline_reachable(3), of demo_snapshot_result] demo_keeps_commit
    by (simp add: demo_snapshot_result_def)
  moreover have "FinalizeSnapshot id demo_snapshot_result demo_materializing = (Inr (), demo_materialized)"
    using demo_results(1) by (simp add: demo_materialized_def prod_eq_iff)
  ultimately show ?thesis by (simp add: all_or_nothing_def demo_snapshot_result_def)
qed

section \<open>Retry\<close>

definition first_unfinished :: "db \<Rightarrow> analysis_revision \<Rightarrow> revision_stage" where
  "first_unfinished d v =
    (if map_option snap_status (snap_of d (rev_snapshot_id v)) \<noteq> Some SnapReady then StageMaterializing
     else if map_option cib_status (code_of d (rev_code_index_build_id v)) \<noteq> Some BuildStatusReady then StageBuildingCode
     else if map_option rb_status (retrieval_of d (rev_retrieval_build_id v)) \<noteq> Some BuildStatusReady then StageBuildingSearch
     else StageReady)"

text \<open>The job that works on the stage a revision is in.\<close>

definition stage_job :: "analysis_revision \<Rightarrow> job_type \<times> string" where
  "stage_job v =
    (if rev_stage v = StageMaterializing then (JobTypeMaterializeSnapshot, rev_snapshot_id v)
     else if rev_stage v = StageBuildingCode then (JobTypeBuildCodeIndex, itoa (rev_code_index_build_id v))
     else (JobTypeBuildRetrieval, itoa (rev_retrieval_build_id v)))"

definition pending_for :: "db \<Rightarrow> job_type \<times> string \<Rightarrow> int \<Rightarrow> bool" where
  "pending_for d key g \<longleftrightarrow> list_ex (\<lambda>r. (job_type r, job_resource_id r) = key \<and> job_status r = StatusPending
     \<and> job_execution_generation r = g \<and> \<not> job_cancel_requested r \<and> job_attempt_count r = 0) (analysis_jobs d)"

definition resumed_at :: "revision_stage \<Rightarrow> analysis_revision \<Rightarrow> db \<Rightarrow> bool" where
  "resumed_at st v d' \<longleftrightarrow> (\<exists>w. revision_of d' (rev_id v) = Some w \<and> rev_stage w = st
    \<and> rev_execution_generation w = rev_execution_generation v \<and> rev_snapshot_id w = rev_snapshot_id v
    \<and> rev_status w = (if st = StageReady then RevReady else RevPreparing)
    \<and> (st \<noteq> StageReady \<longrightarrow> pending_for d' (stage_job w) (rev_execution_generation w)))"

definition resumes :: "revision_stage \<Rightarrow> analysis_revision \<Rightarrow> go_error + analysis_revision \<times> db \<Rightarrow> bool" where
  "resumes st v r \<longleftrightarrow> (\<exists>x d'. r = Inr (x, d') \<and> resumed_at st v d')"

lemma resetJobTx_pending:
  assumes "0 < g"
  obtains d' where "resetJobTx ty res g now d = Inr d'" and "pending_for d' (ty, res) g"
    and "revision_of d' = revision_of d"
proof (cases "sql_count (\<lambda>r. job_type r = ty \<and> job_resource_id r = res) (analysis_jobs d) = 0")
  case True
  then have none: "\<not> list_ex (\<lambda>r. job_type r = ty \<and> job_resource_id r = res) (analysis_jobs d)"
    by (simp add: sql_count_0_iff list_ex_iff)
  obtain d' where d': "createJobGorm now (pending_job ty res g now) d = Inr d'"
    using none by (simp add: createJobGorm_def pending_job_def)
  have "pending_for d' (ty, res) g" "revision_of d' = revision_of d"
    using d' none assms by (auto simp: createJobGorm_def pending_job_def pending_for_def revision_of_def fun_eq_iff)
  then show thesis using True d' that by (simp add: resetJobTx_def)
next
  case False
  let ?d = "set_jobs (\<lambda>r. job_type r = ty \<and> job_resource_id r = res) (reset_pipeline_job g now) d"
  obtain r where "r \<in> set (analysis_jobs d)" "job_type r = ty" "job_resource_id r = res"
    using False by (auto simp: sql_count_0_iff)
  then have "pending_for ?d (ty, res) g"
    unfolding pending_for_def tables_set_jobs list_ex_sql_set unfolding list_ex_iff
    by (intro bexI[of _ r]) (simp_all add: reset_pipeline_job_def)
  with False show thesis using that[of ?d] by (simp add: resetJobTx_def)
qed

lemma resumes_resetJob:
  assumes "0 < rev_execution_generation v" and "revision_of e (rev_id v) = Some w"
    and "rev_stage w = st" "rev_execution_generation w = rev_execution_generation v" "rev_snapshot_id w = rev_snapshot_id v"
      "rev_status w = RevPreparing" "st \<noteq> StageReady" "stage_job w = (ty, res)"
  shows "resumes st v (bindE (resetJobTx ty res (rev_execution_generation v) now e) (\<lambda>e'. Inr (x, e')))"
proof -
  obtain d' where "resetJobTx ty res (rev_execution_generation v) now e = Inr d'"
    "pending_for d' (ty, res) (rev_execution_generation v)" "revision_of d' = revision_of e"
    using assms(1) by (rule resetJobTx_pending)
  then show ?thesis using assms by (auto simp: resumes_def resumed_at_def)
qed

lemma revision_of_set_revision:
  "revision_of e (rev_id v) = Some v \<Longrightarrow> (\<And>r. rev_id (f r) = rev_id r) \<Longrightarrow>
    revision_of (set_revision (rev_id v) f e) (rev_id v) = Some (f v)"
  by (simp add: revision_of_def set_revision_def by_key_sql_set)

lemma revision_of_resets [simp]:
  "revision_of (resetCodeBuildTx i d) = revision_of d" "revision_of (resetRetrievalBuildTx j d) = revision_of d"
  by (simp_all add: resetCodeBuildTx_def resetRetrievalBuildTx_def)

lemma ensureCodeIndexBuildTx_succeeds:
  assumes inv: "lineage_inv d" and own: "snapshot_owned d sid rid"
  obtains b e where "ensureCodeIndexBuildTx sha rid sid mp now d = Inr (b, e)"
proof (cases "getBuildByIdentity sid (BuildContextHash sha DefaultBuildContext) d")
  case (Inl err)
  then have "\<not> list_ex (\<lambda>r. code_build_identity r = code_build_identity (new_code_build sha rid sid mp DefaultBuildContext '''' now))
      (code_index_builds d)"
    by (auto simp: getBuildByIdentity_def list_ex_iff find_None_iff code_build_identity_def new_code_build_def
        split: option.split_asm)
  then show thesis using Inl that by (simp add: ensureCodeIndexBuildTx_def insert_code_build_def Let_def)
next
  case (Inr b)
  then have b: "b \<in> set (code_index_builds d)" "cib_snapshot_id b = sid"
    by (auto simp: getBuildByIdentity_def code_build_identity_def find_Some_iff split: option.split_asm)
  have "code_build_ok d b" using inv b(1) by (simp add: lineage_inv_def builds_ok_def)
  then have "cib_analysis_revision_id b = '''' \<or> cib_analysis_revision_id b = rid"
    using own b(2) by (auto simp: code_build_ok_def snapshot_owned_def)
  then show thesis
    using Inr that by (cases "cib_analysis_revision_id b = ''''") (auto simp: ensureCodeIndexBuildTx_def)
qed

lemma ensureRetrievalBuildTx_succeeds:
  assumes inv: "lineage_inv d" and own: "code_owned d bid rid"
  obtains b e where "ensureRetrievalBuildTx sha rid bid now d = Inr (b, e)"
proof (cases "getRetrievalBuildByIdentity sha bid ProductionRetrievalStrategy d")
  case None
  then have "\<not> list_ex (\<lambda>r. retrieval_build_identity r =
      retrieval_build_identity (new_retrieval_build sha rid bid ProductionRetrievalStrategy now)) (retrieval_builds d)"
    by (auto simp: getRetrievalBuildByIdentity_def list_ex_iff find_None_iff retrieval_build_identity_def new_retrieval_build_def)
  then show thesis using None that by (simp add: ensureRetrievalBuildTx_def insert_retrieval_build_def Let_def)
next
  case (Some b)
  then have b: "b \<in> set (retrieval_builds d)" "rb_code_index_build_id b = bid"
    by (auto simp: getRetrievalBuildByIdentity_def retrieval_build_identity_def find_Some_iff)
  have "retrieval_build_ok d b" using inv b(1) by (simp add: lineage_inv_def builds_ok_def)
  then have "rb_analysis_revision_id b = '''' \<or> rb_analysis_revision_id b = rid"
    using own b(2) by (auto simp: retrieval_build_ok_def code_owned_def)
  then show thesis
    using Some that by (cases "rb_analysis_revision_id b = ''''") (auto simp: ensureRetrievalBuildTx_def)
qed

text \<open>Each branch of the resumption succeeds.\<close>

lemma retry_branches_resume:
  assumes inv: "lineage_inv d" and v: "revision_of d (rev_id v) = Some v" "rev_status v = RevPreparing"
    and gen: "0 < rev_execution_generation v" and st: "rev_stage v = StageMaterializing"
  shows "snap_id s = rev_snapshot_id v \<Longrightarrow> resumes StageMaterializing v (retry_materialization now v s d)"
    and "snapshot_owned d (snap_id s) (rev_id v) \<Longrightarrow> resumes StageBuildingCode v (retry_new_code_index sha now v s d)"
    and "cib_id b = rev_code_index_build_id v \<Longrightarrow> resumes StageBuildingCode v (retry_code_index now v b d)"
    and "code_owned d (cib_id b) (rev_id v) \<Longrightarrow> resumes StageBuildingSearch v (retry_new_retrieval sha now v b d)"
    and "rb_id r = rev_retrieval_build_id v \<Longrightarrow> resumes StageBuildingSearch v (retry_retrieval now v r d)"
    and "resumes StageReady v (retry_complete now v d)"
proof -
  show "snap_id s = rev_snapshot_id v \<Longrightarrow> resumes StageMaterializing v (retry_materialization now v s d)"
    unfolding retry_materialization_def Let_def
    by (rule resumes_resetJob[OF gen, of _ v]) (use v st in \<open>simp_all add: stage_job_def\<close>)
  show "resumes StageBuildingCode v (retry_new_code_index sha now v s d)" if own: "snapshot_owned d (snap_id s) (rev_id v)"
  proof -
    obtain b e where e: "ensureCodeIndexBuildTx sha (rev_id v) (snap_id s) (repositoryModulePathTx (rev_repository_id v) d) now d = Inr (b, e)"
      by (rule ensureCodeIndexBuildTx_succeeds[OF inv own])
    have "revision_of e (rev_id v) = Some v"
      using ensureCodeIndexBuildTx_advance[OF inv own e] v(1) by (simp add: revision_of_def)
    note w = revision_of_set_revision[OF this, of "\<lambda>r. r\<lparr>rev_stage := StageBuildingCode, rev_code_index_build_id := cib_id b,
        rev_updated_at := now\<rparr>"]
    show ?thesis
      unfolding retry_new_code_index_def e
      by (simp add: Let_def, rule resumes_resetJob[OF gen w]) (use v in \<open>simp_all add: stage_job_def\<close>)
  qed
  have stage: "revision_of (set_revision (rev_id v) (\<lambda>r. r\<lparr>rev_stage := z, rev_updated_at := now\<rparr>) e) (rev_id v) =
      Some (v\<lparr>rev_stage := z, rev_updated_at := now\<rparr>)" if "revision_of e = revision_of d" for z e
    by (rule revision_of_set_revision) (simp_all add: that v)
  show "cib_id b = rev_code_index_build_id v \<Longrightarrow> resumes StageBuildingCode v (retry_code_index now v b d)"
    unfolding retry_code_index_def Let_def
    by (rule resumes_resetJob[OF gen stage]) (use v in \<open>simp_all add: stage_job_def\<close>)
  show "rb_id r = rev_retrieval_build_id v \<Longrightarrow> resumes StageBuildingSearch v (retry_retrieval now v r d)"
    unfolding retry_retrieval_def Let_def
    by (rule resumes_resetJob[OF gen stage]) (use v in \<open>simp_all add: stage_job_def\<close>)
  show "resumes StageBuildingSearch v (retry_new_retrieval sha now v b d)" if own: "code_owned d (cib_id b) (rev_id v)"
  proof -
    obtain q e where e: "ensureRetrievalBuildTx sha (rev_id v) (cib_id b) now d = Inr (q, e)"
      by (rule ensureRetrievalBuildTx_succeeds[OF inv own])
    have "revision_of e (rev_id v) = Some v"
      using ensureRetrievalBuildTx_advance[OF inv e own] v(1) by (simp add: revision_of_def)
    note w = revision_of_set_revision[OF this, of "\<lambda>r. r\<lparr>rev_stage := StageBuildingSearch, rev_retrieval_build_id := rb_id q,
        rev_updated_at := now\<rparr>"]
    show ?thesis
      unfolding retry_new_retrieval_def e
      by (simp add: Let_def, rule resumes_resetJob[OF gen w]) (use v in \<open>simp_all add: stage_job_def\<close>)
  qed
  show "resumes StageReady v (retry_complete now v d)"
    using revision_of_set_revision[OF v(1), of "\<lambda>r. r\<lparr>rev_status := RevReady, rev_stage := StageReady,
        rev_ready_at := Some now, rev_updated_at := now\<rparr>"]
    by (simp add: retry_complete_def resumes_def resumed_at_def)
qed

lemma resume_stage_resumes:
  assumes inv: "lineage_inv d" and v: "revision_of d (rev_id v) = Some v" "rev_status v = RevPreparing"
    and gen: "0 < rev_execution_generation v" and st: "rev_stage v = StageMaterializing"
  shows "resumes (first_unfinished d v) v (resume_stage sha now v d)"
proof -
  note branch = retry_branches_resume[OF assms]
  have ok: "revision_ok d v"
    using revision_row[OF inv] by_key_Some_in[OF v(1)[unfolded revision_of_def]] by blast
  obtain s where s: "by_key snap_id (rev_snapshot_id v) (repository_snapshots d) = Some s"
    "snap_analysis_revision_id s = rev_id v" "snap_repository_id s = rev_repository_id v" "snap_commit_sha s = rev_commit_sha v"
    using ok by (auto simp: revision_ok_def snapshot_linked_def snap_of_def)
  have sid: "snap_id s = rev_snapshot_id v" using by_key_Some_in[OF s(1)] by simp
  show ?thesis
  proof (cases "snap_status s = SnapReady")
    case False
    then show ?thesis using branch(1) s sid by (simp add: resume_stage_def first_unfinished_def snap_of_def)
  next
    case sready: True
    have own: "snapshot_owned d (snap_id s) (rev_id v)" using s sready sid by (simp add: snapshot_owned_def snap_of_def)
    show ?thesis
    proof (cases "rev_code_index_build_id v = 0")
      case True
      then have "code_of d (rev_code_index_build_id v) = None"
        using build_ids_positive(1)[OF inv, of 0] by (cases "code_of d 0") (auto simp: code_of_def)
      then show ?thesis
        using branch(2)[OF own] s sready True by (simp add: resume_stage_def first_unfinished_def snap_of_def)
    next
      case code: False
      then obtain b where b: "by_key cib_id (rev_code_index_build_id v) (code_index_builds d) = Some b"
        "cib_snapshot_id b = rev_snapshot_id v" "cib_analysis_revision_id b = rev_id v"
        using ok by (auto simp: revision_ok_def code_linked_def code_of_def)
      have bid: "cib_id b = rev_code_index_build_id v" using by_key_Some_in[OF b(1)] by simp
      show ?thesis
      proof (cases "cib_status b = BuildStatusReady")
        case False
        then show ?thesis
          using branch(3) s sready code b bid by (simp add: resume_stage_def first_unfinished_def snap_of_def code_of_def)
      next
        case bready: True
        have bown: "code_owned d (cib_id b) (rev_id v)" using b bid by (simp add: code_owned_def code_of_def)
        show ?thesis
        proof (cases "rev_retrieval_build_id v = 0")
          case True
          then have "retrieval_of d (rev_retrieval_build_id v) = None"
            using build_ids_positive(2)[OF inv, of 0] by (cases "retrieval_of d 0") (auto simp: retrieval_of_def)
          then show ?thesis
            using branch(4)[OF bown] s sready code b bready True
            by (simp add: resume_stage_def first_unfinished_def snap_of_def code_of_def)
        next
          case retr: False
          then obtain r where r: "by_key rb_id (rev_retrieval_build_id v) (retrieval_builds d) = Some r"
            "rb_code_index_build_id r = rev_code_index_build_id v" "rb_analysis_revision_id r = rev_id v"
            using ok by (auto simp: revision_ok_def retrieval_linked_def retrieval_of_def)
          have "rb_id r = rev_retrieval_build_id v" using by_key_Some_in[OF r(1)] by simp
          then show ?thesis
            using branch(5,6) s sready code b bready retr r
            by (simp add: resume_stage_def first_unfinished_def artifact_lookups)
        qed
      qed
    qed
  qed
qed

text \<open>
  C34. A failed preparation is never stuck. In every reachable database a \<open>FAILED\<close> revision can be
  retried by its owner: the retry succeeds, opens the next execution generation, and resumes at
  the first stage whose artifact is not \<open>READY\<close>, where a pending job of that generation waits
  for a worker; when every artifact is \<open>READY\<close> the revision is \<open>READY\<close> at once.
\<close>

theorem failed_revision_can_be_retried:
  assumes "reachable pipeline_init (pipeline_step F) d" and "revision_service_Get userID i d = Inr v"
    and "rev_status v = RevFailed" and "0 < rev_execution_generation v"
  shows "\<exists>x d'. revision_service_Retry sha now userID i d = (Inr x, d')
    \<and> resumed_at (first_unfinished d v) (reopened_revision now v) d'"
proof -
  have inv: "lineage_inv d" using assms(1) by (rule pipeline.reachable_inv)
  have v: "by_key rev_id i (analysis_revisions d) = Some v"
    using assms(2) by (auto simp: revision_service_Get_def bindE_eq_Inr revision_GetByID_def
        split: option.split_asm sum.split_asm)
  have id: "rev_id v = i" "v \<in> set (analysis_revisions d)" using by_key_Some_in[OF v] by auto
  let ?P = "\<lambda>u. rev_id u = i \<and> rev_status u = RevFailed \<and> rev_version u = rev_version v
    \<and> rev_execution_generation u = rev_execution_generation v"
  let ?e = "set_revisions ?P (reopened_revision now) d" and ?v = "reopened_revision now v"
  have key: "rev_id (reopened_revision now u) = rev_id u" for u by (simp add: reopened_revision_def)
  have one: "sql_count ?P (analysis_revisions d) = 1"
    using inv v assms(3) by (simp add: sql_count_key lineage_inv_def pipeline_keys_def)
  have "advance d ?e"
    by (rule set_revisions_advance) (auto simp: reopened_revision_def same_lineage_def revision_identity_def)
  then have inve: "lineage_inv ?e" using inv by (auto simp: advance_def)
  have row: "revision_of ?e (rev_id ?v) = Some ?v"
    using v id(1) assms(3) by (simp add: revision_of_def by_key_sql_set key)
  have "first_unfinished ?e ?v = first_unfinished d v"
    by (simp add: first_unfinished_def reopened_revision_def)
  moreover have "resumes (first_unfinished ?e ?v) ?v (resume_stage sha now ?v ?e)"
    by (rule resume_stage_resumes[OF inve row]) (use assms(4) in \<open>simp_all add: reopened_revision_def\<close>)
  ultimately obtain x d' where "resume_stage sha now ?v ?e = Inr (x, d')" "resumed_at (first_unfinished d v) ?v d'"
    by (auto simp: resumes_def)
  then have "revision_service_Retry sha now userID i d = (Inr x, d')"
    using assms(2,3) v one
    by (simp add: revision_service_Retry_def retryPreparationOnce_def retryPreparationTx_def run_tx_def)
  then show ?thesis using \<open>resumed_at _ _ d'\<close> by blast
qed

text \<open>A preparation whose first stage fails for good.\<close>

definition demo_failed :: db where
  "demo_failed = snd (ConditionalFinalizeFailure 130 1 ''w'' ''t0'' ErrorClassPermanent ''CLONE_FAILED'' ''clone''
     (Some TerminalReasonPermanent) True 0 demo_materializing)"

lemma demo_failed_reachable: "reachable pipeline_init (pipeline_step any_token) demo_failed"
  unfolding demo_failed_def
  by (rule reach_step[OF demo_pipeline_reachable(3)]) (rule pipe_system, rule sys_fail, simp add: retry_admissible_def)

theorem failed_revision_can_be_retried_witness:
  "\<exists>x d'. revision_service_Retry id 200 ''user'' ''rev'' demo_failed = (Inr x, d')
    \<and> pending_for d' (JobTypeMaterializeSnapshot, ''snap'') 2"
proof -
  have row: "revision_service_Get ''user'' ''rev'' demo_failed = Inr (demo_revision demo_failed)"
    "rev_status (demo_revision demo_failed) = RevFailed" "rev_execution_generation (demo_revision demo_failed) = 1"
    "rev_snapshot_id (demo_revision demo_failed) = ''snap''"
    "first_unfinished demo_failed (demo_revision demo_failed) = StageMaterializing"
    by code_simp+
  obtain x d' where r: "revision_service_Retry id 200 ''user'' ''rev'' demo_failed = (Inr x, d')"
    "resumed_at (first_unfinished demo_failed (demo_revision demo_failed)) (reopened_revision 200 (demo_revision demo_failed)) d'"
    using failed_revision_can_be_retried[OF demo_failed_reachable row(1,2), of id 200] row(3) by auto
  then have "pending_for d' (JobTypeMaterializeSnapshot, ''snap'') 2"
    by (auto simp: row resumed_at_def stage_job_def reopened_revision_def)
  with r(1) show ?thesis by blast
qed

section \<open>Preparation\<close>

text \<open>
  C35. A commit is prepared once. In every reachable database, preparing a ref that resolves to a
  commit which already has a revision for the same pipeline returns that revision, whatever its
  state, reports that nothing was created, names the failure when it is \<open>FAILED\<close>, and leaves
  the database unchanged.
\<close>

theorem prepare_reuses_revision:
  assumes "reachable pipeline_init (pipeline_step F) d"
    and "v \<in> set (analysis_revisions d)"
    and "revision_identity v = (repositoryID, commit, fingerprint)"
    and "repo_GetByIDAndUser repositoryID userID d = Inr repository"
    and "trim_space ref \<noteq> ''''" and "ValidateRefLength ref = Inr ()"
    and "resolve (repo_git_url repository) ref = Inr commit"
  shows "Prepare resolve fingerprint basePath path_join uuid now userID repositoryID ref d =
    (((Some v, False), if rev_status v = RevFailed then Some ErrFailedRevision else None), d)"
proof -
  have keys: "distinct (map revision_identity (analysis_revisions d))"
    using pipeline.reachable_inv[OF assms(1)] by (simp add: lineage_inv_def pipeline_keys_def)
  have "GetByIdentity repositoryID commit fingerprint d = Inr v"
    using by_key_unique[OF keys assms(2)] assms(3) by (simp add: GetByIdentity_def by_key_def)
  then show ?thesis using assms(4-7) by (simp add: Prepare_def existing_revision_def)
qed

theorem prepare_reuses_revision_witness:
  "snd (demo_prepare demo_ready) = demo_ready
    \<and> fst (fst (demo_prepare demo_ready)) = (Some (demo_revision demo_ready), False)"
proof -
  have facts: "demo_revision demo_ready \<in> set (analysis_revisions demo_ready)"
    "revision_identity (demo_revision demo_ready) = (''repo'', demo_commit, ''fingerprint'')"
    "repo_GetByIDAndUser ''repo'' ''user'' demo_ready = Inr demo_repository"
    "trim_space ''main'' \<noteq> ''''" "ValidateRefLength ''main'' = Inr ()"
    "rev_status (demo_revision demo_ready) = RevReady"
    by code_simp+
  have "demo_prepare demo_ready = (((Some (demo_revision demo_ready), False), None), demo_ready)"
    using prepare_reuses_revision[OF demo_pipeline_reachable(6) facts(1-5), where resolve = "\<lambda>_ _. Inr demo_commit"] facts(6)
    by (simp add: demo_prepare_def)
  then show ?thesis by simp
qed

end
