(* ===== verification/Go_Library.thy ===== *)
theory Go_Library
  imports Prelude "HOL-Library.Multiset"
begin

text \<open>
  Functions of the Go standard library on slices, strings and paths that several
  components call: \<open>sort.Slice\<close> and \<open>sort.Search\<close>, \<open>strings.Split\<close> and \<open>strings.Join\<close>, the
  byte order of strings, runes with the tables of package \<open>unicode\<close> as a record of
  functions, and the lexical part of \<open>path/filepath\<close> on Unix.
\<close>

section \<open>Sorting\<close>

text \<open>\<open>sort.Slice\<close> with a comparison function.\<close>

fun insert_by :: "('a \<Rightarrow> 'a \<Rightarrow> bool) \<Rightarrow> 'a \<Rightarrow> 'a list \<Rightarrow> 'a list" where
  "insert_by lt x [] = [x]"
| "insert_by lt x (y # ys) = (if lt y x then y # insert_by lt x ys else x # y # ys)"

definition sort_slice :: "('a \<Rightarrow> 'a \<Rightarrow> bool) \<Rightarrow> 'a list \<Rightarrow> 'a list" where
  "sort_slice lt xs = foldr (insert_by lt) xs []"

lemma mset_insert_by [simp]: "mset (insert_by lt x xs) = add_mset x (mset xs)"
  by (induction xs) auto

lemma mset_sort_slice [simp]: "mset (sort_slice lt xs) = mset xs"
  by (induction xs) (auto simp: sort_slice_def)

lemma set_sort_slice [simp]: "set (sort_slice lt xs) = set xs"
  by (metis mset_sort_slice set_mset_mset)

lemma sort_slice_Nil [simp]: "sort_slice lt [] = []"
  by (simp add: sort_slice_def)

text \<open>Sorting by a strict order that is total on the elements forgets the order of its input.\<close>

locale strict_order =
  fixes lt :: "'a \<Rightarrow> 'a \<Rightarrow> bool" and ok :: "'a \<Rightarrow> 'a \<Rightarrow> bool"
  assumes lt_trans: "lt x y \<Longrightarrow> lt y z \<Longrightarrow> lt x z"
    and lt_irrefl: "\<not> lt x x"
    and lt_total: "ok x y \<Longrightarrow> lt x y \<or> lt y x \<or> x = y"
begin

lemma sorted_insert_by:
  "sorted_wrt lt xs \<Longrightarrow> \<forall>y \<in> set xs. ok x y \<Longrightarrow> x \<notin> set xs \<Longrightarrow> sorted_wrt lt (insert_by lt x xs)"
proof (induction xs)
  case (Cons y ys)
  have mem: "set (insert_by lt x ys) = insert x (set ys)"
    by (metis mset_insert_by set_mset_add_mset_insert set_mset_mset)
  from Cons.prems lt_total[of x y] have "lt x y" if "\<not> lt y x" using that by auto
  with Cons mem lt_trans show ?case by auto
qed simp

lemma sorted_sort_slice:
  "distinct xs \<Longrightarrow> (\<And>x y. x \<in> set xs \<Longrightarrow> y \<in> set xs \<Longrightarrow> ok x y) \<Longrightarrow> sorted_wrt lt (sort_slice lt xs)"
proof (induction xs)
  case (Cons x xs)
  have "set (foldr (insert_by lt) xs []) = set xs" using set_sort_slice[of lt xs] by (simp add: sort_slice_def)
  with Cons show ?case by (simp add: sort_slice_def sorted_insert_by)
qed simp

lemma sorted_unique: "sorted_wrt lt xs \<Longrightarrow> sorted_wrt lt ys \<Longrightarrow> set xs = set ys \<Longrightarrow> xs = ys"
proof (induction xs arbitrary: ys)
  case (Cons x xs)
  then obtain y ys' where ys: "ys = y # ys'" by (cases ys) auto
  have "x = y \<or> x \<in> set ys' \<and> y \<in> set xs" using Cons.prems(3) unfolding ys by auto
  then have "x = y" using Cons.prems lt_trans[of x y x] lt_irrefl[of x] unfolding ys by auto
  moreover have "x \<notin> set xs" "y \<notin> set ys'" using Cons.prems lt_irrefl unfolding ys by auto
  ultimately have "set xs = set ys'" using Cons.prems(3) unfolding ys by auto
  with Cons ys \<open>x = y\<close> show ?case by simp
qed simp

lemma sort_slice_order:
  assumes "mset xs = mset ys" and "distinct xs" and "\<And>x y. x \<in> set xs \<Longrightarrow> y \<in> set xs \<Longrightarrow> ok x y"
  shows "sort_slice lt xs = sort_slice lt ys"
proof (rule sorted_unique)
  from assms(1) have s: "set xs = set ys" by (metis set_mset_mset)
  from assms show "sorted_wrt lt (sort_slice lt xs)" by (intro sorted_sort_slice)
  from assms(1,2) have "distinct ys" by (metis distinct_count_atmost_1 s)
  with assms(3) s show "sorted_wrt lt (sort_slice lt ys)" by (intro sorted_sort_slice) auto
  show "set (sort_slice lt xs) = set (sort_slice lt ys)" by (simp add: s)
qed

end

text \<open>\<open>sort.Search\<close>: the smallest index of a monotone predicate, by bisection.\<close>

function search_loop :: "(nat \<Rightarrow> bool) \<Rightarrow> nat \<Rightarrow> nat \<Rightarrow> nat" where
  "search_loop f i j =
    (if i < j then let h = (i + j) div 2 in if \<not> f h then search_loop f (h + 1) j else search_loop f i h else i)"
  by pat_completeness auto
termination by (relation "measure (\<lambda>(f, i, j). j - i)") auto

declare search_loop.simps [simp del]

definition sort_Search :: "nat \<Rightarrow> (nat \<Rightarrow> bool) \<Rightarrow> nat" where
  "sort_Search n f = search_loop f 0 n"

lemma search_loop_step: "i < j \<Longrightarrow> search_loop f i j =
    (if f ((i + j) div 2) then search_loop f i ((i + j) div 2) else search_loop f ((i + j) div 2 + 1) j)"
  by (subst search_loop.simps) (simp add: Let_def)

lemma search_loop_least:
  assumes mono: "\<And>a b. a \<le> b \<Longrightarrow> b < n \<Longrightarrow> f a \<Longrightarrow> f b" and "i \<le> j" and "j \<le> n"
    and "\<And>k. k < i \<Longrightarrow> \<not> f k" and "\<And>k. j \<le> k \<Longrightarrow> k < n \<Longrightarrow> f k"
  shows "search_loop f i j \<le> n \<and> (\<forall>k < search_loop f i j. \<not> f k) \<and> (\<forall>k. search_loop f i j \<le> k \<longrightarrow> k < n \<longrightarrow> f k)"
  using assms(2-)
proof (induction "j - i" arbitrary: i j rule: less_induct)
  case less
  show ?case
  proof (cases "i < j")
    case False
    then have "search_loop f i j = i" by (subst search_loop.simps) simp
    with False less.prems show ?thesis by auto
  next
    case True
    define h where "h = (i + j) div 2"
    from True have h: "i \<le> h" "h < j" by (auto simp: h_def)
    show ?thesis
    proof (cases "f h")
      case False
      have before: "\<not> f k" if "k < h + 1" for k
        using mono[of k h] that h less.prems(2) False by auto
      have "search_loop f i j = search_loop f (h + 1) j" using True False by (simp add: search_loop_step h_def)
      with less.hyps[of j "h + 1"] before h less.prems show ?thesis by auto
    next
      case fh: True
      have after: "f k" if "h \<le> k" "k < n" for k using mono[of h k] that fh by blast
      have "search_loop f i j = search_loop f i h" using True fh by (simp add: search_loop_step h_def)
      with less.hyps[of h i] after h less.prems show ?thesis by auto
    qed
  qed
qed

section \<open>Strings\<close>

fun strings_Join :: "string list \<Rightarrow> string \<Rightarrow> string" where
  "strings_Join [] sep = ''''"
| "strings_Join [s] sep = s"
| "strings_Join (s # t # ss) sep = s @ sep @ strings_Join (t # ss) sep"

text \<open>\<open>strings.Split\<close> with a separator of one byte.\<close>

fun strings_Split :: "string \<Rightarrow> char \<Rightarrow> string list" where
  "strings_Split [] sep = ['''']"
| "strings_Split (c # s) sep =
    (if c = sep then '''' # strings_Split s sep
     else case strings_Split s sep of [] \<Rightarrow> [[c]] | p # ps \<Rightarrow> (c # p) # ps)"

lemma strings_Split_not_Nil [simp]: "strings_Split s sep \<noteq> []"
  by (induction s) (auto split: list.splits)

lemma strings_Join_Split: "strings_Join (strings_Split s sep) [sep] = s"
proof (induction s)
  case (Cons c s)
  obtain p ps where s: "strings_Split s sep = p # ps" by (cases "strings_Split s sep") auto
  from Cons s show ?case by (cases ps) auto
qed simp

lemma strings_Split_parts: "p \<in> set (strings_Split s sep) \<Longrightarrow> sep \<notin> set p"
proof (induction s arbitrary: p)
  case (Cons c s)
  obtain q qs where s: "strings_Split s sep = q # qs" by (cases "strings_Split s sep") auto
  with Cons show ?case by (auto split: if_splits)
qed simp

text \<open>The byte order of strings.\<close>

fun str_less :: "string \<Rightarrow> string \<Rightarrow> bool" where
  "str_less s [] = False"
| "str_less [] (d # t) = True"
| "str_less (c # s) (d # t) = (if c = d then str_less s t else (of_char c :: nat) < of_char d)"

interpretation strs: strict_order str_less "\<lambda>_ _. True"
proof
  show "str_less x y \<Longrightarrow> str_less y z \<Longrightarrow> str_less x z" for x y z
  proof (induction x y arbitrary: z rule: str_less.induct)
    case (2 d t)
    then show ?case by (cases z) auto
  next
    case (3 c s d t)
    then show ?case by (cases z) (auto split: if_splits)
  qed auto
  show "\<not> str_less x x" for x by (induction x) auto
  show "str_less x y \<or> str_less y x \<or> x = y" for x y
  proof (induction x y rule: str_less.induct)
    case (1 s)
    then show ?case by (cases s) auto
  next
    case (3 c s d t)
    then show ?case by (auto simp: less_le)
  qed auto
qed

section \<open>Runes and fields\<close>

text \<open>The tables of package \<open>unicode\<close>, on a rune given by its encoding.\<close>

record unicode =
  uc_letter :: "string \<Rightarrow> bool"
  uc_digit :: "string \<Rightarrow> bool"
  uc_upper :: "string \<Rightarrow> bool"
  uc_lower :: "string \<Rightarrow> bool"
  uc_space :: "string \<Rightarrow> bool"
  uc_punct :: "string \<Rightarrow> bool"
  uc_to_lower :: "string \<Rightarrow> string"

text \<open>The runes of a string with the bytes each of them was read from.\<close>

function rune_chunks :: "string \<Rightarrow> (string \<times> string) list" where
  "rune_chunks [] = []"
| "rune_chunks (c # s) =
    (case rune_width (c # s) of
       Some w \<Rightarrow> (take w (c # s), take w (c # s)) # rune_chunks (drop (w - 1) s)
     | None \<Rightarrow> (rune_error, [c]) # rune_chunks s)"
  by pat_completeness auto
termination by (relation "measure length") auto

lemma rune_chunks_runes: "map fst (rune_chunks s) = runes s"
  by (induction s rule: rune_chunks.induct) (auto split: option.split)

lemma rune_width_pos: "rune_width s = Some w \<Longrightarrow> 0 < w"
  by (auto simp: rune_width_def split: list.splits if_splits)

lemma rune_chunks_bytes: "concat (map snd (rune_chunks s)) = s"
proof (induction s rule: rune_chunks.induct)
  case (2 c s)
  show ?case
  proof (cases "rune_width (c # s)")
    case None
    with 2 show ?thesis by simp
  next
    case (Some w)
    with rune_width_pos obtain v where "w = Suc v" by (metis gr0_implies_Suc)
    with Some 2 show ?thesis by simp
  qed
qed simp

text \<open>\<open>strings.ToLower\<close> and \<open>strings.FieldsFunc\<close>.\<close>

definition strings_ToLower :: "unicode \<Rightarrow> string \<Rightarrow> string" where
  "strings_ToLower u s = concat (map (uc_to_lower u) (runes s))"

fun split_fields :: "('a \<Rightarrow> bool) \<Rightarrow> 'a list \<Rightarrow> 'a list \<Rightarrow> 'a list list" where
  "split_fields p acc [] = (if acc = [] then [] else [acc])"
| "split_fields p acc (x # xs) =
    (if \<not> p x then split_fields p (acc @ [x]) xs
     else if acc = [] then split_fields p [] xs
     else acc # split_fields p [] xs)"

definition FieldsFunc :: "(string \<Rightarrow> bool) \<Rightarrow> string \<Rightarrow> string list" where
  "FieldsFunc p s = map (\<lambda>f. concat (map snd f)) (split_fields (\<lambda>c. p (fst c)) [] (rune_chunks s))"

section \<open>Paths\<close>

text \<open>
  \<open>filepath.Clean\<close> on Unix: empty and dot components vanish, a dot-dot component removes
  the one before it, or stays in front of a relative path.
\<close>

fun clean_parts :: "bool \<Rightarrow> string list \<Rightarrow> string list \<Rightarrow> string list" where
  "clean_parts rooted [] st = rev st"
| "clean_parts rooted (p # ps) st =
    (if p = '''' \<or> p = ''.'' then clean_parts rooted ps st
     else if p \<noteq> ''..'' then clean_parts rooted ps (p # st)
     else case st of
       [] \<Rightarrow> clean_parts rooted ps (if rooted then [] else [''..''])
     | q # st' \<Rightarrow> if q = ''..'' then clean_parts rooted ps (''..'' # st) else clean_parts rooted ps st')"

definition filepath_IsAbs :: "string \<Rightarrow> bool" where
  "filepath_IsAbs p \<longleftrightarrow> prefix ''/'' p"

definition filepath_Clean :: "string \<Rightarrow> string" where
  "filepath_Clean p =
    (let rooted = filepath_IsAbs p; parts = clean_parts rooted (strings_Split p CHR ''/'') []
     in if rooted then CHR ''/'' # strings_Join parts ''/''
        else if parts = [] then ''.'' else strings_Join parts ''/'')"

text \<open>\<open>filepath.Join\<close>: the nonempty elements, joined and cleaned.\<close>

definition filepath_Join :: "string list \<Rightarrow> string" where
  "filepath_Join elems =
    (let es = filter (\<lambda>e. e \<noteq> '''') elems in if es = [] then '''' else filepath_Clean (strings_Join es ''/''))"

text \<open>\<open>filepath.Dir\<close>: everything up to the last separator, cleaned.\<close>

definition filepath_Dir :: "string \<Rightarrow> string" where
  "filepath_Dir p = filepath_Clean (strings_Join (butlast (strings_Split p CHR ''/'') @ ['''']) ''/'')"

text \<open>\<open>filepath.Ext\<close>: the suffix from the last dot of the last component.\<close>

definition filepath_Ext :: "string \<Rightarrow> string" where
  "filepath_Ext p =
    (let base = last (strings_Split p CHR ''/''); parts = strings_Split base CHR ''.''
     in if length parts = 1 then '''' else CHR ''.'' # last parts)"

text \<open>A cleaned relative path has its dot-dot components in front, and no empty or dot ones.\<close>

definition plain_part :: "string \<Rightarrow> bool" where
  "plain_part p \<longleftrightarrow> p \<noteq> '''' \<and> p \<noteq> ''.'' \<and> p \<noteq> ''..'' \<and> CHR ''/'' \<notin> set p"

definition clean_stack :: "string list \<Rightarrow> bool" where
  "clean_stack st \<longleftrightarrow> (\<exists>names k. st = names @ replicate k ''..'' \<and> (\<forall>p \<in> set names. plain_part p))"

lemma clean_stack_push: "clean_stack st \<Longrightarrow> plain_part p \<Longrightarrow> clean_stack (p # st)"
proof -
  assume "clean_stack st" and p: "plain_part p"
  then obtain names k where "st = names @ replicate k ''..''" "\<forall>p \<in> set names. plain_part p"
    by (auto simp: clean_stack_def)
  with p have "p # st = (p # names) @ replicate k ''..''" "\<forall>q \<in> set (p # names). plain_part q" by auto
  then show ?thesis unfolding clean_stack_def by blast
qed

lemma clean_stack_up: "clean_stack (''..'' # st) \<Longrightarrow> clean_stack (''..'' # ''..'' # st)"
proof -
  assume "clean_stack (''..'' # st)"
  then obtain names k where st: "''..'' # st = names @ replicate k ''..''" "\<forall>p \<in> set names. plain_part p"
    by (auto simp: clean_stack_def)
  then have "names = []" by (cases names) (auto simp: plain_part_def)
  with st have "''..'' # ''..'' # st = [] @ replicate (Suc k) ''..''" by simp
  then show ?thesis unfolding clean_stack_def by (metis empty_iff list.set(1))
qed

lemma clean_stack_pop: "clean_stack (q # st) \<Longrightarrow> clean_stack st"
proof -
  assume "clean_stack (q # st)"
  then obtain names k where st: "q # st = names @ replicate k ''..''" "\<forall>p \<in> set names. plain_part p"
    by (auto simp: clean_stack_def)
  show ?thesis
  proof (cases names)
    case Nil
    with st obtain j where "st = [] @ replicate j ''..''" by (cases k) auto
    then show ?thesis unfolding clean_stack_def by (metis empty_iff list.set(1))
  next
    case (Cons p ps)
    with st have "st = ps @ replicate k ''..''" and "\<forall>p \<in> set ps. plain_part p" by auto
    then show ?thesis unfolding clean_stack_def by blast
  qed
qed

lemma clean_parts_stack:
  assumes "\<And>p. p \<in> set ps \<Longrightarrow> CHR ''/'' \<notin> set p" and "clean_stack st"
  shows "clean_stack (rev (clean_parts rooted ps st))"
  using assms
proof (induction rooted ps st rule: clean_parts.induct)
  case (2 rooted p ps st)
  have up: "clean_stack [''..'']" unfolding clean_stack_def by (rule exI[of _ "[]"], rule exI[of _ 1]) simp
  have nil: "clean_stack []" by (simp add: clean_stack_def)
  consider (skip) "p = '''' \<or> p = ''.''" | (name) "\<not> (p = '''' \<or> p = ''.'')" "p \<noteq> ''..''"
    | (up) "p = ''..''" by blast
  then show ?case
  proof cases
    case skip
    with 2 show ?thesis by auto
  next
    case name
    with 2 have "plain_part p" by (simp add: plain_part_def)
    with clean_stack_push 2 name show ?thesis by simp
  next
    case dots: up
    show ?thesis
    proof (cases st)
      case Nil
      with 2 dots up nil show ?thesis by simp
    next
      case (Cons q st')
      with 2 dots clean_stack_up clean_stack_pop[of q st'] show ?thesis by auto
    qed
  qed
qed simp

lemma clean_relative_parts:
  assumes "clean_parts False (strings_Split p CHR ''/'') [] = parts" and "parts = [] \<or> hd parts \<noteq> ''..''"
  shows "\<forall>q \<in> set parts. plain_part q"
proof -
  have "clean_stack (rev parts)"
    using clean_parts_stack[of "strings_Split p CHR ''/''" "[]" False] assms(1) strings_Split_parts
    by (force simp: clean_stack_def)
  then obtain names k where r: "rev parts = names @ replicate k ''..''" and n: "\<forall>p \<in> set names. plain_part p"
    by (auto simp: clean_stack_def)
  from r have parts: "parts = replicate k ''..'' @ rev names" by (metis rev_append rev_replicate rev_rev_ident)
  with assms(2) have "k = 0" by (cases k) auto
  with parts n show ?thesis by simp
qed

text \<open>The ASCII part of the tables, for concrete inputs.\<close>

definition in_range :: "char \<Rightarrow> char \<Rightarrow> char \<Rightarrow> bool" where
  "in_range lo hi c \<longleftrightarrow> (of_char lo :: nat) \<le> of_char c \<and> (of_char c :: nat) \<le> of_char hi"

definition ascii_in :: "char \<Rightarrow> char \<Rightarrow> string \<Rightarrow> bool" where
  "ascii_in lo hi r \<longleftrightarrow> (case r of [c] \<Rightarrow> in_range lo hi c | _ \<Rightarrow> False)"

definition ascii :: unicode where
  "ascii = \<lparr>uc_letter = (\<lambda>r. ascii_in CHR ''A'' CHR ''Z'' r \<or> ascii_in CHR ''a'' CHR ''z'' r),
     uc_digit = ascii_in CHR ''0'' CHR ''9'', uc_upper = ascii_in CHR ''A'' CHR ''Z'',
     uc_lower = ascii_in CHR ''a'' CHR ''z'', uc_space = (\<lambda>r. r = '' ''),
     uc_punct = (\<lambda>r. r = ''.'' \<or> r = '','' \<or> r = '':''), uc_to_lower = to_lower\<rparr>"

end
