(* ===== verification/Retrieval_Index.thy ===== *)
theory Retrieval_Index
  imports Complex_Main Go_Library
begin

text \<open>
  The lexical index (\<open>internal/retrieval/tokenizer/tokenizer.go\<close> and
  \<open>internal/retrieval/bm25/bm25.go\<close>): code-aware tokens, the inverted index with its
  statistics, and ranked search. The Unicode tables and the \<open>float64\<close> operations are
  records of functions, so that no algebraic law of exact arithmetic is used: what is
  proved of search holds bit for bit. A score is an element of a linear order, that is a
  \<open>float64\<close> other than NaN. The order in which Go ranges over a map is a parameter.
\<close>

section \<open>The tokenizer\<close>

definition camel_step ::
  "unicode \<Rightarrow> string list \<Rightarrow> nat \<Rightarrow> string list \<times> nat \<Rightarrow> string list \<times> nat" where
  "camel_step u rs i st =
    (let (parts, start) =
           (if i > 0 \<and> uc_upper u (rs ! i) \<and> (uc_lower u (rs ! (i - 1)) \<or> uc_digit u (rs ! (i - 1)))
            then (fst st @ [concat (take (i - snd st) (drop (snd st) rs))], i)
            else st)
     in if i > 1 \<and> uc_upper u (rs ! (i - 1)) \<and> uc_lower u (rs ! i) \<and> uc_upper u (rs ! (i - 2))
        then (parts @ [concat (take (i - 1 - start) (drop start rs))], i - 1)
        else (parts, start))"

definition splitCamelCase :: "unicode \<Rightarrow> string \<Rightarrow> string list" where
  "splitCamelCase u s =
    (let rs = runes s
     in if rs = [] then []
        else case fold (camel_step u rs) [0..<length rs] ([], 0) of
          (parts, start) \<Rightarrow> if start < length rs then parts @ [concat (drop start rs)] else parts)"

definition is_word_separator :: "unicode \<Rightarrow> string \<Rightarrow> bool" where
  "is_word_separator u r \<longleftrightarrow> \<not> uc_letter u r \<and> \<not> uc_digit u r \<and> r \<noteq> ''_'' \<and> r \<noteq> ''.'' \<and> r \<noteq> '':''
    \<and> r \<noteq> ''/'' \<and> r \<noteq> ''-''"

definition is_part_separator :: "string \<Rightarrow> bool" where
  "is_part_separator r \<longleftrightarrow> r = ''.'' \<or> r = '':'' \<or> r = ''/'' \<or> r = ''-'' \<or> r = ''_''"

text \<open>The closure \<open>addToken\<close>; \<open>seen\<close> holds exactly the tokens added so far.\<close>

definition addToken :: "string \<Rightarrow> string list \<Rightarrow> string list" where
  "addToken tok tokens =
    (let t = trim_space tok in if length t = 0 \<or> t \<in> set tokens then tokens else tokens @ [t])"

definition word_tokens :: "unicode \<Rightarrow> string \<Rightarrow> string list" where
  "word_tokens u w = [w, strings_ToLower u w] @
    concat (map (\<lambda>sp. [sp, strings_ToLower u sp] @
        concat (map (\<lambda>cp. [cp, strings_ToLower u cp]) (splitCamelCase u sp)))
      (FieldsFunc is_part_separator w))"

definition Tokenize :: "unicode \<Rightarrow> string \<Rightarrow> string list" where
  "Tokenize u text =
    (if text = '''' then []
     else fold addToken (concat (map (word_tokens u) (FieldsFunc (is_word_separator u) text))) [])"

lemma distinct_addToken: "distinct tokens \<Longrightarrow> distinct (addToken tok tokens)"
  by (simp add: addToken_def Let_def)

lemma distinct_fold_addToken: "distinct tokens \<Longrightarrow> distinct (fold addToken toks tokens)"
  by (induction toks arbitrary: tokens) (auto intro: distinct_addToken)

lemma distinct_Tokenize [simp]: "distinct (Tokenize u text)"
  by (simp add: Tokenize_def distinct_fold_addToken)

lemma Tokenize_nonempty: "tok \<in> set (Tokenize u text) \<Longrightarrow> tok \<noteq> ''''"
proof -
  have "'''' \<notin> set tokens \<Longrightarrow> '''' \<notin> set (addToken tok tokens)" for tok tokens
    by (auto simp: addToken_def Let_def)
  then have "'''' \<notin> set tokens \<Longrightarrow> '''' \<notin> set (fold addToken toks tokens)" for toks tokens
    by (induction toks arbitrary: tokens) auto
  from this[of "[]"] show "tok \<in> set (Tokenize u text) \<Longrightarrow> tok \<noteq> ''''"
    by (auto simp: Tokenize_def split: if_splits)
qed

text \<open>The parts of a camel-case word make up the word, whatever the tables say.\<close>

lemma camel_step_parts:
  assumes "concat parts = concat (take start rs)" and "start \<le> i - 1" and "i < length rs"
    and "\<And>r. \<not> (uc_upper u r \<and> uc_lower u r)"
    and "camel_step u rs i (parts, start) = (parts', start')"
  shows "concat parts' = concat (take start' rs) \<and> start' \<le> i"
proof -
  have join: "concat (take a rs) @ concat (take (b - a) (drop a rs)) = concat (take b rs)" if "a \<le> b" for a b
    using that by (simp flip: concat_append take_add)
  show ?thesis
    using assms(1-4) assms(5)[symmetric] join[of start i] join[of start "i - 1"]
    by (auto simp: camel_step_def Let_def split: if_splits)
qed

lemma camel_fold_parts:
  assumes "\<And>r. \<not> (uc_upper u r \<and> uc_lower u r)" and "n \<le> length rs"
  shows "case fold (camel_step u rs) [0..<n] ([], 0) of
    (parts, start) \<Rightarrow> concat parts = concat (take start rs) \<and> start \<le> n - 1"
  using assms(2)
proof (induction n)
  case (Suc n)
  obtain parts start where f: "fold (camel_step u rs) [0..<n] ([], 0) = (parts, start)" by force
  obtain parts' start' where s: "camel_step u rs n (parts, start) = (parts', start')" by force
  from Suc f have "concat parts = concat (take start rs)" and "start \<le> n - 1" and "n < length rs" by auto
  from camel_step_parts[OF this assms(1) s] f s show ?case by simp
qed simp

lemma splitCamelCase_concat:
  assumes "\<And>r. \<not> (uc_upper u r \<and> uc_lower u r)"
  shows "concat (splitCamelCase u s) = concat (runes s)"
proof (cases "runes s")
  case (Cons r rs)
  obtain parts start where f: "fold (camel_step u (runes s)) [0..<length (runes s)] ([], 0) = (parts, start)"
    by force
  with camel_fold_parts[OF assms, of "length (runes s)" "runes s"] Cons
  have "concat parts = concat (take start (runes s))" and "start < length (runes s)" by auto
  then have "concat (splitCamelCase u s) = concat (take start (runes s)) @ concat (drop start (runes s))"
    using Cons f by (simp add: splitCamelCase_def Let_def)
  then show ?thesis by (simp flip: concat_append)
qed (simp add: splitCamelCase_def)

section \<open>The index\<close>

text \<open>The operations of \<open>float64\<close> the index uses; \<open>fl_lit\<close> is the value of a literal.\<close>

record 'f float64 =
  fl_of_int :: "int \<Rightarrow> 'f"
  fl_lit :: "rat \<Rightarrow> 'f"
  fl_add :: "'f \<Rightarrow> 'f \<Rightarrow> 'f"
  fl_sub :: "'f \<Rightarrow> 'f \<Rightarrow> 'f"
  fl_mul :: "'f \<Rightarrow> 'f \<Rightarrow> 'f"
  fl_div :: "'f \<Rightarrow> 'f \<Rightarrow> 'f"
  fl_log :: "'f \<Rightarrow> 'f"

record document =
  doc_id :: nat
  doc_file_path :: string
  doc_start_line :: int
  doc_end_line :: int
  doc_content :: string
  doc_symbol_key_hash :: string
  doc_symbol_name :: string
  doc_kind :: string
  doc_length :: nat

record posting =
  post_doc_id :: nat
  post_term_freq :: nat

record 'f bm25_result =
  hit_document :: document
  hit_score :: 'f
  hit_rank :: nat

record 'f bm25_index =
  ix_k1 :: 'f
  ix_b :: 'f
  ix_documents :: "document list"
  ix_inverted :: "string \<rightharpoonup> posting list"
  ix_doc_freq :: "string \<rightharpoonup> nat"
  ix_total_docs :: nat
  ix_avg_doc_length :: 'f

definition default_k1 :: "'f::linorder float64 \<Rightarrow> 'f \<Rightarrow> 'f" where
  "default_k1 fl k1 = (if k1 \<le> fl_of_int fl 0 then fl_lit fl 1.2 else k1)"

definition default_b :: "'f::linorder float64 \<Rightarrow> 'f \<Rightarrow> 'f" where
  "default_b fl b = (if b \<le> fl_of_int fl 0 then fl_lit fl 0.75 else b)"

definition NewIndex :: "'f::linorder float64 \<Rightarrow> 'f \<Rightarrow> 'f \<Rightarrow> 'f bm25_index" where
  "NewIndex fl k1 b = \<lparr>ix_k1 = default_k1 fl k1, ix_b = default_b fl b, ix_documents = [],
     ix_inverted = Map.empty, ix_doc_freq = Map.empty, ix_total_docs = 0, ix_avg_doc_length = fl_of_int fl 0\<rparr>"

text \<open>A Go map read at a missing key gives the zero value.\<close>

definition map_get :: "('k \<rightharpoonup> 'v) \<Rightarrow> 'v \<Rightarrow> 'k \<Rightarrow> 'v" where
  "map_get m zero k = (case m k of None \<Rightarrow> zero | Some v \<Rightarrow> v)"

lemma map_get_upd [simp]: "map_get (m(k \<mapsto> v)) z k' = (if k' = k then v else map_get m z k')"
  and map_get_empty [simp]: "map_get Map.empty z k = z"
  by (simp_all add: map_get_def)

definition document_tokens :: "unicode \<Rightarrow> document \<Rightarrow> string list" where
  "document_tokens u doc = Tokenize u (doc_content doc @ '' '' @ doc_symbol_name doc @ '' '' @ doc_file_path doc)"

definition term_frequencies :: "string list \<Rightarrow> string \<rightharpoonup> nat" where
  "term_frequencies tokens = fold (\<lambda>tok m. m(tok \<mapsto> map_get m 0 tok + 1)) tokens Map.empty"

definition add_posting :: "nat \<Rightarrow> (string \<rightharpoonup> nat) \<Rightarrow> string \<Rightarrow> 'f bm25_index \<Rightarrow> 'f bm25_index" where
  "add_posting docID tf term idx = idx\<lparr>
     ix_inverted := (ix_inverted idx)(term \<mapsto> map_get (ix_inverted idx) [] term @
       [\<lparr>post_doc_id = docID, post_term_freq = map_get tf 0 term\<rparr>]),
     ix_doc_freq := (ix_doc_freq idx)(term \<mapsto> map_get (ix_doc_freq idx) 0 term + 1)\<rparr>"

text \<open>The keys of \<open>tf\<close> are the distinct tokens; each is visited once, in some order.\<close>

definition AddDocument :: "unicode \<Rightarrow> document \<Rightarrow> 'f bm25_index \<Rightarrow> 'f bm25_index" where
  "AddDocument u doc0 idx =
    (let tokens = document_tokens u doc0;
         doc = doc0\<lparr>doc_length := length tokens, doc_id := length (ix_documents idx)\<rparr>;
         tf = term_frequencies tokens
     in fold (add_posting (doc_id doc) tf) (remdups tokens)
          (idx\<lparr>ix_documents := ix_documents idx @ [doc]\<rparr>))"

definition Build :: "'f float64 \<Rightarrow> 'f bm25_index \<Rightarrow> 'f bm25_index" where
  "Build fl idx =
    (let n = length (ix_documents idx)
     in if n = 0 then idx\<lparr>ix_total_docs := 0, ix_avg_doc_length := fl_of_int fl 0\<rparr>
        else idx\<lparr>ix_total_docs := n, ix_avg_doc_length :=
          fl_div fl (fl_of_int fl (int (sum_list (map doc_length (ix_documents idx))))) (fl_of_int fl (int n))\<rparr>)"

section \<open>Search\<close>

definition term_idf :: "'f::linorder float64 \<Rightarrow> nat \<Rightarrow> nat \<Rightarrow> 'f" where
  "term_idf fl totalDocs docFreq =
    (let df = fl_of_int fl (int docFreq);
         idf = fl_log fl (fl_add fl (fl_lit fl 1) (fl_div fl
                 (fl_add fl (fl_sub fl (fl_of_int fl (int totalDocs)) df) (fl_lit fl 0.5)) (fl_add fl df (fl_lit fl 0.5))))
     in if idf < fl_of_int fl 0 then fl_lit fl 0.0001 else idf)"

text \<open>The contribution of one query term to the score of one document.\<close>

definition term_score ::
  "'f::linorder float64 \<Rightarrow> 'f \<Rightarrow> 'f \<Rightarrow> 'f \<Rightarrow> 'f \<Rightarrow> string \<Rightarrow> document \<Rightarrow> nat \<Rightarrow> 'f" where
  "term_score fl k1 b avg idf qTerm doc termFreq =
    (let docLen = fl_of_int fl (int (doc_length doc)); tf = fl_of_int fl (int termFreq);
         numerator = fl_mul fl tf (fl_add fl k1 (fl_lit fl 1));
         denominator = fl_add fl tf (fl_mul fl k1 (fl_add fl (fl_sub fl (fl_lit fl 1) b)
                         (fl_mul fl b (fl_div fl docLen avg))));
         score = fl_mul fl idf (fl_div fl numerator denominator)
     in if doc_symbol_name doc = qTerm then fl_mul fl score (fl_lit fl 1.5) else score)"

definition add_score ::
  "'f::linorder float64 \<Rightarrow> 'f bm25_index \<Rightarrow> string \<Rightarrow> 'f \<Rightarrow> posting \<Rightarrow> (nat \<rightharpoonup> 'f) \<Rightarrow> (nat \<rightharpoonup> 'f)" where
  "add_score fl idx qTerm idf p scores =
    scores(post_doc_id p \<mapsto> fl_add fl (map_get scores (fl_of_int fl 0) (post_doc_id p))
      (term_score fl (ix_k1 idx) (ix_b idx) (ix_avg_doc_length idx) idf qTerm
        (ix_documents idx ! post_doc_id p) (post_term_freq p)))"

definition score_query_term ::
  "'f::linorder float64 \<Rightarrow> 'f bm25_index \<Rightarrow> string \<Rightarrow> (nat \<rightharpoonup> 'f) \<Rightarrow> (nat \<rightharpoonup> 'f)" where
  "score_query_term fl idx qTerm scores =
    (case ix_inverted idx qTerm of
       None \<Rightarrow> scores
     | Some postings \<Rightarrow>
         fold (add_score fl idx qTerm (term_idf fl (ix_total_docs idx) (map_get (ix_doc_freq idx) 0 qTerm)))
           postings scores)"

definition hit_less :: "('f::linorder) bm25_result \<Rightarrow> 'f bm25_result \<Rightarrow> bool" where
  "hit_less x y =
    (if hit_score x = hit_score y then doc_id (hit_document x) < doc_id (hit_document y)
     else hit_score x > hit_score y)"

definition rank_hits :: "int \<Rightarrow> ('f::linorder) bm25_result list \<Rightarrow> 'f bm25_result list" where
  "rank_hits topK hits =
    (let results = take (nat topK) (sort_slice hit_less hits)
     in map (\<lambda>(i, h). h\<lparr>hit_rank := i + 1\<rparr>) (List.enumerate 0 results))"

definition Search ::
  "'f::linorder float64 \<Rightarrow> unicode \<Rightarrow> (nat list \<Rightarrow> nat list) \<Rightarrow> 'f bm25_index \<Rightarrow> string \<Rightarrow> int \<Rightarrow>
    'f bm25_result list" where
  "Search fl u order idx query topK0 =
    (let topK = (if topK0 \<le> 0 then 20 else topK0)
     in if ix_total_docs idx = 0 \<or> query = '''' then []
        else
          let queryTokens = Tokenize u query
          in if queryTokens = [] then []
             else
               let scores = fold (score_query_term fl idx) queryTokens Map.empty;
                   keys = order (filter (\<lambda>d. scores d \<noteq> None) [0..<length (ix_documents idx)]);
                   hits = map (\<lambda>d. \<lparr>hit_document = ix_documents idx ! d,
                              hit_score = map_get scores (fl_of_int fl 0) d, hit_rank = 0\<rparr>) keys
               in rank_hits topK (filter (\<lambda>h. hit_score h > fl_of_int fl 0) hits))"

section \<open>The reference: scoring every document\<close>

text \<open>
  BM25 without an index: every document is scored against the query directly from the
  token lists of the corpus.
\<close>

definition corpus_df :: "unicode \<Rightarrow> document list \<Rightarrow> string \<Rightarrow> nat" where
  "corpus_df u docs t = length (filter (\<lambda>d. t \<in> set (document_tokens u d)) docs)"

definition corpus_avg :: "'f float64 \<Rightarrow> unicode \<Rightarrow> document list \<Rightarrow> 'f" where
  "corpus_avg fl u docs = fl_div fl
     (fl_of_int fl (int (sum_list (map (\<lambda>d. length (document_tokens u d)) docs)))) (fl_of_int fl (int (length docs)))"

definition stamp :: "unicode \<Rightarrow> nat \<Rightarrow> document \<Rightarrow> document" where
  "stamp u i d = d\<lparr>doc_length := length (document_tokens u d), doc_id := i\<rparr>"

definition reference_score ::
  "'f::linorder float64 \<Rightarrow> unicode \<Rightarrow> 'f \<Rightarrow> 'f \<Rightarrow> document list \<Rightarrow> string list \<Rightarrow> nat \<Rightarrow> 'f" where
  "reference_score fl u k1 b docs queryTokens i =
    fold (\<lambda>t acc. if t \<in> set (document_tokens u (docs ! i))
        then fl_add fl acc (term_score fl k1 b (corpus_avg fl u docs) (term_idf fl (length docs) (corpus_df u docs t)) t
               (stamp u i (docs ! i)) (count_list (document_tokens u (docs ! i)) t))
        else acc) queryTokens (fl_of_int fl 0)"

definition reference_search ::
  "'f::linorder float64 \<Rightarrow> unicode \<Rightarrow> 'f \<Rightarrow> 'f \<Rightarrow> document list \<Rightarrow> string \<Rightarrow> int \<Rightarrow> 'f bm25_result list" where
  "reference_search fl u k1 b docs query topK =
    rank_hits (if topK \<le> 0 then 20 else topK)
      (filter (\<lambda>h. hit_score h > fl_of_int fl 0)
        (map (\<lambda>i. \<lparr>hit_document = stamp u i (docs ! i),
               hit_score = reference_score fl u k1 b docs (Tokenize u query) i, hit_rank = 0\<rparr>) [0..<length docs]))"

definition index_of :: "'f::linorder float64 \<Rightarrow> unicode \<Rightarrow> 'f \<Rightarrow> 'f \<Rightarrow> document list \<Rightarrow> 'f bm25_index" where
  "index_of fl u k1 b docs = fold (AddDocument u) docs (NewIndex fl k1 b)"

definition any_order :: "(nat list \<Rightarrow> nat list) \<Rightarrow> bool" where
  "any_order order \<longleftrightarrow> (\<forall>xs. mset (order xs) = mset xs)"

section \<open>What the index holds\<close>

lemma term_frequencies_count: "term_frequencies tokens t = (if t \<in> set tokens then Some (count_list tokens t) else None)"
proof -
  have "fold (\<lambda>tok m. m(tok \<mapsto> map_get m 0 tok + 1)) tokens m t =
      (if t \<in> set tokens then Some (map_get m 0 t + count_list tokens t) else m t)" for m :: "string \<rightharpoonup> nat"
    by (induction tokens arbitrary: m) auto
  then show ?thesis by (simp add: term_frequencies_def)
qed

lemma map_get_term_frequencies [simp]: "map_get (term_frequencies tokens) 0 t = count_list tokens t"
  by (auto simp: map_get_def term_frequencies_count count_list_0_iff)

lemma add_postings:
  assumes "distinct ts"
  shows "ix_inverted (fold (add_posting i tf) ts idx) t =
      (if t \<in> set ts then Some (map_get (ix_inverted idx) [] t @ [\<lparr>post_doc_id = i, post_term_freq = map_get tf 0 t\<rparr>])
       else ix_inverted idx t)"
    and "ix_doc_freq (fold (add_posting i tf) ts idx) t =
      (if t \<in> set ts then Some (map_get (ix_doc_freq idx) 0 t + 1) else ix_doc_freq idx t)"
    and "ix_documents (fold (add_posting i tf) ts idx) = ix_documents idx"
    and "ix_k1 (fold (add_posting i tf) ts idx) = ix_k1 idx"
    and "ix_b (fold (add_posting i tf) ts idx) = ix_b idx"
  using assms by (induction ts arbitrary: idx) (auto simp: add_posting_def map_get_def)

lemma AddDocument_fields:
  shows "ix_documents (AddDocument u d idx) = ix_documents idx @ [stamp u (length (ix_documents idx)) d]"
    and "ix_inverted (AddDocument u d idx) t =
      (if t \<in> set (document_tokens u d) then Some (map_get (ix_inverted idx) [] t @
         [\<lparr>post_doc_id = length (ix_documents idx), post_term_freq = count_list (document_tokens u d) t\<rparr>])
       else ix_inverted idx t)"
    and "ix_doc_freq (AddDocument u d idx) t =
      (if t \<in> set (document_tokens u d) then Some (map_get (ix_doc_freq idx) 0 t + 1) else ix_doc_freq idx t)"
    and "ix_k1 (AddDocument u d idx) = ix_k1 idx" and "ix_b (AddDocument u d idx) = ix_b idx"
  by (simp_all add: AddDocument_def Let_def add_postings stamp_def)

text \<open>The postings of a term, read off the corpus.\<close>

definition corpus_postings :: "unicode \<Rightarrow> document list \<Rightarrow> string \<Rightarrow> posting list" where
  "corpus_postings u docs t = map (\<lambda>i. \<lparr>post_doc_id = i, post_term_freq = count_list (document_tokens u (docs ! i)) t\<rparr>)
     (filter (\<lambda>i. t \<in> set (document_tokens u (docs ! i))) [0..<length docs])"

lemma corpus_postings_snoc:
  "corpus_postings u (docs @ [d]) t = corpus_postings u docs t @
     (if t \<in> set (document_tokens u d) then [\<lparr>post_doc_id = length docs, post_term_freq = count_list (document_tokens u d) t\<rparr>] else [])"
proof -
  have f: "filter (\<lambda>i. t \<in> set (document_tokens u ((docs @ [d]) ! i))) [0..<length docs] =
      filter (\<lambda>i. t \<in> set (document_tokens u (docs ! i))) [0..<length docs]"
    by (intro filter_cong) (auto simp: nth_append)
  show ?thesis unfolding corpus_postings_def by (auto simp: f) (auto simp: nth_append)
qed

lemma length_corpus_postings: "length (corpus_postings u docs t) = corpus_df u docs t"
  by (induction docs rule: rev_induct)
    (auto simp: corpus_postings_snoc corpus_df_def corpus_postings_def[of u "[]"])

lemma index_of_fields:
  shows "ix_documents (index_of fl u k1 b docs) = map (\<lambda>i. stamp u i (docs ! i)) [0..<length docs]"
    and "ix_inverted (index_of fl u k1 b docs) t =
      (if corpus_df u docs t = 0 then None else Some (corpus_postings u docs t))"
    and "ix_doc_freq (index_of fl u k1 b docs) t = (if corpus_df u docs t = 0 then None else Some (corpus_df u docs t))"
    and "ix_k1 (index_of fl u k1 b docs) = default_k1 fl k1" and "ix_b (index_of fl u k1 b docs) = default_b fl b"
proof (induction docs rule: rev_induct)
  case Nil
  {
    case 1 show ?case by (simp add: index_of_def NewIndex_def)
  next
    case 2 show ?case by (simp add: index_of_def NewIndex_def corpus_df_def)
  next
    case 3 show ?case by (simp add: index_of_def NewIndex_def corpus_df_def)
  next
    case 4 show ?case by (simp add: index_of_def NewIndex_def)
  next
    case 5 show ?case by (simp add: index_of_def NewIndex_def)
  }
next
  case (snoc d docs)
  have snoc_index: "index_of fl u k1 b (docs @ [d]) = AddDocument u d (index_of fl u k1 b docs)"
    by (simp add: index_of_def)
  have len: "length (ix_documents (index_of fl u k1 b docs)) = length docs" by (simp add: snoc(1))
  have none: "corpus_df u docs t = 0 \<Longrightarrow> corpus_postings u docs t = []"
    by (simp flip: length_corpus_postings)
  {
    case 1 show ?case by (auto simp: snoc_index AddDocument_fields snoc(1) nth_append)
  next
    case 2 show ?case
      using none by (auto simp: snoc_index AddDocument_fields snoc(2) len corpus_postings_snoc map_get_def corpus_df_def)
  next
    case 3 show ?case by (auto simp: snoc_index AddDocument_fields snoc(3) map_get_def corpus_df_def)
  next
    case 4 show ?case by (simp add: snoc_index AddDocument_fields snoc(4))
  next
    case 5 show ?case by (simp add: snoc_index AddDocument_fields snoc(5))
  }
qed

section \<open>Indexed search is reference search\<close>

lemma add_scores:
  assumes "distinct (map post_doc_id ps)"
  shows "fold (add_score fl idx t idf) ps scores i =
    (case find (\<lambda>p. post_doc_id p = i) ps of
       None \<Rightarrow> scores i
     | Some p \<Rightarrow> Some (fl_add fl (map_get scores (fl_of_int fl 0) i)
         (term_score fl (ix_k1 idx) (ix_b idx) (ix_avg_doc_length idx) idf t (ix_documents idx ! i) (post_term_freq p))))"
  using assms
proof (induction ps arbitrary: scores)
  case (Cons p ps)
  have later: "find (\<lambda>q. post_doc_id q = post_doc_id p) ps = None"
    using Cons.prems by (auto simp: find_None_iff image_iff)
  show ?case
  proof (cases "post_doc_id p = i")
    case True
    with Cons later show ?thesis by (simp add: add_score_def)
  next
    case False
    with Cons show ?thesis by (auto simp: add_score_def map_get_def split: option.split)
  qed
qed simp

lemma find_corpus_postings:
  "find (\<lambda>p. post_doc_id p = i) (corpus_postings u docs t) =
    (if i < length docs \<and> t \<in> set (document_tokens u (docs ! i))
     then Some \<lparr>post_doc_id = i, post_term_freq = count_list (document_tokens u (docs ! i)) t\<rparr> else None)"
proof (induction docs rule: rev_induct)
  case (snoc d docs)
  have app: "find P (xs @ ys) = (case find P xs of None \<Rightarrow> find P ys | Some x \<Rightarrow> Some x)"
    for P :: "posting \<Rightarrow> bool" and xs ys
    by (induction xs) auto
  show ?case by (auto simp: corpus_postings_snoc app snoc nth_append not_less less_Suc_eq)
qed (simp add: corpus_postings_def)

lemma distinct_corpus_postings: "distinct (map post_doc_id (corpus_postings u docs t))"
  by (simp add: corpus_postings_def comp_def)

text \<open>After any prefix of the query terms, the score of a document is its reference score.\<close>

lemma score_terms:
  assumes "i < length docs" and idx_def: "idx = Build fl (index_of fl u k1 b docs)"
  shows "map_get (fold (score_query_term fl idx) ts scores) (fl_of_int fl 0) i =
    fold (\<lambda>t acc. if t \<in> set (document_tokens u (docs ! i))
        then fl_add fl acc (term_score fl (default_k1 fl k1) (default_b fl b) (corpus_avg fl u docs)
               (term_idf fl (length docs) (corpus_df u docs t)) t
               (stamp u i (docs ! i)) (count_list (document_tokens u (docs ! i)) t))
        else acc) ts (map_get scores (fl_of_int fl 0) i)"
proof -
  from assms(1) have "docs \<noteq> []" by auto
  then have flds: "ix_documents idx = map (\<lambda>i. stamp u i (docs ! i)) [0..<length docs]"
    "ix_inverted idx t = (if corpus_df u docs t = 0 then None else Some (corpus_postings u docs t))"
    "ix_doc_freq idx t = (if corpus_df u docs t = 0 then None else Some (corpus_df u docs t))"
    "ix_total_docs idx = length docs" "ix_k1 idx = default_k1 fl k1" "ix_b idx = default_b fl b" for t
    by (simp_all add: idx_def Build_def Let_def index_of_fields map_get_def)
  have "map (\<lambda>i. length (document_tokens u (docs ! i))) [0..<length docs] = map (\<lambda>d. length (document_tokens u d)) docs"
    by (rule nth_equalityI) simp_all
  then have avg: "ix_avg_doc_length idx = corpus_avg fl u docs"
    using \<open>docs \<noteq> []\<close> by (simp add: idx_def Build_def Let_def index_of_fields corpus_avg_def comp_def stamp_def)
  have unmatched: "t \<notin> set (document_tokens u (docs ! i))" if "corpus_df u docs t = 0" for t
    using that assms(1) by (auto simp: corpus_df_def filter_empty_conv)
  have one: "map_get (score_query_term fl idx t scores) (fl_of_int fl 0) i =
      (if t \<in> set (document_tokens u (docs ! i))
       then fl_add fl (map_get scores (fl_of_int fl 0) i) (term_score fl (default_k1 fl k1) (default_b fl b) (corpus_avg fl u docs)
              (term_idf fl (length docs) (corpus_df u docs t)) t
              (stamp u i (docs ! i)) (count_list (document_tokens u (docs ! i)) t))
       else map_get scores (fl_of_int fl 0) i)" for t scores
    using assms(1) unmatched[of t]
    by (auto simp: score_query_term_def flds avg add_scores distinct_corpus_postings find_corpus_postings map_get_def)
  show ?thesis by (induction ts arbitrary: scores) (auto simp: one)
qed

text \<open>The comparison of \<open>Search\<close> is total on results of different documents.\<close>

interpretation hits: strict_order "hit_less :: ('f::linorder) bm25_result \<Rightarrow> 'f bm25_result \<Rightarrow> bool"
    "\<lambda>x y. doc_id (hit_document x) = doc_id (hit_document y) \<longrightarrow> x = y"
  by unfold_locales (auto simp: hit_less_def split: if_splits)

lemma rank_hits_Nil [simp]: "rank_hits k [] = []"
  by (simp add: rank_hits_def)

lemma Search_reference:
  assumes "any_order order"
  shows "Search fl u order (Build fl (index_of fl u k1 b docs)) query topK =
    reference_search fl u (default_k1 fl k1) (default_b fl b) docs query topK"
proof (cases "docs = [] \<or> Tokenize u query = []")
  case True
  have "ix_total_docs (Build fl (index_of fl u k1 b docs)) = length docs"
    by (simp add: Build_def Let_def index_of_fields)
  with True show ?thesis
    by (auto simp: Search_def reference_search_def reference_score_def Let_def)
next
  case False
  define idx where "idx = Build fl (index_of fl u k1 b docs)"
  define scores where "scores = fold (score_query_term fl idx) (Tokenize u query) Map.empty"
  define hit where "hit i = \<lparr>hit_document = stamp u i (docs ! i),
    hit_score = reference_score fl u (default_k1 fl k1) (default_b fl b) docs (Tokenize u query) i, hit_rank = 0\<rparr>" for i
  define keys where "keys = filter (\<lambda>d. scores d \<noteq> None) [0..<length docs]"
  let ?pos = "\<lambda>h. hit_score h > fl_of_int fl 0"
  from False have query: "query \<noteq> ''''" by (auto simp: Tokenize_def)
  have docs: "ix_documents idx = map (\<lambda>i. stamp u i (docs ! i)) [0..<length docs]" "ix_total_docs idx = length docs"
    by (simp_all add: idx_def Build_def Let_def index_of_fields)
  have score: "map_get scores (fl_of_int fl 0) i = hit_score (hit i)" if "i < length docs" for i
    using score_terms[OF that idx_def] by (simp add: scores_def hit_def reference_score_def)
  have mkeys: "mset (order keys) = mset keys" using assms by (simp add: any_order_def)
  then have "set (order keys) = set keys" by (metis set_mset_mset)
  then have hits: "map (\<lambda>d. \<lparr>hit_document = ix_documents idx ! d, hit_score = map_get scores (fl_of_int fl 0) d, hit_rank = 0\<rparr>)
      (order keys) = map hit (order keys)"
    by (intro map_cong) (auto simp: keys_def score docs hit_def)
  have unscored: "\<exists>y. scores i = Some y" if "i < length docs" and "?pos (hit i)" for i
    using score[OF that(1)] that(2) by (cases "scores i") (simp_all add: map_get_def)
  have "filter ?pos (map hit keys) = filter ?pos (map hit [0..<length docs])"
    using unscored by (auto simp: keys_def filter_map comp_def intro!: arg_cong[where f = "map hit"] filter_cong)
  moreover have "mset (filter ?pos (map hit (order keys))) = mset (filter ?pos (map hit keys))"
    by (simp add: mkeys)
  ultimately have perm: "mset (filter ?pos (map hit [0..<length docs])) = mset (filter ?pos (map hit (order keys)))"
    by simp
  have inj: "doc_id (hit_document (hit i)) = i" for i by (simp add: hit_def stamp_def)
  then have "inj_on hit A" for A by (metis inj_onI)
  then have "distinct (filter ?pos (map hit [0..<length docs]))" by (simp add: distinct_map)
  then have "sort_slice hit_less (filter ?pos (map hit [0..<length docs])) =
      sort_slice hit_less (filter ?pos (map hit (order keys)))"
    by (rule hits.sort_slice_order[OF perm]) (auto simp: inj)
  then have same: "rank_hits k (filter ?pos (map hit (order keys))) = rank_hits k (filter ?pos (map hit [0..<length docs]))" for k
    by (simp add: rank_hits_def)
  have len: "length (ix_documents idx) = length docs" by (simp add: docs)
  have "Search fl u order idx query topK = rank_hits (if topK \<le> 0 then 20 else topK) (filter ?pos
      (map (\<lambda>d. \<lparr>hit_document = ix_documents idx ! d, hit_score = map_get scores (fl_of_int fl 0) d, hit_rank = 0\<rparr>) (order keys)))"
    using False query docs(2) by (simp add: Search_def Let_def len scores_def keys_def)
  then show ?thesis unfolding hits same by (simp add: idx_def reference_search_def hit_def[abs_def])
qed

section \<open>Well-formed indexes\<close>

text \<open>
  Document ids are positions and lengths count tokens; the postings of a term are those of
  its documents, in order and within the table; the document frequency counts them.
\<close>

definition postings_wf :: "unicode \<Rightarrow> 'f bm25_index \<Rightarrow> string \<Rightarrow> posting list \<Rightarrow> bool" where
  "postings_wf u idx t ps \<longleftrightarrow> ps \<noteq> [] \<and> sorted_wrt (<) (map post_doc_id ps)
    \<and> (\<forall>p \<in> set ps. post_doc_id p < length (ix_documents idx)
        \<and> t \<in> set (document_tokens u (ix_documents idx ! post_doc_id p)))"

definition index_wf :: "unicode \<Rightarrow> 'f bm25_index \<Rightarrow> bool" where
  "index_wf u idx \<longleftrightarrow>
    (\<forall>i < length (ix_documents idx). doc_id (ix_documents idx ! i) = i
       \<and> doc_length (ix_documents idx ! i) = length (document_tokens u (ix_documents idx ! i)))
    \<and> (\<forall>t ps. ix_inverted idx t = Some ps \<longrightarrow> postings_wf u idx t ps)
    \<and> (\<forall>t. ix_doc_freq idx t = map_option length (ix_inverted idx t))"

lemma document_tokens_stamp [simp]: "document_tokens u (stamp u i d) = document_tokens u d"
  by (simp add: document_tokens_def stamp_def)

lemma index_of_wf: "index_wf u (index_of fl u k1 b docs)"
proof -
  have "sorted_wrt (<) (filter P [0..<n])" for P and n :: nat
    by (simp add: sorted_wrt_filter)
  then have "postings_wf u (index_of fl u k1 b docs) t (corpus_postings u docs t)" if "corpus_df u docs t \<noteq> 0" for t
    using that unfolding postings_wf_def
    by (simp add: index_of_fields corpus_postings_def comp_def flip: length_corpus_postings)
  then show ?thesis
    unfolding index_wf_def by (auto simp: index_of_fields length_corpus_postings) (simp_all add: stamp_def document_tokens_def)
qed

lemma Build_fields:
  "ix_documents (Build fl idx) = ix_documents idx" "ix_inverted (Build fl idx) = ix_inverted idx"
  "ix_doc_freq (Build fl idx) = ix_doc_freq idx"
  by (simp_all add: Build_def Let_def)

lemma Build_wf: "index_wf u idx \<Longrightarrow> index_wf u (Build fl idx)"
  by (simp add: index_wf_def postings_wf_def Build_fields)

lemma count_list_distinct: "distinct xs \<Longrightarrow> x \<in> set xs \<Longrightarrow> count_list xs x = 1"
  by (induction xs) auto

lemma index_of_frequencies: "list_all (\<lambda>p. post_term_freq p = 1) (map_get (ix_inverted (index_of fl u k1 b docs)) [] t)"
  by (auto simp: index_of_fields corpus_postings_def document_tokens_def count_list_distinct map_get_def list_all_iff)

end
