(* ===== verification/Retrieval_Query.thy ===== *)
theory Retrieval_Query
  imports Retrieval_Index
begin

text \<open>
  From an issue to the evidence packet of the first prompt
  (\<open>internal/retrieval/query.go\<close>, \<open>internal/retrieval/interface.go\<close> and the result mapping
  of \<open>internal/retrieval/production_retriever.go\<close>): the bounded query, the ranked results
  as the agent sees them, and the deduplicated packet within its byte budget.
\<close>

section \<open>Strings\<close>

text \<open>\<open>strings.TrimRight\<close> with a cutset of one byte.\<close>

definition trim_right :: "string \<Rightarrow> char \<Rightarrow> string" where
  "trim_right s c = rev (dropWhile (\<lambda>x. x = c) (rev s))"

text \<open>
  The matches of \<open>stackTokenPattern\<close>. Its first alternative is a path with a known
  extension, its second a dotted identifier; whatever the third could match, the second
  matches first.
\<close>

definition is_ident_start :: "char \<Rightarrow> bool" where
  "is_ident_start c \<longleftrightarrow> in_range CHR ''A'' CHR ''Z'' c \<or> in_range CHR ''a'' CHR ''z'' c \<or> c = CHR ''_''"

definition is_ident_char :: "char \<Rightarrow> bool" where
  "is_ident_char c \<longleftrightarrow> is_ident_start c \<or> in_range CHR ''0'' CHR ''9'' c"

definition is_path_char :: "char \<Rightarrow> bool" where
  "is_path_char c \<longleftrightarrow> is_ident_char c \<or> c = CHR ''.'' \<or> c = CHR ''/'' \<or> c = CHR ''-''"

definition path_match :: "string \<Rightarrow> string" where
  "path_match s =
    (let sp = takeWhile is_path_char s;
         ends = filter (\<lambda>p. list_ex (\<lambda>ext. prefix ext (drop p sp)) [''.go'', ''.rs'', ''.py'', ''.ts'', ''.js''])
                  [1..<length sp]
     in if ends = [] then '''' else take (last ends + 3) sp)"

function dotted_match :: "string \<Rightarrow> string" where
  "dotted_match s =
    (case s of
       [] \<Rightarrow> ''''
     | c # r \<Rightarrow>
       if \<not> is_ident_start c then ''''
       else
         let name = c # takeWhile is_ident_char r; rest = dropWhile is_ident_char r
         in case rest of
              d # r' \<Rightarrow> if d = CHR ''.'' \<and> r' \<noteq> [] \<and> is_ident_start (hd r') then name @ d # dotted_match r' else name
            | [] \<Rightarrow> name)"
  by pat_completeness auto
termination
proof (relation "measure length", simp, goal_cases)
  case (1 s c r name rest d r')
  have "length (dropWhile is_ident_char r) \<le> length r" by (rule length_dropWhile_le)
  moreover from 1 have "length (dropWhile is_ident_char r) = Suc (length r')" by (metis length_Cons)
  ultimately show ?case using 1 by simp
qed

definition stack_match :: "string \<Rightarrow> string" where
  "stack_match s = (let m = path_match s in if m \<noteq> '''' then m else dotted_match s)"

function FindAllString :: "string \<Rightarrow> string list" where
  "FindAllString [] = []"
| "FindAllString (c # s) =
    (let m = stack_match (c # s)
     in if m = '''' then FindAllString s else m # FindAllString (drop (length m - 1) s))"
  by pat_completeness auto
termination by (relation "measure length") auto

section \<open>The query\<close>

fun stack_terms :: "string list \<Rightarrow> string list \<Rightarrow> string list \<Rightarrow> string list" where
  "stack_terms [] seen parts = parts"
| "stack_terms (m0 # ms) seen parts =
    (let m = trim_space m0; key = to_lower m
     in if m = '''' \<or> key \<in> set seen then stack_terms ms seen parts
        else if length (key # seen) \<ge> 32 then parts @ [m]
        else stack_terms ms (key # seen) (parts @ [m]))"

definition boundedWords :: "unicode \<Rightarrow> string \<Rightarrow> nat \<Rightarrow> string" where
  "boundedWords u input n =
    (let words = FieldsFunc (\<lambda>r. uc_space u r \<or> uc_punct u r) input
     in strings_Join (if length words > n then take n words else words) '' '')"

definition BuildQuery :: "unicode \<Rightarrow> string \<Rightarrow> string \<Rightarrow> string \<Rightarrow> string" where
  "BuildQuery u issueTitle issueDescription errorLog =
    (let description = trim_space issueDescription;
         parts = trim_space issueTitle # (if description \<noteq> '''' then [boundedWords u description 24] else []);
         query = strings_Join (stack_terms (FindAllString errorLog) [] parts) '' ''
     in trim_space (if length query > 2048 then take 2048 query else query))"

lemma length_trim_space: "length (trim_space s) \<le> length s"
proof -
  have "length (dropWhile is_space (rev (dropWhile is_space s))) \<le> length (rev (dropWhile is_space s))"
    by (rule length_dropWhile_le)
  also have "\<dots> \<le> length s" by (simp add: length_dropWhile_le)
  finally show ?thesis by (simp add: trim_space_def)
qed

lemma BuildQuery_bounded: "length (BuildQuery u title description errorLog) \<le> 2048"
  unfolding BuildQuery_def Let_def by (rule le_trans[OF length_trim_space]) simp

lemma stack_terms_bounded:
  "length seen < 32 \<Longrightarrow> length (stack_terms ms seen parts) + length seen \<le> length parts + 32"
proof (induction ms seen parts rule: stack_terms.induct)
  case (2 m0 ms seen parts)
  show ?case
  proof (cases "trim_space m0 = '''' \<or> to_lower (trim_space m0) \<in> set seen")
    case True
    with 2 show ?thesis by (auto simp: Let_def)
  next
    case False
    with "2.IH"(2)[OF refl refl False] "2.prems" show ?thesis by (auto simp: Let_def)
  qed
qed simp

section \<open>Results\<close>

record 'f search_result =
  res_chunk_id :: string
  res_evidence_id :: string
  res_path :: string
  res_language :: string
  res_symbol :: string
  res_start_line :: int
  res_end_line :: int
  res_snippet :: string
  res_score :: 'f
  res_retrieval_source :: string
  res_matched_terms :: "string list"
  res_symbol_keys :: "string list"
  res_retrieval_reason :: string

fun collect_terms :: "string \<Rightarrow> string list \<Rightarrow> string list \<Rightarrow> string list" where
  "collect_terms content [] matched = matched"
| "collect_terms content (t # ts) matched =
    (if length t < 2 \<or> t \<in> set matched \<or> \<not> str_contains content t then collect_terms content ts matched
     else collect_terms content ts (matched @ [t]))"

definition matchedTerms :: "unicode \<Rightarrow> string \<Rightarrow> string \<Rightarrow> string list" where
  "matchedTerms u query content =
    sort_slice str_less (collect_terms (strings_ToLower u content)
      (FieldsFunc (\<lambda>r. uc_space u r \<or> uc_punct u r) (strings_ToLower u query)) [])"

definition mapSearchResult ::
  "unicode \<Rightarrow> document \<Rightarrow> 'f \<Rightarrow> string \<Rightarrow> string \<Rightarrow> string \<Rightarrow> 'f search_result" where
  "mapSearchResult u doc score source reason query = \<lparr>
     res_chunk_id = doc_file_path doc @ '':'' @ itoa (doc_start_line doc) @ ''-'' @ itoa (doc_end_line doc),
     res_evidence_id = '''', res_path = doc_file_path doc, res_language = ''go'', res_symbol = doc_symbol_name doc,
     res_start_line = doc_start_line doc, res_end_line = doc_end_line doc, res_snippet = doc_content doc,
     res_score = score, res_retrieval_source = source,
     res_matched_terms = matchedTerms u query (doc_content doc @ '' '' @ doc_symbol_name doc @ '' '' @ doc_file_path doc),
     res_symbol_keys = (if doc_symbol_key_hash doc \<noteq> '''' then [doc_symbol_key_hash doc] else []),
     res_retrieval_reason = reason\<rparr>"

text \<open>\<open>SortResults\<close> sorts stably by descending score.\<close>

fun insert_result :: "('f::linorder) search_result \<Rightarrow> 'f search_result list \<Rightarrow> 'f search_result list" where
  "insert_result r [] = [r]"
| "insert_result r (x # xs) = (if res_score x > res_score r then x # insert_result r xs else r # x # xs)"

definition SortResults :: "('f::linorder) search_result list \<Rightarrow> 'f search_result list" where
  "SortResults results = foldr insert_result results []"

section \<open>The evidence packet\<close>

text \<open>The decimal digits \<open>query.go\<close> prints itself; a negative number has none.\<close>

definition line_digits :: "int \<Rightarrow> string" where
  "line_digits value = (if value = 0 then ''0'' else if value < 0 then '''' else nat_digits (nat value))"

definition resultLineKey :: "'f search_result \<Rightarrow> string" where
  "resultLineKey r = strings_Join [line_digits (res_start_line r), line_digits (res_end_line r)] ''-''"

definition formatScore :: "('f \<Rightarrow> string) \<Rightarrow> 'f \<Rightarrow> string" where
  "formatScore fmt v = trim_right (trim_right (fmt v) CHR ''0'') CHR ''.''"

definition overlaps_one :: "'f search_result \<Rightarrow> 'f search_result \<Rightarrow> bool" where
  "overlaps_one candidate previous \<longleftrightarrow>
    (let start = max (res_start_line previous) (res_start_line candidate);
         stop = min (res_end_line previous) (res_end_line candidate);
         overlap = stop - start + 1;
         shorter = min (res_end_line previous - res_start_line previous + 1)
                       (res_end_line candidate - res_start_line candidate + 1)
     in res_path previous = res_path candidate \<and> \<not> stop < start \<and> shorter > 0 \<and> overlap * 2 \<ge> shorter)"

definition overlapsAccepted :: "'f search_result \<Rightarrow> 'f search_result list \<Rightarrow> bool" where
  "overlapsAccepted candidate accepted = list_ex (overlaps_one candidate) accepted"

definition packet_entry :: "('f \<Rightarrow> string) \<Rightarrow> 'f search_result \<Rightarrow> string" where
  "packet_entry fmt r =
    ''- evidence_id='' @ res_evidence_id r @ '' '' @ res_path r @ '':'' @ resultLineKey r @ '' score='' @
    formatScore fmt (res_score r) @ '' reason='' @
    (if res_retrieval_reason r = '''' then res_retrieval_source r else res_retrieval_reason r) @
    '' matched_terms='' @ strings_Join (res_matched_terms r) '','' @ '' symbol_keys='' @
    strings_Join (res_symbol_keys r) '','' @ [char_of (10::nat)] @ res_snippet r @ [char_of (10::nat)]"

fun packet_loop ::
  "('f \<Rightarrow> string) \<Rightarrow> int \<Rightarrow> 'f search_result list \<Rightarrow> string list \<Rightarrow> 'f search_result list \<Rightarrow> string \<Rightarrow>
    'f search_result list \<times> string" where
  "packet_loop fmt maxBytes [] seen accepted out = (accepted, out)"
| "packet_loop fmt maxBytes (r # rs) seen accepted out =
    (let key = res_path r @ '':'' @ resultLineKey r
     in if key \<in> set seen \<or> overlapsAccepted r accepted then packet_loop fmt maxBytes rs seen accepted out
        else if int (length out) + int (length (packet_entry fmt r)) > maxBytes then (accepted, out)
        else packet_loop fmt maxBytes rs (key # seen) (accepted @ [r]) (out @ packet_entry fmt r))"

definition BuildEvidencePacket :: "('f \<Rightarrow> string) \<Rightarrow> 'f search_result list \<Rightarrow> int \<Rightarrow> string" where
  "BuildEvidencePacket fmt results maxBytes =
    snd (packet_loop fmt (if maxBytes \<le> 0 then 32 * 1024 else maxBytes) results [] [] '''')"

text \<open>
  The packet prints the accepted results, fits the budget, and no accepted result covers
  half of another one accepted before it.
\<close>

lemma packet_loop_accepted:
  assumes "packet_loop fmt maxBytes rs seen accepted out = (accepted', out')"
    and "int (length out) \<le> maxBytes" and "out = concat (map (packet_entry fmt) accepted)"
    and "sorted_wrt (\<lambda>p c. \<not> overlaps_one c p) accepted"
  shows "int (length out') \<le> maxBytes \<and> out' = concat (map (packet_entry fmt) accepted')
    \<and> sorted_wrt (\<lambda>p c. \<not> overlaps_one c p) accepted' \<and> set accepted' \<subseteq> set accepted \<union> set rs"
  using assms
proof (induction fmt maxBytes rs seen accepted out rule: packet_loop.induct)
  case (2 fmt maxBytes r rs seen accepted out)
  show ?case
  proof (cases "res_path r @ '':'' @ resultLineKey r \<in> set seen \<or> overlapsAccepted r accepted")
    case True
    with 2 show ?thesis by (auto simp: Let_def)
  next
    case False
    then have ok: "sorted_wrt (\<lambda>p c. \<not> overlaps_one c p) (accepted @ [r])"
      using "2.prems"(4) by (auto simp: overlapsAccepted_def list_ex_iff sorted_wrt_append)
    show ?thesis
    proof (cases "int (length out) + int (length (packet_entry fmt r)) > maxBytes")
      case True
      with False 2 show ?thesis by (auto simp: Let_def)
    next
      case fits: False
      with False 2 ok show ?thesis by (auto simp: Let_def)
    qed
  qed
qed auto

lemma BuildEvidencePacket_bounded:
  "int (length (BuildEvidencePacket fmt results maxBytes)) \<le> (if maxBytes \<le> 0 then 32 * 1024 else maxBytes)"
proof -
  define n where "n = (if maxBytes \<le> 0 then 32 * 1024 else maxBytes)"
  then have "0 \<le> n" by simp
  obtain a out where loop: "packet_loop fmt n results [] [] '''' = (a, out)" by force
  from packet_loop_accepted[OF this] \<open>0 \<le> n\<close> have "int (length out) \<le> n" by auto
  with loop show ?thesis by (simp add: BuildEvidencePacket_def flip: n_def)
qed

end
