(* ===== verification/Retrieval_Properties.thy ===== *)
theory Retrieval_Properties
  imports Retrieval_Query
begin

text \<open>
  The properties of lexical retrieval. The witnesses run the index on a corpus of two
  functions, with the ASCII part of the Unicode tables and rational scores.
\<close>

section \<open>A small corpus\<close>

definition exact :: "rat float64" where
  "exact = \<lparr>fl_of_int = of_int, fl_lit = (\<lambda>x. x), fl_add = (+), fl_sub = (-), fl_mul = (*), fl_div = (/),
     fl_log = (\<lambda>x. x - 1)\<rparr>"

definition corpus_document :: "string \<Rightarrow> string \<Rightarrow> document" where
  "corpus_document path name = \<lparr>doc_id = 0, doc_file_path = path, doc_start_line = 1, doc_end_line = 9,
     doc_content = ''func '' @ name, doc_symbol_key_hash = '''', doc_symbol_name = name, doc_kind = ''function'',
     doc_length = 0\<rparr>"

definition corpus :: "document list" where
  "corpus = [corpus_document ''a.go'' ''Open'', corpus_document ''b.go'' ''readAll'']"

section \<open>Properties\<close>

text \<open>
  C36. Ranked search over the inverted index returns exactly what scoring every document
  of the corpus from its tokens returns: the same documents, the same scores bit for bit,
  the same ranks and the same cut, for every corpus, query, result budget, every
  \<open>float64\<close> arithmetic and every order in which the score map is ranged over.
\<close>

theorem search_is_reference_search:
  assumes "any_order order"
  shows "Search fl u order (Build fl (fold (AddDocument u) docs (NewIndex fl k1 b))) query topK =
    reference_search fl u (default_k1 fl k1) (default_b fl b) docs query topK"
  using Search_reference[OF assms] by (simp add: index_of_def)

theorem search_is_reference_search_witness:
  "any_order rev
    \<and> Search exact ascii rev (Build exact (fold (AddDocument ascii) corpus (NewIndex exact 0 0))) ''read'' 5 =
      reference_search exact ascii (default_k1 exact 0) (default_b exact 0) corpus ''read'' 5
    \<and> map (\<lambda>h. (doc_symbol_name (hit_document h), hit_rank h))
        (reference_search exact ascii (default_k1 exact 0) (default_b exact 0) corpus ''read'' 5) = [(''readAll'', 1)]"
proof -
  have "any_order rev" by (simp add: any_order_def)
  moreover have "map (\<lambda>h. (doc_symbol_name (hit_document h), hit_rank h))
      (reference_search exact ascii (default_k1 exact 0) (default_b exact 0) corpus ''read'' 5) = [(''readAll'', 1)]"
    by code_simp
  ultimately show ?thesis using search_is_reference_search[of rev] by blast
qed


end
