(* ===== verification/Snapshot_Policy.thy ===== *)
theory Snapshot_Policy
  imports Job_Model Go_Library
begin

text \<open>
  What of a snapshot may be seen (\<open>internal/snapshotpolicy\<close>): the path policy shared by
  materialization, indexing, the agent's reads and evidence, the manifest of an immutable
  snapshot with its bisecting membership test, and the resolution of a path to a regular
  file inside the source root. The file system is a record of the answers of \<open>os.Lstat\<close>,
  \<open>filepath.EvalSymlinks\<close> and \<open>os.ReadFile\<close>; decoding a manifest is a parameter.
\<close>

section \<open>The path policy\<close>

definition VisibilityAgentReadable :: string where
  "VisibilityAgentReadable = ''AGENT_READABLE''"

record decision =
  dec_allowed :: bool
  dec_visibility :: string
  dec_reason :: string

definition denied :: "string \<Rightarrow> decision" where
  "denied reason = \<lparr>dec_allowed = False, dec_visibility = '''', dec_reason = reason\<rparr>"

definition ignoredDirectories :: "string list" where
  "ignoredDirectories = [''.git'', ''node_modules'', ''vendor'', ''dist'', ''build'', ''bin'', ''obj'', ''.idea'',
     ''.vscode'', ''target'', ''__pycache__'', ''.next'', ''testdata'']"

definition ignoredExtensions :: "string list" where
  "ignoredExtensions = [''.exe'', ''.dll'', ''.so'', ''.dylib'', ''.bin'', ''.png'', ''.jpg'', ''.jpeg'', ''.gif'', ''.ico'',
     ''.svg'', ''.pdf'', ''.zip'', ''.tar'', ''.gz'', ''.7z'', ''.jar'', ''.war'', ''.pyc'', ''.class'', ''.db'',
     ''.sqlite'', ''.woff'', ''.woff2'', ''.ttf'', ''.eot'', ''.mp4'', ''.mp3'']"

definition sensitiveNames :: "string list" where
  "sensitiveNames = [''.env'', ''id_rsa'', ''id_dsa'', ''id_ed25519'', ''secret.json'', ''secrets.json'',
     ''credential.json'', ''credentials.json'', ''service-account.json'', ''service_account.json'']"

definition ShouldSkipDirectory :: "unicode \<Rightarrow> string \<Rightarrow> bool" where
  "ShouldSkipDirectory u name0 \<longleftrightarrow>
    (let name = strings_ToLower u name0 in name \<in> set ignoredDirectories \<or> prefix ''.'' name)"

definition evaluate :: "unicode \<Rightarrow> string \<Rightarrow> int \<Rightarrow> decision" where
  "evaluate u path sizeBytes =
    (if sizeBytes < 0 \<or> str_contains path [CHR 0x5C] then denied ''path or size is invalid''
     else
       let clean = filepath_Clean path
       in if clean = ''.'' \<or> clean = '''' \<or> filepath_IsAbs path \<or> clean = ''..'' \<or> prefix ''../'' clean
          then denied ''path is not a snapshot relative path''
          else
            let parts = strings_Split clean CHR ''/''
            in if list_ex (ShouldSkipDirectory u) (butlast parts) then denied ''path is under an excluded directory''
               else
                 let base = strings_ToLower u (last parts)
                 in if base \<in> set sensitiveNames \<or> prefix ''.env.'' base \<or> suffix ''.pem'' base \<or> suffix ''.key'' base
                    then denied ''path identifies a sensitive file''
                    else if strings_ToLower u (filepath_Ext base) \<in> set ignoredExtensions
                    then denied ''file type is excluded by snapshot policy''
                    else \<lparr>dec_allowed = True, dec_visibility = VisibilityAgentReadable, dec_reason = ''''\<rparr>)"

definition CanMaterialize :: "unicode \<Rightarrow> string \<Rightarrow> int \<Rightarrow> decision" where
  "CanMaterialize u path sizeBytes = evaluate u path sizeBytes"

definition CanIndex :: "unicode \<Rightarrow> string \<Rightarrow> int \<Rightarrow> decision" where
  "CanIndex u path sizeBytes = evaluate u path sizeBytes"

definition CanReadByAgent :: "unicode \<Rightarrow> string \<Rightarrow> int \<Rightarrow> decision" where
  "CanReadByAgent u path sizeBytes = evaluate u path sizeBytes"

definition CanIssueEvidence :: "unicode \<Rightarrow> string \<Rightarrow> int \<Rightarrow> decision" where
  "CanIssueEvidence u path sizeBytes = evaluate u path sizeBytes"

lemmas policy_entry_defs = CanMaterialize_def CanIndex_def CanReadByAgent_def CanIssueEvidence_def

definition DetectLanguage :: "unicode \<Rightarrow> string \<Rightarrow> string" where
  "DetectLanguage u path =
    (let ext = strings_ToLower u (filepath_Ext path)
     in if ext = ''.go'' then ''go''
        else if ext = ''.py'' then ''python''
        else if ext \<in> set [''.js'', ''.mjs'', ''.cjs''] then ''javascript''
        else if ext \<in> set [''.ts'', ''.tsx''] then ''typescript''
        else if ext = ''.java'' then ''java''
        else if ext = ''.rs'' then ''rust''
        else if ext \<in> set [''.c'', ''.h''] then ''c''
        else if ext \<in> set [''.cpp'', ''.hpp'', ''.cc''] then ''cpp''
        else if ext \<in> set [''.md'', ''.markdown''] then ''markdown''
        else if ext = ''.json'' then ''json''
        else if ext \<in> set [''.yaml'', ''.yml''] then ''yaml''
        else if ext = ''.sql'' then ''sql''
        else if ext \<in> set [''.sh'', ''.bash''] then ''bash''
        else ''text'')"

section \<open>The manifest\<close>

record file_entry =
  fe_path :: string
  fe_size :: int
  fe_sha256 :: string
  fe_language :: string
  fe_visibility :: string

record manifest =
  mf_version :: int
  mf_snapshot_id :: string
  mf_commit_sha :: string
  mf_content_hash :: string
  mf_files :: "file_entry list"

definition ErrManifestNotFound :: go_error where
  "ErrManifestNotFound = Sentinel ''snapshotpolicy.ErrManifestNotFound'' ''snapshot file manifest not found''"

definition is_hex_digit :: "char \<Rightarrow> bool" where
  "is_hex_digit c \<longleftrightarrow> (let n = of_char c :: nat in 48 \<le> n \<and> n \<le> 57 \<or> 65 \<le> n \<and> n \<le> 70 \<or> 97 \<le> n \<and> n \<le> 102)"

definition validHash :: "string \<Rightarrow> bool" where
  "validHash v \<longleftrightarrow> length v = 64 \<and> list_all is_hex_digit v"

definition entry_less :: "file_entry \<Rightarrow> file_entry \<Rightarrow> bool" where
  "entry_less a b = str_less (fe_path a) (fe_path b)"

definition NewManifest :: "string \<Rightarrow> string \<Rightarrow> string \<Rightarrow> file_entry list \<Rightarrow> manifest" where
  "NewManifest snapshotID commitSHA contentHash files = \<lparr>mf_version = 1, mf_snapshot_id = snapshotID,
     mf_commit_sha = commitSHA, mf_content_hash = contentHash, mf_files = sort_slice entry_less files\<rparr>"

definition canonicalEntry :: "unicode \<Rightarrow> file_entry \<Rightarrow> bool" where
  "canonicalEntry u f \<longleftrightarrow> fe_path f \<noteq> '''' \<and> filepath_Clean (fe_path f) = fe_path f \<and> fe_size f \<ge> 0
    \<and> dec_allowed (CanMaterialize u (fe_path f) (fe_size f)) \<and> fe_visibility f = VisibilityAgentReadable
    \<and> validHash (fe_sha256 f) \<and> fe_language f \<noteq> ''''"

definition AllowedPaths :: "unicode \<Rightarrow> manifest \<Rightarrow> string list" where
  "AllowedPaths u m = map fe_path (filter (\<lambda>f. dec_allowed (CanIndex u (fe_path f) (fe_size f))
     \<and> fe_visibility f = VisibilityAgentReadable) (mf_files m))"

definition Contains :: "unicode \<Rightarrow> manifest \<Rightarrow> string \<Rightarrow> bool" where
  "Contains u m path \<longleftrightarrow> dec_allowed (CanReadByAgent u path 0) \<and>
    (let clean = filepath_Clean path;
         i = sort_Search (length (mf_files m)) (\<lambda>i. \<not> str_less (fe_path (mf_files m ! i)) clean)
     in i < length (mf_files m) \<and> fe_path (mf_files m ! i) = clean
        \<and> fe_visibility (mf_files m ! i) = VisibilityAgentReadable)"

text \<open>
  The check of the entries: the paths are the sorted ones, none repeats the one before it,
  and each entry is canonical.
\<close>

fun check_entries :: "unicode \<Rightarrow> string \<Rightarrow> string option \<Rightarrow> string list \<Rightarrow> file_entry list \<Rightarrow> go_error + unit" where
  "check_entries u what prev (s # ss) (f # fs) =
    (if fe_path f \<noteq> s \<or> prev = Some (fe_path f) \<or> \<not> canonicalEntry u f
     then Inl (Errorf (what @ [CHR 0x22] @ fe_path f @ [CHR 0x22]) [])
     else check_entries u what (Some (fe_path f)) ss fs)"
| "check_entries u what prev _ _ = Inr ()"

definition check_identity :: "manifest \<Rightarrow> go_error + unit" where
  "check_identity m =
    (if mf_version m \<noteq> 1 then Inl (Errorf (''unsupported snapshot manifest version '' @ itoa (mf_version m)) [])
     else if mf_snapshot_id m = '''' \<or> mf_commit_sha m = '''' \<or> \<not> validHash (mf_content_hash m)
     then Inl (Errorf ''snapshot manifest identity is incomplete'' [])
     else Inr ())"

text \<open>The manifest \<open>WriteManifest\<close> puts in place, or the error that keeps it from writing.\<close>

definition WriteManifest :: "unicode \<Rightarrow> manifest \<Rightarrow> go_error + manifest" where
  "WriteManifest u m0 = bindE (check_identity m0) (\<lambda>_.
    let m = NewManifest (mf_snapshot_id m0) (mf_commit_sha m0) (mf_content_hash m0) (mf_files m0)
    in bindE (check_entries u ''invalid or excluded snapshot manifest entry '' None (map fe_path (mf_files m)) (mf_files m)) (\<lambda>_. Inr m))"

datatype file_read = ReadMissing | ReadFailed go_error | ReadBytes string

definition LoadManifest :: "unicode \<Rightarrow> (string \<Rightarrow> go_error + manifest) \<Rightarrow> file_read \<Rightarrow> go_error + manifest" where
  "LoadManifest u unmarshal file =
    (case file of
       ReadMissing \<Rightarrow> Inl ErrManifestNotFound
     | ReadFailed e \<Rightarrow> Inl e
     | ReadBytes data \<Rightarrow>
       (case unmarshal data of
          Inl e \<Rightarrow> Inl (errorf_w ''decode snapshot file manifest'' e)
        | Inr m \<Rightarrow> bindE (check_identity m) (\<lambda>_.
            let sorted = NewManifest (mf_snapshot_id m) (mf_commit_sha m) (mf_content_hash m) (mf_files m)
            in bindE (check_entries u ''invalid snapshot manifest entry '' None (map fe_path (mf_files sorted)) (mf_files m))
                 (\<lambda>_. Inr m))))"

section \<open>Reading from a snapshot\<close>

datatype file_mode = ModeRegular | ModeDir | ModeSymlink | ModeOther

record file_system =
  fs_lstat :: "string \<Rightarrow> file_mode option"
  fs_eval_symlinks :: "string \<Rightarrow> string option"
  fs_read_file :: "string \<Rightarrow> file_read"

definition ManifestPath :: "string \<Rightarrow> string" where
  "ManifestPath sourceRoot = filepath_Join [filepath_Dir sourceRoot, ''.repolens-snapshot-manifest.json'']"

fun marked_execution :: "string list \<Rightarrow> bool" where
  "marked_execution (a # b # ps) \<longleftrightarrow> a = ''executions'' \<and> prefix ''gen-'' b \<or> marked_execution (b # ps)"
| "marked_execution _ \<longleftrightarrow> False"

definition RequiresManifest :: "string \<Rightarrow> bool" where
  "RequiresManifest sourceRoot = marked_execution (strings_Split (filepath_Clean sourceRoot) CHR ''/'')"

definition CanReadFromSnapshot ::
  "unicode \<Rightarrow> (string \<Rightarrow> go_error + manifest) \<Rightarrow> file_system \<Rightarrow> string \<Rightarrow> string \<Rightarrow> decision" where
  "CanReadFromSnapshot u unmarshal fs sourceRoot path =
    (let decision = CanReadByAgent u path 0
     in if \<not> dec_allowed decision then decision
        else case LoadManifest u unmarshal (fs_read_file fs (ManifestPath sourceRoot)) of
          Inl e \<Rightarrow>
            if errors_is e ErrManifestNotFound
            then if RequiresManifest sourceRoot then denied ''immutable snapshot manifest is missing'' else decision
            else denied ''snapshot manifest is unavailable or invalid''
        | Inr m \<Rightarrow> if \<not> Contains u m path then denied ''file is not present in the snapshot manifest'' else decision)"

definition CanIssueEvidenceFromSnapshot ::
  "unicode \<Rightarrow> (string \<Rightarrow> go_error + manifest) \<Rightarrow> file_system \<Rightarrow> string \<Rightarrow> string \<Rightarrow> decision" where
  "CanIssueEvidenceFromSnapshot u unmarshal fs sourceRoot path =
    (let decision = CanIssueEvidence u path 0
     in if \<not> dec_allowed decision then decision
        else
          let manifestDecision = CanReadFromSnapshot u unmarshal fs sourceRoot path
          in if \<not> dec_allowed manifestDecision then manifestDecision else decision)"

text \<open>\<open>filepath.Rel\<close> on the components of two cleaned paths of the same kind.\<close>

fun drop_common :: "string list \<Rightarrow> string list \<Rightarrow> string list \<times> string list" where
  "drop_common (a # as) (b # bs) = (if a = b then drop_common as bs else (a # as, b # bs))"
| "drop_common as bs = (as, bs)"

definition path_parts :: "string \<Rightarrow> string list" where
  "path_parts p = clean_parts (filepath_IsAbs p) (strings_Split p CHR ''/'') []"

definition filepath_Rel :: "string \<Rightarrow> string \<Rightarrow> string list option" where
  "filepath_Rel base targ =
    (if filepath_IsAbs base \<noteq> filepath_IsAbs targ then None
     else case drop_common (path_parts base) (path_parts targ) of
       (bs, ts) \<Rightarrow> if bs \<noteq> [] \<and> hd bs = ''..'' then None else Some (replicate (length bs) ''..'' @ ts))"

text \<open>The walk from the root to the file: every component exists and none is a symbolic link.\<close>

fun check_components :: "file_system \<Rightarrow> string \<Rightarrow> string \<Rightarrow> string list \<Rightarrow> go_error + unit" where
  "check_components fs relativePath current [] = Inr ()"
| "check_components fs relativePath current (c # cs) =
    (let next = filepath_Join [current, c]
     in case fs_lstat fs next of
          None \<Rightarrow> Inl (Errorf (''file not found: '' @ relativePath) [])
        | Some m \<Rightarrow>
            if m = ModeSymlink then Inl (Errorf (''symlink access denied: '' @ relativePath) [])
            else check_components fs relativePath next cs)"

definition SafePath :: "unicode \<Rightarrow> file_system \<Rightarrow> string \<Rightarrow> string \<Rightarrow> go_error + string" where
  "SafePath u fs sourceRoot relativePath =
    (let cleaned = filepath_Clean relativePath; fullPath = filepath_Join [sourceRoot, cleaned]
     in if \<not> dec_allowed (CanReadByAgent u relativePath 0)
        then Inl (Errorf (''snapshot file access denied: '' @ relativePath) [])
        else if cleaned = ''.'' \<or> filepath_IsAbs cleaned \<or> prefix ''../'' cleaned \<or> cleaned = ''..''
        then Inl (Errorf (''path traversal denied: '' @ relativePath) [])
        else if fs_lstat fs sourceRoot \<noteq> Some ModeDir then Inl (Errorf ''non-canonical snapshot root denied'' [])
        else case fs_lstat fs fullPath of
          None \<Rightarrow> Inl (Errorf (''file not found: '' @ relativePath) [])
        | Some info \<Rightarrow>
          if info = ModeSymlink then Inl (Errorf (''symlink access denied: '' @ relativePath) [])
          else case filepath_Rel sourceRoot fullPath of
            None \<Rightarrow> Inl (Errorf (''path resolution denied: '' @ relativePath) [])
          | Some components \<Rightarrow> bindE (check_components fs relativePath sourceRoot components) (\<lambda>_.
              case fs_eval_symlinks fs sourceRoot of
                None \<Rightarrow> Inl (Errorf ''snapshot root unavailable'' [])
              | Some rootReal \<Rightarrow>
                (case fs_eval_symlinks fs fullPath of
                   None \<Rightarrow> Inl (Errorf (''file not found: '' @ relativePath) [])
                 | Some pathReal \<Rightarrow>
                   (case filepath_Rel rootReal pathReal of
                      None \<Rightarrow> Inl (Errorf (''symlink escape denied: '' @ relativePath) [])
                    | Some rel \<Rightarrow>
                      if rel \<noteq> [] \<and> hd rel = ''..'' then Inl (Errorf (''symlink escape denied: '' @ relativePath) [])
                      else if info \<noteq> ModeRegular
                      then Inl (Errorf (''non-regular snapshot file denied: '' @ relativePath) [])
                      else Inr pathReal))))"

section \<open>What the policy guarantees\<close>

text \<open>An allowed path stays inside the root: cleaned, it is a chain of plain names.\<close>

lemma strings_Split_plain: "CHR ''/'' \<notin> set p \<Longrightarrow> strings_Split p CHR ''/'' = [p]"
  by (induction p) auto

lemma strings_Split_Join:
  "ps \<noteq> [] \<Longrightarrow> \<forall>p \<in> set ps. sep \<notin> set p \<Longrightarrow> strings_Split (strings_Join ps [sep]) sep = ps"
proof (induction ps "[sep]" rule: strings_Join.induct)
  case (2 s)
  then show ?case by (induction s) auto
next
  case (3 s t ss)
  then have IH: "strings_Split (strings_Join (t # ss) [sep]) sep = t # ss" by simp
  from "3.prems"(2) have "sep \<notin> set s" by simp
  then have "strings_Split (s @ sep # r) sep = s # strings_Split r sep" for r
    by (induction s) auto
  with IH show ?case by simp
qed simp

lemma allowed_path_plain:
  assumes "dec_allowed (evaluate u path sizeBytes)"
  shows "\<forall>p \<in> set (strings_Split (filepath_Clean path) CHR ''/''). plain_part p"
proof -
  let ?parts = "clean_parts False (strings_Split path CHR ''/'') []"
  from assms have rel: "\<not> filepath_IsAbs path" and clean: "filepath_Clean path \<noteq> ''.''" "filepath_Clean path \<noteq> ''..''"
      "\<not> prefix ''../'' (filepath_Clean path)"
    by (auto simp: evaluate_def Let_def denied_def split: if_splits)
  then have c: "filepath_Clean path = strings_Join ?parts ''/''" and ne: "?parts \<noteq> []"
    by (auto simp: filepath_Clean_def Let_def split: if_splits)
  have "hd ?parts \<noteq> ''..''"
  proof
    assume "hd ?parts = ''..''"
    with ne obtain ps where "?parts = ''..'' # ps" by (cases ?parts) auto
    with c clean show False by (cases ps) auto
  qed
  then have plain: "\<forall>q \<in> set ?parts. plain_part q" using clean_relative_parts[OF refl] by blast
  then have "strings_Split (filepath_Clean path) CHR ''/'' = ?parts"
    unfolding c using strings_Split_Join[OF ne, of "CHR ''/''"] by (simp add: plain_part_def)
  with plain show ?thesis by simp
qed

lemma allowed_path_visible:
  assumes "dec_allowed (evaluate u path sizeBytes)"
  shows "list_all (\<lambda>p. \<not> ShouldSkipDirectory u p) (butlast (strings_Split (filepath_Clean path) CHR ''/''))
    \<and> strings_ToLower u (last (strings_Split (filepath_Clean path) CHR ''/'')) \<notin> set sensitiveNames"
  using assms by (auto simp: evaluate_def Let_def denied_def list_all_iff list_ex_iff split: if_splits)

text \<open>A path resolves only to a regular file below the root, reached without symbolic links.\<close>

lemma check_components_ok:
  "check_components fs r current cs = Inr () \<Longrightarrow>
    \<forall>k < length cs. fs_lstat fs (foldl (\<lambda>c n. filepath_Join [c, n]) current (take (Suc k) cs)) \<notin> {None, Some ModeSymlink}"
proof (induction cs arbitrary: current)
  case (Cons c cs)
  then have "fs_lstat fs (filepath_Join [current, c]) \<notin> {None, Some ModeSymlink}"
    and "check_components fs r (filepath_Join [current, c]) cs = Inr ()"
    by (auto simp: Let_def split: option.splits if_splits)
  with Cons.IH[of "filepath_Join [current, c]"] show ?case
    by (auto simp: less_Suc_eq_0_disj)
qed simp

lemma SafePath_regular:
  assumes "SafePath u fs root path = Inr real"
  shows "dec_allowed (evaluate u path 0) \<and> fs_lstat fs (filepath_Join [root, filepath_Clean path]) = Some ModeRegular
    \<and> fs_eval_symlinks fs (filepath_Join [root, filepath_Clean path]) = Some real
    \<and> (\<exists>rootReal rel. fs_eval_symlinks fs root = Some rootReal \<and> filepath_Rel rootReal real = Some rel
         \<and> (rel = [] \<or> hd rel \<noteq> ''..''))"
  using assms
  by (auto simp: SafePath_def Let_def CanReadByAgent_def bindE_eq_Inr split: if_splits option.splits)

text \<open>Bisection finds what is in a sorted manifest.\<close>

lemma check_entries_ok:
  "check_entries u w prev ss fs = Inr () \<Longrightarrow> length ss = length fs \<Longrightarrow>
    map fe_path fs = ss \<and> (\<forall>f \<in> set fs. canonicalEntry u f)"
  by (induction u w prev ss fs rule: check_entries.induct) (auto split: if_splits)

lemma check_entries_distinct:
  "check_entries u w prev ss fs = Inr () \<Longrightarrow> length ss = length fs \<Longrightarrow>
    sorted_wrt (\<lambda>a b. \<not> str_less b a) (map fe_path fs) \<Longrightarrow> sorted_wrt str_less (map fe_path fs)"
proof (induction fs arbitrary: prev ss)
  case (Cons f fs)
  then obtain s ss' where ss: "ss = s # ss'" by (cases ss) auto
  with Cons.prems(1) have rest: "check_entries u w (Some (fe_path f)) ss' fs = Inr ()" by (simp split: if_splits)
  with Cons ss have sorted: "sorted_wrt str_less (map fe_path fs)" by auto
  show ?case
  proof (cases fs)
    case fs: (Cons g gs)
    with rest Cons.prems(2) ss have "fe_path f \<noteq> fe_path g" by (cases ss') (auto split: if_splits)
    with Cons.prems(3) fs strs.lt_total[of "fe_path f" "fe_path g"] have "str_less (fe_path f) (fe_path g)" by auto
    with sorted fs strs.lt_trans show ?thesis by auto
  qed simp
qed simp

lemma Contains_sorted:
  assumes "sorted_wrt str_less (map fe_path (mf_files m))"
  shows "Contains u m path \<longleftrightarrow> dec_allowed (CanReadByAgent u path 0)
    \<and> (\<exists>f \<in> set (mf_files m). fe_path f = filepath_Clean path \<and> fe_visibility f = VisibilityAgentReadable)"
proof -
  define fs where "fs = mf_files m"
  define c where "c = filepath_Clean path"
  define P where "P i \<longleftrightarrow> \<not> str_less (fe_path (fs ! i)) c" for i
  define i where "i = sort_Search (length fs) P"
  have less: "str_less (fe_path (fs ! a)) (fe_path (fs ! b))" if "a < b" "b < length fs" for a b
    using assms that by (simp add: fs_def sorted_wrt_iff_nth_less)
  have mono: "P b" if "a \<le> b" "b < length fs" "P a" for a b
    using that less[of a b] strs.lt_trans[of "fe_path (fs ! a)" "fe_path (fs ! b)" c] by (cases "a = b") (auto simp: P_def)
  have i: "i \<le> length fs" "\<And>k. k < i \<Longrightarrow> \<not> P k" "\<And>k. i \<le> k \<Longrightarrow> k < length fs \<Longrightarrow> P k"
    using search_loop_least[of "length fs" P 0 "length fs"] mono by (auto simp: i_def sort_Search_def)
  have unique: "k = i" if "k < length fs" "fe_path (fs ! k) = c" for k
  proof -
    have "P k" using that(2) strs.lt_irrefl by (simp add: P_def)
    then have "i \<le> k" using i(2)[of k] by (meson not_le)
    moreover have "\<not> i < k" using less[of i k] i(3)[of i] that by (auto simp: P_def)
    ultimately show ?thesis by simp
  qed
  have "(\<exists>f \<in> set fs. fe_path f = c \<and> fe_visibility f = VisibilityAgentReadable) \<longleftrightarrow>
      i < length fs \<and> fe_path (fs ! i) = c \<and> fe_visibility (fs ! i) = VisibilityAgentReadable"
    using unique by (metis in_set_conv_nth)
  then show ?thesis
    unfolding Contains_def Let_def fs_def[symmetric] c_def[symmetric] by (simp add: i_def P_def[abs_def])
qed

lemma sorted_NewManifest: "sorted_wrt (\<lambda>a b. \<not> str_less b a) (map fe_path (sort_slice entry_less files))"
proof (induction files)
  case (Cons f files)
  have le_trans: "\<not> str_less c a" if "\<not> str_less b a" "\<not> str_less c b" for a b c
    using that strs.lt_trans strs.lt_total by metis
  have mem: "set (insert_by entry_less f gs) = insert f (set gs)" for gs
    by (metis mset_insert_by set_mset_add_mset_insert set_mset_mset)
  have "sorted_wrt (\<lambda>a b. \<not> str_less b a) (map fe_path gs) \<Longrightarrow>
      sorted_wrt (\<lambda>a b. \<not> str_less b a) (map fe_path (insert_by entry_less f gs))" for gs
  proof (induction gs)
    case (Cons g gs)
    show ?case
    proof (cases "entry_less g f")
      case True
      have "\<not> str_less (fe_path x) (fe_path g)" if "x \<in> set (insert_by entry_less f gs)" for x
        using that Cons.prems True strs.lt_trans strs.lt_irrefl unfolding mem entry_less_def by auto
      with Cons True show ?thesis by simp
    next
      case False
      with Cons le_trans[of "fe_path g" "fe_path f"] show ?thesis by (auto simp: entry_less_def)
    qed
  qed simp
  with Cons show ?case by (simp add: sort_slice_def)
qed simp

lemma strict_of_weak:
  "distinct ps \<Longrightarrow> sorted_wrt (\<lambda>a b. \<not> str_less b a) ps \<Longrightarrow> sorted_wrt str_less ps"
  by (induction ps) (use strs.lt_total in auto)

text \<open>A written manifest loads, holds exactly the given files, and answers for exactly them.\<close>

lemma WriteManifest_sound:
  assumes "WriteManifest u m = Inr m'"
  shows "set (mf_files m') = set (mf_files m)" and "sorted_wrt str_less (map fe_path (mf_files m'))"
    and "\<forall>f \<in> set (mf_files m). canonicalEntry u f" and "check_identity m' = Inr ()"
proof -
  from assms have m': "m' = NewManifest (mf_snapshot_id m) (mf_commit_sha m) (mf_content_hash m) (mf_files m)"
    and c: "check_entries u ''invalid or excluded snapshot manifest entry '' None (map fe_path (mf_files m')) (mf_files m') = Inr ()"
    and i: "check_identity m = Inr ()"
    by (auto simp: WriteManifest_def Let_def bindE_eq_Inr)
  from m' show files: "set (mf_files m') = set (mf_files m)" by (simp add: NewManifest_def)
  from check_entries_distinct[OF c] sorted_NewManifest[of "mf_files m"]
  show "sorted_wrt str_less (map fe_path (mf_files m'))" by (simp add: m' NewManifest_def)
  from check_entries_ok[OF c] files show "\<forall>f \<in> set (mf_files m). canonicalEntry u f" by simp
  from i m' show "check_identity m' = Inr ()" by (simp add: check_identity_def NewManifest_def split: if_splits)
qed

lemma manifest_round_trip:
  assumes "WriteManifest u m = Inr m'" and "unmarshal data = Inr m'"
  shows "LoadManifest u unmarshal (ReadBytes data) = Inr m'"
    and "Contains u m' path \<longleftrightarrow> dec_allowed (CanReadByAgent u path 0)
      \<and> filepath_Clean path \<in> fe_path ` set (mf_files m)"
proof -
  note w = WriteManifest_sound[OF assms(1)]
  have distinct: "distinct (map fe_path (mf_files m'))"
    using w(2) strs.lt_irrefl by (auto simp: sorted_wrt_iff_nth_less distinct_conv_nth) (metis nat_neq_iff)
  have "mset (map fe_path (sort_slice entry_less (mf_files m'))) = mset (map fe_path (mf_files m'))" by simp
  with distinct have "distinct (map fe_path (sort_slice entry_less (mf_files m')))"
    using mset_eq_imp_distinct_iff by blast
  then have "sorted_wrt str_less (map fe_path (sort_slice entry_less (mf_files m')))"
    using sorted_NewManifest[of "mf_files m'"] by (rule strict_of_weak)
  then have same: "map fe_path (sort_slice entry_less (mf_files m')) = map fe_path (mf_files m')"
    using strs.sorted_unique[OF _ w(2)] by simp
  have "prev \<notin> Some ` fe_path ` set fs \<Longrightarrow> sorted_wrt str_less (map fe_path fs) \<Longrightarrow> \<forall>f \<in> set fs. canonicalEntry u f \<Longrightarrow>
      check_entries u what prev (map fe_path fs) fs = Inr ()" for prev what fs
  proof (induction fs arbitrary: prev)
    case (Cons f fs)
    then have "Some (fe_path f) \<notin> Some ` fe_path ` set fs" using strs.lt_irrefl by force
    with Cons show ?case by auto
  qed simp
  from this[of None] w have "check_entries u what None (map fe_path (mf_files m')) (mf_files m') = Inr ()" for what
    by auto
  with assms(2) w(4) same show "LoadManifest u unmarshal (ReadBytes data) = Inr m'"
    by (simp add: LoadManifest_def Let_def NewManifest_def)
  show "Contains u m' path \<longleftrightarrow> dec_allowed (CanReadByAgent u path 0) \<and> filepath_Clean path \<in> fe_path ` set (mf_files m)"
    using Contains_sorted[OF w(2), of u path] w(1,3) by (force simp: canonicalEntry_def image_iff)
qed

end
