(* ===== verification/Snapshot_Reader.thy ===== *)
theory Snapshot_Reader
  imports Snapshot_Policy
begin

text \<open>
  Reading lines of a materialized snapshot (\<open>internal/platform/snapshotstore\<close>): source
  paths, bounded line ranges one at a time and several in one scan of the file. A file is
  its bytes; its lines are the pieces between newlines, the last one ending at the end of
  the file. The buffered reader hands a long line over in fragments, which only matters to
  how early the scan can give up on it. A read runs under a context that stays live.
\<close>

section \<open>Source paths\<close>

record snapshot_store =
  ss_base_path :: string
  ss_resolver :: "(string \<Rightarrow> string \<Rightarrow> string \<times> bool) option"
  ss_resolved :: "(string \<times> string) \<rightharpoonup> string"

definition default_source_path :: "snapshot_store \<Rightarrow> string \<Rightarrow> string \<Rightarrow> string" where
  "default_source_path s repoID snapshotID = filepath_Join [ss_base_path s, repoID, snapshotID, ''source'']"

definition GetSourcePath :: "string \<Rightarrow> string \<Rightarrow> snapshot_store \<Rightarrow> string \<times> snapshot_store" where
  "GetSourcePath repoID snapshotID s =
    (let key = (repoID, snapshotID); known = (case ss_resolved s key of None \<Rightarrow> '''' | Some p \<Rightarrow> p)
     in if known \<noteq> '''' then (known, s)
        else case ss_resolver s of
          None \<Rightarrow> (default_source_path s repoID snapshotID, s)
        | Some resolver \<Rightarrow>
          (case resolver repoID snapshotID of
             (path, isStable) \<Rightarrow>
               if isStable \<and> path \<noteq> '''' then (path, s\<lparr>ss_resolved := (ss_resolved s)(key \<mapsto> path)\<rparr>)
               else (default_source_path s repoID snapshotID, s)))"

text \<open>A stable source path is answered from the cache from then on, whatever the resolver says later.\<close>

lemma GetSourcePath_stable:
  assumes "ss_resolver s = Some resolver" and "resolver repoID snapshotID = (path, True)" and "path \<noteq> ''''"
    and "ss_resolved s (repoID, snapshotID) = None"
  shows "fst (GetSourcePath repoID snapshotID s) = path"
    and "fst (GetSourcePath repoID snapshotID ((snd (GetSourcePath repoID snapshotID s))\<lparr>ss_resolver := r\<rparr>)) = path"
  using assms by (simp_all add: GetSourcePath_def Let_def)

definition is_path_element :: "string \<Rightarrow> bool" where
  "is_path_element p \<longleftrightarrow> CHR ''/'' \<notin> set p \<and> p \<noteq> '''' \<and> p \<noteq> ''.'' \<and> p \<noteq> ''..''"

definition GetExecutionSourcePath ::
  "(string \<Rightarrow> string) \<Rightarrow> snapshot_store \<Rightarrow> string \<Rightarrow> string \<Rightarrow> int \<Rightarrow> string \<Rightarrow> go_error + string" where
  "GetExecutionSourcePath sha256_hex s repoID snapshotID generation claimToken =
    (if generation < 1 \<or> repoID = '''' \<or> snapshotID = '''' \<or> claimToken = ''''
     then Inl (Errorf ''snapshot execution identity is incomplete'' [])
     else if \<not> is_path_element repoID \<or> \<not> is_path_element snapshotID
     then Inl (Errorf ''invalid snapshot execution identity'' [])
     else Inr (filepath_Join [ss_base_path s, repoID, snapshotID, ''executions'', ''gen-'' @ itoa generation,
            sha256_hex claimToken, ''source'']))"

section \<open>One range\<close>

definition ErrLineTooLong :: go_error where
  "ErrLineTooLong = Sentinel ''snapshotstore.ErrLineTooLong'' ''snapshot file line exceeds the configured range limit''"

record file_range =
  fr_path :: string
  fr_start_line :: int
  fr_end_line :: int
  fr_total_lines :: int
  fr_content :: string
  fr_truncated :: bool

record bounded_lines =
  bl_content :: string
  bl_end_line :: int
  bl_total_lines :: int
  bl_truncated :: bool
  bl_total_known :: bool

definition newline :: char where
  "newline = CHR 0x0A"

definition file_lines :: "string \<Rightarrow> string list" where
  "file_lines content = strings_Split content newline"

record scan_state =
  sn_content :: string
  sn_selected_lines :: nat
  sn_end_line :: int
  sn_truncated :: bool

text \<open>
  One line of the loop of \<open>readBoundedLines\<close>: either the loop returns (on the left), or it
  goes on with the new state. \<open>isLast\<close> says that the line ends at the end of the file.
\<close>

definition scan_line ::
  "int \<Rightarrow> int \<Rightarrow> int \<Rightarrow> bool \<Rightarrow> bool \<Rightarrow> int \<Rightarrow> string \<Rightarrow> scan_state \<Rightarrow> (go_error + bounded_lines) + scan_state" where
  "scan_line startLine requestedEnd maxBytes stopAtEnd isLast lineNo l st =
    (let selected = (lineNo \<ge> startLine \<and> (requestedEnd \<le> 0 \<or> lineNo \<le> requestedEnd) \<and> \<not> sn_truncated st);
         tooLong = (selected \<and> maxBytes > 0 \<and> int (length l) > maxBytes);
         separatorBytes = (if sn_selected_lines st > 0 then 1 else 0 :: int);
         over = (selected \<and> (tooLong \<or>
           maxBytes > 0 \<and> int (length (sn_content st)) + separatorBytes + int (length l) > maxBytes))
     in if over \<and> sn_selected_lines st = 0 then Inl (Inl ErrLineTooLong)
        else if tooLong \<and> stopAtEnd
        then Inl (Inr \<lparr>bl_content = sn_content st, bl_end_line = sn_end_line st, bl_total_lines = 0, bl_truncated = True,
               bl_total_known = False\<rparr>)
        else
          let st' = (if over then st\<lparr>sn_truncated := True\<rparr>
                     else if selected
                     then st\<lparr>sn_content := sn_content st @ (if sn_selected_lines st > 0 then [newline] else []) @ l,
                            sn_selected_lines := sn_selected_lines st + 1, sn_end_line := lineNo\<rparr>
                     else st)
          in if isLast
             then Inl (Inr \<lparr>bl_content = sn_content st', bl_end_line = sn_end_line st', bl_total_lines = lineNo,
                    bl_truncated = sn_truncated st', bl_total_known = True\<rparr>)
             else if stopAtEnd \<and> (requestedEnd > 0 \<and> lineNo + 1 > requestedEnd \<or> sn_truncated st')
             then Inl (Inr \<lparr>bl_content = sn_content st', bl_end_line = sn_end_line st', bl_total_lines = lineNo + 1,
                    bl_truncated = sn_truncated st', bl_total_known = False\<rparr>)
             else Inr st')"

fun scan_lines ::
  "int \<Rightarrow> int \<Rightarrow> int \<Rightarrow> bool \<Rightarrow> string list \<Rightarrow> int \<Rightarrow> scan_state \<Rightarrow> go_error + bounded_lines" where
  "scan_lines startLine requestedEnd maxBytes stopAtEnd [] lineNo st =
    Inr \<lparr>bl_content = sn_content st, bl_end_line = sn_end_line st, bl_total_lines = lineNo,
      bl_truncated = sn_truncated st, bl_total_known = True\<rparr>"
| "scan_lines startLine requestedEnd maxBytes stopAtEnd (l # ls) lineNo st =
    (case scan_line startLine requestedEnd maxBytes stopAtEnd (ls = []) lineNo l st of
       Inl res \<Rightarrow> res
     | Inr st' \<Rightarrow> scan_lines startLine requestedEnd maxBytes stopAtEnd ls (lineNo + 1) st')"

definition readBoundedLines :: "string \<Rightarrow> int \<Rightarrow> int \<Rightarrow> int \<Rightarrow> bool \<Rightarrow> go_error + bounded_lines" where
  "readBoundedLines content startLine requestedEnd maxBytes stopAtEnd =
    scan_lines startLine requestedEnd maxBytes stopAtEnd (file_lines content) 1
      \<lparr>sn_content = '''', sn_selected_lines = 0, sn_end_line = startLine - 1, sn_truncated = False\<rparr>"

definition invalid_range :: "int \<Rightarrow> int \<Rightarrow> int \<Rightarrow> go_error" where
  "invalid_range startLine endLine totalLines = Errorf (''invalid line range: '' @ itoa startLine @ '' to '' @ itoa endLine @
     '' (total lines '' @ itoa totalLines @ '')'') []"

definition open_file :: "file_system \<Rightarrow> string \<Rightarrow> go_error + string" where
  "open_file fs path =
    (case fs_read_file fs path of
       ReadBytes content \<Rightarrow> Inr content
     | ReadFailed e \<Rightarrow> Inl (errorf_w ''failed to read file'' e)
     | ReadMissing \<Rightarrow> Inl (errorf_w ''failed to read file'' (Sentinel ''os.ErrNotExist'' ''file does not exist'')))"

definition readFileRangeAt ::
  "unicode \<Rightarrow> file_system \<Rightarrow> string \<Rightarrow> string \<Rightarrow> int \<Rightarrow> int \<Rightarrow> int \<Rightarrow> bool \<Rightarrow> go_error + file_range" where
  "readFileRangeAt u fs sourceRoot relativePath startLine0 endLine maxBytes stopAtEnd =
    bindE (SafePath u fs sourceRoot relativePath) (\<lambda>fullPath.
    bindE (open_file fs fullPath) (\<lambda>content.
      let startLine = (if startLine0 \<le> 0 then 1 else startLine0)
      in if endLine > 0 \<and> startLine > endLine
         then Inl (Errorf (''invalid line range: '' @ itoa startLine @ '' to '' @ itoa endLine) [])
         else bindE (readBoundedLines content startLine endLine maxBytes stopAtEnd) (\<lambda>r.
           if bl_total_known r \<and> startLine > bl_total_lines r then Inl (invalid_range startLine endLine (bl_total_lines r))
           else Inr \<lparr>fr_path = filepath_Clean relativePath, fr_start_line = startLine, fr_end_line = bl_end_line r,
             fr_total_lines = (if bl_total_known r then bl_total_lines r else 0), fr_content = bl_content r,
             fr_truncated = bl_truncated r\<rparr>)))"

definition access_denied :: "string \<Rightarrow> decision \<Rightarrow> go_error" where
  "access_denied relativePath d =
    Errorf (''snapshot file access denied: '' @ relativePath @ '' ('' @ dec_reason d @ '')'') []"

definition readFileRange ::
  "unicode \<Rightarrow> (string \<Rightarrow> go_error + manifest) \<Rightarrow> file_system \<Rightarrow> string \<Rightarrow> string \<Rightarrow> int \<Rightarrow> int \<Rightarrow> int \<Rightarrow> bool \<Rightarrow>
    go_error + file_range" where
  "readFileRange u unmarshal fs sourceRoot relativePath startLine endLine maxBytes stopAtEnd =
    (let decision = CanReadFromSnapshot u unmarshal fs sourceRoot relativePath
     in if \<not> dec_allowed decision then Inl (access_denied relativePath decision)
        else readFileRangeAt u fs sourceRoot relativePath startLine endLine maxBytes stopAtEnd)"

definition ReadFileRangeBounded ::
  "unicode \<Rightarrow> (string \<Rightarrow> go_error + manifest) \<Rightarrow> file_system \<Rightarrow> string \<Rightarrow> string \<Rightarrow> int \<Rightarrow> int \<Rightarrow> int \<Rightarrow>
    go_error + file_range" where
  "ReadFileRangeBounded u unmarshal fs sourceRoot relativePath startLine endLine maxBytes =
    readFileRange u unmarshal fs sourceRoot relativePath startLine endLine maxBytes True"

definition ReadFile ::
  "unicode \<Rightarrow> (string \<Rightarrow> go_error + manifest) \<Rightarrow> file_system \<Rightarrow> string \<Rightarrow> string \<Rightarrow> int \<Rightarrow> int \<Rightarrow> go_error + string" where
  "ReadFile u unmarshal fs sourceRoot relativePath startLine endLine =
    bindE (readFileRange u unmarshal fs sourceRoot relativePath startLine endLine 0 False) (\<lambda>r. Inr (fr_content r))"

definition safePath ::
  "unicode \<Rightarrow> (string \<Rightarrow> go_error + manifest) \<Rightarrow> file_system \<Rightarrow> string \<Rightarrow> string \<Rightarrow> go_error + string" where
  "safePath u unmarshal fs sourceRoot relativePath =
    (let decision = CanReadFromSnapshot u unmarshal fs sourceRoot relativePath
     in if \<not> dec_allowed decision then Inl (access_denied relativePath decision)
        else SafePath u fs sourceRoot relativePath)"

definition FileExists ::
  "unicode \<Rightarrow> (string \<Rightarrow> go_error + manifest) \<Rightarrow> file_system \<Rightarrow> string \<Rightarrow> string \<Rightarrow> bool" where
  "FileExists u unmarshal fs sourceRoot relativePath \<longleftrightarrow>
    (case safePath u unmarshal fs sourceRoot relativePath of
       Inl _ \<Rightarrow> False
     | Inr fullPath \<Rightarrow> (case fs_lstat fs fullPath of None \<Rightarrow> False | Some m \<Rightarrow> m \<noteq> ModeDir \<and> m \<noteq> ModeSymlink))"

section \<open>Several ranges in one scan\<close>

record line_range =
  lr_start_line :: int
  lr_end_line :: int

record range_state =
  rs_content :: string
  rs_bytes :: int
  rs_has_line :: bool
  rs_started :: bool
  rs_done :: bool
  rs_err :: "go_error option"

definition new_range_state :: range_state where
  "new_range_state = \<lparr>rs_content = '''', rs_bytes = 0, rs_has_line = False, rs_started = False, rs_done = False, rs_err = None\<rparr>"

definition finish_range :: "go_error option \<Rightarrow> range_state \<Rightarrow> range_state" where
  "finish_range err st = (if rs_done st then st else st\<lparr>rs_done := True, rs_err := err\<rparr>)"

text \<open>
  One line for one range. A range is active from its start line until it is done or its
  end line has passed; the ranges do not influence each other.
\<close>

definition range_line :: "int \<Rightarrow> int \<Rightarrow> string \<Rightarrow> line_range \<Rightarrow> range_state \<Rightarrow> range_state" where
  "range_line maxBytes lineNo l r st0 =
    (let st = (if lr_start_line r \<le> lineNo then st0\<lparr>rs_started := True\<rparr> else st0)
     in if \<not> (rs_started st \<and> \<not> rs_done st \<and> lr_end_line r \<ge> lineNo) then st
        else
          let separatorBytes = (if rs_has_line st then 1 else 0)
          in if int (length l) > maxBytes \<or> rs_bytes st + separatorBytes + int (length l) > maxBytes
             then finish_range (if rs_bytes st = 0 then Some ErrLineTooLong else None) st
             else
               let st' = st\<lparr>rs_content := rs_content st @ (if rs_has_line st then [newline] else []) @ l,
                     rs_bytes := rs_bytes st + separatorBytes + int (length l), rs_has_line := True\<rparr>
               in if lr_end_line r \<le> lineNo then finish_range None st' else st')"

fun scan_ranges ::
  "int \<Rightarrow> string list \<Rightarrow> int \<Rightarrow> (line_range \<times> range_state) list \<Rightarrow> int \<times> (line_range \<times> range_state) list" where
  "scan_ranges maxBytes [] lineNo states = (lineNo, states)"
| "scan_ranges maxBytes (l # ls) lineNo states =
    (let states' = map (\<lambda>(r, st). (r, range_line maxBytes lineNo l r st)) states
     in if ls = [] then (lineNo, states')
        else if list_all (\<lambda>(r, st). rs_done st) states' then (lineNo + 1, states')
        else scan_ranges maxBytes ls (lineNo + 1) states')"

record range_result =
  rr_content :: string
  rr_err :: "go_error option"

definition close_range :: "int \<Rightarrow> line_range \<Rightarrow> range_state \<Rightarrow> range_result" where
  "close_range lineNo r st = \<lparr>rr_content = rs_content st,
     rr_err = (if \<not> rs_started st then Some (invalid_range (lr_start_line r) (lr_end_line r) lineNo) else rs_err st)\<rparr>"

definition readBoundedRanges :: "string \<Rightarrow> line_range list \<Rightarrow> int \<Rightarrow> range_result list" where
  "readBoundedRanges content ranges maxBytes =
    (if ranges = [] then []
     else case scan_ranges maxBytes (file_lines content) 1 (map (\<lambda>r. (r, new_range_state)) ranges) of
       (lineNo, states) \<Rightarrow> map (\<lambda>(r, st). close_range lineNo r st) states)"

definition invalid_line_range :: "line_range \<Rightarrow> bool" where
  "invalid_line_range r \<longleftrightarrow> lr_start_line r < 1 \<or> lr_end_line r < lr_start_line r"

definition ReadFileRangesBounded ::
  "unicode \<Rightarrow> (string \<Rightarrow> go_error + manifest) \<Rightarrow> file_system \<Rightarrow> string \<Rightarrow> string \<Rightarrow> line_range list \<Rightarrow> int \<Rightarrow>
    go_error + range_result list" where
  "ReadFileRangesBounded u unmarshal fs sourceRoot relativePath ranges maxBytes =
    (if maxBytes \<le> 0 then Inl (Errorf ''maxBytes must be positive'' [])
     else case find invalid_line_range ranges of
       Some r \<Rightarrow> Inl (Errorf (''invalid source range '' @ itoa (lr_start_line r) @ ''-'' @ itoa (lr_end_line r)) [])
     | None \<Rightarrow>
         bindE (safePath u unmarshal fs sourceRoot relativePath) (\<lambda>fullPath.
         bindE (open_file fs fullPath) (\<lambda>content. Inr (readBoundedRanges content ranges maxBytes))))"

section \<open>One scan reads what single reads read\<close>

text \<open>What a caller that forgives an overlong line makes of either result.\<close>

definition forgiving_range :: "int \<Rightarrow> int \<Rightarrow> go_error + bounded_lines \<Rightarrow> go_error + string" where
  "forgiving_range startLine endLine res =
    (case res of
       Inl e \<Rightarrow> if errors_is e ErrLineTooLong then Inr '''' else Inl e
     | Inr r \<Rightarrow> if bl_total_known r \<and> startLine > bl_total_lines r then Inl (invalid_range startLine endLine (bl_total_lines r))
               else Inr (bl_content r))"

definition forgiving_result :: "range_result \<Rightarrow> go_error + string" where
  "forgiving_result res =
    (case rr_err res of None \<Rightarrow> Inr (rr_content res) | Some e \<Rightarrow> if errors_is e ErrLineTooLong then Inr '''' else Inl e)"

lemma range_line_done: "rs_done st \<Longrightarrow> rs_started st \<Longrightarrow> range_line maxBytes n l r st = st"
  by (simp add: range_line_def Let_def)

lemma range_line_started: "rs_done (range_line maxBytes n l r st) \<Longrightarrow> (rs_done st \<Longrightarrow> rs_started st) \<Longrightarrow>
    rs_started (range_line maxBytes n l r st)"
  by (auto simp: range_line_def Let_def finish_range_def split: if_splits)

text \<open>Stopping when every range is done changes nothing, so each range is scanned as if alone.\<close>

fun solo_scan :: "int \<Rightarrow> string list \<Rightarrow> int \<Rightarrow> line_range \<Rightarrow> range_state \<Rightarrow> range_state" where
  "solo_scan maxBytes [] lineNo r st = st"
| "solo_scan maxBytes (l # ls) lineNo r st = solo_scan maxBytes ls (lineNo + 1) r (range_line maxBytes lineNo l r st)"

lemma solo_scan_done: "rs_done st \<Longrightarrow> rs_started st \<Longrightarrow> solo_scan maxBytes ls n r st = st"
  by (induction ls arbitrary: n) (auto simp: range_line_done)

lemma scan_ranges_solo:
  assumes "\<forall>(r, st) \<in> set states. rs_done st \<longrightarrow> rs_started st" and "ls \<noteq> []"
  shows "\<exists>m. scan_ranges maxBytes ls n states = (m, map (\<lambda>(r, st). (r, solo_scan maxBytes ls n r st)) states)
    \<and> (m = n + int (length ls) - 1 \<or> (\<forall>(r, st) \<in> set states. rs_started (solo_scan maxBytes ls n r st)))"
  using assms
proof (induction maxBytes ls n states rule: scan_ranges.induct)
  case (2 maxBytes l ls n states)
  let ?next = "map (\<lambda>(r, st). (r, range_line maxBytes n l r st)) states"
  have inv: "\<forall>(r, st) \<in> set ?next. rs_done st \<longrightarrow> rs_started st"
    using "2.prems"(1) range_line_started by fastforce
  show ?case
  proof (cases "ls = []")
    case True
    then show ?thesis by simp
  next
    case more: False
    show ?thesis
    proof (cases "list_all (\<lambda>(r, st). rs_done st) ?next")
      case True
      have "solo_scan maxBytes (l # ls) n r st = range_line maxBytes n l r st \<and> rs_started (range_line maxBytes n l r st)"
        if "(r, st) \<in> set states" for r st
      proof -
        from that True have d: "rs_done (range_line maxBytes n l r st)" by (force simp: list_all_iff)
        with that inv have s: "rs_started (range_line maxBytes n l r st)" by force
        from d s solo_scan_done show ?thesis by simp
      qed
      then have "map (\<lambda>(r, st). (r, solo_scan maxBytes (l # ls) n r st)) states = ?next"
        and "\<forall>(r, st) \<in> set states. rs_started (solo_scan maxBytes (l # ls) n r st)"
        by (auto split: prod.splits)
      with more True show ?thesis by (auto simp: Let_def)
    next
      case False
      from "2.IH"[OF refl more False inv more] more False show ?thesis
        by (fastforce simp: Let_def comp_def case_prod_beta)
    qed
  qed
qed simp

text \<open>The states of the two scans while a range is still open.\<close>

definition same_progress :: "int \<Rightarrow> line_range \<Rightarrow> range_state \<Rightarrow> scan_state \<Rightarrow> bool" where
  "same_progress n r st sn \<longleftrightarrow> \<not> rs_done st \<and> rs_err st = None \<and> \<not> sn_truncated sn
    \<and> rs_content st = sn_content sn \<and> rs_bytes st = int (length (rs_content st))
    \<and> (rs_has_line st \<longleftrightarrow> 0 < sn_selected_lines sn) \<and> (rs_started st \<longleftrightarrow> lr_start_line r < n)
    \<and> (0 < sn_selected_lines sn \<longleftrightarrow> lr_start_line r < n) \<and> (sn_selected_lines sn = 0 \<longrightarrow> sn_content sn = '''')"

lemma before_range:
  assumes "n < lr_start_line r" and "n \<le> lr_end_line r" and "same_progress n r st sn"
  shows "range_line maxBytes n l r st = st"
    and "scan_line (lr_start_line r) (lr_end_line r) maxBytes True False n l sn =
      (if lr_end_line r < n + 1 \<and> 0 < lr_end_line r then Inl (Inr \<lparr>bl_content = sn_content sn, bl_end_line = sn_end_line sn,
         bl_total_lines = n + 1, bl_truncated = False, bl_total_known = False\<rparr>) else Inr sn)"
  using assms by (auto simp: range_line_def scan_line_def same_progress_def Let_def)

lemma overlong_in_range:
  assumes "0 < maxBytes" and "lr_start_line r \<le> n" and "n \<le> lr_end_line r" and "same_progress n r st sn"
    and "int (length l) > maxBytes \<or> rs_bytes st + (if rs_has_line st then 1 else 0) + int (length l) > maxBytes"
  shows "forgiving_result (close_range m r (solo_scan maxBytes (l # ls) n r st)) = Inr (rs_content st)"
    and "forgiving_range (lr_start_line r) (lr_end_line r)
      (scan_lines (lr_start_line r) (lr_end_line r) maxBytes True (l # ls) n sn) = Inr (rs_content st)"
proof -
  define st' where "st' = st\<lparr>rs_started := True, rs_done := True, rs_err := (if rs_bytes st = 0 then Some ErrLineTooLong else None)\<rparr>"
  have "range_line maxBytes n l r st = st'"
    using assms by (auto simp: range_line_def Let_def finish_range_def st'_def same_progress_def)
  moreover have "solo_scan maxBytes ls (n + 1) r st' = st'" by (simp add: solo_scan_done st'_def)
  ultimately show "forgiving_result (close_range m r (solo_scan maxBytes (l # ls) n r st)) = Inr (rs_content st)"
    using assms(4) by (auto simp: forgiving_result_def close_range_def st'_def same_progress_def)
  have "\<exists>res. scan_line (lr_start_line r) (lr_end_line r) maxBytes True (ls = []) n l sn = Inl res
      \<and> forgiving_range (lr_start_line r) (lr_end_line r) res = Inr (rs_content st)"
    using assms by (auto simp: scan_line_def Let_def same_progress_def forgiving_range_def)
  then show "forgiving_range (lr_start_line r) (lr_end_line r)
      (scan_lines (lr_start_line r) (lr_end_line r) maxBytes True (l # ls) n sn) = Inr (rs_content st)"
    by auto
qed

definition take_line :: "string \<Rightarrow> range_state \<Rightarrow> range_state" where
  "take_line l st = st\<lparr>rs_started := True, rs_content := rs_content st @ (if rs_has_line st then [newline] else []) @ l,
     rs_bytes := rs_bytes st + (if rs_has_line st then 1 else 0) + int (length l), rs_has_line := True\<rparr>"

definition take_scan :: "int \<Rightarrow> string \<Rightarrow> scan_state \<Rightarrow> scan_state" where
  "take_scan n l sn = sn\<lparr>sn_content := sn_content sn @ (if sn_selected_lines sn > 0 then [newline] else []) @ l,
     sn_selected_lines := sn_selected_lines sn + 1, sn_end_line := n\<rparr>"

lemma take_progress: "same_progress n r st sn \<Longrightarrow> lr_start_line r \<le> n \<Longrightarrow> same_progress (n + 1) r (take_line l st) (take_scan n l sn)"
  by (auto simp: same_progress_def take_line_def take_scan_def)

lemma fitting_in_range:
  assumes "0 < maxBytes" and "lr_start_line r \<le> n" and "n \<le> lr_end_line r" and "same_progress n r st sn"
    and "\<not> (int (length l) > maxBytes \<or> rs_bytes st + (if rs_has_line st then 1 else 0) + int (length l) > maxBytes)"
  shows "range_line maxBytes n l r st = (if lr_end_line r \<le> n then finish_range None (take_line l st) else take_line l st)"
    and "scan_line (lr_start_line r) (lr_end_line r) maxBytes True isLast n l sn =
      (if isLast then Inl (Inr \<lparr>bl_content = sn_content (take_scan n l sn), bl_end_line = n, bl_total_lines = n,
         bl_truncated = False, bl_total_known = True\<rparr>)
       else if 0 < lr_end_line r \<and> n + 1 > lr_end_line r
       then Inl (Inr \<lparr>bl_content = sn_content (take_scan n l sn), bl_end_line = n, bl_total_lines = n + 1,
         bl_truncated = False, bl_total_known = False\<rparr>)
       else Inr (take_scan n l sn))"
proof -
  show "range_line maxBytes n l r st = (if lr_end_line r \<le> n then finish_range None (take_line l st) else take_line l st)"
    using assms unfolding same_progress_def
    by (simp add: range_line_def Let_def take_line_def)
  show "scan_line (lr_start_line r) (lr_end_line r) maxBytes True isLast n l sn =
      (if isLast then Inl (Inr \<lparr>bl_content = sn_content (take_scan n l sn), bl_end_line = n, bl_total_lines = n,
         bl_truncated = False, bl_total_known = True\<rparr>)
       else if 0 < lr_end_line r \<and> n + 1 > lr_end_line r
       then Inl (Inr \<lparr>bl_content = sn_content (take_scan n l sn), bl_end_line = n, bl_total_lines = n + 1,
         bl_truncated = False, bl_total_known = False\<rparr>)
       else Inr (take_scan n l sn))"
    using assms unfolding same_progress_def
    by (auto simp: scan_line_def Let_def take_scan_def)
qed

lemma solo_scan_scan_lines:
  assumes "0 < maxBytes" and "1 \<le> lr_start_line r" and "lr_start_line r \<le> lr_end_line r" and "ls \<noteq> []"
    and "n \<le> lr_end_line r" and "same_progress n r st sn"
  shows "forgiving_range (lr_start_line r) (lr_end_line r)
      (scan_lines (lr_start_line r) (lr_end_line r) maxBytes True ls n sn) =
    forgiving_result (close_range (n + int (length ls) - 1) r (solo_scan maxBytes ls n r st))"
  using assms(4-)
proof (induction ls arbitrary: n st sn)
  case (Cons l ls)
  note step = Cons.prems
  consider (before) "n < lr_start_line r"
    | (over) "lr_start_line r \<le> n" "int (length l) > maxBytes \<or> rs_bytes st + (if rs_has_line st then 1 else 0) + int (length l) > maxBytes"
    | (fits) "lr_start_line r \<le> n" "\<not> (int (length l) > maxBytes \<or> rs_bytes st + (if rs_has_line st then 1 else 0) + int (length l) > maxBytes)"
    by linarith
  then show ?case
  proof cases
    case over
    with overlong_in_range[OF assms(1) over(1) step(2,3) over(2)] show ?thesis by simp
  next
    case before
    show ?thesis
    proof (cases "ls = []")
      case True
      with before step show ?thesis
        by (simp add: scan_line_def range_line_def same_progress_def Let_def forgiving_range_def forgiving_result_def
              close_range_def ErrLineTooLong_def invalid_range_def)
    next
      case more: False
      have "same_progress (n + 1) r st sn" using step(3) before by (auto simp: same_progress_def)
      from Cons.IH[OF more _ this] before assms(3) before_range[OF before step(2,3)] more show ?thesis
        by (simp add: algebra_simps)
    qed
  next
    case fits
    note line = fitting_in_range[OF assms(1) fits(1) step(2,3) fits(2)]
    have content: "rs_content (take_line l st) = sn_content (take_scan n l sn)"
      using take_progress[OF step(3) fits(1)] by (simp add: same_progress_def)
    show ?thesis
    proof (cases "ls = [] \<or> lr_end_line r \<le> n")
      case True
      have "rs_content (solo_scan maxBytes (l # ls) n r st) = rs_content (take_line l st)"
        "rs_started (solo_scan maxBytes (l # ls) n r st)" "rs_err (solo_scan maxBytes (l # ls) n r st) = None"
        using True line(1) step(3) by (auto simp: solo_scan_done finish_range_def take_line_def same_progress_def)
      with True line(2) fits(1) assms(2) step(2) content show ?thesis
        by (auto simp: forgiving_result_def close_range_def forgiving_range_def)
    next
      case False
      with Cons.IH[OF _ _ take_progress[OF step(3) fits(1), of l]] line show ?thesis
        by (simp add: algebra_simps)
    qed
  qed
qed simp

text \<open>Every range of one scan comes out as if it had been read on its own.\<close>

lemma readBoundedRanges_single:
  assumes "0 < maxBytes" and "\<forall>r \<in> set ranges. \<not> invalid_line_range r"
  shows "map forgiving_result (readBoundedRanges content ranges maxBytes) =
    map (\<lambda>r. forgiving_range (lr_start_line r) (lr_end_line r)
      (readBoundedLines content (lr_start_line r) (lr_end_line r) maxBytes True)) ranges"
proof (cases "ranges = []")
  case False
  let ?states = "map (\<lambda>r. (r, new_range_state)) ranges" and ?ls = "file_lines content"
  have ls: "?ls \<noteq> []" by (simp add: file_lines_def)
  have "\<forall>(r, st) \<in> set ?states. rs_done st \<longrightarrow> rs_started st" by (auto simp: new_range_state_def)
  from scan_ranges_solo[OF this ls] obtain m
    where scan: "scan_ranges maxBytes ?ls 1 ?states = (m, map (\<lambda>(r, st). (r, solo_scan maxBytes ?ls 1 r st)) ?states)"
      and m: "m = int (length ?ls) \<or> (\<forall>(r, st) \<in> set ?states. rs_started (solo_scan maxBytes ?ls 1 r st))" by force
  have "forgiving_result (close_range m r (solo_scan maxBytes ?ls 1 r new_range_state)) =
      forgiving_range (lr_start_line r) (lr_end_line r)
        (readBoundedLines content (lr_start_line r) (lr_end_line r) maxBytes True)" if r: "r \<in> set ranges" for r
  proof -
    from r assms(2) have range: "1 \<le> lr_start_line r" "lr_start_line r \<le> lr_end_line r"
      by (auto simp: invalid_line_range_def)
    have "close_range m r (solo_scan maxBytes ?ls 1 r new_range_state) =
        close_range (1 + int (length ?ls) - 1) r (solo_scan maxBytes ?ls 1 r new_range_state)"
      using m r by (auto simp: close_range_def)
    moreover have "same_progress 1 r new_range_state
        \<lparr>sn_content = '''', sn_selected_lines = 0, sn_end_line = lr_start_line r - 1, sn_truncated = False\<rparr>"
      using range by (simp add: same_progress_def new_range_state_def)
    from solo_scan_scan_lines[OF assms(1) range ls _ this] range
    have "forgiving_range (lr_start_line r) (lr_end_line r)
        (readBoundedLines content (lr_start_line r) (lr_end_line r) maxBytes True) =
      forgiving_result (close_range (1 + int (length ?ls) - 1) r (solo_scan maxBytes ?ls 1 r new_range_state))"
      by (simp add: readBoundedLines_def)
    ultimately show ?thesis by simp
  qed
  with False scan show ?thesis by (simp add: readBoundedRanges_def comp_def case_prod_beta)
qed (simp add: readBoundedRanges_def)

end
