(* ===== verification/Retrieval_Builder.thy ===== *)
theory Retrieval_Builder
  imports Schema Snapshot_Reader Retrieval_Index
begin

text \<open>
  From the symbols of a code index to the retrieval index
  (\<open>internal/retrieval/index_builder.go\<close>): the source bodies of the symbols, read in one
  scan per file or one by one, and the projection of symbols to documents.
\<close>

section \<open>Bodies\<close>

definition maxBM25SymbolSourceBytes :: int where
  "maxBM25SymbolSourceBytes = 64 * 1024"

record symbol_index_source =
  src_unicode :: unicode
  src_unmarshal :: "string \<Rightarrow> go_error + manifest"
  src_files :: file_system
  src_root :: string

definition invalid_symbol_range :: "symbol \<Rightarrow> bool" where
  "invalid_symbol_range s \<longleftrightarrow> sym_start_line s < 1 \<or> sym_end_line s < sym_start_line s"

definition symbol_range :: "symbol \<Rightarrow> line_range" where
  "symbol_range s = \<lparr>lr_start_line = sym_start_line s, lr_end_line = sym_end_line s\<rparr>"

definition read_ranges :: "symbol_index_source \<Rightarrow> string \<Rightarrow> line_range list \<Rightarrow> go_error + range_result list" where
  "read_ranges src path ranges = ReadFileRangesBounded (src_unicode src) (src_unmarshal src) (src_files src) (src_root src)
     path ranges maxBM25SymbolSourceBytes"

text \<open>The loop over the results of one file: body by body, or the first error that is not forgiven.\<close>

fun store_bodies :: "symbol list \<Rightarrow> string \<Rightarrow> (nat \<times> range_result) list \<Rightarrow> string list \<Rightarrow> go_error + string list" where
  "store_bodies syms path [] bodies = Inr bodies"
| "store_bodies syms path ((i, res) # rest) bodies =
    (case rr_err res of
       Some e \<Rightarrow>
         if errors_is e ErrLineTooLong then store_bodies syms path rest bodies
         else Inl (errorf_w (''symbol '' @ sym_name (syms ! i) @ '' in '' @ path) e)
     | None \<Rightarrow> store_bodies syms path rest (bodies[i := rr_content res]))"

definition read_path_bodies :: "symbol_index_source \<Rightarrow> symbol list \<Rightarrow> string \<Rightarrow> string list \<Rightarrow> go_error + string list" where
  "read_path_bodies src syms path bodies =
    (let indexes = filter (\<lambda>i. sym_file_path (syms ! i) = path) [0..<length syms]
     in case read_ranges src path (map (\<lambda>i. symbol_range (syms ! i)) indexes) of
          Inl e \<Rightarrow> Inl (errorf_w (''read '' @ path) e)
        | Inr results \<Rightarrow>
            if length results \<noteq> length indexes
            then Inl (Errorf (''read '' @ path @ '' returned '' @ itoa (int (length results)) @ '' ranges, want '' @
                   itoa (int (length indexes))) [])
            else store_bodies syms path (zip indexes results) bodies)"

fun read_paths :: "symbol_index_source \<Rightarrow> symbol list \<Rightarrow> string list \<Rightarrow> string list \<Rightarrow> go_error + string list" where
  "read_paths src syms [] bodies = Inr bodies"
| "read_paths src syms (p # ps) bodies = bindE (read_path_bodies src syms p bodies) (read_paths src syms ps)"

text \<open>
  With a store that reads several ranges at once; \<open>order\<close> is the order in which Go ranges
  over the map of paths.
\<close>

definition readSymbolSourceBodies ::
  "(string list \<Rightarrow> string list) \<Rightarrow> symbol_index_source \<Rightarrow> symbol list \<Rightarrow> go_error + string list" where
  "readSymbolSourceBodies order src syms =
    (case find invalid_symbol_range syms of
       Some s \<Rightarrow> Inl (Errorf (''symbol '' @ sym_name s @ '' has invalid source range '' @ itoa (sym_start_line s) @ ''-'' @
                    itoa (sym_end_line s)) [])
     | None \<Rightarrow> read_paths src syms (order (remdups (map sym_file_path syms))) (replicate (length syms) ''''))"

text \<open>With a store that reads one range at a time.\<close>

definition readSymbolSourceBody :: "symbol_index_source \<Rightarrow> symbol \<Rightarrow> go_error + string" where
  "readSymbolSourceBody src s =
    (if invalid_symbol_range s
     then Inl (Errorf (''invalid source range '' @ itoa (sym_start_line s) @ ''-'' @ itoa (sym_end_line s)) [])
     else case ReadFileRangeBounded (src_unicode src) (src_unmarshal src) (src_files src) (src_root src)
             (sym_file_path s) (sym_start_line s) (sym_end_line s) maxBM25SymbolSourceBytes of
       Inl e \<Rightarrow> if errors_is e ErrLineTooLong then Inr '''' else Inl e
     | Inr r \<Rightarrow> Inr (fr_content r))"

fun readBodiesSingly :: "symbol_index_source \<Rightarrow> symbol list \<Rightarrow> go_error + string list" where
  "readBodiesSingly src [] = Inr []"
| "readBodiesSingly src (s # ss) =
    (case readSymbolSourceBody src s of
       Inl e \<Rightarrow> Inl (errorf_w (''symbol '' @ sym_name s @ '' in '' @ sym_file_path s) e)
     | Inr body \<Rightarrow> bindE (readBodiesSingly src ss) (\<lambda>bodies. Inr (body # bodies)))"

section \<open>Documents\<close>

fun symbol_kind_text :: "symbol_kind \<Rightarrow> string" where
  "symbol_kind_text SymbolKindFunction = ''FUNCTION''"
| "symbol_kind_text SymbolKindMethod = ''METHOD''"
| "symbol_kind_text SymbolKindType = ''TYPE''"
| "symbol_kind_text SymbolKindInterface = ''INTERFACE''"

definition symbol_document :: "symbol \<Rightarrow> string option \<Rightarrow> document" where
  "symbol_document s body = \<lparr>doc_id = 0, doc_file_path = sym_file_path s, doc_start_line = sym_start_line s,
     doc_end_line = sym_end_line s,
     doc_content = sym_name s @ '' '' @ sym_qualified_name s @ '' '' @ sym_receiver_canonical s @ '' '' @ sym_signature s @
       '' '' @ sym_doc s @ (case body of None \<Rightarrow> '''' | Some b \<Rightarrow> newline # b),
     doc_symbol_key_hash = sym_key_hash s, doc_symbol_name = sym_name s, doc_kind = symbol_kind_text (sym_kind s),
     doc_length = 0\<rparr>"

definition BuildSymbolIndex ::
  "'f::linorder float64 \<Rightarrow> unicode \<Rightarrow> (string list \<Rightarrow> string list) \<Rightarrow> symbol list \<Rightarrow> symbol_index_source option \<Rightarrow>
    go_error + 'f bm25_index" where
  "BuildSymbolIndex fl u order syms source =
    bindE (case source of
        None \<Rightarrow> Inr (replicate (length syms) None)
      | Some src \<Rightarrow>
          (case readSymbolSourceBodies order src syms of
             Inl e \<Rightarrow> Inl (errorf_w ''failed reading pinned snapshot source bodies'' e)
           | Inr bodies \<Rightarrow> Inr (map Some bodies)))
      (\<lambda>bodies. Inr (Build fl (fold (AddDocument u) (map2 symbol_document syms bodies)
         (NewIndex fl (fl_lit fl 1.2) (fl_lit fl 0.75)))))"

section \<open>Both ways of reading agree\<close>

text \<open>Reading a file never reports an overlong line by itself: that error is made by the range scan.\<close>

definition plain_read_errors :: "file_system \<Rightarrow> bool" where
  "plain_read_errors fs \<longleftrightarrow> (\<forall>p e. fs_read_file fs p = ReadFailed e \<longrightarrow> \<not> errors_is e ErrLineTooLong)"

definition source_file :: "symbol_index_source \<Rightarrow> string \<Rightarrow> go_error + string" where
  "source_file src path = bindE (safePath (src_unicode src) (src_unmarshal src) (src_files src) (src_root src) path)
     (open_file (src_files src))"

lemma SafePath_error: "SafePath u fs srcRoot path = Inl e \<Longrightarrow> \<not> errors_is e ErrLineTooLong"
proof -
  have "check_components fs path cur cs = Inl e \<Longrightarrow> \<not> errors_is e ErrLineTooLong" for cur cs
    by (induction cs arbitrary: cur) (auto simp: Let_def ErrLineTooLong_def split: option.splits if_splits)
  then show "SafePath u fs srcRoot path = Inl e \<Longrightarrow> \<not> errors_is e ErrLineTooLong"
    by (auto simp: SafePath_def Let_def bindE_eq_Inl ErrLineTooLong_def split: if_splits option.splits)
qed

lemma source_file_error:
  assumes "plain_read_errors (src_files src)" and "source_file src path = Inl e"
  shows "\<not> errors_is e ErrLineTooLong"
proof -
  have "\<not> errors_is e ErrLineTooLong" if "open_file (src_files src) p = Inl e" for p
    using that assms(1)
    by (cases "fs_read_file (src_files src) p") (auto simp: open_file_def errorf_w_def plain_read_errors_def ErrLineTooLong_def)
  moreover have "\<not> errors_is (access_denied p d) ErrLineTooLong" for p d
    by (simp add: access_denied_def ErrLineTooLong_def)
  ultimately show ?thesis
    using assms(2) SafePath_error by (auto simp: source_file_def bindE_eq_Inl safePath_def Let_def split: if_splits)
qed

lemma single_body:
  assumes "plain_read_errors (src_files src)" and "\<not> invalid_symbol_range s"
  shows "readSymbolSourceBody src s = bindE (source_file src (sym_file_path s)) (\<lambda>content.
    forgiving_range (sym_start_line s) (sym_end_line s)
      (readBoundedLines content (sym_start_line s) (sym_end_line s) maxBM25SymbolSourceBytes True))"
proof -
  from assms(2) have range: "1 \<le> sym_start_line s" "sym_start_line s \<le> sym_end_line s"
    by (auto simp: invalid_symbol_range_def)
  have reads: "ReadFileRangeBounded (src_unicode src) (src_unmarshal src) (src_files src) (src_root src)
      (sym_file_path s) (sym_start_line s) (sym_end_line s) maxBM25SymbolSourceBytes =
    bindE (source_file src (sym_file_path s)) (\<lambda>content.
      bindE (readBoundedLines content (sym_start_line s) (sym_end_line s) maxBM25SymbolSourceBytes True) (\<lambda>r.
        if bl_total_known r \<and> sym_start_line s > bl_total_lines r
        then Inl (invalid_range (sym_start_line s) (sym_end_line s) (bl_total_lines r))
        else Inr \<lparr>fr_path = filepath_Clean (sym_file_path s), fr_start_line = sym_start_line s, fr_end_line = bl_end_line r,
          fr_total_lines = (if bl_total_known r then bl_total_lines r else 0), fr_content = bl_content r,
          fr_truncated = bl_truncated r\<rparr>))"
    using range by (auto simp: ReadFileRangeBounded_def readFileRange_def readFileRangeAt_def source_file_def safePath_def
        Let_def bindE_def split: sum.split)
  show ?thesis
    using assms source_file_error[OF assms(1), of "sym_file_path s"]
    unfolding readSymbolSourceBody_def reads
    by (auto simp: bindE_def forgiving_range_def invalid_range_def ErrLineTooLong_def split: sum.splits)
qed

lemma batch_results:
  assumes "\<forall>r \<in> set ranges. \<not> invalid_line_range r"
  shows "read_ranges src path ranges =
    bindE (source_file src path) (\<lambda>content. Inr (readBoundedRanges content ranges maxBM25SymbolSourceBytes))"
proof -
  from assms have "find invalid_line_range ranges = None" by (auto simp: find_None_iff)
  then show ?thesis
    by (auto simp: read_ranges_def ReadFileRangesBounded_def source_file_def bindE_def maxBM25SymbolSourceBytes_def split: sum.split)
qed

text \<open>Storing the results of one file: every body of the file, and no other, is set.\<close>

lemma store_bodies_Inr:
  assumes "distinct ks" and "length results = length ks" and "\<forall>i \<in> set ks. i < length bodies \<and> bodies ! i = ''''"
  shows "store_bodies syms path (zip ks results) bodies = Inr bodies' \<longleftrightarrow>
    (\<forall>res \<in> set results. \<exists>b. forgiving_result res = Inr b)
    \<and> length bodies' = length bodies
    \<and> (\<forall>i < length bodies. i \<notin> set ks \<longrightarrow> bodies' ! i = bodies ! i)
    \<and> (\<forall>k < length ks. forgiving_result (results ! k) = Inr (bodies' ! (ks ! k)))"
  using assms
proof (induction ks arbitrary: results bodies)
  case Nil
  have "bodies = bodies' \<longleftrightarrow> length bodies' = length bodies \<and> (\<forall>i < length bodies. bodies' ! i = bodies ! i)"
    by (metis nth_equalityI)
  with Nil show ?case by simp
next
  case (Cons i ks)
  then obtain res rest where results: "results = res # rest" by (cases results) auto
  show ?case
  proof (cases "forgiving_result res")
    case (Inl e)
    then show ?thesis by (auto simp: results forgiving_result_def split: option.splits if_splits)
  next
    case (Inr b)
    have step: "store_bodies syms path (zip (i # ks) results) bodies = store_bodies syms path (zip ks rest) (bodies[i := b])"
      using Inr Cons.prems(3)
      by (auto simp: results forgiving_result_def split: option.splits if_splits)
        (metis list_update_id)
    have prem: "\<forall>j \<in> set ks. j < length (bodies[i := b]) \<and> bodies[i := b] ! j = ''''"
      using Cons.prems by (auto simp: nth_list_update)
    have "store_bodies syms path (zip ks rest) (bodies[i := b]) = Inr bodies' \<longleftrightarrow>
      (\<forall>res \<in> set rest. \<exists>b. forgiving_result res = Inr b) \<and> length bodies' = length (bodies[i := b])
      \<and> (\<forall>j < length (bodies[i := b]). j \<notin> set ks \<longrightarrow> bodies' ! j = bodies[i := b] ! j)
      \<and> (\<forall>k < length ks. forgiving_result (rest ! k) = Inr (bodies' ! (ks ! k)))"
      using Cons.IH[OF _ _ prem] Cons.prems results by simp
    moreover have "(\<forall>j < length (bodies[i := b]). j \<notin> set ks \<longrightarrow> bodies' ! j = bodies[i := b] ! j) \<longleftrightarrow>
      (\<forall>j < length bodies. j \<notin> set (i # ks) \<longrightarrow> bodies' ! j = bodies ! j) \<and> bodies' ! i = b"
      using Cons.prems(1,3) by (auto simp: nth_list_update)
    ultimately show ?thesis
      unfolding step using Inr results
      by (auto simp: nth_Cons split: nat.splits)
  qed
qed

lemma read_path_bodies_Inr:
  assumes plain: "plain_read_errors (src_files src)" and valid: "\<forall>s \<in> set syms. \<not> invalid_symbol_range s"
    and path: "path \<in> sym_file_path ` set syms" and len: "length bodies = length syms"
    and unset: "\<forall>i < length syms. sym_file_path (syms ! i) = path \<longrightarrow> bodies ! i = ''''"
  shows "read_path_bodies src syms path bodies = Inr bodies' \<longleftrightarrow> length bodies' = length syms
    \<and> (\<forall>i < length syms. if sym_file_path (syms ! i) = path then readSymbolSourceBody src (syms ! i) = Inr (bodies' ! i)
         else bodies' ! i = bodies ! i)"
proof -
  define idx where "idx = filter (\<lambda>i. sym_file_path (syms ! i) = path) [0..<length syms]"
  define ranges where "ranges = map (\<lambda>i. symbol_range (syms ! i)) idx"
  have idx: "set idx = {i. i < length syms \<and> sym_file_path (syms ! i) = path}" "distinct idx"
    by (auto simp: idx_def)
  from path obtain i where "i \<in> set idx" unfolding idx(1) by (auto simp: in_set_conv_nth)
  have ranges: "\<forall>r \<in> set ranges. \<not> invalid_line_range r"
    using valid by (auto simp: ranges_def idx_def symbol_range_def invalid_line_range_def invalid_symbol_range_def)
  show ?thesis
  proof (cases "source_file src path")
    case (Inl e)
    then have "readSymbolSourceBody src (syms ! i) = Inl e" if "i \<in> set idx" for i
      using that idx(1) valid single_body[OF plain, of "syms ! i"] by auto
    from this[OF \<open>i \<in> set idx\<close>] \<open>i \<in> set idx\<close> show ?thesis
      using Inl batch_results[OF ranges, of src path] unfolding idx(1)
      by (auto simp: read_path_bodies_def Let_def simp flip: idx_def ranges_def)
  next
    case (Inr content)
    let ?results = "readBoundedRanges content ranges maxBM25SymbolSourceBytes"
    have fr: "map forgiving_result ?results = map (\<lambda>i. readSymbolSourceBody src (syms ! i)) idx"
      using readBoundedRanges_single[OF _ ranges, of maxBM25SymbolSourceBytes content] Inr valid single_body[OF plain] idx(1)
      by (auto simp: maxBM25SymbolSourceBytes_def ranges_def symbol_range_def)
    have lens: "length ?results = length idx" using arg_cong[OF fr, of length] by simp
    have fri: "forgiving_result (?results ! k) = readSymbolSourceBody src (syms ! (idx ! k))" if "k < length idx" for k
      using arg_cong[OF fr, of "\<lambda>xs. xs ! k"] that lens by simp
    have "read_path_bodies src syms path bodies = store_bodies syms path (zip idx ?results) bodies"
      using Inr batch_results[OF ranges, of src path] lens
      by (simp add: read_path_bodies_def Let_def flip: idx_def ranges_def)
    also have "\<dots> = Inr bodies' \<longleftrightarrow> (\<forall>res \<in> set ?results. \<exists>b. forgiving_result res = Inr b) \<and> length bodies' = length bodies
      \<and> (\<forall>i < length bodies. i \<notin> set idx \<longrightarrow> bodies' ! i = bodies ! i)
      \<and> (\<forall>k < length idx. forgiving_result (?results ! k) = Inr (bodies' ! (idx ! k)))"
      using idx lens len unset by (intro store_bodies_Inr) auto
    also have "\<dots> \<longleftrightarrow> length bodies' = length bodies \<and> (\<forall>i < length bodies. i \<notin> set idx \<longrightarrow> bodies' ! i = bodies ! i)
      \<and> (\<forall>i \<in> set idx. readSymbolSourceBody src (syms ! i) = Inr (bodies' ! i))"
    proof -
      have "(\<forall>res \<in> set ?results. \<exists>b. forgiving_result res = Inr b)
          \<longleftrightarrow> (\<forall>k < length idx. \<exists>b. readSymbolSourceBody src (syms ! (idx ! k)) = Inr b)"
        unfolding all_set_conv_all_nth lens using fri by auto
      moreover have "(\<forall>i \<in> set idx. readSymbolSourceBody src (syms ! i) = Inr (bodies' ! i)) \<longleftrightarrow>
          (\<forall>k < length idx. readSymbolSourceBody src (syms ! (idx ! k)) = Inr (bodies' ! (idx ! k)))"
        unfolding all_set_conv_all_nth by auto
      ultimately show ?thesis using fri by auto
    qed
    finally show ?thesis using idx(1) len by auto
  qed
qed

lemma read_paths_Inr:
  assumes "plain_read_errors (src_files src)" and "\<forall>s \<in> set syms. \<not> invalid_symbol_range s"
    and "distinct paths" and "set paths \<subseteq> sym_file_path ` set syms" and "length bodies = length syms"
    and "\<forall>i < length syms. sym_file_path (syms ! i) \<in> set paths \<longrightarrow> bodies ! i = ''''"
  shows "read_paths src syms paths bodies = Inr bodies' \<longleftrightarrow> length bodies' = length syms
    \<and> (\<forall>i < length syms. if sym_file_path (syms ! i) \<in> set paths then readSymbolSourceBody src (syms ! i) = Inr (bodies' ! i)
         else bodies' ! i = bodies ! i)"
  using assms(3-)
proof (induction paths arbitrary: bodies)
  case Nil
  have "bodies = bodies' \<longleftrightarrow> length bodies' = length bodies \<and> (\<forall>i < length bodies. bodies' ! i = bodies ! i)"
    by (metis nth_equalityI)
  with Nil show ?case by simp
next
  case (Cons p ps)
  note first = read_path_bodies_Inr[OF assms(1,2), of p bodies]
  show ?case
  proof (cases "read_path_bodies src syms p bodies")
    case (Inl e)
    then have none: "\<not> (length b = length syms \<and> (\<forall>i < length syms. if sym_file_path (syms ! i) = p
        then readSymbolSourceBody src (syms ! i) = Inr (b ! i) else b ! i = bodies ! i))" for b
      using first[of b] Cons.prems by auto
    have "\<not> (length bodies' = length syms \<and> (\<forall>i < length syms. if sym_file_path (syms ! i) \<in> set (p # ps)
        then readSymbolSourceBody src (syms ! i) = Inr (bodies' ! i) else bodies' ! i = bodies ! i))"
    proof -
      let ?b = "map (\<lambda>i. if sym_file_path (syms ! i) = p then bodies' ! i else bodies ! i) [0..<length syms]"
      from none[of ?b] obtain i where "i < length syms" "sym_file_path (syms ! i) = p"
        "readSymbolSourceBody src (syms ! i) \<noteq> Inr (bodies' ! i)"
        by (auto split: if_splits)
      then show ?thesis by auto
    qed
    with Inl show ?thesis by auto
  next
    case (Inr b)
    then have b: "length b = length syms" "\<And>i. i < length syms \<Longrightarrow> if sym_file_path (syms ! i) = p
        then readSymbolSourceBody src (syms ! i) = Inr (b ! i) else b ! i = bodies ! i"
      using first[of b] Cons.prems by auto
    have "\<forall>i < length syms. sym_file_path (syms ! i) \<in> set ps \<longrightarrow> b ! i = ''''"
      using b(2) Cons.prems by (metis distinct.simps(2) list.set_intros(2))
    with Cons b(1) have IH: "read_paths src syms ps b = Inr bodies' \<longleftrightarrow> length bodies' = length syms
        \<and> (\<forall>i < length syms. if sym_file_path (syms ! i) \<in> set ps then readSymbolSourceBody src (syms ! i) = Inr (bodies' ! i)
             else bodies' ! i = b ! i)"
      by simp
    have "(if sym_file_path (syms ! i) \<in> set ps then readSymbolSourceBody src (syms ! i) = Inr (bodies' ! i)
        else bodies' ! i = b ! i) \<longleftrightarrow>
      (if sym_file_path (syms ! i) \<in> set (p # ps) then readSymbolSourceBody src (syms ! i) = Inr (bodies' ! i)
        else bodies' ! i = bodies ! i)" if "i < length syms" for i
      using b(2)[OF that] Cons.prems(1) by (auto split: if_splits)
    with Inr IH show ?thesis by auto
  qed
qed

lemma readBodiesSingly_Inr: "readBodiesSingly src syms = Inr bodies \<longleftrightarrow> length bodies = length syms
    \<and> (\<forall>i < length syms. readSymbolSourceBody src (syms ! i) = Inr (bodies ! i))"
proof (induction syms arbitrary: bodies)
  case (Cons s ss)
  show ?case
  proof (cases bodies)
    case Nil
    then show ?thesis by (auto simp: bindE_def split: sum.splits)
  next
    case (Cons b bs)
    have "readBodiesSingly src (s # ss) = Inr bodies \<longleftrightarrow>
        readSymbolSourceBody src s = Inr b \<and> readBodiesSingly src ss = Inr bs"
      using Cons by (auto simp: bindE_def split: sum.splits)
    with Cons.IH[of bs] Cons show ?thesis by (auto simp: less_Suc_eq_0_disj)
  qed
qed auto

lemma batch_reads_singly:
  assumes "plain_read_errors (src_files src)" and "\<And>xs. mset (order xs) = mset xs"
  shows "readSymbolSourceBodies order src syms = Inr bodies \<longleftrightarrow> readBodiesSingly src syms = Inr bodies"
proof (cases "find invalid_symbol_range syms")
  case (Some s)
  then obtain i where "i < length syms" "invalid_symbol_range (syms ! i)" by (auto simp: find_Some_iff)
  then have "\<not> readBodiesSingly src syms = Inr bodies"
    by (auto simp: readBodiesSingly_Inr readSymbolSourceBody_def)
  with Some show ?thesis by (simp add: readSymbolSourceBodies_def)
next
  case None
  then have valid: "\<forall>s \<in> set syms. \<not> invalid_symbol_range s" by (auto simp: find_None_iff)
  let ?paths = "order (remdups (map sym_file_path syms))"
  have paths: "set ?paths = sym_file_path ` set syms" using assms(2) by (metis set_mset_mset set_remdups list.set_map)
  have "distinct ?paths" using assms(2) mset_eq_imp_distinct_iff by (metis distinct_remdups)
  from read_paths_Inr[OF assms(1) valid this, of "replicate (length syms) ''''" bodies] paths None show ?thesis
    by (auto simp: readSymbolSourceBodies_def readBodiesSingly_Inr)
qed

end
