(* ===== verification/Evidence_Items.thy ===== *)
theory Evidence_Items
  imports Job_Worker Diagnosis_Store Snapshot_Reader Evidence_Store
begin

text \<open>
  Evidence handles (\<open>EvidenceIssuerService\<close> in \<open>internal/evidence/item.go\<close>) and the report
  drafts that cite them (\<open>internal/evidence/report_draft.go\<close>). A handle is issued for lines of
  the snapshot after the lineage of the request was checked against the run of the
  attempt; a draft only names handles, and resolving it makes citations from the issued
  rows. Every statement is a call to the store as the worker makes them. The service is
  the one the program builds, with a database and a snapshot store. The secret redaction
  of the displayed text and the digest are parameters.
\<close>

section \<open>The service\<close>

record evidence_env =
  ee_unicode :: unicode
  ee_unmarshal :: "string \<Rightarrow> go_error + manifest"
  ee_files :: file_system
  ee_source_path :: "string \<Rightarrow> string \<Rightarrow> string"
  ee_sha256 :: "string \<Rightarrow> string"
  ee_redact :: "string \<Rightarrow> string"

record issue_request =
  iq_attempt_id :: string
  iq_diagnosis_run_id :: string
  iq_repository_id :: string
  iq_snapshot_id :: string
  iq_code_index_build_id :: int
  iq_source_kind :: string
  iq_source_step_seq :: int
  iq_retrieval_chunk_id :: string
  iq_file_path :: string
  iq_start_line :: int
  iq_end_line :: int
  iq_max_bytes :: int

definition ErrEvidenceAttemptMismatch :: go_error where
  "ErrEvidenceAttemptMismatch = Sentinel ''evidence.ErrEvidenceAttemptMismatch'' ''EVIDENCE_ATTEMPT_MISMATCH''"

definition ErrEvidenceLineageMismatch :: go_error where
  "ErrEvidenceLineageMismatch = Sentinel ''evidence.ErrEvidenceLineageMismatch'' ''EVIDENCE_LINEAGE_MISMATCH''"

definition ErrEvidenceSourceUnavailable :: go_error where
  "ErrEvidenceSourceUnavailable = Sentinel ''evidence.ErrEvidenceSourceUnavailable'' ''EVIDENCE_SOURCE_UNAVAILABLE''"

definition ErrEvidenceHashMismatch :: go_error where
  "ErrEvidenceHashMismatch = Sentinel ''evidence.ErrEvidenceHashMismatch'' ''EVIDENCE_CONTENT_HASH_MISMATCH''"

definition SourceInitialRetrieval :: string where "SourceInitialRetrieval = ''INITIAL_RETRIEVAL''"
definition SourceSearchCode :: string where "SourceSearchCode = ''SEARCH_CODE''"
definition SourceReadFile :: string where "SourceReadFile = ''READ_FILE''"

text \<open>A statement that only reads.\<close>

definition read_store :: "schedule \<Rightarrow> (db \<Rightarrow> go_error + 'a) \<Rightarrow> world \<Rightarrow> (go_error + 'a) \<times> world" where
  "read_store sch f = store_call sch (\<lambda>now d. (f d, d))"

definition validateIssueRequest :: "issue_request \<Rightarrow> go_error + unit" where
  "validateIssueRequest req =
    (if iq_attempt_id req = '''' \<or> iq_diagnosis_run_id req = '''' \<or> iq_repository_id req = '''' \<or> iq_snapshot_id req = ''''
        \<or> iq_file_path req = ''''
     then Inl ErrEvidenceSourceUnavailable
     else if iq_source_kind req \<notin> set [SourceInitialRetrieval, SourceSearchCode, SourceReadFile]
     then Inl (Errorf (''unsupported evidence source kind '' @ quoted (iq_source_kind req)) [])
     else Inr ())"

text \<open>The join of the attempt with its run.\<close>

definition lineage_row :: "string \<Rightarrow> db \<Rightarrow> (string \<times> string \<times> string \<times> int) option" where
  "lineage_row attemptID d =
    (case attempt_of d attemptID of
       None \<Rightarrow> None
     | Some a \<Rightarrow>
       (case run_of d (att_diagnosis_run_id a) of
          None \<Rightarrow> None
        | Some r \<Rightarrow> Some (att_diagnosis_run_id a, run_repository_id r, run_snapshot_id r, run_code_index_build_id r)))"

definition check_lineage :: "issue_request \<Rightarrow> (string \<times> string \<times> string \<times> int) option \<Rightarrow> go_error + unit" where
  "check_lineage req row =
    (case row of
       None \<Rightarrow> Inl ErrEvidenceNotFound
     | Some (runID, repoID, snapshotID, buildID) \<Rightarrow>
       if runID = '''' then Inl ErrEvidenceNotFound
       else if runID \<noteq> iq_diagnosis_run_id req \<or> repoID \<noteq> iq_repository_id req \<or> snapshotID \<noteq> iq_snapshot_id req
         \<or> buildID \<noteq> iq_code_index_build_id req
       then Inl ErrEvidenceLineageMismatch
       else Inr ())"

definition validateLineage :: "schedule \<Rightarrow> issue_request \<Rightarrow> world \<Rightarrow> (go_error + unit) \<times> world" where
  "validateLineage sch req s =
    (case read_store sch (\<lambda>d. Inr (lineage_row (iq_attempt_id req) d)) s of
       (Inl e, s') \<Rightarrow> (Inl (errorf_w ''validate evidence lineage'' e), s')
     | (Inr row, s') \<Rightarrow> (check_lineage req row, s'))"

definition evidence_range ::
  "evidence_env \<Rightarrow> string \<Rightarrow> string \<Rightarrow> string \<Rightarrow> int \<Rightarrow> int \<Rightarrow> int \<Rightarrow> go_error + file_range" where
  "evidence_range env repoID snapshotID path startLine endLine maxBytes =
    (let sourceRoot = ee_source_path env repoID snapshotID;
         decision = CanIssueEvidenceFromSnapshot (ee_unicode env) (ee_unmarshal env) (ee_files env) sourceRoot path
     in if \<not> dec_allowed decision
        then Inl (Errorf (error_text ErrEvidenceSourceUnavailable @ '': file access denied ('' @ dec_reason decision @ '')'')
               [ErrEvidenceSourceUnavailable])
        else case ReadFileRangeBounded (ee_unicode env) (ee_unmarshal env) (ee_files env) sourceRoot path
               startLine endLine maxBytes of
          Inl e \<Rightarrow> Inl (Errorf (error_text ErrEvidenceSourceUnavailable @ '': '' @ error_text e) [ErrEvidenceSourceUnavailable, e])
        | Inr r \<Rightarrow> Inr r)"

definition new_evidence_item ::
  "evidence_env \<Rightarrow> time \<Rightarrow> string \<Rightarrow> issue_request \<Rightarrow> file_range \<Rightarrow> attempt_evidence_item" where
  "new_evidence_item env now uuid req r = \<lparr>
     ev_id = ''ev_'' @ uuid, ev_attempt_id = iq_attempt_id req, ev_diagnosis_run_id = iq_diagnosis_run_id req,
     ev_snapshot_id = iq_snapshot_id req, ev_code_index_build_id = iq_code_index_build_id req,
     ev_source_kind = iq_source_kind req,
     ev_source_step_seq = (if iq_source_step_seq req > 0 then Some (iq_source_step_seq req) else None),
     ev_retrieval_chunk_id = iq_retrieval_chunk_id req, ev_file_path = fr_path r, ev_start_line = fr_start_line r,
     ev_end_line = fr_end_line r, ev_total_lines = fr_total_lines r,
     ev_raw_content_hash = ee_sha256 env (fr_content r), ev_display_excerpt = ee_redact env (fr_content r),
     ev_redaction_applied = (ee_redact env (fr_content r) \<noteq> fr_content r), ev_truncated = fr_truncated r,
     ev_created_at = now\<rparr>"

definition canonical_item ::
  "evidence_env \<Rightarrow> schedule \<Rightarrow> issue_request \<Rightarrow> file_range \<Rightarrow> world \<Rightarrow> (go_error + attempt_evidence_item option) \<times> world" where
  "canonical_item env sch req r = read_store sch (\<lambda>d. Inr (FindCanonical (iq_attempt_id req) (iq_snapshot_id req) (fr_path r)
     (fr_start_line r) (fr_end_line r) (ee_sha256 env (fr_content r)) d))"

definition create_item ::
  "evidence_env \<Rightarrow> schedule \<Rightarrow> string \<Rightarrow> issue_request \<Rightarrow> file_range \<Rightarrow> world \<Rightarrow> (go_error + attempt_evidence_item) \<times> world" where
  "create_item env sch uuid req r s =
    (let item = new_evidence_item env (sc_now sch (fst s)) uuid req r
     in case store_call sch (\<lambda>now. EvidenceCreate uuid item) s of
          (Inr _, s1) \<Rightarrow> (Inr item, s1)
        | (Inl e, s1) \<Rightarrow>
          (case canonical_item env sch req r s1 of
             (Inr (Some x), s2) \<Rightarrow> (Inr x, s2)
           | (_, s2) \<Rightarrow> (Inl (errorf_w ''persist evidence item'' e), s2)))"

definition Issue ::
  "evidence_env \<Rightarrow> schedule \<Rightarrow> string \<Rightarrow> issue_request \<Rightarrow> world \<Rightarrow> (go_error + attempt_evidence_item) \<times> world" where
  "Issue env sch uuid req s =
    (case validateIssueRequest req of
       Inl e \<Rightarrow> (Inl e, s)
     | Inr _ \<Rightarrow>
       (case validateLineage sch req s of
          (Inl e, s1) \<Rightarrow> (Inl e, s1)
        | (Inr _, s1) \<Rightarrow>
          (case evidence_range env (iq_repository_id req) (iq_snapshot_id req) (iq_file_path req) (iq_start_line req)
                  (iq_end_line req) (iq_max_bytes req) of
             Inl e \<Rightarrow> (Inl e, s1)
           | Inr r \<Rightarrow>
             (case canonical_item env sch req r s1 of
                (Inl e, s2) \<Rightarrow> (Inl e, s2)
              | (Inr (Some x), s2) \<Rightarrow> (Inr x, s2)
              | (Inr None, s2) \<Rightarrow> create_item env sch uuid req r s2))))"

definition Resolve :: "schedule \<Rightarrow> string \<Rightarrow> string \<Rightarrow> world \<Rightarrow> (go_error + attempt_evidence_item) \<times> world" where
  "Resolve sch attemptID evidenceID s =
    (if attemptID = '''' \<or> evidenceID = '''' then (Inl ErrEvidenceNotFound, s)
     else case read_store sch (GetByAttemptAndID attemptID evidenceID) s of
       (Inr item, s1) \<Rightarrow> (Inr item, s1)
     | (Inl e, s1) \<Rightarrow>
       if errors_is e ErrEvidenceNotFound
       then case read_store sch (FindByID evidenceID) s1 of
         (Inr foreign, s2) \<Rightarrow>
           if ev_attempt_id foreign \<noteq> attemptID then (Inl ErrEvidenceAttemptMismatch, s2) else (Inl e, s2)
       | (Inl _, s2) \<Rightarrow> (Inl e, s2)
       else (Inl e, s1))"

record draft_lineage =
  dl_attempt_id :: string
  dl_diagnosis_run_id :: string
  dl_repository_id :: string
  dl_snapshot_id :: string
  dl_code_index_build_id :: int

definition same_run_lineage :: "attempt_evidence_item \<Rightarrow> draft_lineage \<Rightarrow> bool" where
  "same_run_lineage item lin \<longleftrightarrow> ev_diagnosis_run_id item = dl_diagnosis_run_id lin
    \<and> ev_snapshot_id item = dl_snapshot_id lin \<and> ev_code_index_build_id item = dl_code_index_build_id lin"

definition Verify :: "evidence_env \<Rightarrow> attempt_evidence_item \<Rightarrow> draft_lineage \<Rightarrow> go_error + unit" where
  "Verify env item lin =
    (if ev_attempt_id item \<noteq> dl_attempt_id lin then Inl ErrEvidenceAttemptMismatch
     else if \<not> same_run_lineage item lin then Inl ErrEvidenceLineageMismatch
     else case evidence_range env (dl_repository_id lin) (ev_snapshot_id item) (ev_file_path item) (ev_start_line item)
            (ev_end_line item) 0 of
       Inl e \<Rightarrow> Inl e
     | Inr r \<Rightarrow>
       if ee_sha256 env (fr_content r) \<noteq> ev_raw_content_hash item \<or> fr_start_line r \<noteq> ev_start_line item
          \<or> fr_end_line r \<noteq> ev_end_line item
       then Inl ErrEvidenceHashMismatch else Inr ())"

section \<open>Drafts\<close>

record citation_ref =
  cr_evidence_id :: string
  cr_reason :: string
  cr_legacy_path :: string
  cr_legacy_start_line :: int
  cr_legacy_end_line :: int
  cr_legacy_excerpt :: string

record finding_draft =
  fd_title :: string
  fd_reasoning :: string
  fd_citations :: "citation_ref list"

record report_draft =
  rd_conclusion_kind :: conclusion_kind
  rd_summary :: string
  rd_root_cause :: string
  rd_findings :: "finding_draft list"
  rd_recommended_checks :: "string list"
  rd_confirmed_facts :: "string list"
  rd_limitations :: "string list"
  rd_model_claimed_confidence :: "rat option"
  rd_legacy_confidence :: "rat option"

text \<open>\<open>utf8.ValidString\<close>, and the longest valid prefix within a number of bytes.\<close>

function valid_utf8 :: "string \<Rightarrow> bool" where
  "valid_utf8 [] = True"
| "valid_utf8 (c # s) = (case rune_width (c # s) of None \<Rightarrow> False | Some w \<Rightarrow> valid_utf8 (drop (w - 1) s))"
  by pat_completeness auto
termination by (relation "measure length") auto

fun valid_cut :: "string \<Rightarrow> nat \<Rightarrow> string" where
  "valid_cut s 0 = ''''"
| "valid_cut s (Suc n) = (if valid_utf8 (take (Suc n) s) then take (Suc n) s else valid_cut s n)"

definition limitCitationReason :: "string \<Rightarrow> string" where
  "limitCitationReason reason0 =
    (let reason = trim_space reason0 in if length reason > 2048 then valid_cut reason 2048 else reason)"

definition empty_citation :: citation where
  "empty_citation = \<lparr>cit_id = '''', cit_report_id = '''', cit_evidence_id = '''', cit_snapshot_id = '''',
     cit_code_index_build_id = 0, cit_file_path = '''', cit_start_line = 0, cit_end_line = 0, cit_excerpt = '''',
     cit_reason = '''', cit_content_hash = '''', cit_validation_status = CitationUnchecked, cit_validation_error = ''''\<rparr>"

text \<open>The report data a draft stands for, with its findings given.\<close>

definition draft_report :: "report_draft \<Rightarrow> finding list \<Rightarrow> diagnosis_report_data" where
  "draft_report draft findings = \<lparr>dr_conclusion_kind = rd_conclusion_kind draft, dr_summary = rd_summary draft,
     dr_root_cause = rd_root_cause draft, dr_findings = findings, dr_recommended_checks = rd_recommended_checks draft,
     dr_confidence = 0,
     dr_model_claimed_confidence = (case rd_model_claimed_confidence draft of None \<Rightarrow> rd_legacy_confidence draft | Some c \<Rightarrow> Some c),
     dr_confirmed_facts = rd_confirmed_facts draft, dr_limitations = rd_limitations draft\<rparr>"

definition ValidateReportDraftStructure ::
  "(diagnosis_report_data \<Rightarrow> go_error + string) \<Rightarrow> report_draft option \<Rightarrow> go_error + unit" where
  "ValidateReportDraftStructure marshal draft =
    (case draft of
       None \<Rightarrow> Inl (Errorf ''report draft is nil'' [])
     | Some dr \<Rightarrow> ValidateReportStructure marshal (Some (draft_report dr
         (map (\<lambda>f. \<lparr>fin_title = fd_title f, fin_reasoning = fd_reasoning f,
            fin_citations = map (\<lambda>ref. empty_citation\<lparr>cit_evidence_id := cr_evidence_id ref,
              cit_reason := limitCitationReason (cr_reason ref)\<rparr>) (fd_citations f)\<rparr>) (rd_findings dr)))))"

definition evidenceResolveError :: "go_error \<Rightarrow> string" where
  "evidenceResolveError err =
    (if errors_is err ErrEvidenceNotFound then ''EVIDENCE_NOT_FOUND''
     else if errors_is err ErrEvidenceAttemptMismatch then ''EVIDENCE_ATTEMPT_MISMATCH''
     else if errors_is err ErrEvidenceLineageMismatch then ''EVIDENCE_LINEAGE_MISMATCH''
     else if errors_is err ErrEvidenceHashMismatch then ''EVIDENCE_CONTENT_HASH_MISMATCH''
     else ''EVIDENCE_SOURCE_UNAVAILABLE'')"

definition unresolved_citation :: "draft_lineage \<Rightarrow> citation_ref \<Rightarrow> citation" where
  "unresolved_citation lin ref = empty_citation\<lparr>cit_evidence_id := trim_space (cr_evidence_id ref),
     cit_reason := limitCitationReason (cr_reason ref), cit_snapshot_id := dl_snapshot_id lin,
     cit_code_index_build_id := dl_code_index_build_id lin, cit_validation_status := CitationInvalid\<rparr>"

definition resolved_citation :: "attempt_evidence_item \<Rightarrow> citation \<Rightarrow> citation" where
  "resolved_citation item c = c\<lparr>cit_file_path := ev_file_path item, cit_start_line := ev_start_line item,
     cit_end_line := ev_end_line item, cit_excerpt := ev_display_excerpt item, cit_content_hash := ev_raw_content_hash item,
     cit_validation_status := CitationValid, cit_validation_error := ''''\<rparr>"

definition resolve_citation ::
  "evidence_env option \<Rightarrow> schedule \<Rightarrow> draft_lineage \<Rightarrow> citation_ref \<Rightarrow> world \<Rightarrow> citation \<times> world" where
  "resolve_citation issuer sch lin ref s =
    (let c = unresolved_citation lin ref; invalid = (\<lambda>msg. c\<lparr>cit_validation_error := msg\<rparr>)
     in if cit_evidence_id c = '''' then (invalid ''EVIDENCE_ID_EMPTY'', s)
        else case issuer of
          None \<Rightarrow> (invalid ''EVIDENCE_SOURCE_UNAVAILABLE'', s)
        | Some env \<Rightarrow>
          (case Resolve sch (dl_attempt_id lin) (cit_evidence_id c) s of
             (Inl e, s') \<Rightarrow> (invalid (evidenceResolveError e), s')
           | (Inr item, s') \<Rightarrow>
             if ev_attempt_id item \<noteq> dl_attempt_id lin then (invalid ''EVIDENCE_ATTEMPT_MISMATCH'', s')
             else if \<not> same_run_lineage item lin then (invalid ''EVIDENCE_LINEAGE_MISMATCH'', s')
             else case Verify env item lin of
               Inl e \<Rightarrow> (invalid (evidenceResolveError e), s')
             | Inr _ \<Rightarrow> (resolved_citation item c, s')))"

fun resolve_citations ::
  "evidence_env option \<Rightarrow> schedule \<Rightarrow> draft_lineage \<Rightarrow> citation_ref list \<Rightarrow> world \<Rightarrow> citation list \<times> world" where
  "resolve_citations issuer sch lin [] s = ([], s)"
| "resolve_citations issuer sch lin (ref # refs) s =
    (case resolve_citation issuer sch lin ref s of
       (c, s1) \<Rightarrow> (case resolve_citations issuer sch lin refs s1 of (cs, s2) \<Rightarrow> (c # cs, s2)))"

fun resolve_findings ::
  "evidence_env option \<Rightarrow> schedule \<Rightarrow> draft_lineage \<Rightarrow> finding_draft list \<Rightarrow> world \<Rightarrow> finding list \<times> world" where
  "resolve_findings issuer sch lin [] s = ([], s)"
| "resolve_findings issuer sch lin (f # fs) s =
    (case resolve_citations issuer sch lin (fd_citations f) s of
       (cs, s1) \<Rightarrow>
         (case resolve_findings issuer sch lin fs s1 of
            (rest, s2) \<Rightarrow> (\<lparr>fin_title = fd_title f, fin_reasoning = fd_reasoning f, fin_citations = cs\<rparr> # rest, s2)))"

definition ResolveReportDraft ::
  "(diagnosis_report_data \<Rightarrow> go_error + string) \<Rightarrow> evidence_env option \<Rightarrow> schedule \<Rightarrow> report_draft option \<Rightarrow> draft_lineage \<Rightarrow>
    world \<Rightarrow> (go_error + diagnosis_report_data) \<times> world" where
  "ResolveReportDraft marshal issuer sch draft lin s =
    (case draft of
       None \<Rightarrow> (Inl (Errorf ''report draft is nil'' []), s)
     | Some dr \<Rightarrow>
       (case ValidateReportDraftStructure marshal draft of
          Inl e \<Rightarrow> (Inl e, s)
        | Inr _ \<Rightarrow>
          (case resolve_findings issuer sch lin (rd_findings dr) s of
             (findings, s') \<Rightarrow> (Inr (draft_report dr findings), s'))))"

end
