(* ===== verification/Evidence_Item_Properties.thy ===== *)
theory Evidence_Item_Properties
  imports Evidence_Items Worker_Properties Pipeline_Frame
begin

text \<open>
  What a resolved report may cite: the lemmas on issuing, resolving and verifying evidence
  against a store shared with other processes, and the property that no citation can be
  made up.
\<close>

section \<open>Issued rows stay\<close>

lemma system_steps_items:
  "system_steps F d d' \<Longrightarrow> items_grow (attempt_evidence_items d) (attempt_evidence_items d')"
proof (induction rule: rtranclp_induct)
  case (step y z)
  with system_step_quiet[OF step.hyps(2)] show ?case
    unfolding quiet_def by (meson items_grow_trans)
qed simp

lemma items_kept: "system_steps F d d' \<Longrightarrow> x \<in> set (attempt_evidence_items d) \<Longrightarrow> x \<in> set (attempt_evidence_items d')"
  using system_steps_items[of F d d'] by (auto simp: items_grow_def prefix_def)

lemma read_store_steps: "shared_store F sch \<Longrightarrow> system_steps F (snd s) (snd (snd (read_store sch f s)))"
  unfolding read_store_def by (rule store_call_steps) auto

lemma read_store_Inr: "read_store sch f s = (Inr x, s') \<Longrightarrow> f (snd s') = Inr x"
  unfolding read_store_def by (drule store_call_Inr) auto

lemma steps_by_case:
  "system_steps F (snd s) (snd (snd r)) \<Longrightarrow> r = (x, s') \<Longrightarrow> system_steps F (snd s) (snd s')"
  by simp

lemma validateLineage_steps: "shared_store F sch \<Longrightarrow> system_steps F (snd s) (snd (snd (validateLineage sch req s)))"
  using read_store_steps[of F sch s "\<lambda>d. Inr (lineage_row (iq_attempt_id req) d)"]
  by (auto simp: validateLineage_def split: prod.split sum.split)

lemma create_item_steps: "shared_store F sch \<Longrightarrow> system_steps F (snd s) (snd (snd (create_item env sch uuid req r s)))"
proof -
  assume sh: "shared_store F sch"
  define c where "c = store_call sch (\<lambda>now. EvidenceCreate uuid (new_evidence_item env (sc_now sch (fst s)) uuid req r)) s"
  have "system_steps F (snd s) (snd (snd c))"
    unfolding c_def by (rule store_call_steps[OF sh]) (blast intro: sys_issue_evidence)
  moreover have "system_steps F (snd (snd c)) (snd (snd (canonical_item env sch req r (snd c))))"
    unfolding canonical_item_def by (rule read_store_steps[OF sh])
  ultimately show ?thesis
    unfolding create_item_def Let_def c_def[symmetric]
    by (auto split: prod.split sum.split option.split intro: rtranclp_trans)
qed

lemma Issue_steps: "shared_store F sch \<Longrightarrow> system_steps F (snd s) (snd (snd (Issue env sch uuid req s)))"
proof -
  assume sh: "shared_store F sch"
  define v where "v = validateLineage sch req s"
  have 1: "system_steps F (snd s) (snd (snd v))" unfolding v_def by (rule validateLineage_steps[OF sh])
  have 2: "system_steps F (snd (snd v)) (snd (snd (canonical_item env sch req r (snd v))))" for r
    unfolding canonical_item_def by (rule read_store_steps[OF sh])
  have 3: "system_steps F (snd (snd (canonical_item env sch req r (snd v))))
      (snd (snd (create_item env sch uuid req r (snd (canonical_item env sch req r (snd v))))))" for r
    by (rule create_item_steps[OF sh])
  from 1 2 have 4: "system_steps F (snd s) (snd (snd (canonical_item env sch req r (snd v))))" for r
    by (rule rtranclp_trans)
  from 4 3 have 5: "system_steps F (snd s)
      (snd (snd (create_item env sch uuid req r (snd (canonical_item env sch req r (snd v))))))" for r
    by (rule rtranclp_trans)
  show ?thesis
    unfolding Issue_def v_def[symmetric]
  proof (split sum.split, intro conjI allI impI, simp, split prod.split, intro allI impI, split sum.split, intro conjI allI impI)
    fix u a b x assume "v = (a, b)" "a = Inl x"
    with 1 show "system_steps F (snd s) (snd (snd (Inl x, b)))" by simp
  next
    fix u a b x assume v: "v = (a, b)" "a = Inr x"
    show "system_steps F (snd s) (snd (snd (case evidence_range env (iq_repository_id req) (iq_snapshot_id req)
        (iq_file_path req) (iq_start_line req) (iq_end_line req) (iq_max_bytes req) of
          Inl e \<Rightarrow> (Inl e, b)
        | Inr r \<Rightarrow> (case canonical_item env sch req r b of
            (Inl e, s2) \<Rightarrow> (Inl e, s2) | (Inr (Some x), s2) \<Rightarrow> (Inr x, s2)
          | (Inr None, s2) \<Rightarrow> create_item env sch uuid req r s2))))"
    proof (cases "evidence_range env (iq_repository_id req) (iq_snapshot_id req)
        (iq_file_path req) (iq_start_line req) (iq_end_line req) (iq_max_bytes req)")
      case (Inl e)
      with 1 v show ?thesis by simp
    next
      case (Inr r)
      obtain y s2 where c: "canonical_item env sch req r b = (y, s2)" by (rule prod.exhaust)
      with 4[of r] 5[of r] v Inr show ?thesis by (auto split: sum.split option.split)
    qed
  qed
qed

text \<open>What an issued handle stands for.\<close>

lemma Issue_item:
  assumes "shared_store F sch" and "Issue env sch uuid req s = (Inr item, s')"
  shows "item \<in> set (attempt_evidence_items (snd s'))
    \<and> ev_attempt_id item = iq_attempt_id req \<and> ev_snapshot_id item = iq_snapshot_id req
    \<and> (\<exists>r. evidence_range env (iq_repository_id req) (iq_snapshot_id req) (iq_file_path req) (iq_start_line req)
          (iq_end_line req) (iq_max_bytes req) = Inr r
        \<and> ev_file_path item = fr_path r \<and> ev_start_line item = fr_start_line r \<and> ev_end_line item = fr_end_line r
        \<and> ev_raw_content_hash item = ee_sha256 env (fr_content r))"
proof -
  from assms(2) obtain s1 r s2 y
    where "validateIssueRequest req = Inr ()" and l: "validateLineage sch req s = (Inr (), s1)"
      and r: "evidence_range env (iq_repository_id req) (iq_snapshot_id req) (iq_file_path req) (iq_start_line req)
          (iq_end_line req) (iq_max_bytes req) = Inr r"
      and c: "canonical_item env sch req r s1 = (Inr y, s2)"
      and out: "(case y of Some x \<Rightarrow> (Inr x, s2) | None \<Rightarrow> create_item env sch uuid req r s2) = (Inr item, s')"
    by (auto simp: Issue_def split: sum.splits prod.splits option.splits)
  have found: "item \<in> set (attempt_evidence_items d) \<and> ev_attempt_id item = iq_attempt_id req
      \<and> ev_snapshot_id item = iq_snapshot_id req \<and> ev_file_path item = fr_path r \<and> ev_start_line item = fr_start_line r
      \<and> ev_end_line item = fr_end_line r \<and> ev_raw_content_hash item = ee_sha256 env (fr_content r)"
    if "FindCanonical (iq_attempt_id req) (iq_snapshot_id req) (fr_path r) (fr_start_line r) (fr_end_line r)
          (ee_sha256 env (fr_content r)) d = Some item" for d
    using that by (auto simp: FindCanonical_def dest!: find_SomeD)
  show ?thesis
  proof (cases y)
    case (Some x)
    with out have "x = item" "s2 = s'" by auto
    with c Some have "FindCanonical (iq_attempt_id req) (iq_snapshot_id req) (fr_path r) (fr_start_line r) (fr_end_line r)
          (ee_sha256 env (fr_content r)) (snd s') = Some item"
      unfolding canonical_item_def by (auto dest: read_store_Inr)
    from found[OF this] r show ?thesis by blast
  next
    case None
    define new where "new = new_evidence_item env (sc_now sch (fst s2)) uuid req r"
    from out None consider (created) u where "store_call sch (\<lambda>now. EvidenceCreate uuid new) s2 = (Inr u, s')" "item = new"
      | (raced) s3 where "canonical_item env sch req r s3 = (Inr (Some item), s')"
      by (auto simp: create_item_def Let_def new_def split: sum.splits prod.splits option.splits)
    then show ?thesis
    proof cases
      case created
      from store_call_Inr[OF created(1)] obtain d where "EvidenceCreate uuid new d = (Inr u, snd s')" by blast
      moreover have "ev_id new \<noteq> ''''" by (simp add: new_def new_evidence_item_def)
      ultimately have "snd s' = d\<lparr>attempt_evidence_items := attempt_evidence_items d @ [new]\<rparr>"
        by (auto simp: EvidenceCreate_def Let_def split: if_splits)
      then have "new \<in> set (attempt_evidence_items (snd s'))" by simp
      with created(2) r show ?thesis by (auto simp: new_def new_evidence_item_def)
    next
      case raced
      then have "FindCanonical (iq_attempt_id req) (iq_snapshot_id req) (fr_path r) (fr_start_line r) (fr_end_line r)
          (ee_sha256 env (fr_content r)) (snd s') = Some item"
        unfolding canonical_item_def by (auto dest: read_store_Inr)
      from found[OF this] r show ?thesis by blast
    qed
  qed
qed

section \<open>Resolution\<close>

lemma Resolve_steps: "shared_store F sch \<Longrightarrow> system_steps F (snd s) (snd (snd (Resolve sch a i s)))"
proof -
  assume sh: "shared_store F sch"
  define g where "g = read_store sch (GetByAttemptAndID a i) s"
  have 1: "system_steps F (snd s) (snd (snd g))" unfolding g_def by (rule read_store_steps[OF sh])
  have 2: "system_steps F (snd (snd g)) (snd (snd (read_store sch (FindByID i) (snd g))))" by (rule read_store_steps[OF sh])
  from 1 2 have "system_steps F (snd s) (snd (snd (read_store sch (FindByID i) (snd g))))" by (rule rtranclp_trans)
  with 1 show ?thesis
    unfolding Resolve_def g_def[symmetric] by (auto split: prod.split sum.split)
qed

lemma Resolve_item:
  assumes "Resolve sch a i s = (Inr item, s')"
  shows "item \<in> set (attempt_evidence_items (snd s')) \<and> ev_attempt_id item = a \<and> ev_id item = i"
proof -
  from assms have "read_store sch (GetByAttemptAndID a i) s = (Inr item, s')"
    by (auto simp: Resolve_def split: if_splits prod.splits sum.splits)
  then show ?thesis
    by (auto simp: GetByAttemptAndID_def dest!: read_store_Inr find_SomeD split: option.splits)
qed

lemma resolve_citation_steps:
  assumes "shared_store F sch"
  shows "system_steps F (snd s) (snd (snd (resolve_citation issuer sch lin ref s)))"
  using Resolve_steps[OF assms, of s "dl_attempt_id lin" "cit_evidence_id (unresolved_citation lin ref)"]
  by (auto simp: resolve_citation_def Let_def split: option.split prod.split sum.split)

text \<open>What backs a citation: an issued row of the lineage whose lines in the snapshot have the row's digest.\<close>

definition backs :: "evidence_env \<Rightarrow> draft_lineage \<Rightarrow> citation \<Rightarrow> attempt_evidence_item \<Rightarrow> bool" where
  "backs env lin c item \<longleftrightarrow> ev_id item = cit_evidence_id c \<and> ev_attempt_id item = dl_attempt_id lin
    \<and> same_run_lineage item lin \<and> cit_snapshot_id c = dl_snapshot_id lin
    \<and> cit_code_index_build_id c = dl_code_index_build_id lin \<and> cit_file_path c = ev_file_path item
    \<and> cit_start_line c = ev_start_line item \<and> cit_end_line c = ev_end_line item
    \<and> dec_allowed (CanIssueEvidenceFromSnapshot (ee_unicode env) (ee_unmarshal env) (ee_files env)
          (ee_source_path env (dl_repository_id lin) (dl_snapshot_id lin)) (cit_file_path c))
    \<and> cit_excerpt c = ev_display_excerpt item \<and> cit_content_hash c = ev_raw_content_hash item
    \<and> (\<exists>r. evidence_range env (dl_repository_id lin) (dl_snapshot_id lin) (ev_file_path item) (ev_start_line item)
          (ev_end_line item) 0 = Inr r
        \<and> ee_sha256 env (fr_content r) = cit_content_hash c \<and> fr_start_line r = cit_start_line c
        \<and> fr_end_line r = cit_end_line c)"

definition citation_backed :: "evidence_env option \<Rightarrow> draft_lineage \<Rightarrow> db \<Rightarrow> citation \<Rightarrow> bool" where
  "citation_backed issuer lin d c \<longleftrightarrow> (cit_validation_status c = CitationValid \<longrightarrow>
    (\<exists>env item. issuer = Some env \<and> item \<in> set (attempt_evidence_items d) \<and> backs env lin c item))"

lemma citation_backed_later: "citation_backed issuer lin d c \<Longrightarrow> system_steps F d d' \<Longrightarrow> citation_backed issuer lin d' c"
  unfolding citation_backed_def using items_kept by blast

lemma resolve_citation_backed:
  assumes "resolve_citation issuer sch lin ref s = (c, s')"
  shows "citation_backed issuer lin (snd s') c"
  unfolding citation_backed_def
proof
  assume valid: "cit_validation_status c = CitationValid"
  let ?c = "unresolved_citation lin ref"
  have inv: "cit_validation_status ?c = CitationInvalid" by (simp add: unresolved_citation_def)
  with assms valid obtain env item where env: "issuer = Some env"
    and r: "Resolve sch (dl_attempt_id lin) (cit_evidence_id ?c) s = (Inr item, s')"
    and l: "ev_attempt_id item = dl_attempt_id lin" "same_run_lineage item lin"
    and v: "Verify env item lin = Inr ()" and c: "c = resolved_citation item ?c"
    by (auto simp: resolve_citation_def Let_def split: if_splits option.splits prod.splits sum.splits)
  from v l obtain rr where "evidence_range env (dl_repository_id lin) (ev_snapshot_id item) (ev_file_path item)
      (ev_start_line item) (ev_end_line item) 0 = Inr rr" "dec_allowed (CanIssueEvidenceFromSnapshot (ee_unicode env) (ee_unmarshal env) (ee_files env)
        (ee_source_path env (dl_repository_id lin) (ev_snapshot_id item)) (ev_file_path item))" "ee_sha256 env (fr_content rr) = ev_raw_content_hash item"
      "fr_start_line rr = ev_start_line item" "fr_end_line rr = ev_end_line item"
    by (auto simp: Verify_def evidence_range_def Let_def split: sum.splits if_splits)
  with Resolve_item[OF r] l c env
  show "\<exists>env item. issuer = Some env \<and> item \<in> set (attempt_evidence_items (snd s')) \<and> backs env lin c item"
    by (auto simp: backs_def resolved_citation_def unresolved_citation_def same_run_lineage_def)
qed

lemma resolve_citations_backed:
  assumes "shared_store F sch" and "resolve_citations issuer sch lin refs s = (cs, s')"
  shows "system_steps F (snd s) (snd s') \<and> list_all (citation_backed issuer lin (snd s')) cs"
  using assms(2)
proof (induction refs arbitrary: s cs)
  case (Cons ref refs)
  obtain c s1 where 1: "resolve_citation issuer sch lin ref s = (c, s1)" by (rule prod.exhaust)
  obtain cs' s2 where 2: "resolve_citations issuer sch lin refs s1 = (cs', s2)" by (rule prod.exhaust)
  from Cons.prems 1 2 have out: "cs = c # cs'" "s' = s2" by auto
  with Cons.IH 2 have IH: "system_steps F (snd s1) (snd s')" "list_all (citation_backed issuer lin (snd s')) cs'" by auto
  from resolve_citation_steps[OF assms(1), of s issuer lin ref] 1 have "system_steps F (snd s) (snd s1)" by simp
  from this IH(1) have "system_steps F (snd s) (snd s')" by (rule rtranclp_trans)
  with IH out citation_backed_later[OF resolve_citation_backed[OF 1] IH(1)] show ?case by simp
qed auto

lemma resolve_findings_backed:
  assumes "shared_store F sch" and "resolve_findings issuer sch lin fs s = (findings, s')"
  shows "system_steps F (snd s) (snd s') \<and> list_all (citation_backed issuer lin (snd s')) (all_citations findings)"
  using assms(2)
proof (induction fs arbitrary: s findings)
  case (Cons f fs)
  obtain cs s1 where 1: "resolve_citations issuer sch lin (fd_citations f) s = (cs, s1)" by (rule prod.exhaust)
  obtain rest s2 where 2: "resolve_findings issuer sch lin fs s1 = (rest, s2)" by (rule prod.exhaust)
  from Cons.prems 1 2 have out: "findings = \<lparr>fin_title = fd_title f, fin_reasoning = fd_reasoning f, fin_citations = cs\<rparr> # rest"
    "s' = s2" by auto
  with Cons.IH 2 have IH: "system_steps F (snd s1) (snd s')"
    "list_all (citation_backed issuer lin (snd s')) (all_citations rest)" by auto
  note C = resolve_citations_backed[OF assms(1) 1]
  from conjunct1[OF C] IH(1) have "system_steps F (snd s) (snd s')" by (rule rtranclp_trans)
  moreover from conjunct2[OF C] have "list_all (citation_backed issuer lin (snd s')) cs"
    by (rule list.pred_mono_strong) (rule citation_backed_later[OF _ IH(1)])
  ultimately show ?case using IH(2) out by (simp add: all_citations_def)
qed (auto simp: all_citations_def)

section \<open>The property\<close>

text \<open>C38. However the processes of the system interleave with the resolution of a report
draft, every citation the resolved report marks valid names an evidence row that is still in
the final database and was issued to this very attempt, run, snapshot and index build. Its path,
lines, excerpt and digest are those of the row, never the ones the model wrote into the draft;
the policy lets the path be quoted, and the lines, read again from the snapshot, have
that digest.\<close>

theorem valid_citations_are_backed:
  assumes "shared_store F sch" and "ResolveReportDraft marshal issuer sch draft lin s = (Inr report, s')"
  shows "\<forall>c \<in> set (all_citations (dr_findings report)). cit_validation_status c = CitationValid \<longrightarrow>
    (\<exists>env item. issuer = Some env \<and> item \<in> set (attempt_evidence_items (snd s')) \<and> backs env lin c item)"
proof -
  from assms(2) obtain dr findings where "resolve_findings issuer sch lin (rd_findings dr) s = (findings, s')"
    and "report = draft_report dr findings"
    by (auto simp: ResolveReportDraft_def split: option.splits sum.splits prod.splits)
  with resolve_findings_backed[OF assms(1)] show ?thesis
    by (auto simp: draft_report_def list_all_iff citation_backed_def)
qed

text \<open>An attempt quotes two lines of a file; the draft cites them under a made-up path, and cites a handle nobody issued.\<close>

definition demo_files :: file_system where
  "demo_files = \<lparr>fs_lstat = (\<lambda>p. if p = ''/s'' then Some ModeDir else if p = ''/s/a.go'' then Some ModeRegular else None),
     fs_eval_symlinks = Some, fs_read_file = (\<lambda>p. if p = ''/s/a.go'' then ReadBytes ''ab'' else ReadMissing)\<rparr>"

definition demo_evidence :: evidence_env where
  "demo_evidence = \<lparr>ee_unicode = ascii, ee_unmarshal = (\<lambda>_. Inl SqlErrNoRows), ee_files = demo_files,
     ee_source_path = (\<lambda>_ _. ''/s''), ee_sha256 = rev, ee_redact = (\<lambda>c. c)\<rparr>"

definition demo_request :: issue_request where
  "demo_request = \<lparr>iq_attempt_id = ''att'', iq_diagnosis_run_id = ''run'', iq_repository_id = ''repo'',
     iq_snapshot_id = ''snap'', iq_code_index_build_id = 4, iq_source_kind = ''READ_FILE'', iq_source_step_seq = 2,
     iq_retrieval_chunk_id = '''', iq_file_path = ''./a.go'', iq_start_line = 0, iq_end_line = 9, iq_max_bytes = 100\<rparr>"

definition demo_cited :: citation_ref where
  "demo_cited = \<lparr>cr_evidence_id = '' ev_u'', cr_reason = ''why'', cr_legacy_path = ''/etc/passwd'', cr_legacy_start_line = 7,
     cr_legacy_end_line = 8, cr_legacy_excerpt = ''root''\<rparr>"

definition demo_draft :: report_draft where
  "demo_draft = \<lparr>rd_conclusion_kind = ConclusionRootCause, rd_summary = ''s'', rd_root_cause = ''r'',
     rd_findings = [\<lparr>fd_title = ''t'', fd_reasoning = ''x'',
       fd_citations = [demo_cited, demo_cited\<lparr>cr_evidence_id := ''ev_v''\<rparr>]\<rparr>],
     rd_recommended_checks = [], rd_confirmed_facts = [], rd_limitations = [], rd_model_claimed_confidence = None,
     rd_legacy_confidence = None\<rparr>"

definition demo_lineage :: draft_lineage where
  "demo_lineage = \<lparr>dl_attempt_id = ''att'', dl_diagnosis_run_id = ''run'', dl_repository_id = ''repo'',
     dl_snapshot_id = ''snap'', dl_code_index_build_id = 4\<rparr>"

definition demo_issued :: "(go_error + attempt_evidence_item) \<times> world" where
  "demo_issued = Issue demo_evidence (demo_schedule []) ''u'' demo_request (0, demo_running)"

theorem valid_citations_are_backed_witness:
  "\<exists>report c1 c2 item. fst (ResolveReportDraft (\<lambda>_. Inr '''') (Some demo_evidence) (demo_schedule []) (Some demo_draft)
        demo_lineage (snd demo_issued)) = Inr report
    \<and> all_citations (dr_findings report) = [c1, c2] \<and> cit_validation_status c1 = CitationValid
    \<and> cit_validation_status c2 = CitationInvalid \<and> backs demo_evidence demo_lineage c1 item \<and> cit_file_path c1 = ''a.go''"
proof -
  let ?r = "ResolveReportDraft (\<lambda>_. Inr '''') (Some demo_evidence) (demo_schedule []) (Some demo_draft)
        demo_lineage (snd demo_issued)"
  let ?cs = "all_citations (dr_findings (projr (fst ?r)))"
  have r: "?r = (Inr (projr (fst ?r)), snd ?r)" by code_simp
  have c: "?cs = [?cs ! 0, ?cs ! 1]" "cit_validation_status (?cs ! 0) = CitationValid"
    "cit_validation_status (?cs ! 1) = CitationInvalid" "cit_file_path (?cs ! 0) = ''a.go''" by code_simp+
  have "shared_store any_token (demo_schedule [])" by (rule demo_schedule_shared) simp
  from valid_citations_are_backed[OF this r] c(2) obtain item where "backs demo_evidence demo_lineage (?cs ! 0) item"
    by (metis c(1) list.set_intros(1) option.inject)
  with r c show ?thesis by (metis fst_conv)
qed

end
