(* ===== verification/Evidence_Reread.thy ===== *)
theory Evidence_Reread
  imports Evidence_Item_Properties
begin

text \<open>
  Reading evidence again: the lines a bounded read returned, asked for by their own line
  numbers and without a byte limit, are the same lines; and an allowed path names the same file after
  it was cleaned.
\<close>

section \<open>Cleaned paths\<close>

lemma clean_parts_plain: "\<forall>p \<in> set ps. plain_part p \<Longrightarrow> clean_parts rooted ps st = rev st @ ps"
  by (induction ps arbitrary: st) (auto simp: plain_part_def)

lemma set_strings_Split: "p \<in> set (strings_Split s sep) \<Longrightarrow> set p \<subseteq> set s"
proof (induction s arbitrary: p)
  case (Cons c s)
  then show ?case by (cases "strings_Split s sep") (force split: if_splits)+
qed simp

lemma set_clean_parts: "p \<in> set (clean_parts rooted ps st) \<Longrightarrow> p \<in> set ps \<or> p \<in> set st \<or> p = ''..''"
  by (induction rooted ps st rule: clean_parts.induct) (auto split: if_splits list.splits)

lemma set_strings_Join: "set (strings_Join ps sep) \<subseteq> (\<Union>p \<in> set ps. set p) \<union> set sep"
  by (induction ps sep rule: strings_Join.induct) auto

lemma set_filepath_Clean: "set (filepath_Clean p) \<subseteq> set p \<union> set ''./''"
proof -
  let ?parts = "\<lambda>rooted. clean_parts rooted (strings_Split p CHR ''/'') []"
  have "set q \<subseteq> set p \<union> set ''.''" if "q \<in> set (?parts rooted)" for q rooted
    using set_clean_parts[OF that] set_strings_Split[of q p "CHR ''/''"] by auto
  with set_strings_Join[of "?parts True" "''/''"] set_strings_Join[of "?parts False" "''/''"] show ?thesis
    by (auto simp: filepath_Clean_def Let_def; blast)
qed

lemma allowed_path_clean:
  assumes "dec_allowed (evaluate u path sizeBytes)"
  shows "filepath_Clean (filepath_Clean path) = filepath_Clean path" and "\<not> filepath_IsAbs (filepath_Clean path)"
    and "\<not> str_contains (filepath_Clean path) [CHR 0x5C]"
proof -
  let ?c = "filepath_Clean path"
  let ?parts = "strings_Split ?c CHR ''/''"
  have plain: "\<forall>p \<in> set ?parts. plain_part p" using assms by (rule allowed_path_plain)
  have ne: "?c \<noteq> ''''" and rel: "\<not> filepath_IsAbs path" and bs: "\<not> str_contains path [CHR 0x5C]"
    using assms by (auto simp: evaluate_def Let_def denied_def split: if_splits)
  show abs: "\<not> filepath_IsAbs ?c"
  proof
    assume "filepath_IsAbs ?c"
    then obtain r where "?c = CHR ''/'' # r" by (auto simp: filepath_IsAbs_def prefix_def)
    with plain show False by (simp add: plain_part_def)
  qed
  show "filepath_Clean ?c = ?c"
    using clean_parts_plain[OF plain, of False "[]"] abs strings_Join_Split[of ?c "CHR ''/''"] ne
    by (auto simp: filepath_Clean_def[of ?c] Let_def)
  show "\<not> str_contains ?c [CHR 0x5C]"
    using bs set_filepath_Clean[of path] by (auto simp: str_contains_iff in_set_conv_decomp[of "CHR 0x5C"] subset_eq)
qed

section \<open>Lines\<close>

definition joined_lines :: "string list \<Rightarrow> int \<Rightarrow> nat \<Rightarrow> string" where
  "joined_lines ls startLine k = strings_Join (take k (drop (nat startLine - 1) ls)) [newline]"

lemma strings_Join_snoc: "strings_Join (xs @ [x]) sep = (if xs = [] then x else strings_Join xs sep @ sep @ x)"
  by (induction xs sep rule: strings_Join.induct) auto

definition scanned :: "string list \<Rightarrow> int \<Rightarrow> int \<Rightarrow> scan_state \<Rightarrow> bool" where
  "scanned ls startLine n st \<longleftrightarrow> \<not> sn_truncated st \<and> sn_selected_lines st = nat (n - startLine)
    \<and> sn_content st = joined_lines ls startLine (nat (n - startLine))
    \<and> sn_end_line st = startLine - 1 + int (nat (n - startLine))"

lemma scanned_skip: "scanned ls startLine n st \<Longrightarrow> n < startLine \<Longrightarrow> scanned ls startLine (n + 1) st"
  by (simp add: scanned_def joined_lines_def)

lemma scanned_take:
  assumes "scanned (pre @ l # ls) startLine n st" and "n = int (length pre) + 1" and "1 \<le> startLine" and "startLine \<le> n"
  shows "scanned (pre @ l # ls) startLine (n + 1) (take_scan n l st)"
proof -
  define k where "k = nat (n - startLine)"
  have k: "nat startLine - 1 + k = length pre" "nat (n + 1 - startLine) = Suc k" "n = startLine + int k"
    using assms(2-4) by (auto simp: k_def)
  have "take (Suc k) (drop (nat startLine - 1) (pre @ l # ls)) = take k (drop (nat startLine - 1) (pre @ l # ls)) @ [l]"
    using k(1) by (subst take_Suc_conv_app_nth) (auto simp: nth_append)
  moreover have "take k (drop (nat startLine - 1) (pre @ l # ls)) = [] \<longleftrightarrow> k = 0" using k(1) by auto
  ultimately show ?thesis
    using assms(1) k unfolding scanned_def joined_lines_def take_scan_def k_def[symmetric]
    by (auto simp: strings_Join_snoc)
qed

lemma scan_line_goes_on:
  assumes "scan_line startLine requestedEnd maxBytes True isLast n l st = Inr st'" and "\<not> sn_truncated st"
    and "requestedEnd \<le> 0 \<or> n \<le> requestedEnd"
  shows "\<not> isLast \<and> (requestedEnd \<le> 0 \<or> n + 1 \<le> requestedEnd) \<and> st' = (if n < startLine then st else take_scan n l st)"
  using assms by (auto simp: scan_line_def Let_def take_scan_def split: if_splits)

lemma scan_line_returns:
  assumes "scan_line startLine requestedEnd maxBytes True isLast n l st = Inl (Inr r)" and "\<not> sn_truncated st"
    and "requestedEnd \<le> 0 \<or> startLine \<le> requestedEnd \<and> n \<le> requestedEnd"
  shows "n < startLine \<and> bl_total_known r \<and> bl_total_lines r = n
    \<or> startLine \<le> n \<and> 0 < sn_selected_lines st \<and> bl_content r = sn_content st \<and> bl_end_line r = sn_end_line st
    \<or> startLine \<le> n \<and> bl_content r = sn_content (take_scan n l st) \<and> bl_end_line r = sn_end_line (take_scan n l st)"
  using assms by (auto simp: scan_line_def Let_def take_scan_def split: if_splits)

text \<open>A bounded read returns the first lines from the start line on, at least one of them.\<close>

lemma scan_lines_prefix:
  assumes "scan_lines startLine requestedEnd maxBytes True ls n st = Inr r" and "ls \<noteq> []" and "1 \<le> startLine"
    and "n = int (length pre) + 1" and "scanned (pre @ ls) startLine n st"
    and "requestedEnd \<le> 0 \<or> startLine \<le> requestedEnd \<and> n \<le> requestedEnd"
  shows "bl_total_known r \<and> startLine > bl_total_lines r \<or>
    (\<exists>k \<ge> 1. bl_content r = joined_lines (pre @ ls) startLine k \<and> bl_end_line r = startLine - 1 + int k
      \<and> bl_end_line r \<le> int (length (pre @ ls)))"
  using assms
proof (induction ls arbitrary: pre n st)
  case (Cons l ls)
  let ?step = "scan_line startLine requestedEnd maxBytes True (ls = []) n l st"
  have t: "\<not> sn_truncated st" using Cons.prems(5) by (simp add: scanned_def)
  have later: "startLine \<le> n \<Longrightarrow> scanned (pre @ l # ls) startLine (n + 1) (take_scan n l st)"
    by (rule scanned_take[OF Cons.prems(5,4,3)])
  show ?case
  proof (cases ?step)
    case (Inr st')
    from scan_line_goes_on[OF this t] Cons.prems(6) have g: "ls \<noteq> []" "requestedEnd \<le> 0 \<or> n + 1 \<le> requestedEnd"
      "st' = (if n < startLine then st else take_scan n l st)" by auto
    with later scanned_skip[OF Cons.prems(5)] have "scanned ((pre @ [l]) @ ls) startLine (n + 1) st'" by auto
    with Cons.IH[of "n + 1" st' "pre @ [l]"] Cons.prems(1,3,4,6) Inr g show ?thesis by auto
  next
    case (Inl res)
    with Cons.prems(1) have "?step = Inl (Inr r)" by simp
    from scan_line_returns[OF this t Cons.prems(6)] show ?thesis
    proof (elim disjE conjE)
      assume "startLine \<le> n" "0 < sn_selected_lines st" "bl_content r = sn_content st" "bl_end_line r = sn_end_line st"
      with Cons.prems(4,5) show ?thesis by (auto simp: scanned_def intro!: exI[of _ "nat (n - startLine)"])
    next
      assume "startLine \<le> n" "bl_content r = sn_content (take_scan n l st)" "bl_end_line r = sn_end_line (take_scan n l st)"
      with later Cons.prems(4) show ?thesis by (auto simp: scanned_def intro!: exI[of _ "nat (n + 1 - startLine)"])
    qed simp
  qed
qed simp

text \<open>Without a byte limit a read returns exactly the lines asked for.\<close>

lemma scan_lines_exact:
  assumes "1 \<le> startLine" and "startLine \<le> endLine" and "endLine \<le> int (length (pre @ ls))" and "n \<le> endLine"
    and "n = int (length pre) + 1" and "scanned (pre @ ls) startLine n st"
  shows "\<exists>r. scan_lines startLine endLine 0 True ls n st = Inr r \<and> \<not> (bl_total_known r \<and> startLine > bl_total_lines r)
    \<and> bl_content r = joined_lines (pre @ ls) startLine (nat (endLine + 1 - startLine)) \<and> bl_end_line r = endLine"
  using assms
proof (induction ls arbitrary: pre n st)
  case (Cons l ls)
  have t: "\<not> sn_truncated st" using Cons.prems(6) by (simp add: scanned_def)
  have later: "startLine \<le> n \<Longrightarrow> scanned (pre @ l # ls) startLine (n + 1) (take_scan n l st)"
    by (rule scanned_take[OF Cons.prems(6,5,1)])
  show ?case
  proof (cases "n = endLine")
    case True
    with Cons.prems later t show ?thesis
      by (auto simp: scan_line_def Let_def scanned_def take_scan_def)
  next
    case False
    let ?st' = "if n < startLine then st else take_scan n l st"
    from False Cons.prems have "ls \<noteq> []" by auto
    with False Cons.prems t have "scan_line startLine endLine 0 True (ls = []) n l st = Inr ?st'"
      by (auto simp: scan_line_def Let_def take_scan_def)
    moreover from later scanned_skip[OF Cons.prems(6)] have "scanned ((pre @ [l]) @ ls) startLine (n + 1) ?st'" by auto
    ultimately show ?thesis using Cons.IH[of "pre @ [l]" "n + 1" ?st'] Cons.prems False by auto
  qed
qed simp

lemma reread_lines:
  assumes "readBoundedLines content startLine requestedEnd maxBytes True = Inr r" and "1 \<le> startLine"
    and "requestedEnd \<le> 0 \<or> startLine \<le> requestedEnd" and "\<not> (bl_total_known r \<and> startLine > bl_total_lines r)"
  shows "startLine \<le> bl_end_line r \<and> (\<exists>r'. readBoundedLines content startLine (bl_end_line r) 0 True = Inr r'
    \<and> \<not> (bl_total_known r' \<and> startLine > bl_total_lines r') \<and> bl_content r' = bl_content r
    \<and> bl_end_line r' = bl_end_line r)"
proof -
  define st where "st = \<lparr>sn_content = '''', sn_selected_lines = 0, sn_end_line = startLine - 1, sn_truncated = False\<rparr>"
  have sc: "scanned ([] @ file_lines content) startLine 1 st"
    using assms(2) by (simp add: scanned_def st_def joined_lines_def)
  have ne: "file_lines content \<noteq> []" by (simp add: file_lines_def)
  from assms(1) have "scan_lines startLine requestedEnd maxBytes True (file_lines content) 1 st = Inr r"
    by (simp add: readBoundedLines_def st_def)
  from scan_lines_prefix[OF this ne assms(2) _ sc] assms(2-4) obtain k where k: "1 \<le> k"
      "bl_content r = joined_lines (file_lines content) startLine k" "bl_end_line r = startLine - 1 + int k"
      "bl_end_line r \<le> int (length (file_lines content))" by auto
  with assms(2) scan_lines_exact[OF assms(2) _ _ _ _ sc, of "bl_end_line r"] show ?thesis
    by (auto simp: readBoundedLines_def st_def)
qed

section \<open>The same lines again\<close>

lemma evaluate_clean: "dec_allowed (evaluate u path 0) \<Longrightarrow> evaluate u (filepath_Clean path) 0 = evaluate u path 0"
proof -
  assume a: "dec_allowed (evaluate u path 0)"
  then have "\<not> filepath_IsAbs path" "\<not> str_contains path [CHR 0x5C]"
    by (auto simp: evaluate_def Let_def denied_def split: if_splits)
  with allowed_path_clean[OF a] show ?thesis by (simp add: evaluate_def)
qed

lemma Contains_clean: "dec_allowed (evaluate u path 0) \<Longrightarrow> Contains u m (filepath_Clean path) = Contains u m path"
  using evaluate_clean[of u path] allowed_path_clean(1)[of u path 0] by (simp add: Contains_def CanReadByAgent_def)

lemma CanReadFromSnapshot_clean:
  assumes "dec_allowed (CanReadFromSnapshot u unmarshal fs sourceRoot path)"
  shows "CanReadFromSnapshot u unmarshal fs sourceRoot (filepath_Clean path) = CanReadFromSnapshot u unmarshal fs sourceRoot path"
proof -
  from assms have a: "dec_allowed (evaluate u path 0)"
    by (auto simp: CanReadFromSnapshot_def CanReadByAgent_def Let_def split: if_splits)
  then show ?thesis
    using evaluate_clean[OF a] Contains_clean[OF a]
    by (simp add: CanReadFromSnapshot_def CanReadByAgent_def Let_def split: sum.split)
qed

lemma CanIssueEvidenceFromSnapshot_clean:
  assumes "dec_allowed (CanIssueEvidenceFromSnapshot u unmarshal fs sourceRoot path)"
  shows "dec_allowed (CanIssueEvidenceFromSnapshot u unmarshal fs sourceRoot (filepath_Clean path))"
proof -
  from assms have "dec_allowed (evaluate u path 0)" "dec_allowed (CanReadFromSnapshot u unmarshal fs sourceRoot path)"
    by (auto simp: CanIssueEvidenceFromSnapshot_def CanIssueEvidence_def Let_def split: if_splits)
  with evaluate_clean[OF this(1)] CanReadFromSnapshot_clean[OF this(2)] show ?thesis
    by (simp add: CanIssueEvidenceFromSnapshot_def CanIssueEvidence_def Let_def)
qed

lemma check_components_any_name: "check_components fs r current cs = Inr () \<Longrightarrow> check_components fs r' current cs = Inr ()"
  by (induction cs arbitrary: current) (auto simp: Let_def split: option.splits if_splits)

lemma SafePath_clean:
  assumes "SafePath u fs sourceRoot path = Inr p"
  shows "SafePath u fs sourceRoot (filepath_Clean path) = Inr p"
proof -
  from assms have a: "dec_allowed (evaluate u path 0)" by (simp add: SafePath_regular)
  from assms evaluate_clean[OF a] allowed_path_clean(1)[OF a] show ?thesis
    by (auto simp: SafePath_def Let_def CanReadByAgent_def bindE_eq_Inr split: if_splits option.splits
        dest: check_components_any_name[of _ _ _ _ "filepath_Clean path"])
qed

lemma evidence_range_again:
  assumes "evidence_range env repoID snapshotID path startLine endLine maxBytes = Inr r"
  shows "\<exists>r'. evidence_range env repoID snapshotID (fr_path r) (fr_start_line r) (fr_end_line r) 0 = Inr r'
    \<and> fr_content r' = fr_content r \<and> fr_start_line r' = fr_start_line r \<and> fr_end_line r' = fr_end_line r"
proof -
  let ?root = "ee_source_path env repoID snapshotID"
  let ?u = "ee_unicode env" and ?m = "ee_unmarshal env" and ?fs = "ee_files env"
  define st where "st = (if startLine \<le> 0 then 1 else startLine)"
  from assms have issue: "dec_allowed (CanIssueEvidenceFromSnapshot ?u ?m ?fs ?root path)"
    and read: "dec_allowed (CanReadFromSnapshot ?u ?m ?fs ?root path)"
    and at: "readFileRangeAt ?u ?fs ?root path startLine endLine maxBytes True = Inr r"
    by (auto simp: evidence_range_def ReadFileRangeBounded_def readFileRange_def Let_def split: if_splits sum.splits)
  from at obtain full content b where full: "SafePath ?u ?fs ?root path = Inr full" "open_file ?fs full = Inr content"
    and b: "\<not> (endLine > 0 \<and> st > endLine)" "readBoundedLines content st endLine maxBytes True = Inr b"
      "\<not> (bl_total_known b \<and> st > bl_total_lines b)"
    and r: "fr_path r = filepath_Clean path" "fr_start_line r = st" "fr_end_line r = bl_end_line b" "fr_content r = bl_content b"
    by (auto simp: readFileRangeAt_def bindE_eq_Inr Let_def st_def[symmetric] split: if_splits)
  have "1 \<le> st" by (simp add: st_def)
  from reread_lines[OF b(2) this _ b(3)] b(1) obtain b' where "st \<le> bl_end_line b"
      "readBoundedLines content st (bl_end_line b) 0 True = Inr b'" "\<not> (bl_total_known b' \<and> st > bl_total_lines b')"
      "bl_content b' = bl_content b" "bl_end_line b' = bl_end_line b" by auto
  moreover from \<open>1 \<le> st\<close> have "(if st \<le> 0 then 1 else st) = st" by simp
  ultimately show ?thesis
    using SafePath_clean[OF full(1)] full(2) r CanReadFromSnapshot_clean[OF read] read
      CanIssueEvidenceFromSnapshot_clean[OF issue]
    by (auto simp: evidence_range_def ReadFileRangeBounded_def readFileRange_def readFileRangeAt_def Let_def)
qed

section \<open>Issued evidence can be cited\<close>

lemma find_unique:
  assumes "x \<in> set xs" and "P x" and "\<And>y. y \<in> set xs \<Longrightarrow> P y \<Longrightarrow> y = x"
  shows "find P xs = Some x"
proof (cases "find P xs")
  case None
  with assms(1,2) show ?thesis by (auto simp: find_None_iff)
next
  case (Some y)
  with find_SomeD[OF Some] assms(3) show ?thesis by simp
qed

lemma evidence_found:
  assumes "item \<in> set (attempt_evidence_items d)" and "distinct (map ev_id (attempt_evidence_items d))"
  shows "GetByAttemptAndID (ev_attempt_id item) (ev_id item) d = Inr item"
proof -
  have "find (\<lambda>x. ev_attempt_id x = ev_attempt_id item \<and> ev_id x = ev_id item) (attempt_evidence_items d) = Some item"
    using assms by (intro find_unique) (auto simp: distinct_map inj_on_def)
  then show ?thesis by (simp add: GetByAttemptAndID_def)
qed

lemma read_store_delivered:
  "sc_reply sch k = Delivered \<Longrightarrow> fst (read_store sch f (k, d)) = f (sc_env sch k d)"
  by (simp add: read_store_def store_call_def Let_def)

definition request_lineage :: "issue_request \<Rightarrow> draft_lineage" where
  "request_lineage req = \<lparr>dl_attempt_id = iq_attempt_id req, dl_diagnosis_run_id = iq_diagnosis_run_id req,
     dl_repository_id = iq_repository_id req, dl_snapshot_id = iq_snapshot_id req,
     dl_code_index_build_id = iq_code_index_build_id req\<rparr>"

text \<open>C8. Round trip of evidence: a handle that the service issued for lines of the snapshot can
be cited. Whatever the processes of the system did in between, and whether the row was new,
found again, or written by a call whose reply was lost, a draft of the same attempt that
names the handle resolves to a valid citation with the row's location and excerpt, as soon
as the lookup is answered. In particular the lines kept by a read that was cut off at
its byte limit are found again by their own line numbers.\<close>

theorem issued_evidence_can_be_cited:
  assumes "shared_store F sch" and "shared_store F sch'"
    and "distinct (map ev_id (attempt_evidence_items (snd s)))"
    and "Issue env sch uuid req s = (Inr item, s')" and "system_steps F (snd s') d"
    and "same_run_lineage item (request_lineage req)"
    and "trim_space (cr_evidence_id ref) = ev_id item" and "ev_id item \<noteq> ''''" and "iq_attempt_id req \<noteq> ''''"
    and "sc_reply sch' k = Delivered"
  shows "fst (resolve_citation (Some env) sch' (request_lineage req) ref (k, d)) =
      resolved_citation item (unresolved_citation (request_lineage req) ref)"
proof -
  let ?lin = "request_lineage req"
  note item = Issue_item[OF assms(1,4)]
  from Issue_steps[OF assms(1), of s env uuid req] assms(4) have "system_steps F (snd s) (snd s')" by simp
  also have "system_steps F (snd s') d" by (fact assms(5))
  also have "system_steps F d (sc_env sch' k d)" using assms(2) by (rule shared_store_env)
  finally have "distinct (map ev_id (attempt_evidence_items (sc_env sch' k d)))"
    using system_steps_items assms(3) unfolding items_grow_def by blast
  moreover from item assms(5) shared_store_env[OF assms(2)] have "item \<in> set (attempt_evidence_items (sc_env sch' k d))"
    by (blast intro: items_kept)
  ultimately have found: "GetByAttemptAndID (ev_attempt_id item) (ev_id item) (sc_env sch' k d) = Inr item"
    by (intro evidence_found)
  have att: "ev_attempt_id item = dl_attempt_id ?lin" using item by (simp add: request_lineage_def)
  obtain y s2 where g: "read_store sch' (GetByAttemptAndID (ev_attempt_id item) (ev_id item)) (k, d) = (y, s2)"
    by (rule prod.exhaust)
  with found read_store_delivered[OF assms(10)] have "y = Inr item" by (metis fst_conv)
  with g att assms(8,9) have r: "Resolve sch' (dl_attempt_id ?lin) (ev_id item) (k, d) = (Inr item, s2)"
    by (simp add: Resolve_def request_lineage_def)
  from item evidence_range_again have "Verify env item ?lin = Inr ()"
    using assms(6) by (fastforce simp: Verify_def request_lineage_def)
  with r att assms(6-8) show ?thesis
    by (simp add: resolve_citation_def unresolved_citation_def Let_def)
qed

text \<open>The handle is issued by a call whose reply was lost, and cited with blanks around it.\<close>

theorem issued_evidence_can_be_cited_witness:
  "cit_validation_status (fst (resolve_citation (Some demo_evidence) (demo_schedule []) (request_lineage demo_request)
     demo_cited (0, snd (snd (Issue demo_evidence (demo_schedule [Delivered, Delivered, LostAfter timeout_error]) ''u''
       demo_request (0, demo_running)))))) = CitationValid"
proof -
  let ?i = "Issue demo_evidence (demo_schedule [Delivered, Delivered, LostAfter timeout_error]) ''u'' demo_request (0, demo_running)"
  have sh: "shared_store any_token (demo_schedule [Delivered, Delivered, LostAfter timeout_error])"
    "shared_store any_token (demo_schedule [])"
    by (rule demo_schedule_shared; simp add: network_error_def SqlErrNoRows_def)+
  have d: "distinct (map ev_id (attempt_evidence_items (snd (0::nat, demo_running))))" by (simp, code_simp)
  have i: "?i = (Inr (projr (fst ?i)), snd ?i)" by code_simp
  have f: "same_run_lineage (projr (fst ?i)) (request_lineage demo_request)"
    "trim_space (cr_evidence_id demo_cited) = ev_id (projr (fst ?i))" "ev_id (projr (fst ?i)) \<noteq> ''''"
    "iq_attempt_id demo_request \<noteq> ''''" by code_simp+
  have "sc_reply (demo_schedule []) 0 = Delivered" by (simp add: demo_schedule_def)
  from issued_evidence_can_be_cited[OF sh d i rtranclp.rtrancl_refl f this] show ?thesis
    by (simp add: resolved_citation_def)
qed

end
