(* ===== verification/Spec2Isabelle.thy ===== *)
theory Spec2Isabelle
  imports Prelude Job_Model Schema Job_Store Job_Life Job_Refine Job_Invariants Job_Queue Job_Properties
    Job_Outcomes Retry_Properties Diagnosis_Properties
    Evidence_Properties Job_Worker Worker_Properties Pipeline_Properties
    Retrieval_Properties Retrieval_Builder Evidence_Reread
begin

text \<open>
  Verification of RepoLens.
\<close>

end
